(* ===== verification/Prelude.thy ===== *)
theory Prelude
  imports Main "HOL-Library.Word"
begin

text \<open>
  Shared vocabulary of the development: Go errors as values, the result type of a fallible
  call, the error-propagating sequencing the source writes as
  \<^verbatim>\<open>if err != nil { return err }\<close>, and the generic facts on options, lists and maps the
  components use.
\<close>

section \<open>Collections of simplification rules\<close>

named_theorems go_result \<open>sequencing of fallible calls\<close>
named_theorems go_string \<open>the functions of package strings and path/filepath\<close>
named_theorems client_simps \<open>field and lookup rules of the process client\<close>

section \<open>Errors\<close>

text \<open>
  What a process reports to \<^verbatim>\<open>wait(2)\<close>: an exit status, or the signal that ended it.
\<close>

datatype exit_status = Exited nat | Signaled nat

text \<open>
  A Go error value. \<open>Errorf f args\<close> is \<^verbatim>\<open>fmt.Errorf(f, args...)\<close> (or \<^verbatim>\<open>errors.New\<close>),
  \<open>Wrapf f args e\<close> the same call with a \<^verbatim>\<open>%w\<close> verb that wraps \<open>e\<close>. The
  \<^verbatim>\<open>errdefs\<close> constructors of virtual-kubelet keep their names. \<open>ExitError\<close> is
  \<^verbatim>\<open>*exec.ExitError\<close>; \<open>ErrNotExist\<close> one for which \<^verbatim>\<open>os.IsNotExist\<close> holds; \<open>OSError\<close> any other
  error of the operating system or of a service, with what it says. \<open>GoPanic\<close> stands for a
  run-time panic, which is not an error value but ends the call as well. \<open>Printed f e\<close> is an error whose text
  includes that of \<open>e\<close> through a \<^verbatim>\<open>%v\<close> verb, without wrapping it.
\<close>

datatype goerr =
    Errorf string "string list"
  | Wrapf string "string list" goerr
  | ErrNotFound string
  | ErrInvalidInput string "string list"
  | AsInvalidInput goerr
  | ExitError exit_status
  | OSError string
  | ErrEOF
  | ErrCanceled
  | ErrDeadlineExceeded
  | Joined goerr goerr
  | ErrNotExist
  | GoPanic string
  | Printed string goerr

text \<open>\<^verbatim>\<open>errors.Join\<close> of two errors, either of which may be nil.\<close>

fun errors_Join :: "goerr option \<Rightarrow> goerr option \<Rightarrow> goerr option" where
  "errors_Join None e = e"
| "errors_Join e None = e"
| "errors_Join (Some e) (Some f) = Some (Joined e f)"

section \<open>Fallible calls\<close>

type_synonym 'a result = "goerr + 'a"

text \<open>Continue with the value of a call, or return its error at once.\<close>

definition andThen :: "'a result \<Rightarrow> ('a \<Rightarrow> 'b result) \<Rightarrow> 'b result" where
  "andThen r f = (case r of Inl e \<Rightarrow> Inl e | Inr x \<Rightarrow> f x)"

lemma andThen_Inl [simp, go_result]: "andThen (Inl e) f = Inl e"
  by (simp add: andThen_def)

lemma andThen_Inr [simp, go_result]: "andThen (Inr x) f = f x"
  by (simp add: andThen_def)

lemma andThen_eq_Inr [go_result]:
  "andThen r f = Inr y \<longleftrightarrow> (\<exists>x. r = Inr x \<and> f x = Inr y)"
  by (cases r) simp_all

lemma andThen_eq_Inl [go_result]:
  "andThen r f = Inl e \<longleftrightarrow> r = Inl e \<or> (\<exists>x. r = Inr x \<and> f x = Inl e)"
  by (cases r) auto

lemma case_wrap_eq_Inr [go_result]:
  "(case r of Inl e \<Rightarrow> Inl (f e) | Inr x \<Rightarrow> k x) = Inr y \<longleftrightarrow> (\<exists>x. r = Inr x \<and> k x = Inr y)"
  by (cases r) simp_all

lemma errors_Join_None_iff [simp]:
  "errors_Join a b = None \<longleftrightarrow> a = None \<and> b = None"
  by (cases "(a, b)" rule: errors_Join.cases) auto

text \<open>The first error of a sequence of calls.\<close>

fun first_error :: "'a result list \<Rightarrow> goerr option" where
  "first_error [] = None"
| "first_error (Inl e # rs) = Some e"
| "first_error (Inr x # rs) = first_error rs"

lemma first_error_None_iff: "first_error rs = None \<longleftrightarrow> (\<forall>r\<in>set rs. \<exists>x. r = Inr x)"
  by (induction rs rule: first_error.induct) auto

lemma first_error_Some_iff:
  "first_error rs = Some e \<longleftrightarrow> (\<exists>xs post. rs = map Inr xs @ Inl e # post)"
proof (induction rs rule: first_error.induct)
  case (2 e' rs)
  have "map Inr xs @ Inl e # post = Inl e' # rs \<longleftrightarrow> xs = [] \<and> e' = e \<and> rs = post" for xs post
    by (cases xs) auto
  then show ?case by (auto simp: eq_commute [of "Inl e' # rs"])
next
  case (3 x rs)
  have "(\<exists>xs post. Inr x # rs = map Inr xs @ Inl e # post) \<longleftrightarrow> (\<exists>xs post. rs = map Inr xs @ Inl e # post)"
    (is "?l \<longleftrightarrow> ?r")
  proof
    assume ?l
    then obtain xs post where eq: "Inr x # rs = map Inr xs @ Inl e # post" by blast
    then show ?r by (cases xs) auto
  next
    assume ?r
    then obtain xs post where "rs = map Inr xs @ Inl e # post" by blast
    then show ?l by (intro exI [of _ "x # xs"] exI [of _ post]) simp
  qed
  then show ?case using 3 by simp
qed simp

section \<open>Time\<close>

text \<open>
  A \<^verbatim>\<open>time.Time\<close> in nanoseconds since the zero value, which is what \<^verbatim>\<open>IsZero\<close> tests for.
\<close>

type_synonym go_time = int

definition IsZero :: "go_time \<Rightarrow> bool" where
  "IsZero t \<longleftrightarrow> t = 0"

section \<open>Maps\<close>

text \<open>The sum of a measure over the values of a finite map.\<close>

definition map_sum :: "('v \<Rightarrow> int) \<Rightarrow> ('k \<rightharpoonup> 'v) \<Rightarrow> int" where
  "map_sum g m = (\<Sum>k\<in>dom m. g (the (m k)))"

lemma map_sum_empty [simp]: "map_sum g Map.empty = 0"
  by (simp add: map_sum_def)

lemma map_sum_upd_new:
  assumes "finite (dom m)" and "m k = None"
  shows "map_sum g (m(k \<mapsto> v)) = map_sum g m + g v"
proof -
  have "k \<notin> dom m" using assms(2) by auto
  moreover have "(\<Sum>x\<in>dom m. g (the ((m(k \<mapsto> v)) x))) = (\<Sum>x\<in>dom m. g (the (m x)))"
    using \<open>k \<notin> dom m\<close> by (intro sum.cong) auto
  ultimately show ?thesis using assms(1) by (simp add: map_sum_def)
qed

lemma map_sum_del:
  assumes "finite (dom m)" and "m k = Some w"
  shows "map_sum g (m(k := None)) = map_sum g m - g w"
proof -
  have "map_sum g ((m(k := None))(k \<mapsto> w)) = map_sum g (m(k := None)) + g w"
    using assms(1) by (intro map_sum_upd_new) simp_all
  moreover have "(m(k := None))(k \<mapsto> w) = m"
    using assms(2) by auto
  ultimately show ?thesis by simp
qed

lemma map_sum_upd:
  assumes "finite (dom m)" and "m k = Some w"
  shows "map_sum g (m(k \<mapsto> v)) = map_sum g m - g w + g v"
proof -
  have "map_sum g ((m(k := None))(k \<mapsto> v)) = map_sum g (m(k := None)) + g v"
    using assms(1) by (intro map_sum_upd_new) simp_all
  then show ?thesis using map_sum_del [OF assms] by simp
qed

section \<open>Lists\<close>

text \<open>
  A concatenation has no duplicates if no part has any and the parts that are not empty are told
  apart by a key that can be read off each of their elements.
\<close>

lemma distinct_concat_keyed:
  assumes "distinct (map k (filter (\<lambda>x. g x \<noteq> []) xs))"
    and "\<And>x. x \<in> set xs \<Longrightarrow> distinct (g x)"
    and "\<And>x y. x \<in> set xs \<Longrightarrow> y \<in> set (g x) \<Longrightarrow> h y = k x"
  shows "distinct (concat (map g xs))"
  using assms
proof (induction xs)
  case (Cons a xs)
  have "y \<notin> set (g x)" if "y \<in> set (g a)" "x \<in> set xs" for x y
  proof
    assume y: "y \<in> set (g x)"
    then have "k a = k x" using that Cons.prems(3) [of a y] Cons.prems(3) [of x y] by simp
    moreover have "g x \<noteq> []" "g a \<noteq> []" using y that by auto
    ultimately show False using Cons.prems(1) that by auto
  qed
  moreover have "distinct (concat (map g xs))"
    using Cons.prems by (intro Cons.IH) (auto split: if_splits)
  ultimately show ?case using Cons.prems(2) by auto
qed simp

end
