(* ===== verification/Kube_Types.thy ===== *)
theory Kube_Types
  imports Prelude
begin

text \<open>
  The fields of the Kubernetes API objects the program reads or writes, with the names of
  \<^verbatim>\<open>k8s.io/api/core/v1\<close>. A Go pointer that may be nil is an option, an \<^verbatim>\<open>int32\<close> or
  \<^verbatim>\<open>int64\<close> a word of that width.
\<close>

section \<open>Names\<close>

record NamespacedName =
  nn_Namespace :: string
  nn_Name :: string

abbreviation namespaced :: "string \<Rightarrow> string \<Rightarrow> NamespacedName" where
  "namespaced ns n \<equiv> \<lparr>nn_Namespace = ns, nn_Name = n\<rparr>"

section \<open>Containers and volumes\<close>

record EnvVar =
  env_Name :: string
  env_Value :: string

record VolumeMount =
  vmt_Name :: string
  vmt_MountPath :: string
  vmt_SubPath :: string
  vmt_ReadOnly :: bool

record LifecycleHandler =
  lh_Exec :: "string list option"

record Lifecycle =
  lc_PreStop :: "LifecycleHandler option"

record Container =
  ctr_Name :: string
  ctr_Command :: "string list"
  ctr_Args :: "string list"
  ctr_Env :: "EnvVar list"
  ctr_VolumeMounts :: "VolumeMount list"
  ctr_Lifecycle :: "Lifecycle option"

record KeyToPath =
  ktp_Key :: string
  ktp_Path :: string
  ktp_Mode :: "32 word option"

record ConfigMapProjection =
  cmp_Name :: string
  cmp_Items :: "KeyToPath list"

record ServiceAccountTokenProjection =
  sat_Audience :: string
  sat_ExpirationSeconds :: "64 word option"
  sat_Path :: string

record DownwardAPIVolumeFile =
  daf_Path :: string
  daf_FieldRef :: "string option"
  daf_Mode :: "32 word option"

record VolumeProjection =
  vp_ServiceAccountToken :: "ServiceAccountTokenProjection option"
  vp_ConfigMap :: "ConfigMapProjection option"
  vp_DownwardAPI :: "DownwardAPIVolumeFile list option"

record VolumeSource =
  vs_HostPath :: "string option"
  vs_EmptyDir :: "unit option"
  vs_Projected :: "VolumeProjection list option"

record Volume =
  vol_Name :: string
  vol_Source :: VolumeSource

record ConfigMap =
  cm_Data :: "string \<rightharpoonup> string"

section \<open>Pods\<close>

datatype PodPhase = PodPending | PodRunning | PodSucceeded | PodFailed

record ContainerStateTerminated =
  cst_ExitCode :: "32 word"
  cst_StartedAt :: go_time
  cst_FinishedAt :: go_time

record ContainerState =
  cs_Running :: "go_time option"
  cs_Terminated :: "ContainerStateTerminated option"

record ContainerStatus =
  cst_Name :: string
  cst_State :: ContainerState
  cst_Ready :: bool
  cst_RestartCount :: "32 word"
  cst_Image :: string
  cst_ImageID :: string

record PodStatus =
  pst_Phase :: PodPhase
  pst_HostIP :: string
  pst_PodIP :: string
  pst_StartTime :: "go_time option"
  pst_ContainerStatuses :: "ContainerStatus list"

record PodSpec =
  spec_Containers :: "Container list"
  spec_Volumes :: "Volume list"
  spec_ImagePullSecrets :: "string list"
  spec_ServiceAccountName :: string
  spec_AutomountServiceAccountToken :: "bool option"

record Pod =
  pod_Namespace :: string
  pod_Name :: string
  pod_UID :: string
  pod_DeletionGracePeriodSeconds :: "64 word option"
  pod_Spec :: PodSpec
  pod_Status :: "PodStatus option"

definition pod_key :: "Pod \<Rightarrow> NamespacedName" where
  "pod_key p = namespaced (pod_Namespace p) (pod_Name p)"

section \<open>Statistics\<close>

record CPUStats =
  cpu_Time :: go_time
  cpu_UsageCoreNanoSeconds :: "64 word option"

record MemoryStats =
  mem_Time :: go_time
  mem_WorkingSetBytes :: "64 word option"

record ContainerStats =
  cns_Name :: string
  cns_CPU :: "CPUStats option"
  cns_Memory :: "MemoryStats option"

end
