(* ===== verification/Registry_Credentials.thy ===== *)
theory Registry_Credentials
  imports Prelude
begin

text \<open>
  \<^verbatim>\<open>pkg/resource/registry_credentials.go\<close>: the credentials for an image, looked up in a
  docker keyring. The keyring belongs to Kubernetes and the parsing of image references to
  \<^verbatim>\<open>distribution/reference\<close>: both are arguments, a lookup function and a function
  \<open>domain\<close> that is \<^verbatim>\<open>None\<close> where the reference does not parse.
\<close>

section \<open>Definitions\<close>

record RegistryCredentials =
  rcr_Server :: string
  rcr_Username :: string
  rcr_Password :: string

definition no_credentials :: RegistryCredentials where
  "no_credentials = \<lparr>rcr_Server = [], rcr_Username = [], rcr_Password = []\<rparr>"

definition RegistryCredentials_IsEmpty :: "RegistryCredentials \<Rightarrow> bool" where
  "RegistryCredentials_IsEmpty c \<longleftrightarrow> rcr_Username c = [] \<and> rcr_Password c = []"

text \<open>The fields of a keyring's \<^verbatim>\<open>AuthConfig\<close> the program reads.\<close>

record AuthConfig =
  auth_ServerAddress :: string
  auth_Username :: string
  auth_Password :: string

type_synonym DockerKeyring = "string \<Rightarrow> AuthConfig list \<times> bool"

record RegistryCredentialStore =
  store_keyring :: "DockerKeyring option"

definition NewRegistryCredentialStore :: "DockerKeyring \<Rightarrow> RegistryCredentialStore" where
  "NewRegistryCredentialStore keyring = \<lparr>store_keyring = Some keyring\<rparr>"

definition auth_credentials :: "AuthConfig \<Rightarrow> RegistryCredentials" where
  "auth_credentials auth =
     \<lparr>rcr_Server = auth_ServerAddress auth, rcr_Username = auth_Username auth,
      rcr_Password = auth_Password auth\<rparr>"

text \<open>The loop of lines 43 to 60 over the keyring's answers.\<close>

fun first_usable ::
  "(string \<Rightarrow> string option) \<Rightarrow> string \<Rightarrow> AuthConfig list \<Rightarrow> RegistryCredentials \<times> bool" where
  "first_usable domain imageRef [] = (no_credentials, False)"
| "first_usable domain imageRef (auth # rest) =
     (let creds = auth_credentials auth in
      if RegistryCredentials_IsEmpty creds then first_usable domain imageRef rest
      else if rcr_Server creds = []
      then (case domain imageRef of
              Some d \<Rightarrow> (creds\<lparr>rcr_Server := d\<rparr>, True)
            | None \<Rightarrow> (creds, True))
      else (creds, True))"

definition RegistryCredentialStore_ForImage ::
  "(string \<Rightarrow> string option) \<Rightarrow> RegistryCredentialStore \<Rightarrow> string \<Rightarrow> RegistryCredentials \<times> bool" where
  "RegistryCredentialStore_ForImage domain s imageRef =
     (case store_keyring s of
        None \<Rightarrow> (no_credentials, False)
      | Some keyring \<Rightarrow>
          (let (authConfigs, ok) = keyring imageRef in
           if \<not> ok \<or> length authConfigs = 0 then (no_credentials, False)
           else first_usable domain imageRef authConfigs))"

section \<open>Properties\<close>

definition usable :: "AuthConfig \<Rightarrow> bool" where
  "usable a \<longleftrightarrow> auth_Username a \<noteq> [] \<or> auth_Password a \<noteq> []"

definition with_server :: "(string \<Rightarrow> string option) \<Rightarrow> string \<Rightarrow> AuthConfig \<Rightarrow> RegistryCredentials" where
  "with_server domain imageRef a =
     (auth_credentials a)
       \<lparr>rcr_Server := (if auth_ServerAddress a = []
          then (case domain imageRef of Some d \<Rightarrow> d | None \<Rightarrow> [])
          else auth_ServerAddress a)\<rparr>"

lemma first_usable_find:
  "first_usable domain imageRef as =
     (case find usable as of
        None \<Rightarrow> (no_credentials, False)
      | Some a \<Rightarrow> (with_server domain imageRef a, True))"
  by (induction as)
    (auto simp: usable_def with_server_def auth_credentials_def RegistryCredentials_IsEmpty_def
      Let_def split: option.splits)

text \<open>
  \<^verbatim>\<open>ForImage\<close> returns the first answer of the keyring that has a user name
  or a password, with the image's domain as the server where the answer names none, and
  reports nothing when there is no keyring, the lookup misses or no answer is usable.
\<close>

lemma ForImage_first_usable:
  "RegistryCredentialStore_ForImage domain s imageRef =
     (case store_keyring s of
        None \<Rightarrow> (no_credentials, False)
      | Some keyring \<Rightarrow>
          (case (if snd (keyring imageRef) then find usable (fst (keyring imageRef)) else None) of
             None \<Rightarrow> (no_credentials, False)
           | Some a \<Rightarrow> (with_server domain imageRef a, True)))"
  by (auto simp: RegistryCredentialStore_ForImage_def first_usable_find split: option.splits prod.splits)

end
