(* ===== verification/Runtime_Client.thy ===== *)
theory Runtime_Client
  imports Kube_Types Registry_Credentials
begin

text \<open>
  \<^verbatim>\<open>pkg/client/client_apis.go\<close>: the data and the interface through which the provider
  manages pod processes. \<open>RuntimeClient\<close> is the Go interface, a record of methods over the
  client's state; the locale \<open>runtime_contract\<close> states what the provider relies on.
\<close>

section \<open>Data\<close>

record ProcessClientConfig =
  cfg_LogsDir :: string
  cfg_RunnerUser :: string

record PodProcess =
  pp_Namespace :: string
  pp_Name :: string
  pp_Pid :: int
  pp_Command :: "string list"
  pp_StartedAt :: go_time
  pp_Pod :: "Pod option"
  pp_ExitCode :: int
  pp_ExitError :: "goerr option"

record 's RuntimeClient =
  rc_CreatePod :: "'s \<Rightarrow> Pod \<Rightarrow> string \<Rightarrow> (string \<rightharpoonup> ConfigMap) \<Rightarrow> RegistryCredentialStore \<Rightarrow> 's \<times> goerr option"
  rc_DeletePod :: "'s \<Rightarrow> string \<Rightarrow> string \<Rightarrow> 64 word \<Rightarrow> 's \<times> goerr option"
  rc_GetPod :: "'s \<Rightarrow> string \<Rightarrow> string \<Rightarrow> 's \<times> PodProcess result"
  rc_GetPodList :: "'s \<Rightarrow> (NamespacedName \<rightharpoonup> PodProcess) result"
  rc_GetContainerLogs :: "'s \<Rightarrow> string \<Rightarrow> string \<Rightarrow> string \<Rightarrow> string result"
  rc_ExecuteContainerCommand :: "'s \<Rightarrow> string \<Rightarrow> string \<Rightarrow> string \<Rightarrow> string list \<Rightarrow> goerr option"
  rc_GetPodStats :: "'s \<Rightarrow> string \<Rightarrow> string \<Rightarrow> ContainerStats list result"

section \<open>The contract\<close>

text \<open>
  \<open>view\<close> is the abstract state of a runtime client: for every pod it manages, the
  description \<^verbatim>\<open>GetPod\<close> would return now.
\<close>

locale runtime_contract =
  fixes rc :: "'s RuntimeClient"
    and inv :: "'s \<Rightarrow> bool"
    and view :: "'s \<Rightarrow> NamespacedName \<Rightarrow> PodProcess option"
  assumes create_inv: "inv s \<Longrightarrow> rc_CreatePod rc s pod tok cms creds = (s', r) \<Longrightarrow> inv s'"
    and delete_inv: "inv s \<Longrightarrow> rc_DeletePod rc s ns n g = (s', r) \<Longrightarrow> inv s'"
    and get_inv: "inv s \<Longrightarrow> rc_GetPod rc s ns n = (s', q) \<Longrightarrow> inv s'"
    and view_entry: "inv s \<Longrightarrow> view s k = Some pp \<Longrightarrow> \<exists>pod. pp_Pod pp = Some pod \<and> pod_key pod = k"
    and create_error: "rc_CreatePod rc s pod tok cms creds = (s', Some e) \<Longrightarrow> view s' = view s"
    and create_ok: "rc_CreatePod rc s pod tok cms creds = (s', None) \<Longrightarrow>
        view s (pod_key pod) = None \<and>
        (\<exists>pp. view s' = (view s)(pod_key pod \<mapsto> pp) \<and> pp_Pod pp = Some pod \<and> pp_ExitCode pp = - 1)"
    and delete_view: "rc_DeletePod rc s ns n g = (s', r) \<Longrightarrow>
        view s' = (view s)(namespaced ns n := None) \<and>
        r = (if view s (namespaced ns n) = None
             then Some (ErrNotFound ''pod process not found'') else None)"
    and get_view: "rc_GetPod rc s ns n = (s', q) \<Longrightarrow>
        view s' = view s \<and>
        q = (case view s (namespaced ns n) of
               None \<Rightarrow> Inl (ErrNotFound ''pod process not found'')
             | Some pp \<Rightarrow> Inr pp)"
    and list_pods: "\<exists>m. rc_GetPodList rc s = Inr m \<and>
        (\<forall>k. map_option pp_Pod (m k) = map_option pp_Pod (view s k))"
begin

text \<open>A pod is found under its own name as soon as it is created, and not after its deletion.\<close>

lemma get_after_create:
  assumes "rc_CreatePod rc s pod tok cms creds = (s1, None)"
    and "rc_GetPod rc s1 (pod_Namespace pod) (pod_Name pod) = (s2, q)"
  shows "\<exists>pp. q = Inr pp \<and> pp_Pod pp = Some pod \<and> pp_ExitCode pp = - 1"
  using create_ok [OF assms(1)] get_view [OF assms(2)] by (auto simp: pod_key_def)

lemma get_after_delete:
  assumes "rc_DeletePod rc s ns n g = (s1, r)" and "rc_GetPod rc s1 ns n = (s2, q)"
  shows "q = Inl (ErrNotFound ''pod process not found'')"
  using delete_view [OF assms(1)] get_view [OF assms(2)] by simp

lemma delete_then_create:
  assumes "rc_DeletePod rc s ns n g = (s1, r)"
    and "rc_CreatePod rc s1 pod tok cms creds = (s2, None)" and "pod_key pod = namespaced ns n"
  shows "view s2 k = (if k = namespaced ns n then view s2 k else view s k)"
  using delete_view [OF assms(1)] create_ok [OF assms(2)] assms(3) by auto

end

end
