(* ===== verification/Kube_API.thy ===== *)
theory Kube_API
  imports Kube_Types
begin

text \<open>
  The calls the provider makes to the Kubernetes API server. The client library is not part
  of the program, so a call is a field of the record \<open>K8sClient\<close>, an argument of the
  definitions that use it; every theorem holds for all its answers.
\<close>

record ServiceAccount =
  sa_ImagePullSecrets :: "string list"

record Secret =
  sec_UID :: string
  sec_Namespace :: string
  sec_Name :: string
  sec_Type :: string
  sec_Data :: "string \<rightharpoonup> string"

record TokenRequestSpec =
  tr_Audiences :: "string list"
  tr_ExpirationSeconds :: "64 word option"

record K8sClient =
  k8s_ConfigMaps_Get :: "string \<Rightarrow> string \<Rightarrow> ConfigMap result"
  k8s_ServiceAccounts_CreateToken :: "string \<Rightarrow> string \<Rightarrow> TokenRequestSpec \<Rightarrow> string result"
  k8s_ServiceAccounts_Get :: "string \<Rightarrow> string \<Rightarrow> ServiceAccount result"
  k8s_Secrets_Get :: "string \<Rightarrow> string \<Rightarrow> Secret result"
  apierrors_IsNotFound :: "goerr \<Rightarrow> bool"

end
