(* ===== verification/Pod_Credentials.thy ===== *)
theory Pod_Credentials
  imports Kube_API
begin

text \<open>
  \<^verbatim>\<open>pkg/provider/pod_credentials.go\<close>: the config map and the service account token a pod is
  created with, found in the projected volumes of its spec.
\<close>

section \<open>The projections of a pod\<close>

type_synonym projections = "ServiceAccountTokenProjection option \<times> ConfigMapProjection option"

text \<open>
  One round of the loop over the sources of a volume: a later projection replaces an earlier
  one, and \<^verbatim>\<open>break\<close> leaves this loop, not the one over the volumes.
\<close>

fun scan_sources :: "projections \<Rightarrow> VolumeProjection list \<Rightarrow> projections" where
  "scan_sources (svcProj, cmProj) [] = (svcProj, cmProj)"
| "scan_sources (svcProj, cmProj) (src # rest) =
     (let svcProj = (if vp_ServiceAccountToken src \<noteq> None then vp_ServiceAccountToken src else svcProj);
          cmProj = (if vp_ConfigMap src \<noteq> None then vp_ConfigMap src else cmProj)
      in if svcProj \<noteq> None \<and> cmProj \<noteq> None then (svcProj, cmProj)
         else scan_sources (svcProj, cmProj) rest)"

fun scan_volumes :: "projections \<Rightarrow> Volume list \<Rightarrow> projections" where
  "scan_volumes acc [] = acc"
| "scan_volumes acc (vol # rest) =
     scan_volumes (case vs_Projected (vol_Source vol) of
                     None \<Rightarrow> acc
                   | Some sources \<Rightarrow> scan_sources acc sources) rest"

definition findProjections :: "Pod \<Rightarrow> projections" where
  "findProjections pod = scan_volumes (None, None) (spec_Volumes (pod_Spec pod))"

section \<open>The credentials\<close>

definition populateConfigMaps ::
  "K8sClient \<Rightarrow> string \<Rightarrow> ConfigMapProjection option \<Rightarrow> (string \<rightharpoonup> ConfigMap) \<Rightarrow> (string \<rightharpoonup> ConfigMap) result" where
  "populateConfigMaps k8s namespace cmProj configMaps =
     (case cmProj of
        None \<Rightarrow> Inr configMaps
      | Some proj \<Rightarrow>
          (case k8s_ConfigMaps_Get k8s namespace (cmp_Name proj) of
             Inl err \<Rightarrow> Inl err
           | Inr configMap \<Rightarrow> Inr (configMaps(cmp_Name proj \<mapsto> configMap))))"

definition createServiceAccountToken ::
  "K8sClient \<Rightarrow> string \<Rightarrow> string \<Rightarrow> ServiceAccountTokenProjection \<Rightarrow> string result" where
  "createServiceAccountToken k8s namespace saName svcProj =
     (let audiences = (if sat_Audience svcProj \<noteq> [] then [sat_Audience svcProj] else []);
          tokenReq = \<lparr>tr_Audiences = audiences, tr_ExpirationSeconds = sat_ExpirationSeconds svcProj\<rparr>
      in case k8s_ServiceAccounts_CreateToken k8s namespace saName tokenReq of
           Inl err \<Rightarrow> Inl err
         | Inr token \<Rightarrow> Inr token)"

definition extractPodCredentials ::
  "K8sClient \<Rightarrow> Pod \<Rightarrow> ((string \<rightharpoonup> ConfigMap) \<times> string) result" where
  "extractPodCredentials k8s pod =
     (if spec_AutomountServiceAccountToken (pod_Spec pod) = None \<or>
         the (spec_AutomountServiceAccountToken (pod_Spec pod))
      then (let (svcProj, cmProj) = findProjections pod in
            andThen (populateConfigMaps k8s (pod_Namespace pod) cmProj Map.empty) (\<lambda>configMaps.
              case svcProj of
                None \<Rightarrow> Inr (configMaps, [])
              | Some proj \<Rightarrow>
                  andThen (createServiceAccountToken k8s (pod_Namespace pod)
                             (spec_ServiceAccountName (pod_Spec pod)) proj)
                    (\<lambda>token. Inr (configMaps, token))))
      else Inr (Map.empty, []))"

section \<open>Properties\<close>

text \<open>All the sources of the projected volumes, in order.\<close>

definition pod_sources :: "Volume list \<Rightarrow> VolumeProjection list" where
  "pod_sources vols = concat (map (\<lambda>v. case vs_Projected (vol_Source v) of None \<Rightarrow> [] | Some ss \<Rightarrow> ss) vols)"

lemma pod_sources_simps [simp]:
  "pod_sources [] = []"
  "pod_sources (v # vs) = (case vs_Projected (vol_Source v) of None \<Rightarrow> [] | Some ss \<Rightarrow> ss) @ pod_sources vs"
  by (simp_all add: pod_sources_def)

text \<open>
  A projection found so far is kept or replaced by one of the sources, and nothing is found
  only where no source has it: the early exit never loses a kind.
\<close>

definition found_in :: "('s \<Rightarrow> 'p option) \<Rightarrow> 'p option \<Rightarrow> 's list \<Rightarrow> 'p option \<Rightarrow> bool" where
  "found_in get old ss new \<longleftrightarrow>
     (new = old \<or> (\<exists>s\<in>set ss. new = get s \<and> new \<noteq> None)) \<and>
     (new = None \<longleftrightarrow> old = None \<and> (\<forall>s\<in>set ss. get s = None))"

lemma found_in_refl: "old \<noteq> None \<or> (\<forall>s\<in>set ss. get s = None) \<Longrightarrow> found_in get old ss old"
  by (auto simp: found_in_def)

lemma found_in_step:
  assumes "found_in get (if get s \<noteq> None then get s else old) ss new"
  shows "found_in get old (s # ss) new"
  using assms by (cases "get s") (auto simp: found_in_def)

lemma found_in_append:
  assumes "found_in get old ss mid" and "found_in get mid ts new"
  shows "found_in get old (ss @ ts) new"
proof -
  have "new = old \<or> (\<exists>s\<in>set (ss @ ts). new = get s \<and> new \<noteq> None)"
    using assms unfolding found_in_def set_append by blast
  moreover have "new = None \<longleftrightarrow> old = None \<and> (\<forall>s\<in>set (ss @ ts). get s = None)"
    using assms unfolding found_in_def set_append by blast
  ultimately show ?thesis by (simp add: found_in_def)
qed

lemma scan_sources_found:
  assumes "scan_sources (a, b) ss = (a', b')"
  shows "found_in vp_ServiceAccountToken a ss a' \<and> found_in vp_ConfigMap b ss b'"
  using assms
proof (induction ss arbitrary: a b)
  case (Cons s ss)
  define a1 where "a1 = (if vp_ServiceAccountToken s \<noteq> None then vp_ServiceAccountToken s else a)"
  define b1 where "b1 = (if vp_ConfigMap s \<noteq> None then vp_ConfigMap s else b)"
  have scan: "(if a1 \<noteq> None \<and> b1 \<noteq> None then (a1, b1) else scan_sources (a1, b1) ss) = (a', b')"
    using Cons.prems unfolding scan_sources.simps Let_def a1_def b1_def .
  have "found_in vp_ServiceAccountToken a1 ss a' \<and> found_in vp_ConfigMap b1 ss b'"
  proof (cases "a1 \<noteq> None \<and> b1 \<noteq> None")
    case True
    then have "a' = a1" and "b' = b1" using scan by simp_all
    moreover have "found_in vp_ServiceAccountToken a1 ss a1" by (rule found_in_refl) (use True in simp)
    moreover have "found_in vp_ConfigMap b1 ss b1" by (rule found_in_refl) (use True in simp)
    ultimately show ?thesis by simp
  next
    case False
    then have "scan_sources (a1, b1) ss = (a', b')" using scan by (simp only: if_False)
    then show ?thesis by (rule Cons.IH)
  qed
  then show ?case unfolding a1_def b1_def
    by (elim conjE) (intro conjI found_in_step; assumption)
qed (auto intro: found_in_refl)

lemma scan_volumes_found:
  assumes "scan_volumes (a, b) vs = (a', b')"
  shows "found_in vp_ServiceAccountToken a (pod_sources vs) a' \<and> found_in vp_ConfigMap b (pod_sources vs) b'"
  using assms
proof (induction vs arbitrary: a b)
  case (Cons v vs)
  let ?ss = "case vs_Projected (vol_Source v) of None \<Rightarrow> [] | Some ss \<Rightarrow> ss"
  obtain a1 b1 where m: "scan_sources (a, b) ?ss = (a1, b1)" by fastforce
  then have "scan_volumes (a1, b1) vs = (a', b')"
    using Cons.prems by (cases "vs_Projected (vol_Source v)") auto
  from Cons.IH [OF this] scan_sources_found [OF m] show ?case
    by (auto intro: found_in_append)
qed (auto intro: found_in_refl)

text \<open>
  Property C22. The projections the pod's credentials come from: a token projection is found
  exactly when some source of some projected volume has one, and what is found is one of
  them; the same holds for config maps. Two sources of each kind in one volume after another
  are no obstacle: the search stops early only when it holds both kinds.
\<close>

theorem findProjections_complete:
  assumes "findProjections pod = (svcProj, cmProj)"
  shows "(svcProj = None \<longleftrightarrow> (\<forall>s\<in>set (pod_sources (spec_Volumes (pod_Spec pod))). vp_ServiceAccountToken s = None)) \<and>
    (cmProj = None \<longleftrightarrow> (\<forall>s\<in>set (pod_sources (spec_Volumes (pod_Spec pod))). vp_ConfigMap s = None)) \<and>
    (\<forall>p. svcProj = Some p \<longrightarrow> (\<exists>s\<in>set (pod_sources (spec_Volumes (pod_Spec pod))). vp_ServiceAccountToken s = Some p)) \<and>
    (\<forall>p. cmProj = Some p \<longrightarrow> (\<exists>s\<in>set (pod_sources (spec_Volumes (pod_Spec pod))). vp_ConfigMap s = Some p))"
  using scan_volumes_found [OF assms [unfolded findProjections_def]]
  by (auto simp: found_in_def)

definition sample_projection :: VolumeProjection where
  "sample_projection =
     \<lparr>vp_ServiceAccountToken = Some \<lparr>sat_Audience = [], sat_ExpirationSeconds = Some 3607, sat_Path = ''token''\<rparr>,
      vp_ConfigMap = Some \<lparr>cmp_Name = ''kube-root-ca.crt'', cmp_Items = []\<rparr>, vp_DownwardAPI = None\<rparr>"

definition projected_pod :: Pod where
  "projected_pod =
     \<lparr>pod_Namespace = ''default'', pod_Name = ''job'', pod_UID = ''u1'', pod_DeletionGracePeriodSeconds = None,
      pod_Spec = \<lparr>spec_Containers = [],
        spec_Volumes = [\<lparr>vol_Name = ''kube-api-access'', vol_Source =
          \<lparr>vs_HostPath = None, vs_EmptyDir = None, vs_Projected = Some [sample_projection]\<rparr>\<rparr>],
        spec_ImagePullSecrets = [], spec_ServiceAccountName = ''default'',
        spec_AutomountServiceAccountToken = None\<rparr>,
      pod_Status = None\<rparr>"

theorem findProjections_complete_witness:
  "fst (findProjections projected_pod) \<noteq> None \<and> snd (findProjections projected_pod) \<noteq> None"
  using findProjections_complete [of projected_pod, OF prod.collapse [symmetric]]
  by (simp add: projected_pod_def sample_projection_def)

text \<open>
  The credentials of a pod: a pod that opts out of the automatic token gets
  neither token nor config map; otherwise the one config map found is read from the pod's own
  namespace and kept under its name, and the token is requested for the pod's service account
  with the projection's audience (none for an empty one) and expiry. The first failing request
  is the error.
\<close>

theorem extractPodCredentials_result:
  "extractPodCredentials k8s pod =
     (if spec_AutomountServiceAccountToken (pod_Spec pod) = Some False then Inr (Map.empty, [])
      else case findProjections pod of (svcProj, cmProj) \<Rightarrow>
        (case map_option (\<lambda>p. (cmp_Name p, k8s_ConfigMaps_Get k8s (pod_Namespace pod) (cmp_Name p))) cmProj of
           Some (_, Inl err) \<Rightarrow> Inl err
         | fetched \<Rightarrow>
             (let cms = (case fetched of Some (n, Inr cm) \<Rightarrow> [n \<mapsto> cm] | _ \<Rightarrow> Map.empty) in
              case svcProj of
                None \<Rightarrow> Inr (cms, [])
              | Some p \<Rightarrow>
                  Sum_Type.map_sum id (\<lambda>tok. (cms, tok))
                    (k8s_ServiceAccounts_CreateToken k8s (pod_Namespace pod)
                       (spec_ServiceAccountName (pod_Spec pod))
                       \<lparr>tr_Audiences = filter (\<lambda>a. a \<noteq> []) [sat_Audience p],
                        tr_ExpirationSeconds = sat_ExpirationSeconds p\<rparr>))))"
proof (cases "spec_AutomountServiceAccountToken (pod_Spec pod) = Some False")
  case False
  then have auto: "spec_AutomountServiceAccountToken (pod_Spec pod) = None \<or>
      the (spec_AutomountServiceAccountToken (pod_Spec pod))"
    by (cases "spec_AutomountServiceAccountToken (pod_Spec pod)") auto
  obtain sp cp where f: "findProjections pod = (sp, cp)" by fastforce
  show ?thesis
    by (simp add: extractPodCredentials_def auto False f populateConfigMaps_def
        createServiceAccountToken_def andThen_def Let_def split: option.split sum.split)
qed (simp add: extractPodCredentials_def)

end
