(* ===== verification/Image_Pull_Credentials.thy ===== *)
theory Image_Pull_Credentials
  imports Kube_API Registry_Credentials
begin

text \<open>
  \<^verbatim>\<open>pkg/provider/image_pull_credentials.go\<close>: the registry credentials of a pod, from the pull
  secrets of the pod and of its service account. JSON decoding and the docker keyring belong
  to libraries: \<open>unmarshal\<close> gives the auth entries of a document or the decoding error, and
  \<open>lookup\<close> is the keyring that results from the sources added to it, in order.
\<close>

section \<open>Docker configurations\<close>

record DockerConfigEntry =
  dce_Username :: string
  dce_Password :: string

type_synonym DockerConfig = "(string \<times> DockerConfigEntry) list"

record SecretCoordinates =
  sc_UID :: string
  sc_Namespace :: string
  sc_Name :: string

type_synonym keyring_sources = "(SecretCoordinates \<times> DockerConfig) list"

definition errEmptyDockerConfig :: goerr where
  "errEmptyDockerConfig = Errorf ''docker config has no auth entries'' []"

definition DockerConfigJsonKey :: string where
  "DockerConfigJsonKey = ''.dockerconfigjson''"

definition SecretTypeDockerConfigJson :: string where
  "SecretTypeDockerConfigJson = ''kubernetes.io/dockerconfigjson''"

definition parseDockerConfigJSON ::
  "(string \<Rightarrow> DockerConfig result) \<Rightarrow> string \<Rightarrow> DockerConfig result" where
  "parseDockerConfigJSON unmarshal raw =
     (if length raw = 0 then Inl errEmptyDockerConfig
      else case unmarshal raw of
        Inl err \<Rightarrow> Inl (Wrapf ''invalid docker config json: %w'' [] err)
      | Inr auths \<Rightarrow> if length auths = 0 then Inl errEmptyDockerConfig else Inr auths)"

text \<open>Reading a missing key of a Go map gives the empty slice.\<close>

definition parseImagePullSecret ::
  "(string \<Rightarrow> DockerConfig result) \<Rightarrow> Secret \<Rightarrow> DockerConfig result" where
  "parseImagePullSecret unmarshal secret =
     (if sec_Type secret = SecretTypeDockerConfigJson
      then parseDockerConfigJSON unmarshal
             (case sec_Data secret DockerConfigJsonKey of None \<Rightarrow> [] | Some data \<Rightarrow> data)
      else case sec_Data secret DockerConfigJsonKey of
             Some data \<Rightarrow> parseDockerConfigJSON unmarshal data
           | None \<Rightarrow> Inl (Errorf ''unsupported secret type %q'' [sec_Type secret]))"

section \<open>The secrets to read\<close>

text \<open>The loop that appends the references not seen before.\<close>

fun collect_refs :: "string set \<times> string list \<Rightarrow> string list \<Rightarrow> string set \<times> string list" where
  "collect_refs (seen, secretRefs) [] = (seen, secretRefs)"
| "collect_refs (seen, secretRefs) (ref # rest) =
     (if ref \<in> seen then collect_refs (seen, secretRefs) rest
      else collect_refs (insert ref seen, secretRefs @ [ref]) rest)"

text \<open>The loop that reads and parses them into the keyring.\<close>

fun load_secrets ::
  "K8sClient \<Rightarrow> (string \<Rightarrow> DockerConfig result) \<Rightarrow> string \<Rightarrow> keyring_sources \<Rightarrow> bool \<Rightarrow> string list
     \<Rightarrow> (keyring_sources \<times> bool) result" where
  "load_secrets k8s unmarshal ns keyring hasCredentials [] = Inr (keyring, hasCredentials)"
| "load_secrets k8s unmarshal ns keyring hasCredentials (ref # rest) =
     (case k8s_Secrets_Get k8s ns ref of
        Inl err \<Rightarrow>
          if apierrors_IsNotFound k8s err
          then Inl (Wrapf ''imagePullSecret %q not found: %w'' [ref] err)
          else Inl (Wrapf ''failed to fetch imagePullSecret %q: %w'' [ref] err)
      | Inr secret \<Rightarrow>
          (case parseImagePullSecret unmarshal secret of
             Inl err \<Rightarrow> Inl (Wrapf ''failed to parse imagePullSecret %q: %w'' [ref] err)
           | Inr dockerConfig \<Rightarrow>
               load_secrets k8s unmarshal ns
                 (keyring @ [(\<lparr>sc_UID = sec_UID secret, sc_Namespace = sec_Namespace secret,
                               sc_Name = sec_Name secret\<rparr>, dockerConfig)])
                 True rest))"

definition service_account_name :: "Pod \<Rightarrow> string" where
  "service_account_name pod =
     (let saName = spec_ServiceAccountName (pod_Spec pod) in if saName = [] then ''default'' else saName)"

definition resolveImagePullCredentials ::
  "K8sClient \<Rightarrow> (string \<Rightarrow> DockerConfig result) \<Rightarrow> (keyring_sources \<Rightarrow> DockerKeyring) \<Rightarrow> Pod
     \<Rightarrow> RegistryCredentialStore result" where
  "resolveImagePullCredentials k8s unmarshal lookup pod =
     (let collected = collect_refs ({}, []) (spec_ImagePullSecrets (pod_Spec pod));
          saName = service_account_name pod
      in case k8s_ServiceAccounts_Get k8s (pod_Namespace pod) saName of
           Inl err \<Rightarrow>
             if apierrors_IsNotFound k8s err
             then Inl (Wrapf ''service account %q not found: %w'' [saName] err)
             else Inl (Wrapf ''failed to fetch service account %q: %w'' [saName] err)
         | Inr sa \<Rightarrow>
             (let (seen, secretRefs) = collect_refs collected (sa_ImagePullSecrets sa) in
              case load_secrets k8s unmarshal (pod_Namespace pod) [] False secretRefs of
                Inl err \<Rightarrow> Inl err
              | Inr (keyring, hasCredentials) \<Rightarrow>
                  if \<not> hasCredentials then Inr \<lparr>store_keyring = None\<rparr>
                  else Inr (NewRegistryCredentialStore (lookup keyring))))"

section \<open>Which secrets are read\<close>

text \<open>The distinct elements of a list in the order of their first occurrence.\<close>

definition first_occurrences :: "'a list \<Rightarrow> 'a list" where
  "first_occurrences xs = rev (remdups (rev xs))"

lemma first_occurrences_snoc:
  "first_occurrences (xs @ [x]) = (if x \<in> set xs then first_occurrences xs else first_occurrences xs @ [x])"
  by (simp add: first_occurrences_def)

lemma set_first_occurrences [simp]: "set (first_occurrences xs) = set xs"
  by (simp add: first_occurrences_def)

lemma distinct_first_occurrences [simp]: "distinct (first_occurrences xs)"
  by (simp add: first_occurrences_def)

lemma collect_refs_spec:
  "collect_refs (set xs, first_occurrences xs) ys = (set (xs @ ys), first_occurrences (xs @ ys))"
proof (induction ys arbitrary: xs)
  case (Cons y ys)
  have "collect_refs (set xs, first_occurrences xs) (y # ys) =
      collect_refs (set (xs @ [y]), first_occurrences (xs @ [y])) ys"
    by (auto simp: first_occurrences_snoc insert_absorb)
  then show ?case using Cons.IH [of "xs @ [y]"] by simp
qed simp

lemma collect_both:
  "collect_refs (collect_refs ({}, []) xs) ys = (set (xs @ ys), first_occurrences (xs @ ys))"
  using collect_refs_spec [of "[]" xs] collect_refs_spec [of xs ys] by (simp add: first_occurrences_def)

section \<open>What is made of a secret\<close>

definition secret_source ::
  "K8sClient \<Rightarrow> (string \<Rightarrow> DockerConfig result) \<Rightarrow> string \<Rightarrow> string \<Rightarrow> (SecretCoordinates \<times> DockerConfig) result" where
  "secret_source k8s unmarshal ns ref =
     (case k8s_Secrets_Get k8s ns ref of
        Inl err \<Rightarrow>
          Inl (Wrapf (if apierrors_IsNotFound k8s err then ''imagePullSecret %q not found: %w''
                      else ''failed to fetch imagePullSecret %q: %w'') [ref] err)
      | Inr secret \<Rightarrow>
          (case parseImagePullSecret unmarshal secret of
             Inl err \<Rightarrow> Inl (Wrapf ''failed to parse imagePullSecret %q: %w'' [ref] err)
           | Inr cfg \<Rightarrow> Inr (\<lparr>sc_UID = sec_UID secret, sc_Namespace = sec_Namespace secret,
                               sc_Name = sec_Name secret\<rparr>, cfg)))"

lemma load_secrets_Cons:
  "load_secrets k8s unmarshal ns ks h (ref # rest) =
     (case secret_source k8s unmarshal ns ref of
        Inl e \<Rightarrow> Inl e
      | Inr s \<Rightarrow> load_secrets k8s unmarshal ns (ks @ [s]) True rest)"
  by (simp add: secret_source_def split: sum.split)

declare load_secrets.simps(2) [simp del]

lemma load_secrets_spec:
  "load_secrets k8s unmarshal ns ks h refs =
     (let rs = map (secret_source k8s unmarshal ns) refs in
      case first_error rs of
        Some e \<Rightarrow> Inl e
      | None \<Rightarrow> Inr (ks @ map projr rs, h \<or> refs \<noteq> []))"
proof (induction refs arbitrary: ks h)
  case (Cons ref refs)
  then show ?case
    by (cases "secret_source k8s unmarshal ns ref")
      (simp_all add: load_secrets_Cons Let_def split: option.split)
qed simp

text \<open>
  Property C21. The credentials of a pod's images. The service account is the pod's, or
  \<^verbatim>\<open>default\<close>, and without it there are none. The secrets read are those of the pod and then
  those of the service account, each once, in order of first mention, all from the pod's
  namespace; the first one that is missing, unreadable or malformed is the error, and otherwise
  the keyring holds one source per secret in that order. A pod without pull secrets has no
  keyring.
\<close>

theorem resolveImagePullCredentials_result:
  "resolveImagePullCredentials k8s unmarshal lookup pod =
     (case k8s_ServiceAccounts_Get k8s (pod_Namespace pod) (service_account_name pod) of
        Inl err \<Rightarrow>
          Inl (Wrapf (if apierrors_IsNotFound k8s err then ''service account %q not found: %w''
                      else ''failed to fetch service account %q: %w'') [service_account_name pod] err)
      | Inr sa \<Rightarrow>
          (let refs = first_occurrences (spec_ImagePullSecrets (pod_Spec pod) @ sa_ImagePullSecrets sa);
               rs = map (secret_source k8s unmarshal (pod_Namespace pod)) refs
           in case first_error rs of
                Some e \<Rightarrow> Inl e
              | None \<Rightarrow>
                  Inr \<lparr>store_keyring = (if spec_ImagePullSecrets (pod_Spec pod) @ sa_ImagePullSecrets sa = []
                         then None else Some (lookup (map projr rs)))\<rparr>))"
proof -
  have "first_occurrences xs = [] \<longleftrightarrow> xs = []" for xs :: "string list"
    by (simp add: first_occurrences_def)
  then show ?thesis
    by (auto simp: resolveImagePullCredentials_def collect_both load_secrets_spec NewRegistryCredentialStore_def
        Let_def split: sum.split option.split)
qed

text \<open>
  A pull secret is used exactly when it holds a document under the docker
  configuration key that decodes to at least one entry; its declared type never matters then,
  and only the error for a secret without the key depends on it.
\<close>

theorem parseImagePullSecret_iff:
  "(parseImagePullSecret unmarshal secret = Inr cfg \<longleftrightarrow>
      (\<exists>raw. sec_Data secret DockerConfigJsonKey = Some raw \<and> raw \<noteq> [] \<and> unmarshal raw = Inr cfg \<and> cfg \<noteq> [])) \<and>
   (sec_Data secret DockerConfigJsonKey = None \<longrightarrow>
      parseImagePullSecret unmarshal secret =
        Inl (if sec_Type secret = SecretTypeDockerConfigJson then errEmptyDockerConfig
             else Errorf ''unsupported secret type %q'' [sec_Type secret]))"
  by (auto simp: parseImagePullSecret_def parseDockerConfigJSON_def split: option.split sum.splits if_splits)

theorem parseImagePullSecret_iff_witness:
  "parseImagePullSecret (\<lambda>_. Inr [])
     \<lparr>sec_UID = [], sec_Namespace = ''default'', sec_Name = ''regcred'', sec_Type = ''Opaque'', sec_Data = Map.empty\<rparr> =
   Inl (Errorf ''unsupported secret type %q'' [''Opaque''])"
  using parseImagePullSecret_iff [of "\<lambda>_. Inr []"
      "\<lparr>sec_UID = [], sec_Namespace = ''default'', sec_Name = ''regcred'', sec_Type = ''Opaque'', sec_Data = Map.empty\<rparr>"]
  by (simp add: SecretTypeDockerConfigJson_def)

end
