(* ===== verification/Go_Strings.thy ===== *)
theory Go_Strings
  imports Prelude
begin

text \<open>
  The functions of the Go packages \<^verbatim>\<open>strings\<close> and \<^verbatim>\<open>path/filepath\<close> the program calls.
  A Go string is a sequence of bytes, here a \<^typ>\<open>string\<close> of 8-bit characters.
  \<open>ToLower\<close> and \<open>ToUpper\<close> act on the ASCII letters.
  The paths are Unix paths, as on the only platform the program runs on.
\<close>

section \<open>Package strings\<close>

text \<open>\<^verbatim>\<open>strings.Split\<close> with a separator of one byte.\<close>

fun strings_Split :: "string \<Rightarrow> char \<Rightarrow> string list" where
  "strings_Split [] c = [[]]"
| "strings_Split (x # xs) c =
     (if x = c then [] # strings_Split xs c
      else (case strings_Split xs c of [] \<Rightarrow> [[x]] | w # ws \<Rightarrow> (x # w) # ws))"

fun strings_Join :: "string list \<Rightarrow> string \<Rightarrow> string" where
  "strings_Join [] sep = []"
| "strings_Join [x] sep = x"
| "strings_Join (x # y # zs) sep = x @ sep @ strings_Join (y # zs) sep"

fun strings_HasPrefix :: "string \<Rightarrow> string \<Rightarrow> bool" where
  "strings_HasPrefix s [] = True"
| "strings_HasPrefix [] (p # ps) = False"
| "strings_HasPrefix (x # xs) (p # ps) = (x = p \<and> strings_HasPrefix xs ps)"

fun strings_Contains :: "string \<Rightarrow> string \<Rightarrow> bool" where
  "strings_Contains [] t = (t = [])"
| "strings_Contains (x # xs) t = (strings_HasPrefix (x # xs) t \<or> strings_Contains xs t)"

text \<open>
  \<^verbatim>\<open>strings.ReplaceAll(s, old, "")\<close>: every occurrence of a non-empty \<open>old\<close>, from the
  left and without overlaps, is removed.
\<close>

function strings_RemoveAll :: "string \<Rightarrow> string \<Rightarrow> string" where
  "strings_RemoveAll s old =
     (if s = [] \<or> old = [] then s
      else if strings_HasPrefix s old then strings_RemoveAll (drop (length old) s) old
      else hd s # strings_RemoveAll (tl s) old)"
  by pat_completeness auto
termination
  by (relation "measure (\<lambda>(s, old). length s)") (auto simp: neq_Nil_conv)

declare strings_RemoveAll.simps [simp del]

text \<open>\<^verbatim>\<open>strings.Trim\<close>: leading and trailing bytes of the cutset are dropped.\<close>

definition strings_Trim :: "string \<Rightarrow> string \<Rightarrow> string" where
  "strings_Trim s cutset =
     rev (dropWhile (\<lambda>c. c \<in> set cutset) (rev (dropWhile (\<lambda>c. c \<in> set cutset) s)))"

text \<open>The ASCII white space \<^verbatim>\<open>strings.Fields\<close> splits at.\<close>

definition go_space :: "char \<Rightarrow> bool" where
  "go_space c \<longleftrightarrow> c \<in> set [CHR 0x20, CHR 0x09, CHR 0x0A, CHR 0x0B, CHR 0x0C, CHR 0x0D]"

text \<open>\<^verbatim>\<open>strings.Fields\<close>: the non-empty runs between white space, with the run being read.\<close>

fun fields_from :: "string \<Rightarrow> string \<Rightarrow> string list" where
  "fields_from [] w = (if w = [] then [] else [w])"
| "fields_from (x # xs) w =
     (if go_space x then (if w = [] then fields_from xs [] else w # fields_from xs [])
      else fields_from xs (w @ [x]))"

definition strings_Fields :: "string \<Rightarrow> string list" where
  "strings_Fields s = fields_from s []"

definition char_code :: "char \<Rightarrow> nat" where
  "char_code c = of_char c"

definition char_ToLower :: "char \<Rightarrow> char" where
  "char_ToLower c =
     (if 65 \<le> char_code c \<and> char_code c \<le> 90 then char_of (char_code c + 32) else c)"

definition char_ToUpper :: "char \<Rightarrow> char" where
  "char_ToUpper c =
     (if 97 \<le> char_code c \<and> char_code c \<le> 122 then char_of (char_code c - 32) else c)"

definition strings_ToLower :: "string \<Rightarrow> string" where
  "strings_ToLower s = map char_ToLower s"

definition strings_ToUpper :: "string \<Rightarrow> string" where
  "strings_ToUpper s = map char_ToUpper s"

section \<open>Package path/filepath\<close>

text \<open>
  \<^verbatim>\<open>filepath.Clean\<close>, on the list of path elements between slashes. The result is kept
  as a stack: empty and \<open>.\<close> elements are skipped, \<open>..\<close> removes the element before it,
  is dropped at the root of a rooted path and kept at the start of a relative one.
\<close>

fun clean_step :: "bool \<Rightarrow> string list \<Rightarrow> string \<Rightarrow> string list" where
  "clean_step rooted stack e =
     (if e = [] \<or> e = ''.'' then stack
      else if e = ''..'' then
        (case stack of
           [] \<Rightarrow> if rooted then [] else [''..'']
         | d # ds \<Rightarrow> if d = ''..'' then ''..'' # d # ds else ds)
      else e # stack)"

definition path_rooted :: "string \<Rightarrow> bool" where
  "path_rooted s \<longleftrightarrow> strings_HasPrefix s ''/''"

definition clean_elems :: "bool \<Rightarrow> string \<Rightarrow> string list" where
  "clean_elems rooted s = rev (foldl (clean_step rooted) [] (strings_Split s CHR ''/''))"

definition path_render :: "bool \<Rightarrow> string list \<Rightarrow> string" where
  "path_render rooted es =
     (if rooted then ''/'' @ strings_Join es ''/''
      else if es = [] then ''.'' else strings_Join es ''/'')"

definition filepath_Clean :: "string \<Rightarrow> string" where
  "filepath_Clean s = path_render (path_rooted s) (clean_elems (path_rooted s) s)"

text \<open>\<^verbatim>\<open>filepath.Join\<close>: leading empty elements are ignored, the rest joined and cleaned.\<close>

fun filepath_Join :: "string list \<Rightarrow> string" where
  "filepath_Join [] = []"
| "filepath_Join (e # es) =
     (if e = [] then filepath_Join es else filepath_Clean (strings_Join (e # es) ''/''))"

text \<open>\<^verbatim>\<open>filepath.Base\<close>: the last element, \<open>.\<close> for the empty path, \<open>/\<close> for slashes only.\<close>

definition filepath_Base :: "string \<Rightarrow> string" where
  "filepath_Base s =
     (if s = [] then ''.''
      else let t = rev (dropWhile (\<lambda>c. c = CHR ''/'') (rev s))
           in if t = [] then ''/'' else last (strings_Split t CHR ''/''))"

text \<open>
  One path element that names a file: what every Kubernetes object name is (an RFC 1123
  label or subdomain holds no slash and starts with a letter or a digit).
\<close>

definition path_name :: "string \<Rightarrow> bool" where
  "path_name n \<longleftrightarrow> n \<noteq> [] \<and> n \<noteq> ''.'' \<and> n \<noteq> ''..'' \<and> CHR ''/'' \<notin> set n"

section \<open>Facts on split and join\<close>

lemma strings_Split_not_Nil [simp]: "strings_Split s c \<noteq> []"
  by (induction s) (auto split: list.splits)

lemma strings_Split_no_sep [go_string]: "c \<notin> set s \<Longrightarrow> strings_Split s c = [s]"
  by (induction s) auto

lemma strings_Split_append_sep [go_string]:
  "strings_Split (s @ c # t) c = strings_Split s c @ strings_Split t c"
  by (induction s) (auto split: list.splits)

lemma strings_Join_Cons:
  "ws \<noteq> [] \<Longrightarrow> strings_Join (w # ws) sep = w @ sep @ strings_Join ws sep"
  by (cases ws) simp_all

lemma strings_Join_append:
  "us \<noteq> [] \<Longrightarrow> ws \<noteq> [] \<Longrightarrow>
   strings_Join (us @ ws) sep = strings_Join us sep @ sep @ strings_Join ws sep"
  by (induction us rule: induct_list012) (auto simp: strings_Join_Cons)

lemma strings_Join_Split: "strings_Join (strings_Split s c) [c] = s"
proof (induction s)
  case IH: (Cons x xs)
  show ?case
  proof (cases "strings_Split xs c")
    case (Cons w ws)
    with IH show ?thesis by (cases ws) auto
  qed simp
qed simp

lemma strings_Split_Join:
  assumes "ws \<noteq> []" and "\<And>w. w \<in> set ws \<Longrightarrow> c \<notin> set w"
  shows "strings_Split (strings_Join ws [c]) c = ws"
  using assms
proof (induction ws rule: induct_list012)
  case (3 x y zs)
  then show ?case
    by (simp add: strings_Split_append_sep strings_Split_no_sep)
qed (auto simp: strings_Split_no_sep)

lemma strings_Split_no_sep_elem:
  "w \<in> set (strings_Split s c) \<Longrightarrow> c \<notin> set w"
proof (induction s arbitrary: w)
  case (Cons x xs)
  then show ?case
    by (cases "strings_Split xs c") (auto split: if_splits)
qed simp

lemma strings_Join_inject:
  assumes "us \<noteq> []" and "ws \<noteq> []"
    and "\<And>w. w \<in> set us \<union> set ws \<Longrightarrow> c \<notin> set w"
    and "strings_Join us [c] = strings_Join ws [c]"
  shows "us = ws"
proof -
  have "strings_Split (strings_Join us [c]) c = us"
    using assms(1,3) by (intro strings_Split_Join) simp_all
  moreover have "strings_Split (strings_Join ws [c]) c = ws"
    using assms(2,3) by (intro strings_Split_Join) simp_all
  ultimately show ?thesis by (metis assms(4))
qed

lemma strings_HasPrefix_iff: "strings_HasPrefix s p \<longleftrightarrow> (\<exists>t. s = p @ t)"
  by (induction s p rule: strings_HasPrefix.induct) simp_all

lemma strings_Contains_iff: "strings_Contains s t \<longleftrightarrow> (\<exists>u v. s = u @ t @ v)"
proof (induction s)
  case (Cons x xs)
  show ?case
  proof
    assume "strings_Contains (x # xs) t"
    then consider "strings_HasPrefix (x # xs) t" | "strings_Contains xs t" by auto
    then show "\<exists>u v. x # xs = u @ t @ v"
    proof cases
      case 1
      then show ?thesis by (metis append_Nil strings_HasPrefix_iff)
    next
      case 2
      then obtain u v where "xs = u @ t @ v" using Cons.IH by blast
      then have "x # xs = (x # u) @ t @ v" by simp
      then show ?thesis by blast
    qed
  next
    assume "\<exists>u v. x # xs = u @ t @ v"
    then obtain u v where uv: "x # xs = u @ t @ v" by blast
    show "strings_Contains (x # xs) t"
    proof (cases u)
      case Nil
      with uv have "strings_HasPrefix (x # xs) t" by (simp only: strings_HasPrefix_iff) auto
      then show ?thesis by simp
    next
      case (Cons y ys)
      with uv have "xs = ys @ t @ v" by simp
      then show ?thesis using Cons.IH by auto
    qed
  qed
qed simp

section \<open>Facts on paths\<close>

lemma path_name_no_slash [simp]: "path_name n \<Longrightarrow> CHR ''/'' \<notin> set n"
  by (simp add: path_name_def)

lemma clean_step_name [simp]: "path_name n \<Longrightarrow> clean_step r st n = n # st"
  by (simp add: path_name_def)

declare clean_step.simps [simp del]

lemma path_rooted_append [simp]: "s \<noteq> [] \<Longrightarrow> path_rooted (s @ t) = path_rooted s"
  by (cases s) (simp_all add: path_rooted_def)

lemma clean_elems_append_name:
  "path_name n \<Longrightarrow> clean_elems r (s @ CHR ''/'' # n) = clean_elems r s @ [n]"
  by (simp add: clean_elems_def strings_Split_append_sep strings_Split_no_sep)

text \<open>Joining names below a directory appends them to its cleaned elements.\<close>

lemma filepath_Join_names:
  assumes "d \<noteq> []" and "\<And>n. n \<in> set ns \<Longrightarrow> path_name n"
  shows "filepath_Join (d # ns) =
    path_render (path_rooted d) (clean_elems (path_rooted d) d @ ns)"
  using assms(2)
proof (induction ns rule: rev_induct)
  case Nil
  then show ?case using assms(1) by (simp add: filepath_Clean_def)
next
  case (snoc n ns)
  have eq: "strings_Join (d # ns @ [n]) ''/'' = strings_Join (d # ns) ''/'' @ CHR ''/'' # n"
    using strings_Join_append [of "d # ns" "[n]" "''/''"] by simp
  have nn: "strings_Join (d # ns) ''/'' \<noteq> []"
    using assms(1) by (cases ns) simp_all
  have root: "path_rooted (strings_Join (d # ns) ''/'') = path_rooted d" for ns
    using assms(1) by (cases ns) simp_all
  have el: "clean_elems r (strings_Join (d # ns) ''/'') = clean_elems r d @ ns"
    if "\<And>n. n \<in> set ns \<Longrightarrow> path_name n" for r ns
    using that
  proof (induction ns rule: rev_induct)
    case (snoc m ms)
    then show ?case
      using strings_Join_append [of "d # ms" "[m]" "''/''"]
      by (simp add: clean_elems_append_name)
  qed simp
  show ?case
    using assms(1) snoc.prems el [of "ns @ [n]"] root [of "ns @ [n]"]
    by (simp add: filepath_Clean_def)
qed

lemma clean_step_elems:
  "\<lbrakk>list_all (\<lambda>x. CHR ''/'' \<notin> set x) st; CHR ''/'' \<notin> set e\<rbrakk>
   \<Longrightarrow> list_all (\<lambda>x. CHR ''/'' \<notin> set x) (clean_step r st e)"
  by (auto simp: clean_step.simps split: list.splits)

lemma foldl_clean_step_elems:
  "\<lbrakk>list_all (\<lambda>x. CHR ''/'' \<notin> set x) st; list_all (\<lambda>x. CHR ''/'' \<notin> set x) es\<rbrakk>
   \<Longrightarrow> list_all (\<lambda>x. CHR ''/'' \<notin> set x) (foldl (clean_step r) st es)"
  by (induction es arbitrary: st) (simp_all add: clean_step_elems)

lemma clean_elems_no_slash:
  "x \<in> set (clean_elems r s) \<Longrightarrow> CHR ''/'' \<notin> set x"
  using foldl_clean_step_elems [of "[]" "strings_Split s CHR ''/''" r]
  by (auto simp: clean_elems_def list_all_iff dest: strings_Split_no_sep_elem)

lemma path_render_inject:
  assumes "us \<noteq> []" and "ws \<noteq> []"
    and "\<And>w. w \<in> set us \<union> set ws \<Longrightarrow> CHR ''/'' \<notin> set w"
    and "path_render r us = path_render r ws"
  shows "us = ws"
  using assms strings_Join_inject [of us ws "CHR ''/''"]
  by (auto simp: path_render_def split: if_splits)

declare filepath_Join.simps [simp del]

text \<open>Names below one directory give one path only if they are the same names.\<close>

lemma filepath_Join_inject:
  assumes d: "d \<noteq> []" and us: "\<And>n. n \<in> set us \<Longrightarrow> path_name n" "us \<noteq> []"
    and ws: "\<And>n. n \<in> set ws \<Longrightarrow> path_name n" "ws \<noteq> []"
    and eq: "filepath_Join (d # us) = filepath_Join (d # ws)"
  shows "us = ws"
proof -
  let ?c = "clean_elems (path_rooted d) d"
  have "?c @ us = ?c @ ws"
  proof (rule path_render_inject)
    show "path_render (path_rooted d) (?c @ us) = path_render (path_rooted d) (?c @ ws)"
      using eq filepath_Join_names [OF d us(1)] filepath_Join_names [OF d ws(1)] by simp
  qed (use us ws clean_elems_no_slash in auto)
  then show ?thesis by simp
qed

lemma filepath_Join_eq_iff:
  "\<lbrakk>d \<noteq> []; list_all path_name us; us \<noteq> []; list_all path_name ws; ws \<noteq> []\<rbrakk>
   \<Longrightarrow> filepath_Join (d # us) = filepath_Join (d # ws) \<longleftrightarrow> us = ws"
  using filepath_Join_inject [of d us ws] by (auto simp: list_all_iff)

text \<open>
  A cleaned path has no element left to remove: some \<open>..\<close> at the start of a relative path,
  then names.
\<close>

definition clean_list :: "bool \<Rightarrow> string list \<Rightarrow> bool" where
  "clean_list r es \<longleftrightarrow>
     (\<exists>k ns. es = replicate k ''..'' @ ns \<and> list_all path_name ns \<and> (k = 0 \<or> r = False))"

lemma clean_list_append_name: "clean_list r es \<Longrightarrow> path_name n \<Longrightarrow> clean_list r (es @ [n])"
  by (fastforce simp: clean_list_def)

lemma clean_step_clean_list:
  assumes "clean_list r (rev st)" and "CHR ''/'' \<notin> set e"
  shows "clean_list r (rev (clean_step r st e))"
proof -
  obtain k ns where st: "st = rev ns @ replicate k ''..''"
    and ns: "list_all path_name ns" and k: "k = 0 \<or> r = False"
    using assms(1) by (auto simp: clean_list_def rev_swap)
  consider "e = [] \<or> e = ''.''" | "e = ''..''" | "path_name e"
    using assms(2) by (auto simp: path_name_def)
  then show ?thesis
  proof cases
    case 1
    then show ?thesis using assms(1) by (auto simp: clean_step.simps)
  next
    case 2
    show ?thesis
    proof (cases ns rule: rev_cases)
      case Nil
      have "rev (clean_step r st ''..'') = replicate (if r then 0 else Suc k) ''..''"
        using st Nil k by (cases k) (auto simp: clean_step.simps replicate_append_same)
      moreover have "clean_list r (replicate (if r then 0 else Suc k) ''..'')"
        unfolding clean_list_def by (intro exI [of _ "if r then 0 else Suc k"] exI [of _ "[]"]) simp
      ultimately show ?thesis using 2 by simp
    next
      case (snoc ms m)
      then have "m \<noteq> ''..''" "list_all path_name ms" using ns by (auto simp: path_name_def)
      then show ?thesis
        using 2 st snoc k by (auto simp: clean_step.simps clean_list_def)
    qed
  next
    case 3
    then show ?thesis using clean_list_append_name [OF assms(1)] by simp
  qed
qed

lemma foldl_clean_step_clean_list:
  "\<lbrakk>clean_list r (rev st); list_all (\<lambda>x. CHR ''/'' \<notin> set x) es\<rbrakk>
   \<Longrightarrow> clean_list r (rev (foldl (clean_step r) st es))"
  by (induction es arbitrary: st) (simp_all add: clean_step_clean_list)

lemma clean_elems_clean_list: "clean_list r (clean_elems r s)"
  unfolding clean_elems_def
  by (rule foldl_clean_step_clean_list)
    (auto simp: clean_list_def list_all_iff dest: strings_Split_no_sep_elem)

text \<open>Cleaning does not change a clean list of elements.\<close>

lemma foldl_clean_step_names:
  "list_all path_name ns \<Longrightarrow> foldl (clean_step r) st ns = rev ns @ st"
  by (induction ns arbitrary: st) simp_all

lemma foldl_clean_step_dots:
  "foldl (clean_step False) (replicate k ''..'') (replicate m ''..'') = replicate (k + m) ''..''"
proof (induction m arbitrary: k)
  case (Suc m)
  have "clean_step False (replicate k ''..'') ''..'' = replicate (Suc k) ''..''"
    by (cases k) (simp_all add: clean_step.simps)
  then show ?case using Suc.IH [of "Suc k"] by simp
qed simp

lemma foldl_clean_step_clean:
  assumes "clean_list r es"
  shows "foldl (clean_step r) [] es = rev es"
proof -
  obtain k ns where es: "es = replicate k ''..'' @ ns" "list_all path_name ns" "k = 0 \<or> r = False"
    using assms by (auto simp: clean_list_def)
  have "foldl (clean_step r) [] (replicate k ''..'') = replicate k ''..''"
    using es(3) foldl_clean_step_dots [of 0 k] by (cases "k = 0") simp_all
  then show ?thesis unfolding es(1) by (simp add: foldl_clean_step_names es(2))
qed

lemma clean_list_no_slash:
  assumes "clean_list r es" and "x \<in> set es"
  shows "CHR ''/'' \<notin> set x \<and> x \<noteq> []"
proof -
  obtain k ns where "es = replicate k ''..'' @ ns" "list_all path_name ns"
    using assms(1) unfolding clean_list_def by blast
  with assms(2) have "x = ''..'' \<or> path_name x" by (auto simp: list_all_iff)
  then show ?thesis by (auto simp: path_name_def)
qed

lemma clean_elems_render:
  assumes "clean_list r es" and "es \<noteq> []"
  shows "path_rooted (path_render r es) = r" and "clean_elems r (path_render r es) = es"
proof -
  obtain e es' where es: "es = e # es'" "e \<noteq> []" "CHR ''/'' \<notin> set e"
    using assms clean_list_no_slash by (cases es) auto
  then obtain x xs where e: "e = x # xs" "x \<noteq> CHR ''/''" by (cases e) auto
  show "path_rooted (path_render r es) = r"
    using es e by (cases es') (auto simp: path_render_def path_rooted_def)
  have sp: "strings_Split (strings_Join es ''/'') CHR ''/'' = es"
    using assms(2) clean_list_no_slash [OF assms(1)] by (intro strings_Split_Join) auto
  have "strings_Split (path_render r es) CHR ''/'' = (if r then [] # es else es)"
    using sp assms(2) by (simp add: path_render_def)
  then show "clean_elems r (path_render r es) = es"
    using foldl_clean_step_clean [OF assms(1)] by (cases r) (simp_all add: clean_elems_def clean_step.simps)
qed

lemma path_render_not_Nil [simp]: "list_all path_name ns \<Longrightarrow> ns \<noteq> [] \<Longrightarrow> path_render r (es @ ns) \<noteq> []"
proof -
  assume "list_all path_name ns" "ns \<noteq> []"
  then obtain n ms where "ns = n # ms" "n \<noteq> []" by (cases ns) (auto simp: path_name_def)
  then have "strings_Join (es @ ns) ''/'' \<noteq> []"
    by (cases "es = []"; cases ms) (auto simp: strings_Join_append)
  then show ?thesis by (simp add: path_render_def)
qed

text \<open>Joining in two steps is joining at once.\<close>

lemma filepath_Join_Join:
  assumes d: "d \<noteq> []" and ns: "list_all path_name ns" "ns \<noteq> []" and ms: "list_all path_name ms"
  shows "filepath_Join (filepath_Join (d # ns) # ms) = filepath_Join (d # ns @ ms)"
proof -
  let ?c = "clean_elems (path_rooted d) d"
  have J: "filepath_Join (d # ns @ ms) = path_render (path_rooted d) (?c @ ns @ ms)" 
    if "list_all path_name ms" for ms
    using filepath_Join_names [OF d, of "ns @ ms"] that ns(1) by (auto simp: list_all_iff)
  have cl: "clean_list (path_rooted d) (?c @ ns)"
    using ns(1) clean_elems_clean_list [of "path_rooted d" d] by (fastforce simp: clean_list_def)
  have eq: "filepath_Join (d # ns) = path_render (path_rooted d) (?c @ ns)"
    using J [of "[]"] by simp
  have "filepath_Join (filepath_Join (d # ns) # ms) =
      path_render (path_rooted d) ((?c @ ns) @ ms)"
    using filepath_Join_names [of "path_render (path_rooted d) (?c @ ns)" ms] ns ms
      clean_elems_render [OF cl] by (simp add: eq list_all_iff)
  then show ?thesis using J [OF ms] by simp
qed

end
