(* ===== verification/Events.thy ===== *)
theory Events
  imports Prelude Go_Strings
begin

text \<open>
  \<^verbatim>\<open>pkg/event\<close>: the interface through which the provider reports what happens to a pod
  (\<^verbatim>\<open>recorder.go\<close>), its implementation on the Kubernetes event recorder
  (\<^verbatim>\<open>kuberecorder.go\<close>) and the one that writes to the log (\<^verbatim>\<open>logrecorder.go\<close>). A recorder is
  modelled by what it has sent so far; a message is its format and arguments, as the source
  passes them on.
\<close>

section \<open>The object an event is about, carried by the context\<close>

record ObjectReference =
  or_Namespace :: string
  or_Name :: string
  or_UID :: string
  or_FieldPath :: string

text \<open>
  A context is the list of its values, the innermost first. The key of \<^verbatim>\<open>WithObjectRef\<close> is
  a type of its own; other packages use other keys.
\<close>

datatype ctx_key = ObjectRefKey | OtherKey string
datatype ctx_val = RefVal ObjectReference | OtherVal string

type_synonym go_context = "(ctx_key \<times> ctx_val) list"

definition WithObjectRef :: "go_context \<Rightarrow> ObjectReference \<Rightarrow> go_context" where
  "WithObjectRef ctx ref = (ObjectRefKey, RefVal ref) # ctx"

definition GetObjectRef :: "go_context \<Rightarrow> ObjectReference option" where
  "GetObjectRef ctx =
     (case map_of ctx ObjectRefKey of
        None \<Rightarrow> None
      | Some (RefVal ref) \<Rightarrow> Some ref
      | Some _ \<Rightarrow> None)"

section \<open>Messages\<close>

datatype fmt_arg = AStr string | AErr goerr

datatype event_type = EventTypeNormal | EventTypeWarning

text \<open>
  The reasons are constants of the kubelet's \<^verbatim>\<open>events\<close> package, apart from
  \<^verbatim>\<open>eventReasonFailedImagePullSecrets\<close>, which the program defines.
\<close>

datatype event_reason =
    events_PullingImage
  | events_PulledImage
  | events_FailedToInspectImage
  | events_FailedToPullImage
  | events_BackOffPullImage
  | events_CreatedContainer
  | events_StartedContainer
  | events_FailedToCreateContainer
  | events_FailedToStartContainer
  | events_FailedPostStartHook
  | events_FailedPreStopHook
  | Reason string

definition eventReasonFailedImagePullSecrets :: event_reason where
  "eventReasonFailedImagePullSecrets = Reason ''FailedToRetrieveImagePullSecret''"

text \<open>The string the source builds for a hook's command.\<close>

definition cmd_str :: "string list \<Rightarrow> string" where
  "cmd_str cmd = ''['' @ strings_Join cmd '', '' @ '']''"

section \<open>The interface\<close>

record 'r EventRecorder =
  er_PullingImage :: "'r \<Rightarrow> go_context \<Rightarrow> string \<Rightarrow> string \<Rightarrow> 'r"
  er_PulledImage :: "'r \<Rightarrow> go_context \<Rightarrow> string \<Rightarrow> string \<Rightarrow> string \<Rightarrow> 'r"
  er_FailedToValidateOCI :: "'r \<Rightarrow> go_context \<Rightarrow> string \<Rightarrow> 'r"
  er_FailedToPullImage :: "'r \<Rightarrow> go_context \<Rightarrow> string \<Rightarrow> string \<Rightarrow> goerr \<Rightarrow> 'r"
  er_BackOffPullImage :: "'r \<Rightarrow> go_context \<Rightarrow> string \<Rightarrow> string \<Rightarrow> goerr \<Rightarrow> 'r"
  er_CreatedContainer :: "'r \<Rightarrow> go_context \<Rightarrow> string \<Rightarrow> 'r"
  er_StartedContainer :: "'r \<Rightarrow> go_context \<Rightarrow> string \<Rightarrow> 'r"
  er_FailedToCreateContainer :: "'r \<Rightarrow> go_context \<Rightarrow> string \<Rightarrow> goerr \<Rightarrow> 'r"
  er_FailedToStartContainer :: "'r \<Rightarrow> go_context \<Rightarrow> string \<Rightarrow> goerr \<Rightarrow> 'r"
  er_FailedPostStartHook :: "'r \<Rightarrow> go_context \<Rightarrow> string \<Rightarrow> string list \<Rightarrow> goerr \<Rightarrow> 'r"
  er_FailedPreStopHook :: "'r \<Rightarrow> go_context \<Rightarrow> string \<Rightarrow> string list \<Rightarrow> goerr \<Rightarrow> 'r"
  er_FailedToResolveImagePullSecrets :: "'r \<Rightarrow> go_context \<Rightarrow> goerr \<Rightarrow> 'r"

text \<open>A call of one of the methods, and the method it selects.\<close>

datatype recorder_call =
    CPullingImage string string
  | CPulledImage string string string
  | CFailedToValidateOCI string
  | CFailedToPullImage string string goerr
  | CBackOffPullImage string string goerr
  | CCreatedContainer string
  | CStartedContainer string
  | CFailedToCreateContainer string goerr
  | CFailedToStartContainer string goerr
  | CFailedPostStartHook string "string list" goerr
  | CFailedPreStopHook string "string list" goerr
  | CFailedToResolveImagePullSecrets goerr

fun invoke :: "'r EventRecorder \<Rightarrow> 'r \<Rightarrow> go_context \<Rightarrow> recorder_call \<Rightarrow> 'r" where
  "invoke er r ctx (CPullingImage img c) = er_PullingImage er r ctx img c"
| "invoke er r ctx (CPulledImage img c d) = er_PulledImage er r ctx img c d"
| "invoke er r ctx (CFailedToValidateOCI content) = er_FailedToValidateOCI er r ctx content"
| "invoke er r ctx (CFailedToPullImage img c e) = er_FailedToPullImage er r ctx img c e"
| "invoke er r ctx (CBackOffPullImage img c e) = er_BackOffPullImage er r ctx img c e"
| "invoke er r ctx (CCreatedContainer c) = er_CreatedContainer er r ctx c"
| "invoke er r ctx (CStartedContainer c) = er_StartedContainer er r ctx c"
| "invoke er r ctx (CFailedToCreateContainer c e) = er_FailedToCreateContainer er r ctx c e"
| "invoke er r ctx (CFailedToStartContainer c e) = er_FailedToStartContainer er r ctx c e"
| "invoke er r ctx (CFailedPostStartHook c cmd e) = er_FailedPostStartHook er r ctx c cmd e"
| "invoke er r ctx (CFailedPreStopHook c cmd e) = er_FailedPreStopHook er r ctx c cmd e"
| "invoke er r ctx (CFailedToResolveImagePullSecrets e) = er_FailedToResolveImagePullSecrets er r ctx e"

text \<open>What a user of a recorder relies on: a call adds at most one message and keeps the others.\<close>

locale recorder_contract =
  fixes er :: "'r EventRecorder" and sent :: "'r \<Rightarrow> 'm list"
  assumes call_appends: "\<exists>ms. sent (invoke er r ctx c) = sent r @ ms \<and> length ms \<le> 1"
begin

lemma calls_append:
  "\<exists>ms. sent (foldl (\<lambda>r (ctx, c). invoke er r ctx c) r cs) = sent r @ ms \<and> length ms \<le> length cs"
proof (induction cs arbitrary: r)
  case (Cons x cs)
  obtain ctx c where x: "x = (ctx, c)" by (cases x)
  obtain ms where ms: "sent (invoke er r ctx c) = sent r @ ms" "length ms \<le> 1"
    using call_appends by blast
  obtain ns where "sent (foldl (\<lambda>r (ctx, c). invoke er r ctx c) (invoke er r ctx c) cs) =
      sent (invoke er r ctx c) @ ns" "length ns \<le> length cs"
    using Cons.IH by blast
  then show ?case using ms x by (intro exI [of _ "ms @ ns"]) simp
qed simp

end

section \<open>The recorder of Kubernetes events\<close>

text \<open>The calls of \<^verbatim>\<open>Eventf\<close> made so far, oldest first.\<close>

record kube_event =
  ev_object :: ObjectReference
  ev_type :: event_type
  ev_reason :: event_reason
  ev_messageFmt :: string
  ev_args :: "fmt_arg list"

record KubeEventRecorder =
  ker_eventRecorder :: "kube_event list"

definition NewKubeEventRecorder :: "kube_event list \<Rightarrow> KubeEventRecorder" where
  "NewKubeEventRecorder er = \<lparr>ker_eventRecorder = er\<rparr>"

definition recordEvent ::
  "KubeEventRecorder \<Rightarrow> go_context \<Rightarrow> string \<Rightarrow> event_type \<Rightarrow> event_reason \<Rightarrow> string \<Rightarrow> fmt_arg list
     \<Rightarrow> KubeEventRecorder" where
  "recordEvent r ctx containerName eventType reason messageFmt args =
     (case GetObjectRef ctx of
        None \<Rightarrow> r
      | Some objectRef \<Rightarrow>
          (let objectRef = (if containerName \<noteq> []
             then objectRef\<lparr>or_FieldPath := ''spec.containers{'' @ containerName @ ''}''\<rparr>
             else objectRef)
           in r\<lparr>ker_eventRecorder := ker_eventRecorder r @
                [\<lparr>ev_object = objectRef, ev_type = eventType, ev_reason = reason,
                  ev_messageFmt = messageFmt, ev_args = args\<rparr>]\<rparr>))"

definition Kube_PullingImage :: "KubeEventRecorder \<Rightarrow> go_context \<Rightarrow> string \<Rightarrow> string \<Rightarrow> KubeEventRecorder" where
  "Kube_PullingImage r ctx img containerName =
     recordEvent r ctx containerName EventTypeNormal events_PullingImage
       ''Pulling image \"%s\"'' [AStr img]"

definition Kube_PulledImage ::
  "KubeEventRecorder \<Rightarrow> go_context \<Rightarrow> string \<Rightarrow> string \<Rightarrow> string \<Rightarrow> KubeEventRecorder" where
  "Kube_PulledImage r ctx img containerName duration =
     recordEvent r ctx containerName EventTypeNormal events_PulledImage
       ''Successfully pulled image \"%s\" in %s'' [AStr img, AStr duration]"

definition Kube_FailedToValidateOCI :: "KubeEventRecorder \<Rightarrow> go_context \<Rightarrow> string \<Rightarrow> KubeEventRecorder" where
  "Kube_FailedToValidateOCI r ctx content =
     recordEvent r ctx [] EventTypeWarning events_FailedToInspectImage
       ''Failed to validate OCI content: %s'' [AStr content]"

definition Kube_FailedToPullImage ::
  "KubeEventRecorder \<Rightarrow> go_context \<Rightarrow> string \<Rightarrow> string \<Rightarrow> goerr \<Rightarrow> KubeEventRecorder" where
  "Kube_FailedToPullImage r ctx img containerName err =
     recordEvent r ctx containerName EventTypeWarning events_FailedToPullImage
       ''Failed to pull image \"%s\": %v'' [AStr img, AErr err]"

definition Kube_BackOffPullImage ::
  "KubeEventRecorder \<Rightarrow> go_context \<Rightarrow> string \<Rightarrow> string \<Rightarrow> goerr \<Rightarrow> KubeEventRecorder" where
  "Kube_BackOffPullImage r ctx img containerName err =
     recordEvent r ctx containerName EventTypeWarning events_BackOffPullImage
       ''Back-off pulling image \"%s\": %v'' [AStr img, AErr err]"

definition Kube_CreatedContainer :: "KubeEventRecorder \<Rightarrow> go_context \<Rightarrow> string \<Rightarrow> KubeEventRecorder" where
  "Kube_CreatedContainer r ctx containerName =
     recordEvent r ctx containerName EventTypeNormal events_CreatedContainer
       ''Created container %s'' [AStr containerName]"

definition Kube_StartedContainer :: "KubeEventRecorder \<Rightarrow> go_context \<Rightarrow> string \<Rightarrow> KubeEventRecorder" where
  "Kube_StartedContainer r ctx containerName =
     recordEvent r ctx containerName EventTypeNormal events_StartedContainer
       ''Started container %s'' [AStr containerName]"

definition Kube_FailedToCreateContainer ::
  "KubeEventRecorder \<Rightarrow> go_context \<Rightarrow> string \<Rightarrow> goerr \<Rightarrow> KubeEventRecorder" where
  "Kube_FailedToCreateContainer r ctx containerName err =
     recordEvent r ctx containerName EventTypeWarning events_FailedToCreateContainer
       ''Failed to create container %s: %v'' [AStr containerName, AErr err]"

definition Kube_FailedToStartContainer ::
  "KubeEventRecorder \<Rightarrow> go_context \<Rightarrow> string \<Rightarrow> goerr \<Rightarrow> KubeEventRecorder" where
  "Kube_FailedToStartContainer r ctx containerName err =
     recordEvent r ctx containerName EventTypeWarning events_FailedToStartContainer
       ''Failed to start container %s: %v'' [AStr containerName, AErr err]"

definition Kube_FailedPostStartHook ::
  "KubeEventRecorder \<Rightarrow> go_context \<Rightarrow> string \<Rightarrow> string list \<Rightarrow> goerr \<Rightarrow> KubeEventRecorder" where
  "Kube_FailedPostStartHook r ctx containerName cmd err =
     (let cmdStr = cmd_str cmd in
      recordEvent r ctx containerName EventTypeWarning events_FailedPostStartHook
        ''Exec lifecycle hook (%s) for Container \"%s\" failed - error: %v''
        [AStr cmdStr, AStr containerName, AErr err])"

definition Kube_FailedPreStopHook ::
  "KubeEventRecorder \<Rightarrow> go_context \<Rightarrow> string \<Rightarrow> string list \<Rightarrow> goerr \<Rightarrow> KubeEventRecorder" where
  "Kube_FailedPreStopHook r ctx containerName cmd err =
     (let cmdStr = cmd_str cmd in
      recordEvent r ctx containerName EventTypeWarning events_FailedPreStopHook
        ''Exec lifecycle hook (%s) for Container \"%s\" failed - error: %v''
        [AStr cmdStr, AStr containerName, AErr err])"

definition Kube_FailedToResolveImagePullSecrets ::
  "KubeEventRecorder \<Rightarrow> go_context \<Rightarrow> goerr \<Rightarrow> KubeEventRecorder" where
  "Kube_FailedToResolveImagePullSecrets r ctx err =
     recordEvent r ctx [] EventTypeWarning eventReasonFailedImagePullSecrets
       ''Failed to resolve image pull secrets: %v'' [AErr err]"

definition kube_recorder :: "KubeEventRecorder EventRecorder" where
  "kube_recorder =
     \<lparr>er_PullingImage = Kube_PullingImage, er_PulledImage = Kube_PulledImage,
      er_FailedToValidateOCI = Kube_FailedToValidateOCI, er_FailedToPullImage = Kube_FailedToPullImage,
      er_BackOffPullImage = Kube_BackOffPullImage, er_CreatedContainer = Kube_CreatedContainer,
      er_StartedContainer = Kube_StartedContainer,
      er_FailedToCreateContainer = Kube_FailedToCreateContainer,
      er_FailedToStartContainer = Kube_FailedToStartContainer,
      er_FailedPostStartHook = Kube_FailedPostStartHook,
      er_FailedPreStopHook = Kube_FailedPreStopHook,
      er_FailedToResolveImagePullSecrets = Kube_FailedToResolveImagePullSecrets\<rparr>"

section \<open>The recorder that writes to the log\<close>

datatype log_level = LevelInfo | LevelWarn | LevelError

record log_entry =
  le_level :: log_level
  le_error :: "goerr option"
  le_fmt :: string
  le_args :: "fmt_arg list"

text \<open>The logger of the context, by the entries written so far.\<close>

type_synonym LogEventRecorder = "log_entry list"

definition entry :: "log_level \<Rightarrow> goerr option \<Rightarrow> string \<Rightarrow> fmt_arg list \<Rightarrow> log_entry" where
  "entry l e f as = \<lparr>le_level = l, le_error = e, le_fmt = f, le_args = as\<rparr>"

definition Log_PullingImage :: "LogEventRecorder \<Rightarrow> go_context \<Rightarrow> string \<Rightarrow> string \<Rightarrow> LogEventRecorder" where
  "Log_PullingImage r ctx img containerName =
     r @ [entry LevelInfo None ''Pulling image \"%s\"'' [AStr img]]"

definition Log_PulledImage ::
  "LogEventRecorder \<Rightarrow> go_context \<Rightarrow> string \<Rightarrow> string \<Rightarrow> string \<Rightarrow> LogEventRecorder" where
  "Log_PulledImage r ctx img containerName duration =
     r @ [entry LevelInfo None ''Successfully pulled image \"%s\" in %s'' [AStr img, AStr duration]]"

definition Log_FailedToValidateOCI :: "LogEventRecorder \<Rightarrow> go_context \<Rightarrow> string \<Rightarrow> LogEventRecorder" where
  "Log_FailedToValidateOCI r ctx content =
     r @ [entry LevelWarn None ''Failed to validate OCI content: %s'' [AStr content]]"

definition Log_FailedToPullImage ::
  "LogEventRecorder \<Rightarrow> go_context \<Rightarrow> string \<Rightarrow> string \<Rightarrow> goerr \<Rightarrow> LogEventRecorder" where
  "Log_FailedToPullImage r ctx img containerName err =
     r @ [entry LevelWarn (Some err) ''Failed to pull image \"%s\"'' [AStr img]]"

definition Log_BackOffPullImage ::
  "LogEventRecorder \<Rightarrow> go_context \<Rightarrow> string \<Rightarrow> string \<Rightarrow> goerr \<Rightarrow> LogEventRecorder" where
  "Log_BackOffPullImage r ctx img containerName err =
     r @ [entry LevelError (Some err) ''Back-off pulling image \"%s\"'' [AStr img]]"

definition Log_CreatedContainer :: "LogEventRecorder \<Rightarrow> go_context \<Rightarrow> string \<Rightarrow> LogEventRecorder" where
  "Log_CreatedContainer r ctx containerName =
     r @ [entry LevelInfo None ''Created container %s'' [AStr containerName]]"

definition Log_StartedContainer :: "LogEventRecorder \<Rightarrow> go_context \<Rightarrow> string \<Rightarrow> LogEventRecorder" where
  "Log_StartedContainer r ctx containerName =
     r @ [entry LevelInfo None ''Started container %s'' [AStr containerName]]"

definition Log_FailedToCreateContainer ::
  "LogEventRecorder \<Rightarrow> go_context \<Rightarrow> string \<Rightarrow> goerr \<Rightarrow> LogEventRecorder" where
  "Log_FailedToCreateContainer r ctx containerName err =
     r @ [entry LevelError (Some err) ''Failed to create container %s'' [AStr containerName]]"

definition Log_FailedToStartContainer ::
  "LogEventRecorder \<Rightarrow> go_context \<Rightarrow> string \<Rightarrow> goerr \<Rightarrow> LogEventRecorder" where
  "Log_FailedToStartContainer r ctx containerName err =
     r @ [entry LevelError (Some err) ''Failed to start container %s'' [AStr containerName]]"

definition Log_FailedPostStartHook ::
  "LogEventRecorder \<Rightarrow> go_context \<Rightarrow> string \<Rightarrow> string list \<Rightarrow> goerr \<Rightarrow> LogEventRecorder" where
  "Log_FailedPostStartHook r ctx containerName cmd err =
     (let cmdStr = cmd_str cmd in
      r @ [entry LevelError (Some err)
             ''Exec lifecycle hook (%s) for Container \"%s\" failed - error: %v''
             [AStr cmdStr, AStr containerName, AErr err]])"

definition Log_FailedPreStopHook ::
  "LogEventRecorder \<Rightarrow> go_context \<Rightarrow> string \<Rightarrow> string list \<Rightarrow> goerr \<Rightarrow> LogEventRecorder" where
  "Log_FailedPreStopHook r ctx containerName cmd err =
     (let cmdStr = cmd_str cmd in
      r @ [entry LevelError (Some err)
             ''Exec lifecycle hook (%s) for Container \"%s\" failed - error: %v''
             [AStr cmdStr, AStr containerName, AErr err]])"

definition Log_FailedToResolveImagePullSecrets ::
  "LogEventRecorder \<Rightarrow> go_context \<Rightarrow> goerr \<Rightarrow> LogEventRecorder" where
  "Log_FailedToResolveImagePullSecrets r ctx err =
     r @ [entry LevelWarn (Some err) ''Failed to resolve image pull secrets'' []]"

definition log_recorder :: "LogEventRecorder EventRecorder" where
  "log_recorder =
     \<lparr>er_PullingImage = Log_PullingImage, er_PulledImage = Log_PulledImage,
      er_FailedToValidateOCI = Log_FailedToValidateOCI, er_FailedToPullImage = Log_FailedToPullImage,
      er_BackOffPullImage = Log_BackOffPullImage, er_CreatedContainer = Log_CreatedContainer,
      er_StartedContainer = Log_StartedContainer,
      er_FailedToCreateContainer = Log_FailedToCreateContainer,
      er_FailedToStartContainer = Log_FailedToStartContainer,
      er_FailedPostStartHook = Log_FailedPostStartHook,
      er_FailedPreStopHook = Log_FailedPreStopHook,
      er_FailedToResolveImagePullSecrets = Log_FailedToResolveImagePullSecrets\<rparr>"

section \<open>What an event says\<close>

text \<open>The container a call is about, the empty string for calls about the pod.\<close>

fun call_container :: "recorder_call \<Rightarrow> string" where
  "call_container (CPullingImage img c) = c"
| "call_container (CPulledImage img c d) = c"
| "call_container (CFailedToPullImage img c e) = c"
| "call_container (CBackOffPullImage img c e) = c"
| "call_container (CCreatedContainer c) = c"
| "call_container (CStartedContainer c) = c"
| "call_container (CFailedToCreateContainer c e) = c"
| "call_container (CFailedToStartContainer c e) = c"
| "call_container (CFailedPostStartHook c cmd e) = c"
| "call_container (CFailedPreStopHook c cmd e) = c"
| "call_container _ = []"

text \<open>The error a call reports; content that does not validate is one without an error value.\<close>

fun call_error :: "recorder_call \<Rightarrow> goerr option" where
  "call_error (CFailedToPullImage img c e) = Some e"
| "call_error (CBackOffPullImage img c e) = Some e"
| "call_error (CFailedToCreateContainer c e) = Some e"
| "call_error (CFailedToStartContainer c e) = Some e"
| "call_error (CFailedPostStartHook c cmd e) = Some e"
| "call_error (CFailedPreStopHook c cmd e) = Some e"
| "call_error (CFailedToResolveImagePullSecrets e) = Some e"
| "call_error _ = None"

fun is_validation :: "recorder_call \<Rightarrow> bool" where
  "is_validation (CFailedToValidateOCI content) = True"
| "is_validation _ = False"

text \<open>
  What \<^verbatim>\<open>fmt.Sprintf\<close> does with a format: a verb \<^verbatim>\<open>%s\<close> or \<^verbatim>\<open>%v\<close> takes the next argument. The
  format is well formed when no verb is without argument and no argument without verb.
\<close>

fun fmt_ok :: "string \<Rightarrow> fmt_arg list \<Rightarrow> bool" where
  "fmt_ok [] as = (as = [])"
| "fmt_ok (c # cs) as =
     (if c = CHR ''%''
      then (case cs of
              [] \<Rightarrow> False
            | v # cs' \<Rightarrow>
                (case as of
                   [] \<Rightarrow> False
                 | a # as' \<Rightarrow>
                     (v = CHR ''s'' \<and> (\<exists>t. a = AStr t) \<or> v = CHR ''v'' \<and> (\<exists>e. a = AErr e)) \<and>
                     fmt_ok cs' as'))
      else fmt_ok cs as)"

lemmas kube_methods =
  Kube_PullingImage_def Kube_PulledImage_def Kube_FailedToValidateOCI_def Kube_FailedToPullImage_def
  Kube_BackOffPullImage_def Kube_CreatedContainer_def Kube_StartedContainer_def
  Kube_FailedToCreateContainer_def Kube_FailedToStartContainer_def Kube_FailedPostStartHook_def
  Kube_FailedPreStopHook_def Kube_FailedToResolveImagePullSecrets_def

lemmas log_methods =
  Log_PullingImage_def Log_PulledImage_def Log_FailedToValidateOCI_def Log_FailedToPullImage_def
  Log_BackOffPullImage_def Log_CreatedContainer_def Log_StartedContainer_def
  Log_FailedToCreateContainer_def Log_FailedToStartContainer_def Log_FailedPostStartHook_def
  Log_FailedPreStopHook_def Log_FailedToResolveImagePullSecrets_def entry_def

lemma recordEvent_sent:
  "ker_eventRecorder (recordEvent r ctx c t rs f as) =
     ker_eventRecorder r @
       (case GetObjectRef ctx of
          None \<Rightarrow> []
        | Some ref \<Rightarrow>
            [\<lparr>ev_object = (if c \<noteq> [] then ref\<lparr>or_FieldPath := ''spec.containers{'' @ c @ ''}''\<rparr> else ref),
              ev_type = t, ev_reason = rs, ev_messageFmt = f, ev_args = as\<rparr>])"
  by (simp add: recordEvent_def split: option.split)

interpretation kube: recorder_contract kube_recorder ker_eventRecorder
proof
  show "\<exists>ms. ker_eventRecorder (invoke kube_recorder r ctx c) = ker_eventRecorder r @ ms \<and> length ms \<le> 1"
    for r ctx c
    by (cases c; cases "GetObjectRef ctx"; simp add: kube_recorder_def kube_methods recordEvent_sent)
qed

interpretation logger: recorder_contract log_recorder "\<lambda>r. r"
proof
  show "\<exists>ms. invoke log_recorder r ctx c = r @ ms \<and> length ms \<le> 1" for r ctx c
    by (cases c) (simp_all add: log_recorder_def log_methods)
qed

lemma GetObjectRef_WithObjectRef [simp]: "GetObjectRef (WithObjectRef ctx ref) = Some ref"
  by (simp add: GetObjectRef_def WithObjectRef_def)

text \<open>
  Property C23. Under a context that names an object, every method of the Kubernetes recorder
  sends exactly one event about that object: its field path points to the container when the
  call names one and is the object's own otherwise, its type is a warning exactly for the
  failures, its message has one argument of the right kind for every verb, and an error that
  was passed in is the last argument.
\<close>

theorem kube_event_sent:
  "\<exists>ev. ker_eventRecorder (invoke kube_recorder r (WithObjectRef ctx ref) c) = ker_eventRecorder r @ [ev] \<and>
     ev_object ev = (if call_container c = [] then ref
        else ref\<lparr>or_FieldPath := ''spec.containers{'' @ call_container c @ ''}''\<rparr>) \<and>
     (ev_type ev = EventTypeNormal) = (call_error c = None \<and> \<not> is_validation c) \<and>
     fmt_ok (ev_messageFmt ev) (ev_args ev) \<and>
     (case call_error c of None \<Rightarrow> True | Some e \<Rightarrow> last (ev_args ev) = AErr e)"
  by (cases c) (simp_all add: kube_recorder_def kube_methods recordEvent_sent eventReasonFailedImagePullSecrets_def)

text \<open>
  The two recorders agree: for every call the log entry carries the same error,
  is above the information level exactly when the event is a warning, and both messages are
  well formed; and without an object in the context nothing is sent to Kubernetes.
\<close>

theorem recorders_agree:
  "(GetObjectRef ctx = None \<longrightarrow> invoke kube_recorder r ctx c = r) \<and>
   (\<exists>ev en. ker_eventRecorder (invoke kube_recorder r (WithObjectRef ctx ref) c) = ker_eventRecorder r @ [ev] \<and>
      invoke log_recorder l ctx c = l @ [en] \<and>
      (ev_type ev = EventTypeWarning) = (le_level en \<noteq> LevelInfo) \<and>
      le_error en = call_error c \<and> fmt_ok (le_fmt en) (le_args en) \<and>
      take (length (le_args en)) (ev_args ev) = le_args en)"
  by (cases c) (simp_all add: kube_recorder_def log_recorder_def kube_methods log_methods recordEvent_sent
      recordEvent_def)

theorem recorders_agree_witness:
  "invoke kube_recorder \<lparr>ker_eventRecorder = []\<rparr> [] (CCreatedContainer ''main'') = \<lparr>ker_eventRecorder = []\<rparr>"
  using recorders_agree [of "[]" "\<lparr>ker_eventRecorder = []\<rparr>" "CCreatedContainer ''main''"
      "\<lparr>or_Namespace = [], or_Name = [], or_UID = [], or_FieldPath = []\<rparr>" "[]"]
  by (simp add: GetObjectRef_def)

end
