(* ===== verification/Sync_Map.thy ===== *)
theory Sync_Map
  imports Prelude
begin

text \<open>
  \<^verbatim>\<open>sync.Map\<close>, the concurrent map behind every store of the program. Each method is one
  atomic step, so a call is a function from the map to the map; what a goroutine does
  between two calls is not atomic, which the theories on concurrency make explicit.
  The interface is the locale \<open>concurrent_map\<close>: the stores rely on its laws only.
\<close>

section \<open>The methods of sync.Map\<close>

type_synonym ('k, 'v) sync_map = "'k \<rightharpoonup> 'v"

definition sm_Load :: "('k, 'v) sync_map \<Rightarrow> 'k \<Rightarrow> 'v option" where
  "sm_Load m k = m k"

definition sm_Store :: "('k, 'v) sync_map \<Rightarrow> 'k \<Rightarrow> 'v \<Rightarrow> ('k, 'v) sync_map" where
  "sm_Store m k v = m(k \<mapsto> v)"

definition sm_LoadOrStore ::
  "('k, 'v) sync_map \<Rightarrow> 'k \<Rightarrow> 'v \<Rightarrow> ('k, 'v) sync_map \<times> 'v \<times> bool" where
  "sm_LoadOrStore m k v =
     (case m k of Some w \<Rightarrow> (m, w, True) | None \<Rightarrow> (m(k \<mapsto> v), v, False))"

definition sm_LoadAndDelete :: "('k, 'v) sync_map \<Rightarrow> 'k \<Rightarrow> ('k, 'v) sync_map \<times> 'v option" where
  "sm_LoadAndDelete m k = (m(k := None), m k)"

definition sm_Delete :: "('k, 'v) sync_map \<Rightarrow> 'k \<Rightarrow> ('k, 'v) sync_map" where
  "sm_Delete m k = m(k := None)"

section \<open>The interface\<close>

locale concurrent_map =
  fixes load :: "'m \<Rightarrow> 'k \<Rightarrow> 'v option"
    and store :: "'m \<Rightarrow> 'k \<Rightarrow> 'v \<Rightarrow> 'm"
    and load_or_store :: "'m \<Rightarrow> 'k \<Rightarrow> 'v \<Rightarrow> 'm \<times> 'v \<times> bool"
    and load_and_delete :: "'m \<Rightarrow> 'k \<Rightarrow> 'm \<times> 'v option"
    and remove :: "'m \<Rightarrow> 'k \<Rightarrow> 'm"
  assumes load_store: "load (store m k v) k' = (if k' = k then Some v else load m k')"
    and load_remove: "load (remove m k) k' = (if k' = k then None else load m k')"
    and load_or_store_hit: "load m k = Some w \<Longrightarrow> load_or_store m k v = (m, w, True)"
    and load_or_store_miss: "load m k = None \<Longrightarrow> load_or_store m k v = (store m k v, v, False)"
    and load_and_delete_eq: "load_and_delete m k = (remove m k, load m k)"
begin

text \<open>The keys a client sees, and how each call changes them.\<close>

definition keys :: "'m \<Rightarrow> 'k set" where
  "keys m = {k. load m k \<noteq> None}"

lemma keys_iff: "k \<in> keys m \<longleftrightarrow> (\<exists>v. load m k = Some v)"
  by (simp add: keys_def)

lemma keys_store: "keys (store m k v) = insert k (keys m)"
  by (auto simp: keys_def load_store)

lemma keys_remove: "keys (remove m k) = keys m - {k}"
  by (auto simp: keys_def load_remove)

text \<open>\<open>load_or_store\<close> returns what a later \<open>load\<close> returns, and a hit never overwrites.\<close>

lemma load_or_store_load:
  "load_or_store m k v = (m', w, hit) \<Longrightarrow> load m' k = Some w"
  by (cases "load m k") (auto simp: load_or_store_hit load_or_store_miss load_store)

lemma load_or_store_other:
  "load_or_store m k v = (m', w, hit) \<Longrightarrow> k' \<noteq> k \<Longrightarrow> load m' k' = load m k'"
  by (cases "load m k") (auto simp: load_or_store_hit load_or_store_miss load_store)

lemma load_or_store_flag:
  "load_or_store m k v = (m', w, hit) \<Longrightarrow> hit \<longleftrightarrow> k \<in> keys m"
  by (cases "load m k") (auto simp: load_or_store_hit load_or_store_miss keys_def)

text \<open>A count of the stored entries that follows the calls' own answers stays exact.\<close>

lemma keys_load_or_store:
  "load_or_store m k v = (m', w, hit) \<Longrightarrow> keys m' = insert k (keys m)"
  by (cases "load m k") (auto simp: load_or_store_hit load_or_store_miss keys_store keys_iff)

lemma count_load_or_store:
  assumes "load_or_store m k v = (m', w, hit)" and "finite (keys m)"
  shows "card (keys m') = (if hit then card (keys m) else Suc (card (keys m)))"
    and "finite (keys m')"
proof -
  note eq = keys_load_or_store [OF assms(1)] load_or_store_flag [OF assms(1)]
  show "card (keys m') = (if hit then card (keys m) else Suc (card (keys m)))"
    using eq assms(2) by (simp add: insert_absorb)
  show "finite (keys m')" using eq assms(2) by simp
qed

lemma count_load_and_delete:
  assumes "load_and_delete m k = (m', old)" and "finite (keys m)"
  shows "card (keys m') = (if old = None then card (keys m) else card (keys m) - 1)"
    and "finite (keys m')"
  using assms by (auto simp: load_and_delete_eq keys_remove keys_iff)

end

section \<open>The interface is implemented\<close>

interpretation gomap: concurrent_map
  "sm_Load :: ('k, 'v) sync_map \<Rightarrow> 'k \<Rightarrow> 'v option" sm_Store sm_LoadOrStore sm_LoadAndDelete sm_Delete
  by unfold_locales
    (auto simp: sm_Load_def sm_Store_def sm_LoadOrStore_def sm_LoadAndDelete_def sm_Delete_def)

lemma gomap_keys_dom: "gomap.keys m = dom m"
  by (auto simp: gomap.keys_def sm_Load_def)

end
