(* ===== verification/Go_OS.thy ===== *)
theory Go_OS
  imports Prelude
begin

text \<open>
  What the program uses of the Go packages \<^verbatim>\<open>os\<close>, \<^verbatim>\<open>os/exec\<close>, \<^verbatim>\<open>context\<close> and
  \<^verbatim>\<open>time\<close>. Whether a system call fails is the machine's choice, so it is an argument
  \<open>os_fails\<close> of the operations that make calls; every theorem holds for all such choices.
  The calls that succeed, and the closing and cancelling that follow them, are recorded in
  a trace of effects, oldest first.
\<close>

section \<open>Commands\<close>

text \<open>
  \<^verbatim>\<open>exec.Cmd\<close>: \<open>cmd_Args\<close> holds the command name first, \<open>cmd_Credential\<close> is the user
  and group of \<^verbatim>\<open>SysProcAttr.Credential\<close>, the output streams are the files behind them.
  Looking the name up in the search path is part of \<^verbatim>\<open>Start\<close>, which fails if that fails.
\<close>

record Cmd =
  cmd_Args :: "string list"
  cmd_Env :: "string list"
  cmd_Credential :: "(32 word \<times> 32 word) option"
  cmd_Stdout :: "string option"
  cmd_Stderr :: "string option"

definition exec_CommandContext :: "string \<Rightarrow> string list \<Rightarrow> Cmd" where
  "exec_CommandContext name args =
     \<lparr>cmd_Args = name # args, cmd_Env = [], cmd_Credential = None,
      cmd_Stdout = None, cmd_Stderr = None\<rparr>"

text \<open>
  \<^verbatim>\<open>(*exec.ExitError).ExitCode()\<close>: the exit status, or -1 if the process was ended by a
  signal.
\<close>

fun ExitCode :: "exit_status \<Rightarrow> int" where
  "ExitCode (Exited n) = int n"
| "ExitCode (Signaled s) = -1"

section \<open>System calls and their effects\<close>

datatype os_call =
    CallMkdirAll string nat
  | CallChown string int int
  | CallCreate string
  | CallOpen string
  | CallStart Cmd

datatype os_effect =
    EWithCancel string string
  | ECancel string string
  | EMkdirAll string nat
  | EChown string int int
  | ECreate string
  | EClose string
  | EStart Cmd int
  | ESigterm int

record os_env =
  os_fails :: "os_call \<Rightarrow> goerr option"
  os_pid :: "Cmd \<Rightarrow> int"
  os_Environ :: "string list"
  os_Now :: go_time

section \<open>Open files and contexts of a trace\<close>

fun opens_by :: "string \<Rightarrow> os_effect \<Rightarrow> int" where
  "opens_by f (ECreate g) = (if g = f then 1 else 0)"
| "opens_by f (EClose g) = (if g = f then - 1 else 0)"
| "opens_by f _ = 0"

text \<open>How many handles of the file a trace leaves open.\<close>

definition open_handles :: "string \<Rightarrow> os_effect list \<Rightarrow> int" where
  "open_handles f ts = sum_list (map (opens_by f) ts)"

fun contexts_by :: "os_effect \<Rightarrow> int" where
  "contexts_by (EWithCancel a b) = 1"
| "contexts_by (ECancel a b) = - 1"
| "contexts_by _ = 0"

definition live_contexts :: "os_effect list \<Rightarrow> int" where
  "live_contexts ts = sum_list (map contexts_by ts)"

lemma open_handles_simps [simp]:
  "open_handles f [] = 0"
  "open_handles f (t # ts) = opens_by f t + open_handles f ts"
  "open_handles f (ts @ us) = open_handles f ts + open_handles f us"
  by (simp_all add: open_handles_def)

lemma live_contexts_simps [simp]:
  "live_contexts [] = 0"
  "live_contexts (t # ts) = contexts_by t + live_contexts ts"
  "live_contexts (ts @ us) = live_contexts ts + live_contexts us"
  by (simp_all add: live_contexts_def)

section \<open>Durations\<close>

text \<open>
  \<^verbatim>\<open>time.Duration(n) * time.Second\<close>: an \<^verbatim>\<open>int64\<close> of nanoseconds, so the product wraps.
  A timer of a duration that is not positive fires at once.
\<close>

definition seconds :: "64 word \<Rightarrow> 64 word" where
  "seconds n = n * 1000000000"

definition fires_at_once :: "64 word \<Rightarrow> bool" where
  "fires_at_once d \<longleftrightarrow> sint d \<le> 0"

end
