(* ===== verification/Runner_Credential.thy ===== *)
theory Runner_Credential
  imports Go_OS
begin

text \<open>
  \<^verbatim>\<open>pkg/client/user_lookup_darwin.go\<close>: the user and group id the job processes run as,
  resolved once when the client is constructed.
\<close>

section \<open>Definitions\<close>

record resolvedCredential =
  cred_uid :: "32 word"
  cred_gid :: "32 word"

definition is_digit :: "char \<Rightarrow> bool" where
  "is_digit c \<longleftrightarrow> 48 \<le> (of_char c :: nat) \<and> (of_char c :: nat) \<le> 57"

definition digit_value :: "char \<Rightarrow> nat" where
  "digit_value c = of_char c - 48"

text \<open>
  \<^verbatim>\<open>strconv.ParseUint(s, 10, 32)\<close>: digits only, at least one, and no value above
  \<open>2 ^ 32 - 1\<close>; the first digit that passes the bound ends the loop.
\<close>

fun parse_digits :: "nat \<Rightarrow> string \<Rightarrow> nat result" where
  "parse_digits n [] = Inr n"
| "parse_digits n (c # cs) =
     (if \<not> is_digit c then Inl (OSError ''invalid syntax'')
      else let n1 = 10 * n + digit_value c
           in if 2 ^ 32 - 1 < n1 then Inl (OSError ''value out of range'')
              else parse_digits n1 cs)"

definition ParseUint32 :: "string \<Rightarrow> nat result" where
  "ParseUint32 s = (if s = [] then Inl (OSError ''invalid syntax'') else parse_digits 0 s)"

text \<open>
  \<open>lookup\<close> is \<^verbatim>\<open>user.Lookup\<close>, the directory service's answer for a name: the decimal
  user and group ids.
\<close>

definition lookupRunnerCredential ::
  "(string \<Rightarrow> (string \<times> string) result) \<Rightarrow> string \<Rightarrow> resolvedCredential option result" where
  "lookupRunnerCredential lookup username =
     (if username = [] then Inr None
      else case lookup username of
        Inl err \<Rightarrow> Inl (Wrapf ''runner user %q not found: %w'' [username] err)
      | Inr (u_Uid, u_Gid) \<Rightarrow>
          (case ParseUint32 u_Uid of
             Inl err \<Rightarrow> Inl (Wrapf ''invalid UID %q for user %q: %w'' [u_Uid, username] err)
           | Inr uid \<Rightarrow>
               (case ParseUint32 u_Gid of
                  Inl err \<Rightarrow> Inl (Wrapf ''invalid GID %q for user %q: %w'' [u_Gid, username] err)
                | Inr gid \<Rightarrow>
                    Inr (Some \<lparr>cred_uid = word_of_nat uid, cred_gid = word_of_nat gid\<rparr>))))"

definition applyCredential :: "Cmd \<Rightarrow> resolvedCredential option \<Rightarrow> Cmd" where
  "applyCredential cmd cred =
     (case cred of
        None \<Rightarrow> cmd
      | Some cr \<Rightarrow> cmd\<lparr>cmd_Credential := Some (cred_uid cr, cred_gid cr)\<rparr>)"

text \<open>The effects of a successful change of owner, or the error of the call.\<close>

definition chownLogDir ::
  "os_env \<Rightarrow> string \<Rightarrow> resolvedCredential option \<Rightarrow> os_effect list result" where
  "chownLogDir env path cred =
     (case cred of
        None \<Rightarrow> Inr []
      | Some cr \<Rightarrow>
          (let u = uint (cred_uid cr); g = uint (cred_gid cr) in
           case os_fails env (CallChown path u g) of
             Some err \<Rightarrow> Inl err
           | None \<Rightarrow> Inr [EChown path u g]))"

section \<open>Parsing\<close>

text \<open>The number a string of digits denotes, and the canonical digits of a number.\<close>

definition digits_value :: "nat \<Rightarrow> string \<Rightarrow> nat" where
  "digits_value n s = foldl (\<lambda>acc c. 10 * acc + digit_value c) n s"

function decimal :: "nat \<Rightarrow> string" where
  "decimal n =
     (if n < 10 then [char_of (48 + n)] else decimal (n div 10) @ [char_of (48 + n mod 10)])"
  by pat_completeness auto
termination
  by (relation "measure id") auto

declare decimal.simps [simp del]

lemma digits_value_simps [simp]:
  "digits_value n [] = n"
  "digits_value n (c # cs) = digits_value (10 * n + digit_value c) cs"
  "digits_value n (s @ t) = digits_value (digits_value n s) t"
  by (simp_all add: digits_value_def)

lemma digits_value_mono: "n \<le> digits_value n s"
proof (induction s arbitrary: n)
  case (Cons c cs)
  have "n \<le> 10 * n + digit_value c" by simp
  also have "\<dots> \<le> digits_value (10 * n + digit_value c) cs" by (rule Cons.IH)
  finally show ?case by simp
qed simp

text \<open>\<open>parse_digits\<close> succeeds exactly on digit strings whose value fits 32 bits.\<close>

lemma parse_digits_iff:
  assumes "n < 2 ^ 32"
  shows "parse_digits n s = Inr v \<longleftrightarrow>
    list_all is_digit s \<and> v = digits_value n s \<and> v < 2 ^ 32"
  using assms
proof (induction s arbitrary: n)
  case (Cons c cs)
  let ?m = "10 * n + digit_value c"
  show ?case
  proof (cases "is_digit c \<and> ?m < 2 ^ 32")
    case True
    then show ?thesis using Cons.IH [of ?m] by (auto simp: Let_def)
  next
    case False
    have "\<not> digits_value ?m cs < 2 ^ 32" if "\<not> ?m < 2 ^ 32"
      using that digits_value_mono [of ?m cs] by linarith
    with False show ?thesis by (auto simp: Let_def)
  qed
qed auto

lemma ParseUint32_iff:
  "ParseUint32 s = Inr v \<longleftrightarrow>
   s \<noteq> [] \<and> list_all is_digit s \<and> v = digits_value 0 s \<and> v < 2 ^ 32"
  by (simp add: ParseUint32_def parse_digits_iff)

lemma of_char_digit: "d < 10 \<Longrightarrow> (of_char (char_of (48 + d) :: char) :: nat) = 48 + d"
  by (simp add: of_char_of)

lemma decimal_digit [simp]:
  "d < 10 \<Longrightarrow> is_digit (char_of (48 + d))"
  "d < 10 \<Longrightarrow> digit_value (char_of (48 + d)) = d"
  by (simp_all add: is_digit_def digit_value_def of_char_digit)

lemma decimal_not_Nil [simp]: "decimal n \<noteq> []"
  by (subst decimal.simps) simp

lemma decimal_value: "list_all is_digit (decimal n) \<and> digits_value 0 (decimal n) = n"
proof (induction n rule: decimal.induct)
  case (1 n)
  then show ?case
    by (cases "n < 10") (simp_all add: decimal.simps [of n])
qed

section \<open>Properties\<close>

text \<open>
  Property C12. A credential is resolved exactly when a user name is configured, the
  directory knows it, and both of its ids are non-empty strings of digits whose value is
  below \<open>2 ^ 32\<close>; the ids kept are those values, so the conversion to \<^verbatim>\<open>uint32\<close>
  never truncates.
\<close>

theorem lookupRunnerCredential_iff:
  "lookupRunnerCredential lookup username = Inr (Some cr) \<longleftrightarrow>
     username \<noteq> [] \<and>
     (\<exists>u g. lookup username = Inr (u, g) \<and>
        u \<noteq> [] \<and> list_all is_digit u \<and> unat (cred_uid cr) = digits_value 0 u \<and> digits_value 0 u < 2 ^ 32 \<and>
        g \<noteq> [] \<and> list_all is_digit g \<and> unat (cred_gid cr) = digits_value 0 g \<and> digits_value 0 g < 2 ^ 32)"
  (is "?L \<longleftrightarrow> ?R")
proof -
  have w: "c = word_of_nat n" if "unat c = n" for c :: "32 word" and n
    using that by auto
  have "?L \<longleftrightarrow> username \<noteq> [] \<and>
     (\<exists>u g m n. lookup username = Inr (u, g) \<and> ParseUint32 u = Inr m \<and> ParseUint32 g = Inr n \<and>
        cr = \<lparr>cred_uid = word_of_nat m, cred_gid = word_of_nat n\<rparr>)"
    by (auto simp: lookupRunnerCredential_def split: sum.splits)
  also have "\<dots> \<longleftrightarrow> ?R"
    unfolding ParseUint32_iff by (cases cr) (auto simp: unat_of_nat take_bit_nat_eq_self intro: w)
  finally show ?thesis .
qed

text \<open>
  Round trip: for a user whose ids the directory prints in decimal, the
  resolved credential is that pair of ids, over the whole range of \<^verbatim>\<open>uint32\<close>.
\<close>

theorem lookupRunnerCredential_roundtrip:
  "lookupRunnerCredential (\<lambda>_. Inr (decimal (unat u), decimal (unat g))) (x # xs) =
     Inr (Some \<lparr>cred_uid = u, cred_gid = g\<rparr>)"
proof -
  have "ParseUint32 (decimal (unat w)) = Inr (unat w)" for w :: "32 word"
    using unsigned_less [where 'b = 32 and 'a = nat, of w] by (simp add: ParseUint32_iff decimal_value)
  then show ?thesis by (simp add: lookupRunnerCredential_def)
qed

end
