(* ===== verification/Process_Client.thy ===== *)
theory Process_Client
  imports Runtime_Client Go_Strings Sync_Map Runner_Credential
begin

text \<open>
  \<^verbatim>\<open>pkg/client/process.go\<close>: the client that runs a pod as a host process. The map of the client holds pointers to \<^verbatim>\<open>processState\<close> objects;
  between two calls only the goroutine waiting for the process holds such a pointer as
  well, so this theory stores the object under its key and writes a field by storing the
  changed object. \<open>Process_Concurrency\<close> keeps the pointers and interleaves the calls.
\<close>

section \<open>Data\<close>

text \<open>
  \<open>st_cancelled\<close> says whether the \<^verbatim>\<open>cancel\<close> function has been called, \<open>st_waitDone\<close>
  whether the channel is closed.
\<close>

record processState =
  st_cmd :: Cmd
  st_cancelled :: bool
  st_exitError :: "goerr option"
  st_waitDone :: bool
  st_pid :: int
  st_startedAt :: go_time
  st_podProcess :: PodProcess

text \<open>\<open>pc_trace\<close> collects the effects on the machine, oldest first.\<close>

record ProcessClient =
  pc_processes :: "(NamespacedName, processState) sync_map"
  pc_logsDir :: string
  pc_credential :: "resolvedCredential option"
  pc_trace :: "os_effect list"

text \<open>The file mode 0755.\<close>

definition mode_0755 :: nat where
  "mode_0755 = 493"

definition emit :: "ProcessClient \<Rightarrow> os_effect list \<Rightarrow> ProcessClient" where
  "emit c ts = c\<lparr>pc_trace := pc_trace c @ ts\<rparr>"

definition put_state :: "ProcessClient \<Rightarrow> NamespacedName \<Rightarrow> processState \<Rightarrow> ProcessClient" where
  "put_state c k st = c\<lparr>pc_processes := sm_Store (pc_processes c) k st\<rparr>"

section \<open>Construction\<close>

definition NewProcessClient ::
  "(string \<Rightarrow> (string \<times> string) result) \<Rightarrow> ProcessClientConfig \<Rightarrow> ProcessClient result" where
  "NewProcessClient lookup cfg =
     andThen (lookupRunnerCredential lookup (cfg_RunnerUser cfg)) (\<lambda>cred.
       Inr \<lparr>pc_processes = Map.empty, pc_logsDir = cfg_LogsDir cfg, pc_credential = cred,
            pc_trace = []\<rparr>)"

section \<open>CreatePod\<close>

definition pod_log_dir :: "ProcessClient \<Rightarrow> Pod \<Rightarrow> Container \<Rightarrow> string" where
  "pod_log_dir c pod ctr =
     filepath_Join [pc_logsDir c, pod_Namespace pod, pod_Name pod, ctr_Name ctr]"

text \<open>The command of lines 70 to 91, before its output streams are set.\<close>

definition pod_command :: "os_env \<Rightarrow> ProcessClient \<Rightarrow> Container \<Rightarrow> string \<Rightarrow> string list \<Rightarrow> Cmd" where
  "pod_command env c ctr command args =
     (applyCredential (exec_CommandContext command args) (pc_credential c))
       \<lparr>cmd_Env := os_Environ env @ map (\<lambda>e. env_Name e @ ''='' @ env_Value e) (ctr_Env ctr)\<rparr>"

text \<open>
  The object built once the process has started. \<^verbatim>\<open>ExitCode\<close> and \<^verbatim>\<open>ExitError\<close> are not
  set there, so they have the zero values.
\<close>

definition started_state ::
  "os_env \<Rightarrow> Pod \<Rightarrow> Cmd \<Rightarrow> string list \<Rightarrow> processState" where
  "started_state env pod cmd cmdParts =
     \<lparr>st_cmd = cmd, st_cancelled = False, st_exitError = None, st_waitDone = False,
      st_pid = os_pid env cmd, st_startedAt = os_Now env,
      st_podProcess =
        \<lparr>pp_Namespace = pod_Namespace pod, pp_Name = pod_Name pod, pp_Pid = os_pid env cmd,
         pp_Command = cmdParts, pp_StartedAt = os_Now env, pp_Pod = Some pod,
         pp_ExitCode = 0, pp_ExitError = None\<rparr>\<rparr>"

text \<open>
  The service account token, the config maps and the registry credentials are arguments
  the method never reads.
\<close>

definition ProcessClient_CreatePod ::
  "os_env \<Rightarrow> ProcessClient \<Rightarrow> Pod \<Rightarrow> string \<Rightarrow> (string \<rightharpoonup> ConfigMap) \<Rightarrow> RegistryCredentialStore
     \<Rightarrow> ProcessClient \<times> goerr option" where
  "ProcessClient_CreatePod env c pod serviceAccountToken configMaps creds =
     (case spec_Containers (pod_Spec pod) of
        [] \<Rightarrow> (c, Some (Errorf ''no containers in pod spec'' []))
      | container # _ \<Rightarrow>
          (let key = pod_key pod in
           if sm_Load (pc_processes c) key \<noteq> None
           then (c, Some (Errorf ''pod process already exists'' []))
           else
             (case ctr_Command container @ ctr_Args container of
                [] \<Rightarrow> (c, Some (Errorf ''no command specified for container %s'' [ctr_Name container]))
              | command # args \<Rightarrow>
                  let cancel = ECancel (pod_Namespace pod) (pod_Name pod);
                      cmd = pod_command env c container command args;
                      podLogDir = pod_log_dir c pod container;
                      stdoutFile = filepath_Join [podLogDir, ''stdout.log''];
                      stderrFile = filepath_Join [podLogDir, ''stderr.log''];
                      c = emit c [EWithCancel (pod_Namespace pod) (pod_Name pod)]
                  in case os_fails env (CallMkdirAll podLogDir mode_0755) of
                    Some err \<Rightarrow> (emit c [cancel], Some (Wrapf ''failed to create log dir: %w'' [] err))
                  | None \<Rightarrow>
                  let c = emit c [EMkdirAll podLogDir mode_0755]
                  in case chownLogDir env podLogDir (pc_credential c) of
                    Inl err \<Rightarrow> (emit c [cancel], Some (Wrapf ''failed to chown log dir: %w'' [] err))
                  | Inr chowned \<Rightarrow>
                  let c = emit c chowned
                  in case os_fails env (CallCreate stdoutFile) of
                    Some err \<Rightarrow> (emit c [cancel], Some err)
                  | None \<Rightarrow>
                  let c = emit c [ECreate stdoutFile]
                  in case os_fails env (CallCreate stderrFile) of
                    Some err \<Rightarrow> (emit c [EClose stdoutFile, cancel], Some err)
                  | None \<Rightarrow>
                  let c = emit c [ECreate stderrFile];
                      cmd = cmd\<lparr>cmd_Stdout := Some stdoutFile, cmd_Stderr := Some stderrFile\<rparr>
                  in case os_fails env (CallStart cmd) of
                    Some err \<Rightarrow> (emit c [cancel, EClose stdoutFile, EClose stderrFile], Some err)
                  | None \<Rightarrow>
                  let c = emit c [EStart cmd (os_pid env cmd)];
                      state = started_state env pod cmd (command # args)
                  in (put_state c key state, None))))"

section \<open>The goroutine that waits for the process\<close>

text \<open>
  Lines 142 to 154: once \<^verbatim>\<open>cmd.Wait\<close> returns, its error is kept, both log files are
  closed and the channel is closed.
\<close>

definition log_closes :: "Cmd \<Rightarrow> os_effect list" where
  "log_closes cmd =
     (case cmd_Stdout cmd of None \<Rightarrow> [] | Some f \<Rightarrow> [EClose f]) @
     (case cmd_Stderr cmd of None \<Rightarrow> [] | Some f \<Rightarrow> [EClose f])"

definition waited :: "processState \<Rightarrow> goerr option \<Rightarrow> processState" where
  "waited st err = st\<lparr>st_exitError := err, st_waitDone := True\<rparr>"

definition wait_process ::
  "ProcessClient \<Rightarrow> NamespacedName \<Rightarrow> goerr option \<Rightarrow> ProcessClient" where
  "wait_process c key err =
     (case sm_Load (pc_processes c) key of
        None \<Rightarrow> c
      | Some st \<Rightarrow>
          if st_waitDone st then c
          else put_state (emit c (log_closes (st_cmd st))) key (waited st err))"

section \<open>DeletePod\<close>

text \<open>
  How the process answers the signal: what \<^verbatim>\<open>Wait\<close> returns if it ends before the timer
  of the given duration fires, what it returns after the kill, and which branch the
  \<^verbatim>\<open>select\<close> takes when the channel is closed and the timer has fired as well.
\<close>

record term_env =
  te_exits :: "int \<Rightarrow> 64 word \<Rightarrow> goerr option option"
  te_killed :: "int \<Rightarrow> goerr option"
  te_timer_first :: bool

definition cancel_state :: "processState \<Rightarrow> processState" where
  "cancel_state st = st\<lparr>st_cancelled := True\<rparr>"

text \<open>
  \<^verbatim>\<open>Process.Signal\<close> sends nothing once \<^verbatim>\<open>Wait\<close> has returned: it then reports that the process has
  finished, which the code ignores.
\<close>

definition ProcessClient_DeletePod ::
  "term_env \<Rightarrow> ProcessClient \<Rightarrow> string \<Rightarrow> string \<Rightarrow> 64 word \<Rightarrow> ProcessClient \<times> goerr option" where
  "ProcessClient_DeletePod env c namespace name gracePeriod =
     (let key = namespaced namespace name in
      case sm_Load (pc_processes c) key of
        None \<Rightarrow> (c, Some (ErrNotFound ''pod process not found''))
      | Some state \<Rightarrow>
          let c = emit c (if st_waitDone state then [] else [ESigterm (st_pid state)]);
              kill = (\<lambda>c. put_state (emit c [ECancel namespace name]) key (cancel_state state));
              c = (if st_waitDone state
                   then (if te_timer_first env \<and> fires_at_once (seconds gracePeriod) then kill c else c)
                   else case te_exits env (st_pid state) (seconds gracePeriod) of
                     Some err \<Rightarrow> wait_process c key err
                   | None \<Rightarrow> wait_process (kill c) key (te_killed env (st_pid state)))
          in (c\<lparr>pc_processes := sm_Delete (pc_processes c) key\<rparr>, None))"

section \<open>Queries\<close>

text \<open>The exit code and error of lines 204 to 221.\<close>

definition exit_report :: "processState \<Rightarrow> int \<times> goerr option" where
  "exit_report st =
     (if st_waitDone st
      then (case st_exitError st of
              None \<Rightarrow> (0, None)
            | Some e \<Rightarrow> ((case e of ExitError x \<Rightarrow> ExitCode x | _ \<Rightarrow> 1), Some e))
      else (-1, None))"

definition refreshed :: "processState \<Rightarrow> PodProcess" where
  "refreshed st =
     (st_podProcess st)\<lparr>pp_ExitCode := fst (exit_report st), pp_ExitError := snd (exit_report st)\<rparr>"

definition ProcessClient_GetPod ::
  "ProcessClient \<Rightarrow> string \<Rightarrow> string \<Rightarrow> ProcessClient \<times> PodProcess result" where
  "ProcessClient_GetPod c namespace name =
     (let key = namespaced namespace name in
      case sm_Load (pc_processes c) key of
        None \<Rightarrow> (c, Inl (ErrNotFound ''pod process not found''))
      | Some state \<Rightarrow>
          (put_state c key (state\<lparr>st_podProcess := refreshed state\<rparr>), Inr (refreshed state)))"

definition ProcessClient_GetPodList :: "ProcessClient \<Rightarrow> (NamespacedName \<rightharpoonup> PodProcess) result" where
  "ProcessClient_GetPodList c = Inr (\<lambda>k. map_option st_podProcess (sm_Load (pc_processes c) k))"

text \<open>The reader returned is the open file, named by its path.\<close>

definition ProcessClient_GetContainerLogs ::
  "os_env \<Rightarrow> ProcessClient \<Rightarrow> string \<Rightarrow> string \<Rightarrow> string \<Rightarrow> string result" where
  "ProcessClient_GetContainerLogs env c namespace podName containerName =
     (let podLogDir = filepath_Join [pc_logsDir c, namespace, podName, containerName];
          path = filepath_Join [podLogDir, ''stdout.log'']
      in case os_fails env (CallOpen path) of Some err \<Rightarrow> Inl err | None \<Rightarrow> Inr path)"

definition ProcessClient_ExecuteContainerCommand ::
  "ProcessClient \<Rightarrow> string \<Rightarrow> string \<Rightarrow> string \<Rightarrow> string list \<Rightarrow> goerr option" where
  "ProcessClient_ExecuteContainerCommand c namespace podName containerName cmd =
     Some (Errorf ''executing in running process not supported yet'' [])"

definition ProcessClient_GetPodStats ::
  "ProcessClient \<Rightarrow> string \<Rightarrow> string \<Rightarrow> ContainerStats list result" where
  "ProcessClient_GetPodStats c namespace name = Inr []"

section \<open>What CreatePod does\<close>

text \<open>
  A trace that leaves no file open, no context alive and no process started.
\<close>

definition balanced :: "os_effect list \<Rightarrow> bool" where
  "balanced ts \<longleftrightarrow>
     (\<forall>f. open_handles f ts = 0) \<and> live_contexts ts = 0 \<and> (\<forall>cmd pid. EStart cmd pid \<notin> set ts)"

definition launched_cmd :: "os_env \<Rightarrow> ProcessClient \<Rightarrow> Pod \<Rightarrow> Container \<Rightarrow> Cmd" where
  "launched_cmd env c pod ctr =
     (let parts = ctr_Command ctr @ ctr_Args ctr; dir = pod_log_dir c pod ctr
      in (pod_command env c ctr (hd parts) (tl parts))
           \<lparr>cmd_Stdout := Some (filepath_Join [dir, ''stdout.log'']),
            cmd_Stderr := Some (filepath_Join [dir, ''stderr.log''])\<rparr>)"

definition launch_trace :: "os_env \<Rightarrow> ProcessClient \<Rightarrow> Pod \<Rightarrow> Container \<Rightarrow> os_effect list" where
  "launch_trace env c pod ctr =
     (let dir = pod_log_dir c pod ctr; cmd = launched_cmd env c pod ctr
      in [EWithCancel (pod_Namespace pod) (pod_Name pod), EMkdirAll dir mode_0755] @
         (case pc_credential c of
            None \<Rightarrow> []
          | Some cr \<Rightarrow> [EChown dir (uint (cred_uid cr)) (uint (cred_gid cr))]) @
         [ECreate (filepath_Join [dir, ''stdout.log'']),
          ECreate (filepath_Join [dir, ''stderr.log'']),
          EStart cmd (os_pid env cmd)])"

definition launched :: "os_env \<Rightarrow> ProcessClient \<Rightarrow> Pod \<Rightarrow> Container \<Rightarrow> ProcessClient" where
  "launched env c pod ctr =
     put_state (emit c (launch_trace env c pod ctr)) (pod_key pod)
       (started_state env pod (launched_cmd env c pod ctr) (ctr_Command ctr @ ctr_Args ctr))"

text \<open>The calls that have to succeed, in the order they are made.\<close>

definition launch_calls :: "os_env \<Rightarrow> ProcessClient \<Rightarrow> Pod \<Rightarrow> Container \<Rightarrow> os_call list" where
  "launch_calls env c pod ctr =
     (let dir = pod_log_dir c pod ctr
      in [CallMkdirAll dir mode_0755] @
         (case pc_credential c of
            None \<Rightarrow> []
          | Some cr \<Rightarrow> [CallChown dir (uint (cred_uid cr)) (uint (cred_gid cr))]) @
         [CallCreate (filepath_Join [dir, ''stdout.log'']),
          CallCreate (filepath_Join [dir, ''stderr.log'']),
          CallStart (launched_cmd env c pod ctr)])"

lemma emit_simps [simp, client_simps]:
  "emit (emit c ts) us = emit c (ts @ us)"
  "pc_processes (emit c ts) = pc_processes c"
  "pc_logsDir (emit c ts) = pc_logsDir c"
  "pc_credential (emit c ts) = pc_credential c"
  "pc_trace (emit c ts) = pc_trace c @ ts"
  "emit c [] = c"
  by (simp_all add: emit_def)

lemma emit_inject [simp]: "emit c ts = emit c us \<longleftrightarrow> ts = us"
  using emit_simps(5) [of c ts] emit_simps(5) [of c us] by (metis append_same_eq same_append_eq)

lemma put_state_simps [simp, client_simps]:
  "pc_processes (put_state c k st) = (pc_processes c)(k \<mapsto> st)"
  "pc_logsDir (put_state c k st) = pc_logsDir c"
  "pc_credential (put_state c k st) = pc_credential c"
  "pc_trace (put_state c k st) = pc_trace c"
  by (simp_all add: put_state_def sm_Store_def)

lemma pod_log_dir_emit [simp]: "pod_log_dir (emit c ts) = pod_log_dir c"
  by (simp add: pod_log_dir_def fun_eq_iff)

text \<open>
  Every run of \<^verbatim>\<open>CreatePod\<close> either returns an error and leaves a balanced trace, or
  launches the first container; the second happens exactly when nothing stands against it.
\<close>

lemma CreatePod_no_container:
  "spec_Containers (pod_Spec pod) = [] \<Longrightarrow>
   ProcessClient_CreatePod env c pod tok cms creds = (c, Some (Errorf ''no containers in pod spec'' []))"
  by (simp add: ProcessClient_CreatePod_def)

lemma CreatePod_exists:
  "spec_Containers (pod_Spec pod) = ctr # rest \<Longrightarrow> pod_key pod \<in> dom (pc_processes c) \<Longrightarrow>
   ProcessClient_CreatePod env c pod tok cms creds = (c, Some (Errorf ''pod process already exists'' []))"
  by (auto simp: ProcessClient_CreatePod_def sm_Load_def)

lemma CreatePod_no_command:
  "spec_Containers (pod_Spec pod) = ctr # rest \<Longrightarrow> pc_processes c (pod_key pod) = None \<Longrightarrow>
   ctr_Command ctr @ ctr_Args ctr = [] \<Longrightarrow>
   ProcessClient_CreatePod env c pod tok cms creds =
     (c, Some (Errorf ''no command specified for container %s'' [ctr_Name ctr]))"
  by (simp add: ProcessClient_CreatePod_def sm_Load_def)

text \<open>The error of the first call that fails, as \<^verbatim>\<open>CreatePod\<close> returns it.\<close>

fun launch_error :: "os_call \<Rightarrow> goerr \<Rightarrow> goerr" where
  "launch_error (CallMkdirAll d m) e = Wrapf ''failed to create log dir: %w'' [] e"
| "launch_error (CallChown d u g) e = Wrapf ''failed to chown log dir: %w'' [] e"
| "launch_error call e = e"

fun first_failure :: "os_env \<Rightarrow> os_call list \<Rightarrow> goerr option" where
  "first_failure env [] = None"
| "first_failure env (call # calls) =
     (case os_fails env call of
        Some e \<Rightarrow> Some (launch_error call e)
      | None \<Rightarrow> first_failure env calls)"

text \<open>The method from its system calls on, without the local names.\<close>

lemma CreatePod_calls:
  assumes "spec_Containers (pod_Spec pod) = ctr # rest" and "pc_processes c (pod_key pod) = None"
    and "ctr_Command ctr @ ctr_Args ctr \<noteq> []"
    and dir: "dir = pod_log_dir c pod ctr"
    and out: "out = filepath_Join [dir, ''stdout.log'']" and err: "err = filepath_Join [dir, ''stderr.log'']"
    and cmd: "cmd = launched_cmd env c pod ctr"
    and ctx: "ctx = EWithCancel (pod_Namespace pod) (pod_Name pod)"
    and cancel: "cancel = ECancel (pod_Namespace pod) (pod_Name pod)"
  shows "ProcessClient_CreatePod env c pod tok cms creds =
    (case os_fails env (CallMkdirAll dir mode_0755) of
       Some e \<Rightarrow> (emit c [ctx, cancel], Some (Wrapf ''failed to create log dir: %w'' [] e))
     | None \<Rightarrow> (case chownLogDir env dir (pc_credential c) of
       Inl e \<Rightarrow> (emit c [ctx, EMkdirAll dir mode_0755, cancel], Some (Wrapf ''failed to chown log dir: %w'' [] e))
     | Inr ch \<Rightarrow> (case os_fails env (CallCreate out) of
       Some e \<Rightarrow> (emit c ([ctx, EMkdirAll dir mode_0755] @ ch @ [cancel]), Some e)
     | None \<Rightarrow> (case os_fails env (CallCreate err) of
       Some e \<Rightarrow> (emit c ([ctx, EMkdirAll dir mode_0755] @ ch @ [ECreate out, EClose out, cancel]), Some e)
     | None \<Rightarrow> (case os_fails env (CallStart cmd) of
       Some e \<Rightarrow> (emit c ([ctx, EMkdirAll dir mode_0755] @ ch @
                   [ECreate out, ECreate err, cancel, EClose out, EClose err]), Some e)
     | None \<Rightarrow> (put_state (emit c ([ctx, EMkdirAll dir mode_0755] @ ch @
                   [ECreate out, ECreate err, EStart cmd (os_pid env cmd)])) (pod_key pod)
                 (started_state env pod cmd (ctr_Command ctr @ ctr_Args ctr)), None))))))"
proof -
  obtain command args where parts: "ctr_Command ctr @ ctr_Args ctr = command # args"
    using assms(3) by (cases "ctr_Command ctr @ ctr_Args ctr") auto
  show ?thesis
    unfolding ProcessClient_CreatePod_def Let_def assms(1) cmd launched_cmd_def err out dir ctx cancel
    by (simp add: parts assms(2) sm_Load_def split: option.split sum.split)
qed

lemma CreatePod_launch_fails:
  assumes pre: "spec_Containers (pod_Spec pod) = ctr # rest" "pc_processes c (pod_key pod) = None"
      "ctr_Command ctr @ ctr_Args ctr \<noteq> []"
    and fail: "first_failure env (launch_calls env c pod ctr) = Some e"
  shows "\<exists>ts. balanced ts \<and> ProcessClient_CreatePod env c pod tok cms creds = (emit c ts, Some e)"
proof -
  define dir out err cmd where names: "dir = pod_log_dir c pod ctr"
    "out = filepath_Join [dir, ''stdout.log'']" "err = filepath_Join [dir, ''stderr.log'']"
    "cmd = launched_cmd env c pod ctr"
  note eq = CreatePod_calls [OF pre names refl refl, of tok cms creds]
  show ?thesis
    using fail unfolding eq launch_calls_def Let_def names [symmetric]
    by (cases "pc_credential c")
      (auto simp: chownLogDir_def Let_def balanced_def split: option.splits)
qed

lemma CreatePod_launch_ok:
  assumes pre: "spec_Containers (pod_Spec pod) = ctr # rest" "pc_processes c (pod_key pod) = None"
      "ctr_Command ctr @ ctr_Args ctr \<noteq> []"
    and ok: "first_failure env (launch_calls env c pod ctr) = None"
  shows "ProcessClient_CreatePod env c pod tok cms creds = (launched env c pod ctr, None)"
proof -
  define dir out err cmd where names: "dir = pod_log_dir c pod ctr"
    "out = filepath_Join [dir, ''stdout.log'']" "err = filepath_Join [dir, ''stderr.log'']"
    "cmd = launched_cmd env c pod ctr"
  note eq = CreatePod_calls [OF pre names refl refl, of tok cms creds]
  show ?thesis
    using ok unfolding eq launch_calls_def launched_def launch_trace_def Let_def names [symmetric]
    by (cases "pc_credential c") (auto simp: chownLogDir_def Let_def split: option.splits)
qed

lemma CreatePod_cases [consumes 1, case_names fail ok]:
  assumes "ProcessClient_CreatePod env c pod tok cms creds = (c', r)"
  obtains (fail) e ts where "r = Some e" "c' = emit c ts" "balanced ts"
  | (ok) ctr rest where "r = None" "c' = launched env c pod ctr"
      "spec_Containers (pod_Spec pod) = ctr # rest" "pc_processes c (pod_key pod) = None"
      "ctr_Command ctr @ ctr_Args ctr \<noteq> []" "first_failure env (launch_calls env c pod ctr) = None"
proof -
  have early: thesis if "ProcessClient_CreatePod env c pod tok cms creds = (c, Some e)" for e
    using that assms fail [of e "[]"] by (simp add: balanced_def)
  show thesis
  proof (cases "spec_Containers (pod_Spec pod)")
    case Nil
    then show thesis by (rule early [OF CreatePod_no_container])
  next
    case ctr: (Cons ctr rest)
    show thesis
    proof (cases "pc_processes c (pod_key pod)")
      case (Some st)
      then show thesis by (intro early [OF CreatePod_exists [OF ctr]]) auto
    next
      case new: None
      show thesis
      proof (cases "ctr_Command ctr @ ctr_Args ctr = []")
        case True
        then show thesis by (rule early [OF CreatePod_no_command [OF ctr new]])
      next
        case parts: False
        show thesis
        proof (cases "first_failure env (launch_calls env c pod ctr)")
          case None
          have "(c', r) = (launched env c pod ctr, None)"
            using assms CreatePod_launch_ok [OF ctr new parts None, of tok cms creds] by simp
          then show thesis using ok [OF _ _ ctr new parts None] by simp
        next
          case (Some e)
          then show thesis
            using assms CreatePod_launch_fails [OF ctr new parts Some, of tok cms creds] fail by auto
        qed
      qed
    qed
  qed
qed

section \<open>The invariant of the client\<close>

text \<open>
  What holds of every entry: it is stored under the name of its pod, the fields copied
  from the process agree, its command writes to two log files, and an entry whose channel
  is open has neither an exit error nor a cancelled context.
\<close>

definition entry_ok :: "NamespacedName \<Rightarrow> processState \<Rightarrow> bool" where
  "entry_ok k st \<longleftrightarrow>
     (let pp = st_podProcess st in
      namespaced (pp_Namespace pp) (pp_Name pp) = k \<and>
      pp_Pid pp = st_pid st \<and> pp_StartedAt pp = st_startedAt st \<and>
      cmd_Args (st_cmd st) = pp_Command pp \<and>
      (\<exists>pod. pp_Pod pp = Some pod \<and> pod_key pod = k \<and> spec_Containers (pod_Spec pod) \<noteq> []) \<and>
      cmd_Stdout (st_cmd st) \<noteq> None \<and> cmd_Stderr (st_cmd st) \<noteq> None \<and>
      (st_waitDone st \<or> st_exitError st = None \<and> st_cancelled st = False))"

text \<open>The handles of a file that the process behind an entry keeps open.\<close>

definition log_handles :: "string \<Rightarrow> processState \<Rightarrow> int" where
  "log_handles f st =
     (if st_waitDone st then 0
      else (if cmd_Stdout (st_cmd st) = Some f then 1 else 0) +
           (if cmd_Stderr (st_cmd st) = Some f then 1 else 0))"

definition client_inv :: "ProcessClient \<Rightarrow> bool" where
  "client_inv c \<longleftrightarrow>
     finite (dom (pc_processes c)) \<and>
     (\<forall>k st. pc_processes c k = Some st \<longrightarrow> entry_ok k st) \<and>
     (\<forall>f. open_handles f (pc_trace c) = map_sum (log_handles f) (pc_processes c))"

lemma client_invD:
  "client_inv c \<Longrightarrow> pc_processes c k = Some st \<Longrightarrow> entry_ok k st"
  "client_inv c \<Longrightarrow> finite (dom (pc_processes c))"
  "client_inv c \<Longrightarrow> open_handles f (pc_trace c) = map_sum (log_handles f) (pc_processes c)"
  by (simp_all add: client_inv_def)

text \<open>
  Replacing, adding or removing one entry keeps the invariant if the trace accounts for
  the handles the change opens and closes.
\<close>

lemma client_inv_put:
  assumes inv: "client_inv c" and ok: "entry_ok k st"
    and bal: "\<And>f. open_handles f ts =
      log_handles f st - (case pc_processes c k of None \<Rightarrow> 0 | Some old \<Rightarrow> log_handles f old)"
  shows "client_inv (put_state (emit c ts) k st)"
proof -
  have fin: "finite (dom (pc_processes c))" using inv by (rule client_invD)
  have "map_sum (log_handles f) ((pc_processes c)(k \<mapsto> st)) =
      open_handles f (pc_trace c) + open_handles f ts" for f
    using map_sum_upd_new [OF fin, of k "log_handles f" st] map_sum_upd [OF fin, of k _ "log_handles f" st]
      client_invD(3) [OF inv, of f] bal [of f]
    by (cases "pc_processes c k") simp_all
  then show ?thesis
    using fin ok client_invD(1) [OF inv] by (auto simp: client_inv_def)
qed

lemma client_inv_remove:
  assumes inv: "client_inv c" and st: "pc_processes c k = Some st"
    and bal: "\<And>f. open_handles f ts = - log_handles f st"
  shows "client_inv ((emit c ts)\<lparr>pc_processes := (pc_processes c)(k := None)\<rparr>)"
proof -
  have fin: "finite (dom (pc_processes c))" using inv by (rule client_invD)
  have "map_sum (log_handles f) ((pc_processes c)(k := None)) =
      open_handles f (pc_trace c) + open_handles f ts" for f
    using map_sum_del [OF fin st, of "log_handles f"] client_invD(3) [OF inv, of f] bal [of f] by simp
  then show ?thesis
    using fin client_invD(1) [OF inv] by (auto simp: client_inv_def)
qed

text \<open>Every operation keeps the invariant.\<close>

lemma launched_inv:
  assumes "client_inv c" and "spec_Containers (pod_Spec pod) = ctr # rest"
    and "pc_processes c (pod_key pod) = None" and "ctr_Command ctr @ ctr_Args ctr \<noteq> []"
  shows "client_inv (launched env c pod ctr)"
  unfolding launched_def
proof (rule client_inv_put [OF assms(1)])
  show "entry_ok (pod_key pod)
      (started_state env pod (launched_cmd env c pod ctr) (ctr_Command ctr @ ctr_Args ctr))"
    using assms(2,4)
    by (simp add: entry_ok_def started_state_def pod_key_def launched_cmd_def pod_command_def
        applyCredential_def exec_CommandContext_def Let_def split: option.split)
  show "open_handles f (launch_trace env c pod ctr) =
      log_handles f (started_state env pod (launched_cmd env c pod ctr) (ctr_Command ctr @ ctr_Args ctr)) -
      (case pc_processes c (pod_key pod) of None \<Rightarrow> 0 | Some old \<Rightarrow> log_handles f old)" for f
    using assms(3)
    by (cases "pc_credential c")
      (simp_all add: launch_trace_def Let_def log_handles_def started_state_def launched_cmd_def)
qed

lemma emit_balanced_inv: "client_inv c \<Longrightarrow> (\<And>f. open_handles f ts = 0) \<Longrightarrow> client_inv (emit c ts)"
  by (simp add: client_inv_def)

lemma CreatePod_inv:
  assumes "client_inv c" and "ProcessClient_CreatePod env c pod tok cms creds = (c', r)"
  shows "client_inv c'"
  using assms(2)
proof (cases rule: CreatePod_cases)
  case fail
  then show ?thesis using assms(1) by (simp add: emit_balanced_inv balanced_def)
next
  case ok
  then show ?thesis using launched_inv [OF assms(1)] by simp
qed

lemma wait_process_simps [client_simps]:
  "pc_processes c k = None \<Longrightarrow> wait_process c k err = c"
  "pc_processes c k = Some st \<Longrightarrow> st_waitDone st \<Longrightarrow> wait_process c k err = c"
  "pc_processes c k = Some st \<Longrightarrow> \<not> st_waitDone st \<Longrightarrow>
     wait_process c k err = put_state (emit c (log_closes (st_cmd st))) k (waited st err)"
  by (simp_all add: wait_process_def sm_Load_def)

lemma log_closes_handles:
  "entry_ok k st \<Longrightarrow> \<not> st_waitDone st \<Longrightarrow> open_handles f (log_closes (st_cmd st)) = - log_handles f st"
  by (auto simp: log_closes_def log_handles_def entry_ok_def Let_def)

lemma waited_ok: "entry_ok k st \<Longrightarrow> entry_ok k (waited st err)"
  by (simp add: entry_ok_def waited_def Let_def)

lemma waited_handles [simp]: "log_handles f (waited st err) = 0"
  by (simp add: log_handles_def waited_def)

lemma wait_process_inv:
  assumes inv: "client_inv c"
  shows "client_inv (wait_process c k err)"
proof (cases "\<exists>st. pc_processes c k = Some st \<and> \<not> st_waitDone st")
  case True
  then obtain st where st: "pc_processes c k = Some st" "\<not> st_waitDone st" by blast
  note ok = client_invD(1) [OF inv st(1)]
  have "client_inv (put_state (emit c (log_closes (st_cmd st))) k (waited st err))"
    by (rule client_inv_put [OF inv waited_ok [OF ok]]) (simp add: st(1) log_closes_handles [OF ok st(2)])
  then show ?thesis using st by (simp add: wait_process_simps)
next
  case False
  then have "wait_process c k err = c"
    by (cases "pc_processes c k") (auto simp: wait_process_simps)
  then show ?thesis using inv by simp
qed

lemma GetPod_inv:
  assumes inv: "client_inv c" and get: "ProcessClient_GetPod c ns n = (c', r)"
  shows "client_inv c'"
proof (cases "pc_processes c (namespaced ns n)")
  case None
  then show ?thesis using inv get by (simp add: ProcessClient_GetPod_def sm_Load_def)
next
  case (Some st)
  let ?st = "st\<lparr>st_podProcess := refreshed st\<rparr>"
  have "entry_ok (namespaced ns n) ?st"
    using client_invD(1) [OF inv Some] by (simp add: entry_ok_def refreshed_def Let_def)
  then have "client_inv (put_state (emit c []) (namespaced ns n) ?st)"
    by (rule client_inv_put [OF inv]) (simp add: Some log_handles_def)
  then show ?thesis using get Some by (auto simp: ProcessClient_GetPod_def sm_Load_def)
qed

text \<open>The effects of \<^verbatim>\<open>DeletePod\<close> on a pod it finds, and the whole call.\<close>

definition delete_trace ::
  "term_env \<Rightarrow> string \<Rightarrow> string \<Rightarrow> 64 word \<Rightarrow> processState \<Rightarrow> os_effect list" where
  "delete_trace env ns n g st =
     (if st_waitDone st then [] else [ESigterm (st_pid st)]) @
     (if st_waitDone st
      then (if te_timer_first env \<and> fires_at_once (seconds g) then [ECancel ns n] else [])
      else (case te_exits env (st_pid st) (seconds g) of Some err \<Rightarrow> [] | None \<Rightarrow> [ECancel ns n]) @
           log_closes (st_cmd st))"

lemma DeletePod_missing:
  "pc_processes c (namespaced ns n) = None \<Longrightarrow>
   ProcessClient_DeletePod env c ns n g = (c, Some (ErrNotFound ''pod process not found''))"
  by (simp add: ProcessClient_DeletePod_def sm_Load_def)

lemma DeletePod_found:
  assumes st: "pc_processes c (namespaced ns n) = Some st"
  shows "ProcessClient_DeletePod env c ns n g =
    ((emit c (delete_trace env ns n g st))
       \<lparr>pc_processes := (pc_processes c)(namespaced ns n := None)\<rparr>, None)"
proof (cases "st_waitDone st")
  case True
  then show ?thesis
    using st by (simp add: ProcessClient_DeletePod_def Let_def delete_trace_def sm_Load_def
        sm_Delete_def put_state_def emit_def sm_Store_def)
next
  case False
  then show ?thesis
    using st by (cases "te_exits env (st_pid st) (seconds g)")
      (simp_all add: ProcessClient_DeletePod_def Let_def delete_trace_def sm_Load_def sm_Delete_def
        wait_process_def put_state_def emit_def sm_Store_def cancel_state_def)
qed

lemma DeletePod_inv:
  assumes inv: "client_inv c" and del: "ProcessClient_DeletePod env c ns n g = (c', r)"
  shows "client_inv c'"
proof (cases "pc_processes c (namespaced ns n)")
  case None
  then show ?thesis using inv del by (simp add: DeletePod_missing)
next
  case (Some st)
  have "open_handles f (delete_trace env ns n g st) = - log_handles f st" for f
    using log_closes_handles [OF client_invD(1) [OF inv Some], of f]
    by (simp add: delete_trace_def log_handles_def split: option.split)
  then show ?thesis
    using client_inv_remove [OF inv Some] del by (auto simp: DeletePod_found [OF Some])
qed

section \<open>Runs of the client\<close>

text \<open>
  The states a client reaches from its construction, by any sequence of calls and of
  processes ending.
\<close>

inductive client_reach :: "string \<Rightarrow> resolvedCredential option \<Rightarrow> ProcessClient \<Rightarrow> bool"
  for dir cred where
  reach_new: "client_reach dir cred
    \<lparr>pc_processes = Map.empty, pc_logsDir = dir, pc_credential = cred, pc_trace = []\<rparr>"
| reach_create: "client_reach dir cred c \<Longrightarrow>
    ProcessClient_CreatePod env c pod tok cms creds = (c', r) \<Longrightarrow> client_reach dir cred c'"
| reach_delete: "client_reach dir cred c \<Longrightarrow>
    ProcessClient_DeletePod tenv c ns n g = (c', r) \<Longrightarrow> client_reach dir cred c'"
| reach_get: "client_reach dir cred c \<Longrightarrow>
    ProcessClient_GetPod c ns n = (c', q) \<Longrightarrow> client_reach dir cred c'"
| reach_exit: "client_reach dir cred c \<Longrightarrow> client_reach dir cred (wait_process c k err)"

lemma client_reach_inv: "client_reach dir cred c \<Longrightarrow> client_inv c"
proof (induction rule: client_reach.induct)
  case reach_new
  show ?case by (simp add: client_inv_def)
qed (auto intro: CreatePod_inv DeletePod_inv GetPod_inv wait_process_inv)

section \<open>The client implements the runtime contract\<close>

definition process_runtime :: "os_env \<Rightarrow> term_env \<Rightarrow> ProcessClient RuntimeClient" where
  "process_runtime env tenv =
     \<lparr>rc_CreatePod = ProcessClient_CreatePod env,
      rc_DeletePod = ProcessClient_DeletePod tenv,
      rc_GetPod = ProcessClient_GetPod,
      rc_GetPodList = ProcessClient_GetPodList,
      rc_GetContainerLogs = ProcessClient_GetContainerLogs env,
      rc_ExecuteContainerCommand = ProcessClient_ExecuteContainerCommand,
      rc_GetPodStats = ProcessClient_GetPodStats\<rparr>"

lemma process_runtime_simps [simp]:
  "rc_CreatePod (process_runtime env tenv) = ProcessClient_CreatePod env"
  "rc_DeletePod (process_runtime env tenv) = ProcessClient_DeletePod tenv"
  "rc_GetPod (process_runtime env tenv) = ProcessClient_GetPod"
  "rc_GetPodList (process_runtime env tenv) = ProcessClient_GetPodList"
  "rc_GetContainerLogs (process_runtime env tenv) = ProcessClient_GetContainerLogs env"
  "rc_ExecuteContainerCommand (process_runtime env tenv) = ProcessClient_ExecuteContainerCommand"
  "rc_GetPodStats (process_runtime env tenv) = ProcessClient_GetPodStats"
  by (simp_all add: process_runtime_def)

definition client_view :: "ProcessClient \<Rightarrow> NamespacedName \<Rightarrow> PodProcess option" where
  "client_view c k = map_option refreshed (pc_processes c k)"

lemma refreshed_refreshed [simp]:
  "refreshed (st\<lparr>st_podProcess := refreshed st\<rparr>) = refreshed st"
  by (simp add: refreshed_def exit_report_def)

lemma refreshed_pod [simp]: "pp_Pod (refreshed st) = pp_Pod (st_podProcess st)"
  by (simp add: refreshed_def)

lemma client_view_put [simp]:
  "client_view (put_state c k st) = (client_view c)(k \<mapsto> refreshed st)"
  by (auto simp: client_view_def)

lemma client_view_emit [simp]: "client_view (emit c ts) = client_view c"
  by (simp add: client_view_def fun_eq_iff)

lemma client_view_GetPod:
  "ProcessClient_GetPod c ns n = (c', q) \<Longrightarrow>
   client_view c' = client_view c \<and>
   q = (case client_view c (namespaced ns n) of
          None \<Rightarrow> Inl (ErrNotFound ''pod process not found'')
        | Some pp \<Rightarrow> Inr pp)"
  by (cases "pc_processes c (namespaced ns n)")
    (auto simp: ProcessClient_GetPod_def sm_Load_def client_view_def fun_eq_iff)

lemma client_view_DeletePod:
  "ProcessClient_DeletePod tenv c ns n g = (c', r) \<Longrightarrow>
   client_view c' = (client_view c)(namespaced ns n := None) \<and>
   r = (if client_view c (namespaced ns n) = None
        then Some (ErrNotFound ''pod process not found'') else None)"
  by (cases "pc_processes c (namespaced ns n)")
    (auto simp: DeletePod_missing DeletePod_found client_view_def fun_eq_iff)

lemma refreshed_started [simp]:
  "refreshed (started_state env pod cmd parts) =
     (st_podProcess (started_state env pod cmd parts))\<lparr>pp_ExitCode := - 1\<rparr>"
  "pp_Pod (st_podProcess (started_state env pod cmd parts)) = Some pod"
  by (simp_all add: refreshed_def exit_report_def started_state_def)

interpretation pclient: runtime_contract "process_runtime env tenv" client_inv client_view
proof (unfold_locales, unfold process_runtime_simps)
  fix s s' :: ProcessClient and pod tok cms creds e
  assume "ProcessClient_CreatePod env s pod tok cms creds = (s', Some e)"
  then show "client_view s' = client_view s"
    by (cases rule: CreatePod_cases) simp_all
next
  fix s s' :: ProcessClient and pod tok cms creds
  assume "ProcessClient_CreatePod env s pod tok cms creds = (s', None)"
  then show "client_view s (pod_key pod) = None \<and>
      (\<exists>pp. client_view s' = (client_view s)(pod_key pod \<mapsto> pp) \<and> pp_Pod pp = Some pod \<and> pp_ExitCode pp = - 1)"
  proof (cases rule: CreatePod_cases)
    case (ok ctr rest)
    let ?st = "started_state env pod (launched_cmd env s pod ctr) (ctr_Command ctr @ ctr_Args ctr)"
    have "client_view s (pod_key pod) = None" using ok by (simp add: client_view_def)
    moreover have "client_view s' = (client_view s)(pod_key pod \<mapsto> refreshed ?st)"
      using ok by (simp add: launched_def)
    ultimately show ?thesis
      by (intro conjI exI [of _ "refreshed ?st"]) simp_all
  qed simp
next
  fix s :: ProcessClient and k pp
  assume inv: "client_inv s" and "client_view s k = Some pp"
  then obtain st where st: "pc_processes s k = Some st" and pp: "pp = refreshed st"
    by (auto simp: client_view_def)
  show "\<exists>pod. pp_Pod pp = Some pod \<and> pod_key pod = k"
    using client_invD(1) [OF inv st] by (auto simp: pp entry_ok_def Let_def)
next
  fix s :: ProcessClient
  show "\<exists>m. ProcessClient_GetPodList s = Inr m \<and>
      (\<forall>k. map_option pp_Pod (m k) = map_option pp_Pod (client_view s k))"
    by (simp add: ProcessClient_GetPodList_def client_view_def sm_Load_def option.map_comp comp_def)
qed (auto dest: client_view_GetPod client_view_DeletePod intro: CreatePod_inv DeletePod_inv GetPod_inv)

section \<open>Properties\<close>

text \<open>A pod and a machine used to apply the properties at a concrete input.\<close>

definition sample_container :: Container where
  "sample_container =
     \<lparr>ctr_Name = ''main'', ctr_Command = [''/bin/sh''], ctr_Args = [''-c'', ''true''],
      ctr_Env = [\<lparr>env_Name = ''CI'', env_Value = ''1''\<rparr>], ctr_VolumeMounts = [], ctr_Lifecycle = None\<rparr>"

definition sample_pod :: Pod where
  "sample_pod =
     \<lparr>pod_Namespace = ''default'', pod_Name = ''job'', pod_UID = ''u1'',
      pod_DeletionGracePeriodSeconds = Some 30,
      pod_Spec = \<lparr>spec_Containers = [sample_container], spec_Volumes = [], spec_ImagePullSecrets = [],
        spec_ServiceAccountName = [], spec_AutomountServiceAccountToken = None\<rparr>,
      pod_Status = None\<rparr>"

definition sample_os :: os_env where
  "sample_os = \<lparr>os_fails = (\<lambda>_. None), os_pid = (\<lambda>_. 4242), os_Environ = [''PATH=/bin''], os_Now = 7\<rparr>"

text \<open>The same machine with a disk that cannot hold another log file.\<close>

definition full_disk :: os_env where
  "full_disk = sample_os\<lparr>os_fails := (\<lambda>call. case call of CallCreate f \<Rightarrow> Some (OSError ''ENOSPC'') | _ \<Rightarrow> None)\<rparr>"

definition sample_client :: ProcessClient where
  "sample_client =
     \<lparr>pc_processes = Map.empty, pc_logsDir = ''/var/logs'',
      pc_credential = Some \<lparr>cred_uid = 501, cred_gid = 20\<rparr>, pc_trace = []\<rparr>"

definition sample_store :: RegistryCredentialStore where
  "sample_store = \<lparr>store_keyring = None\<rparr>"

lemma sample_creates:
  "ProcessClient_CreatePod sample_os sample_client sample_pod [] Map.empty sample_store =
     (launched sample_os sample_client sample_pod sample_container, None)"
  by (rule CreatePod_launch_ok [where rest = "[]"])
    (simp_all add: sample_pod_def sample_client_def sample_container_def sample_os_def
      launch_calls_def Let_def)

text \<open>
  Property C6. A failed \<^verbatim>\<open>CreatePod\<close> leaves the client as it was: no pod is added or
  replaced, no process has been started, and whatever the attempt opened it has closed
  again, so that no log file stays open and no context stays alive.
\<close>

theorem CreatePod_error_harmless:
  assumes "ProcessClient_CreatePod env c pod tok cms creds = (c', Some e)"
  shows "pc_processes c' = pc_processes c \<and>
    (\<exists>ts. pc_trace c' = pc_trace c @ ts \<and> (\<forall>f. open_handles f ts = 0) \<and>
      live_contexts ts = 0 \<and> (\<forall>cmd pid. EStart cmd pid \<notin> set ts))"
  using assms by (cases rule: CreatePod_cases) (auto simp: balanced_def)

lemma full_disk_fails:
  "ProcessClient_CreatePod full_disk sample_client sample_pod [] Map.empty sample_store =
     (emit sample_client
       [EWithCancel ''default'' ''job'',
        EMkdirAll (pod_log_dir sample_client sample_pod sample_container) mode_0755,
        EChown (pod_log_dir sample_client sample_pod sample_container) 501 20,
        ECancel ''default'' ''job''], Some (OSError ''ENOSPC''))"
  by (simp add: ProcessClient_CreatePod_def sample_pod_def sample_client_def sample_container_def
      full_disk_def sample_os_def sm_Load_def chownLogDir_def Let_def)

theorem CreatePod_error_harmless_witness:
  "pc_processes (fst (ProcessClient_CreatePod full_disk sample_client sample_pod [] Map.empty sample_store)) =
     pc_processes sample_client"
  using CreatePod_error_harmless [OF full_disk_fails] by (simp add: full_disk_fails)

text \<open>
  Property C7. The result of \<^verbatim>\<open>CreatePod\<close>, on every branch: no container, a pod that is
  known already, no command, and otherwise the error of the first of the system calls that
  fails, wrapped as the code wraps it, or nil if all succeed.
\<close>

theorem CreatePod_result:
  "snd (ProcessClient_CreatePod env c pod tok cms creds) =
     (case spec_Containers (pod_Spec pod) of
        [] \<Rightarrow> Some (Errorf ''no containers in pod spec'' [])
      | ctr # rest \<Rightarrow>
          if pod_key pod \<in> dom (pc_processes c) then Some (Errorf ''pod process already exists'' [])
          else if ctr_Command ctr @ ctr_Args ctr = []
          then Some (Errorf ''no command specified for container %s'' [ctr_Name ctr])
          else first_failure env (launch_calls env c pod ctr))"
proof (cases "spec_Containers (pod_Spec pod)")
  case Nil
  then show ?thesis by (simp add: CreatePod_no_container)
next
  case ctr: (Cons ctr rest)
  show ?thesis
  proof (cases "pod_key pod \<in> dom (pc_processes c) \<or> ctr_Command ctr @ ctr_Args ctr = []")
    case True
    then show ?thesis
      using ctr CreatePod_exists [OF ctr, of c env tok cms creds]
        CreatePod_no_command [OF ctr, of c env tok cms creds]
      by (cases "pc_processes c (pod_key pod)") (simp_all add: domIff)
  next
    case False
    then have new: "pc_processes c (pod_key pod) = None" and parts: "ctr_Command ctr @ ctr_Args ctr \<noteq> []"
      by auto
    have "snd (ProcessClient_CreatePod env c pod tok cms creds) =
        first_failure env (launch_calls env c pod ctr)"
    proof (cases "first_failure env (launch_calls env c pod ctr)")
      case None
      then show ?thesis using CreatePod_launch_ok [OF ctr new parts None] by simp
    next
      case (Some e)
      then show ?thesis using CreatePod_launch_fails [OF ctr new parts Some, of tok cms creds] by auto
    qed
    then show ?thesis using ctr new parts by (auto simp: domIff)
  qed
qed

text \<open>
  Property C5. A successful \<^verbatim>\<open>CreatePod\<close> starts the first container's command and
  arguments, with the client's environment followed by the container's variables, as the
  configured user, with its output in the pod's log directory; the start is the last effect.
  A query right after finds the pod, running, under its own name.
\<close>

theorem CreatePod_starts:
  assumes "ProcessClient_CreatePod env c pod tok cms creds = (c', None)"
  shows "\<exists>ctr rest cmd ts.
      spec_Containers (pod_Spec pod) = ctr # rest \<and>
      pc_trace c' = pc_trace c @ ts @ [EStart cmd (os_pid env cmd)] \<and>
      cmd_Args cmd = ctr_Command ctr @ ctr_Args ctr \<and>
      cmd_Env cmd = os_Environ env @ map (\<lambda>e. env_Name e @ ''='' @ env_Value e) (ctr_Env ctr) \<and>
      cmd_Credential cmd = map_option (\<lambda>cr. (cred_uid cr, cred_gid cr)) (pc_credential c) \<and>
      cmd_Stdout cmd = Some (filepath_Join [pod_log_dir c pod ctr, ''stdout.log'']) \<and>
      cmd_Stderr cmd = Some (filepath_Join [pod_log_dir c pod ctr, ''stderr.log'']) \<and>
      (\<exists>pp. snd (ProcessClient_GetPod c' (pod_Namespace pod) (pod_Name pod)) = Inr pp \<and>
         pp_Pod pp = Some pod \<and> pp_ExitCode pp = - 1 \<and> pp_Pid pp = os_pid env cmd \<and>
         pp_Command pp = cmd_Args cmd)"
  using assms
proof (cases rule: CreatePod_cases)
  case (ok ctr rest)
  let ?cmd = "launched_cmd env c pod ctr"
  have cmd: "cmd_Args ?cmd = ctr_Command ctr @ ctr_Args ctr"
    "cmd_Env ?cmd = os_Environ env @ map (\<lambda>e. env_Name e @ ''='' @ env_Value e) (ctr_Env ctr)"
    "cmd_Credential ?cmd = map_option (\<lambda>cr. (cred_uid cr, cred_gid cr)) (pc_credential c)"
    "cmd_Stdout ?cmd = Some (filepath_Join [pod_log_dir c pod ctr, ''stdout.log''])"
    "cmd_Stderr ?cmd = Some (filepath_Join [pod_log_dir c pod ctr, ''stderr.log''])"
    using ok(5) by (simp_all add: launched_cmd_def pod_command_def Let_def
        applyCredential_def exec_CommandContext_def split: option.split)
  have tr: "\<exists>ts. pc_trace c' = pc_trace c @ ts @ [EStart ?cmd (os_pid env ?cmd)]"
    using ok(2) by (cases "pc_credential c") (simp_all add: launched_def launch_trace_def Let_def)
  have "snd (ProcessClient_GetPod c' (pod_Namespace pod) (pod_Name pod)) =
      Inr (refreshed (started_state env pod ?cmd (ctr_Command ctr @ ctr_Args ctr)))"
    using ok(2) by (simp add: ProcessClient_GetPod_def launched_def sm_Load_def pod_key_def Let_def)
  then have "\<exists>pp. snd (ProcessClient_GetPod c' (pod_Namespace pod) (pod_Name pod)) = Inr pp \<and>
      pp_Pod pp = Some pod \<and> pp_ExitCode pp = - 1 \<and> pp_Pid pp = os_pid env ?cmd \<and>
      pp_Command pp = cmd_Args ?cmd"
    by (simp add: cmd(1)) (simp add: started_state_def)
  with ok(3) cmd tr show ?thesis by blast
qed simp

theorem CreatePod_starts_witness:
  "\<exists>c'. ProcessClient_CreatePod sample_os sample_client sample_pod [] Map.empty sample_store = (c', None) \<and>
     (\<exists>pp. snd (ProcessClient_GetPod c' ''default'' ''job'') = Inr pp \<and> pp_ExitCode pp = - 1)"
  using CreatePod_starts [OF sample_creates] sample_creates by (auto simp: sample_pod_def)

text \<open>
  Property C8. \<^verbatim>\<open>DeletePod\<close> reports a pod it does not know and changes nothing then.
  Otherwise it returns nil once the process has ended: it signals the process once, unless it has
  been waited for already and its id may belong to another process, kills it only if the timer wins, closes the logs of a process that was still running, and
  removes that one pod, so that a later query does not find it and every other pod is as
  before.
\<close>

theorem DeletePod_stops:
  assumes "ProcessClient_DeletePod env c ns n g = (c', r)"
  shows "case pc_processes c (namespaced ns n) of
      None \<Rightarrow> c' = c \<and> r = Some (ErrNotFound ''pod process not found'')
    | Some st \<Rightarrow> r = None \<and>
        pc_processes c' = (pc_processes c)(namespaced ns n := None) \<and>
        snd (ProcessClient_GetPod c' ns n) = Inl (ErrNotFound ''pod process not found'') \<and>
        (\<exists>ts. pc_trace c' = pc_trace c @ (if st_waitDone st then [] else [ESigterm (st_pid st)]) @ ts \<and>
           (\<forall>pid. ESigterm pid \<notin> set ts) \<and>
           (ECancel ns n \<in> set ts \<longleftrightarrow>
              (if st_waitDone st then te_timer_first env \<and> fires_at_once (seconds g)
               else te_exits env (st_pid st) (seconds g) = None)) \<and>
           (\<forall>f. open_handles f ts = (if st_waitDone st then 0 else open_handles f (log_closes (st_cmd st)))))"
proof (cases "pc_processes c (namespaced ns n)")
  case None
  then show ?thesis using assms by (simp add: DeletePod_missing)
next
  case (Some st)
  have no: "ECancel ns n \<notin> set (log_closes (st_cmd st))" "ESigterm pid \<notin> set (log_closes (st_cmd st))" for pid
    by (auto simp: log_closes_def split: option.splits)
  have c': "c' = (emit c (delete_trace env ns n g st))
      \<lparr>pc_processes := (pc_processes c)(namespaced ns n := None)\<rparr>" and r: "r = None"
    using assms by (auto simp: DeletePod_found [OF Some])
  have "snd (ProcessClient_GetPod c' ns n) = Inl (ErrNotFound ''pod process not found'')"
    by (simp add: c' ProcessClient_GetPod_def sm_Load_def)
  then show ?thesis
    using no by (cases "te_exits env (st_pid st) (seconds g)")
      (simp_all add: Some c' r delete_trace_def)
qed

definition stubborn :: term_env where
  "stubborn = \<lparr>te_exits = (\<lambda>_ _. None), te_killed = (\<lambda>_. Some (ExitError (Signaled 9))), te_timer_first = False\<rparr>"

theorem DeletePod_stops_witness:
  "snd (ProcessClient_DeletePod stubborn (launched sample_os sample_client sample_pod sample_container)
      ''default'' ''job'' 30) = None"
  using DeletePod_stops [of stubborn "launched sample_os sample_client sample_pod sample_container"
      "''default''" "''job''" 30, OF prod.collapse [symmetric]]
  by (simp add: launched_def pod_key_def sample_pod_def)

text \<open>
  Property C10. What a query reports of a process that has ended: code 0 after a nil
  \<^verbatim>\<open>Wait\<close>, the process's own status after a non-zero exit, 1 after any other error and -1
  after a signal, and the error \<^verbatim>\<open>Wait\<close> returned. Further queries report the same.
\<close>

theorem GetPod_exit_code:
  assumes "pc_processes c (namespaced ns n) = Some st" and "st_waitDone st = False"
  shows "\<exists>c2 pp. ProcessClient_GetPod (wait_process c (namespaced ns n) err) ns n = (c2, Inr pp) \<and>
      pp_ExitError pp = err \<and>
      pp_ExitCode pp = (case err of
          None \<Rightarrow> 0
        | Some (ExitError (Exited k)) \<Rightarrow> int k
        | Some (ExitError (Signaled s)) \<Rightarrow> - 1
        | Some e \<Rightarrow> 1) \<and>
      snd (ProcessClient_GetPod c2 ns n) = Inr pp"
proof -
  let ?w = "waited st err"
  let ?c = "put_state (emit c (log_closes (st_cmd st))) (namespaced ns n) ?w"
  have "wait_process c (namespaced ns n) err = ?c"
    using assms by (simp add: wait_process_simps)
  moreover have "ProcessClient_GetPod ?c ns n =
      (put_state ?c (namespaced ns n) (?w\<lparr>st_podProcess := refreshed ?w\<rparr>), Inr (refreshed ?w))"
    by (simp add: ProcessClient_GetPod_def sm_Load_def Let_def)
  moreover have "snd (ProcessClient_GetPod
      (put_state ?c (namespaced ns n) (?w\<lparr>st_podProcess := refreshed ?w\<rparr>)) ns n) = Inr (refreshed ?w)"
    by (simp add: ProcessClient_GetPod_def sm_Load_def Let_def)
  moreover have "pp_ExitError (refreshed ?w) = err" and "pp_ExitCode (refreshed ?w) = (case err of
          None \<Rightarrow> 0
        | Some (ExitError (Exited k)) \<Rightarrow> int k
        | Some (ExitError (Signaled s)) \<Rightarrow> - 1
        | Some e \<Rightarrow> 1)"
    by (auto simp: refreshed_def exit_report_def waited_def split: option.split goerr.split exit_status.split)
  ultimately show ?thesis by auto
qed

theorem GetPod_exit_code_witness:
  "\<exists>c2 pp. ProcessClient_GetPod
      (wait_process (launched sample_os sample_client sample_pod sample_container)
        (namespaced ''default'' ''job'') (Some (ExitError (Exited 3)))) ''default'' ''job'' = (c2, Inr pp) \<and>
    pp_ExitCode pp = 3"
  using GetPod_exit_code [of "launched sample_os sample_client sample_pod sample_container" "''default''"
      "''job''" "started_state sample_os sample_pod (launched_cmd sample_os sample_client sample_pod sample_container)
        (ctr_Command sample_container @ ctr_Args sample_container)" "Some (ExitError (Exited 3))"]
  by (auto simp: launched_def pod_key_def sample_pod_def started_state_def)

text \<open>
  Property C9. File handles are accounted for in every state the client can reach: a log
  file is open as often as it is the output of a pod whose process has not ended. So once
  every known process has ended, no handle is left, whatever calls failed on the way.
\<close>

theorem client_handles:
  assumes "client_reach dir cred c"
  shows "open_handles f (pc_trace c) = map_sum (log_handles f) (pc_processes c) \<and>
    ((\<forall>k st. pc_processes c k = Some st \<longrightarrow> st_waitDone st) \<longrightarrow> open_handles f (pc_trace c) = 0)"
proof -
  note eq = client_invD(3) [OF client_reach_inv [OF assms], of f]
  have "map_sum (log_handles f) (pc_processes c) = 0"
    if "\<forall>k st. pc_processes c k = Some st \<longrightarrow> st_waitDone st"
    using that by (auto simp: map_sum_def log_handles_def intro!: sum.neutral)
  with eq show ?thesis by simp
qed

lemma sample_reach: "client_reach (''/var/logs'') (Some \<lparr>cred_uid = 501, cred_gid = 20\<rparr>)
    (launched sample_os sample_client sample_pod sample_container)"
  using client_reach.reach_create [OF client_reach.reach_new sample_creates [unfolded sample_client_def]]
  by (simp add: sample_client_def)

theorem client_handles_witness:
  "open_handles ''/var/logs/default/job/main/stdout.log''
     (pc_trace (launched sample_os sample_client sample_pod sample_container)) = 1"
  using client_handles [OF sample_reach, of "''/var/logs/default/job/main/stdout.log''"]
  by (simp add: launched_def map_sum_def log_handles_def started_state_def launched_cmd_def
      sample_client_def sample_pod_def sample_container_def pod_log_dir_def Let_def
      filepath_Join.simps filepath_Clean_def path_rooted_def clean_elems_def clean_step.simps path_render_def)

text \<open>
  Property C11. The log a pod's container is read from is the file its process writes to,
  and pods do not share logs: with a log directory and names as Kubernetes has them (single
  path elements), two containers have the same log file only if namespace, pod and
  container name are the same.
\<close>

theorem container_logs:
  assumes "ProcessClient_CreatePod env c pod tok cms creds = (c', None)"
    and "spec_Containers (pod_Spec pod) = ctr # rest"
    and "ProcessClient_GetContainerLogs env' c' (pod_Namespace pod) (pod_Name pod) (ctr_Name ctr) = Inr f"
    and "ProcessClient_GetContainerLogs env' c' ns2 n2 k2 = Inr f2"
    and "pc_logsDir c \<noteq> []" and "list_all path_name [pod_Namespace pod, pod_Name pod, ctr_Name ctr, ns2, n2, k2]"
  shows "(\<exists>st. pc_processes c' (pod_key pod) = Some st \<and> cmd_Stdout (st_cmd st) = Some f) \<and>
    (f = f2 \<longleftrightarrow> (pod_Namespace pod, pod_Name pod, ctr_Name ctr) = (ns2, n2, k2))"
proof -
  have c': "c' = launched env c pod ctr"
    using assms(1,2) by (cases rule: CreatePod_cases) simp_all
  have J: "filepath_Join [filepath_Join [pc_logsDir c, x, y, z], ''stdout.log''] =
      filepath_Join (pc_logsDir c # [x, y, z, ''stdout.log''])" if "list_all path_name [x, y, z]" for x y z
    using filepath_Join_Join [OF assms(5) that, of "[''stdout.log'']"] by (simp add: path_name_def)
  have f: "f = filepath_Join [filepath_Join [pc_logsDir c, pod_Namespace pod, pod_Name pod, ctr_Name ctr], ''stdout.log'']"
    and f2: "f2 = filepath_Join [filepath_Join [pc_logsDir c, ns2, n2, k2], ''stdout.log'']"
    using assms(3,4) by (auto simp: ProcessClient_GetContainerLogs_def Let_def c' launched_def split: option.splits)
  have "f = f2 \<longleftrightarrow> [pod_Namespace pod, pod_Name pod, ctr_Name ctr, ''stdout.log''] = [ns2, n2, k2, ''stdout.log'']"
  proof -
    have names: "list_all path_name [pod_Namespace pod, pod_Name pod, ctr_Name ctr, ''stdout.log'']"
      "list_all path_name [ns2, n2, k2, ''stdout.log'']"
      using assms(6) by (simp_all add: path_name_def)
    show ?thesis
      using filepath_Join_eq_iff [OF assms(5) names(1) _ names(2)] assms(6)
        J [of "pod_Namespace pod" "pod_Name pod" "ctr_Name ctr"] J [of ns2 n2 k2] by (simp add: f f2)
  qed
  moreover have "pc_processes c' (pod_key pod) =
      Some (started_state env pod (launched_cmd env c pod ctr) (ctr_Command ctr @ ctr_Args ctr))"
    by (simp add: c' launched_def)
  ultimately show ?thesis
    by (simp add: started_state_def launched_cmd_def Let_def f pod_log_dir_def)
qed

theorem container_logs_witness:
  "\<exists>f f2. ProcessClient_GetContainerLogs sample_os
        (launched sample_os sample_client sample_pod sample_container) ''default'' ''job'' ''main'' = Inr f \<and>
     ProcessClient_GetContainerLogs sample_os
        (launched sample_os sample_client sample_pod sample_container) ''default'' ''job2'' ''main'' = Inr f2 \<and>
     f \<noteq> f2"
proof -
  let ?c = "launched sample_os sample_client sample_pod sample_container"
  have opens: "\<exists>f. ProcessClient_GetContainerLogs sample_os ?c ns n k = Inr f" for ns n k
    by (simp add: ProcessClient_GetContainerLogs_def sample_os_def Let_def)
  obtain f f2 where "ProcessClient_GetContainerLogs sample_os ?c ''default'' ''job'' ''main'' = Inr f"
    "ProcessClient_GetContainerLogs sample_os ?c ''default'' ''job2'' ''main'' = Inr f2"
    using opens by metis
  then show ?thesis
    using container_logs [OF sample_creates, of sample_container "[]" sample_os f "''default''" "''job2''" "''main''" f2]
    by (simp add: sample_pod_def sample_container_def sample_client_def path_name_def)
qed

text \<open>
  The grace period in nanoseconds is exact, and the timer waits, for every
  period from one second to the largest that fits a signed 64-bit duration (about 292
  years); one second more wraps to a negative duration, and the process is killed at once.
\<close>

lemma grace_period_bounds:
  "(0 < sint g \<and> sint g \<le> 9223372036 \<longrightarrow>
      sint (seconds g) = sint g * 1000000000 \<and> fires_at_once (seconds g) = False) \<and>
   fires_at_once (seconds 0) \<and> fires_at_once (seconds 9223372037)"
proof -
  have "sint (seconds g) = sint g * 1000000000" if "0 < sint g" "sint g \<le> 9223372036"
    using that by (simp add: seconds_def sint_word_mult signed_take_bit_int_eq_self)
  then show ?thesis
    by (auto simp: fires_at_once_def seconds_def)
qed

lemma grace_period_bounds_witness:
  "sint (seconds 30) = 30000000000 \<and> fires_at_once (seconds 30) = False"
  using grace_period_bounds [of 30] by simp

end
