(* ===== verification/Provider.thy ===== *)
theory Provider
  imports Runtime_Client Pod_Credentials Image_Pull_Credentials Events Process_Client
begin

text \<open>
  \<^verbatim>\<open>pkg/provider/macos_exec.go\<close>: the virtual-kubelet provider. The struct is a record that
  holds the interfaces it was built with; what changes (the runtime client, the recorder, the
  goroutines that delete pods and the deletions sent to the API server) is the record
  \<open>provider_state\<close>. Spans and debug output have no effect on the results and are left out.
\<close>

section \<open>Data\<close>

record 'r MacOSExecProviderConfig =
  pcf_NodeName :: string
  pcf_Platform :: string
  pcf_InternalIP :: string
  pcf_DaemonEndpointPort :: "32 word"
  pcf_K8sClient :: K8sClient
  pcf_EventRecorder :: "'r EventRecorder"

record ('s, 'r) MacOSExecProvider =
  prv_runtimeClient :: "'s RuntimeClient"
  prv_k8sClient :: K8sClient
  prv_eventRecorder :: "'r EventRecorder"
  prv_nodeName :: string
  prv_platform :: string
  prv_internalIP :: string
  prv_daemonEndpointPort :: "32 word"

text \<open>
  \<open>ps_deleting\<close> holds the pods of the deletion goroutines that have not run yet,
  \<open>ps_deletions\<close> the namespace, name and grace period of the deletions sent to the API server.
\<close>

record ('s, 'r) provider_state =
  ps_runtime :: 's
  ps_recorder :: 'r
  ps_deleting :: "Pod list"
  ps_deletions :: "(string \<times> string \<times> 64 word option) list"

text \<open>The two libraries behind pull secrets.\<close>

record registry_lib =
  rl_unmarshal :: "string \<Rightarrow> DockerConfig result"
  rl_lookup :: "keyring_sources \<Rightarrow> DockerKeyring"

section \<open>Construction\<close>

definition NewMacOSExecProvider ::
  "'s RuntimeClient \<Rightarrow> 'r MacOSExecProviderConfig \<Rightarrow> ('s, 'r) MacOSExecProvider result" where
  "NewMacOSExecProvider runtimeClient config =
     (if pcf_Platform config \<noteq> ''darwin''
      then Inl (ErrInvalidInput ''platform type %q is not supported'' [pcf_Platform config])
      else Inr \<lparr>prv_runtimeClient = runtimeClient, prv_k8sClient = pcf_K8sClient config,
                prv_eventRecorder = pcf_EventRecorder config, prv_nodeName = pcf_NodeName config,
                prv_platform = pcf_Platform config, prv_internalIP = pcf_InternalIP config,
                prv_daemonEndpointPort = pcf_DaemonEndpointPort config\<rparr>)"

definition errNotImplemented :: goerr where
  "errNotImplemented = Errorf ''not implemented by MacOS provider'' []"

section \<open>Creating and deleting pods\<close>

definition pod_ref :: "Pod \<Rightarrow> ObjectReference" where
  "pod_ref pod = \<lparr>or_Namespace = pod_Namespace pod, or_Name = pod_Name pod, or_UID = pod_UID pod,
     or_FieldPath = []\<rparr>"

definition Provider_CreatePod ::
  "registry_lib \<Rightarrow> ('s, 'r) MacOSExecProvider \<Rightarrow> ('s, 'r) provider_state \<Rightarrow> go_context \<Rightarrow> Pod
     \<Rightarrow> ('s, 'r) provider_state \<times> goerr option" where
  "Provider_CreatePod lib p w ctx pod =
     (let ctx = WithObjectRef ctx (pod_ref pod) in
      case extractPodCredentials (prv_k8sClient p) pod of
        Inl err \<Rightarrow> (w, Some err)
      | Inr (configMaps, serviceAccountToken) \<Rightarrow>
          (case resolveImagePullCredentials (prv_k8sClient p) (rl_unmarshal lib) (rl_lookup lib) pod of
             Inl err \<Rightarrow>
               (w\<lparr>ps_recorder := er_FailedToResolveImagePullSecrets (prv_eventRecorder p) (ps_recorder w) ctx err\<rparr>,
                Some (AsInvalidInput err))
           | Inr registryCreds \<Rightarrow>
               (let (s, r) = rc_CreatePod (prv_runtimeClient p) (ps_runtime w) pod serviceAccountToken configMaps registryCreds
                in (w\<lparr>ps_runtime := s\<rparr>, r))))"

definition Provider_UpdatePod ::
  "('s, 'r) MacOSExecProvider \<Rightarrow> ('s, 'r) provider_state \<Rightarrow> Pod \<Rightarrow> ('s, 'r) provider_state \<times> goerr option" where
  "Provider_UpdatePod p w pod = (w, Some errNotImplemented)"

text \<open>The request only starts a goroutine.\<close>

definition Provider_DeletePod ::
  "('s, 'r) MacOSExecProvider \<Rightarrow> ('s, 'r) provider_state \<Rightarrow> Pod \<Rightarrow> ('s, 'r) provider_state \<times> goerr option" where
  "Provider_DeletePod p w pod = (w\<lparr>ps_deleting := ps_deleting w @ [pod]\<rparr>, None)"

text \<open>
  What the goroutine does. Both errors are only logged, so it has no result;
  \<^verbatim>\<open>GracePeriodSeconds: new(int64)\<close> is a pointer to zero.
\<close>

definition handleDeletePod ::
  "('s, 'r) MacOSExecProvider \<Rightarrow> ('s, 'r) provider_state \<Rightarrow> Pod \<Rightarrow> ('s, 'r) provider_state" where
  "handleDeletePod p w pod =
     (let gracePeriod = (case pod_DeletionGracePeriodSeconds pod of None \<Rightarrow> 0 | Some g \<Rightarrow> g);
          (s, err) = rc_DeletePod (prv_runtimeClient p) (ps_runtime w) (pod_Namespace pod) (pod_Name pod) gracePeriod;
          w = w\<lparr>ps_runtime := s\<rparr>
      in if err \<noteq> None then w
         else w\<lparr>ps_deletions := ps_deletions w @ [(pod_Namespace pod, pod_Name pod, Some 0)]\<rparr>)"

text \<open>The scheduler runs the \<open>i\<close>-th of the pending goroutines.\<close>

definition run_deletion ::
  "('s, 'r) MacOSExecProvider \<Rightarrow> ('s, 'r) provider_state \<Rightarrow> nat \<Rightarrow> ('s, 'r) provider_state" where
  "run_deletion p w i =
     (if i < length (ps_deleting w)
      then handleDeletePod p
             (w\<lparr>ps_deleting := take i (ps_deleting w) @ drop (Suc i) (ps_deleting w)\<rparr>) (ps_deleting w ! i)
      else w)"

section \<open>Status\<close>

definition process_phase :: "PodProcess \<Rightarrow> PodPhase" where
  "process_phase process =
     (if pp_ExitCode process \<ge> 0
      then (if pp_ExitCode process = 0 then PodSucceeded else PodFailed)
      else if \<not> IsZero (pp_StartedAt process) then PodRunning
      else PodPending)"

definition container_name :: "PodProcess \<Rightarrow> string" where
  "container_name process =
     (case pp_Pod process of
        Some pod \<Rightarrow> (case spec_Containers (pod_Spec pod) of c # _ \<Rightarrow> ctr_Name c | [] \<Rightarrow> ''main'')
      | None \<Rightarrow> ''main'')"

text \<open>\<open>now\<close> is what \<^verbatim>\<open>metav1.Now()\<close> returns; \<^verbatim>\<open>int32(process.ExitCode)\<close> wraps.\<close>

definition getPodStatusFromProcess ::
  "('s, 'r) MacOSExecProvider \<Rightarrow> go_time \<Rightarrow> PodProcess \<Rightarrow> PodStatus" where
  "getPodStatusFromProcess p now process =
     (let phase = process_phase process;
          containerName = container_name process;
          state = (if phase = PodRunning
            then \<lparr>cs_Running = Some (pp_StartedAt process), cs_Terminated = None\<rparr>
            else \<lparr>cs_Running = None, cs_Terminated =
                   Some \<lparr>cst_ExitCode = word_of_int (pp_ExitCode process),
                         cst_StartedAt = pp_StartedAt process, cst_FinishedAt = now\<rparr>\<rparr>)
      in \<lparr>pst_Phase = phase, pst_HostIP = prv_internalIP p, pst_PodIP = prv_internalIP p,
          pst_StartTime = Some (pp_StartedAt process),
          pst_ContainerStatuses =
            [\<lparr>cst_Name = containerName, cst_State = state, cst_Ready = (phase = PodRunning),
              cst_RestartCount = 0, cst_Image = ''host-process'', cst_ImageID = []\<rparr>]\<rparr>)"

definition Provider_GetPod ::
  "('s, 'r) MacOSExecProvider \<Rightarrow> ('s, 'r) provider_state \<Rightarrow> go_time \<Rightarrow> string \<Rightarrow> string
     \<Rightarrow> ('s, 'r) provider_state \<times> Pod result" where
  "Provider_GetPod p w now namespace name =
     (let (s, r) = rc_GetPod (prv_runtimeClient p) (ps_runtime w) namespace name; w = w\<lparr>ps_runtime := s\<rparr>
      in case r of
           Inl err \<Rightarrow> (w, Inl err)
         | Inr process \<Rightarrow>
             (case pp_Pod process of
                Some pod \<Rightarrow> (w, Inr (pod\<lparr>pod_Status := Some (getPodStatusFromProcess p now process)\<rparr>))
              | None \<Rightarrow> (w, Inl (ErrNotFound ''pod spec not found in process''))))"

definition Provider_GetPodStatus ::
  "('s, 'r) MacOSExecProvider \<Rightarrow> ('s, 'r) provider_state \<Rightarrow> go_time \<Rightarrow> string \<Rightarrow> string
     \<Rightarrow> ('s, 'r) provider_state \<times> PodStatus result" where
  "Provider_GetPodStatus p w now namespace name =
     (let (s, r) = rc_GetPod (prv_runtimeClient p) (ps_runtime w) namespace name; w = w\<lparr>ps_runtime := s\<rparr>
      in case r of
           Inl err \<Rightarrow> (w, Inl err)
         | Inr process \<Rightarrow> (w, Inr (getPodStatusFromProcess p now process)))"

text \<open>
  The loop over the map of processes; \<open>order\<close> is the order in which Go ranges over its keys.
\<close>

fun collect_pods ::
  "('s, 'r) MacOSExecProvider \<Rightarrow> go_time \<Rightarrow> (NamespacedName \<rightharpoonup> PodProcess) \<Rightarrow> NamespacedName list \<Rightarrow> Pod list" where
  "collect_pods p now processes [] = []"
| "collect_pods p now processes (k # ks) =
     (case processes k of
        None \<Rightarrow> collect_pods p now processes ks
      | Some process \<Rightarrow>
          (case pp_Pod process of
             None \<Rightarrow> collect_pods p now processes ks
           | Some pod \<Rightarrow>
               pod\<lparr>pod_Status := Some (getPodStatusFromProcess p now process)\<rparr> # collect_pods p now processes ks))"

definition Provider_GetPods ::
  "('s, 'r) MacOSExecProvider \<Rightarrow> ('s, 'r) provider_state \<Rightarrow> go_time \<Rightarrow> NamespacedName list \<Rightarrow> Pod list result" where
  "Provider_GetPods p w now order =
     (case rc_GetPodList (prv_runtimeClient p) (ps_runtime w) of
        Inl err \<Rightarrow> Inl err
      | Inr processes \<Rightarrow> Inr (collect_pods p now processes order))"

section \<open>Containers\<close>

definition Provider_GetContainerLogs ::
  "('s, 'r) MacOSExecProvider \<Rightarrow> ('s, 'r) provider_state \<Rightarrow> string \<Rightarrow> string \<Rightarrow> string \<Rightarrow> string result" where
  "Provider_GetContainerLogs p w namespace podName containerName =
     rc_GetContainerLogs (prv_runtimeClient p) (ps_runtime w) namespace podName containerName"

definition Provider_RunInContainer ::
  "('s, 'r) MacOSExecProvider \<Rightarrow> ('s, 'r) provider_state \<Rightarrow> string \<Rightarrow> string \<Rightarrow> string \<Rightarrow> string list \<Rightarrow> goerr option" where
  "Provider_RunInContainer p w namespace podName containerName cmd =
     rc_ExecuteContainerCommand (prv_runtimeClient p) (ps_runtime w) namespace podName containerName cmd"

definition Provider_AttachToContainer ::
  "('s, 'r) MacOSExecProvider \<Rightarrow> ('s, 'r) provider_state \<Rightarrow> string \<Rightarrow> string \<Rightarrow> string \<Rightarrow> goerr option" where
  "Provider_AttachToContainer p w namespace podName containerName = Some errNotImplemented"

definition Provider_PortForward ::
  "('s, 'r) MacOSExecProvider \<Rightarrow> ('s, 'r) provider_state \<Rightarrow> string \<Rightarrow> string \<Rightarrow> 32 word \<Rightarrow> goerr option" where
  "Provider_PortForward p w namespace pod port = Some errNotImplemented"

text \<open>The hooks that were run are returned beside the error.\<close>

definition pre_stop_command :: "Container \<Rightarrow> string list option" where
  "pre_stop_command container =
     (case ctr_Lifecycle container of
        None \<Rightarrow> None
      | Some lifecycle \<Rightarrow>
          (case lc_PreStop lifecycle of None \<Rightarrow> None | Some h \<Rightarrow> lh_Exec h))"

fun run_hooks ::
  "(string \<Rightarrow> string list \<Rightarrow> goerr option) \<Rightarrow> Container list \<Rightarrow> (string \<times> string list) list \<times> goerr option" where
  "run_hooks exec [] = ([], None)"
| "run_hooks exec (container # rest) =
     (case pre_stop_command container of
        None \<Rightarrow> run_hooks exec rest
      | Some command \<Rightarrow>
          (case exec (ctr_Name container) command of
             Some err \<Rightarrow> ([(ctr_Name container, command)], Some err)
           | None \<Rightarrow>
               (let (ran, r) = run_hooks exec rest in ((ctr_Name container, command) # ran, r))))"

definition handlePreStopHooks ::
  "('s, 'r) MacOSExecProvider \<Rightarrow> ('s, 'r) provider_state \<Rightarrow> Pod \<Rightarrow> 64 word
     \<Rightarrow> (string \<times> string list) list \<times> goerr option" where
  "handlePreStopHooks p w pod gracePeriod =
     run_hooks (rc_ExecuteContainerCommand (prv_runtimeClient p) (ps_runtime w) (pod_Namespace pod) (pod_Name pod))
       (spec_Containers (pod_Spec pod))"

section \<open>The provider over any runtime client\<close>

lemma pod_key_status [simp]: "pod_key (pod\<lparr>pod_Status := st\<rparr>) = pod_key pod"
  by (simp add: pod_key_def)

lemma getPodStatus_phase [simp]: "pst_Phase (getPodStatusFromProcess p now pp) = process_phase pp"
  by (simp add: getPodStatusFromProcess_def Let_def)

lemma DeletePod_fields [simp]:
  "ps_runtime (fst (Provider_DeletePod p w pod)) = ps_runtime w"
  "ps_deletions (fst (Provider_DeletePod p w pod)) = ps_deletions w"
  "snd (Provider_DeletePod p w pod) = None"
  by (simp_all add: Provider_DeletePod_def)

text \<open>The part of \<^verbatim>\<open>CreatePod\<close> before the runtime client is called.\<close>

definition pod_inputs ::
  "registry_lib \<Rightarrow> K8sClient \<Rightarrow> Pod \<Rightarrow> ((string \<rightharpoonup> ConfigMap) \<times> string \<times> RegistryCredentialStore) result" where
  "pod_inputs lib k8s pod =
     andThen (extractPodCredentials k8s pod) (\<lambda>(cms, tok).
     andThen (resolveImagePullCredentials k8s (rl_unmarshal lib) (rl_lookup lib) pod) (\<lambda>creds.
       Inr (cms, tok, creds)))"

lemma Provider_CreatePod_ok:
  assumes "pod_inputs lib (prv_k8sClient p) pod = Inr (cms, tok, creds)"
  shows "Provider_CreatePod lib p w ctx pod =
    (case rc_CreatePod (prv_runtimeClient p) (ps_runtime w) pod tok cms creds of
       (s, r) \<Rightarrow> (w\<lparr>ps_runtime := s\<rparr>, r))"
  using assms by (auto simp: pod_inputs_def Provider_CreatePod_def go_result Let_def split: sum.splits prod.splits)

lemma Provider_CreatePod_early:
  assumes "pod_inputs lib (prv_k8sClient p) pod = Inl e"
  shows "Provider_CreatePod lib p w ctx pod =
    (if isl (extractPodCredentials (prv_k8sClient p) pod) then (w, Some e)
     else (w\<lparr>ps_recorder := er_FailedToResolveImagePullSecrets (prv_eventRecorder p) (ps_recorder w)
              (WithObjectRef ctx (pod_ref pod)) e\<rparr>, Some (AsInvalidInput e)))"
  using assms by (auto simp: pod_inputs_def Provider_CreatePod_def go_result Let_def split: sum.splits prod.splits)

lemma Provider_CreatePod_cases [consumes 1, case_names early late]:
  assumes "Provider_CreatePod lib p w ctx pod = (w', r)"
  obtains (early) e where "r = Some e" "ps_runtime w' = ps_runtime w" "ps_deleting w' = ps_deleting w"
      "ps_deletions w' = ps_deletions w"
  | (late) tok cms creds s where "rc_CreatePod (prv_runtimeClient p) (ps_runtime w) pod tok cms creds = (s, r)"
      "w' = w\<lparr>ps_runtime := s\<rparr>"
proof (cases "pod_inputs lib (prv_k8sClient p) pod")
  case (Inl e)
  then show ?thesis
    using assms early by (auto simp: Provider_CreatePod_early split: if_splits)
next
  case (Inr x)
  obtain cms tok creds where x: "x = (cms, tok, creds)" by (cases x) auto
  show ?thesis
    using assms late Inr by (auto simp: x Provider_CreatePod_ok split: prod.splits)
qed

locale provider_contract = runtime_contract rc inv view
  for rc :: "'s RuntimeClient" and inv view +
  fixes p :: "('s, 'r) MacOSExecProvider"
  assumes runtime_client: "prv_runtimeClient p = rc"
begin

text \<open>The pods the provider manages, as its runtime client sees them.\<close>

definition pods_of :: "('s, 'r) provider_state \<Rightarrow> NamespacedName \<Rightarrow> PodProcess option" where
  "pods_of w = view (ps_runtime w)"

lemma create_failure:
  assumes "Provider_CreatePod lib p w ctx pod = (w', Some e)"
  shows "pods_of w' = pods_of w"
  using assms
proof (cases rule: Provider_CreatePod_cases)
  case late
  then show ?thesis using create_error runtime_client by (simp add: pods_of_def)
qed (simp add: pods_of_def)

lemma create_success:
  assumes "Provider_CreatePod lib p w ctx pod = (w', None)"
  shows "pods_of w (pod_key pod) = None \<and>
    (\<exists>pp. pods_of w' = (pods_of w)(pod_key pod \<mapsto> pp) \<and> pp_Pod pp = Some pod \<and> pp_ExitCode pp = - 1)"
  using assms
proof (cases rule: Provider_CreatePod_cases)
  case late
  then show ?thesis using create_ok runtime_client by (simp add: pods_of_def)
qed simp

lemma status_query:
  "\<exists>w'. Provider_GetPodStatus p w now ns n =
     (w', case pods_of w (namespaced ns n) of
            None \<Rightarrow> Inl (ErrNotFound ''pod process not found'')
          | Some pp \<Rightarrow> Inr (getPodStatusFromProcess p now pp)) \<and> pods_of w' = pods_of w"
proof -
  obtain s q where "rc_GetPod rc (ps_runtime w) ns n = (s, q)" by fastforce
  with get_view [OF this] show ?thesis
    by (auto simp: Provider_GetPodStatus_def runtime_client pods_of_def Let_def split: option.split)
qed

lemma pod_query:
  assumes "inv (ps_runtime w)"
  shows "\<exists>w'. Provider_GetPod p w now ns n =
     (w', case pods_of w (namespaced ns n) of
            None \<Rightarrow> Inl (ErrNotFound ''pod process not found'')
          | Some pp \<Rightarrow> Inr ((the (pp_Pod pp))\<lparr>pod_Status := Some (getPodStatusFromProcess p now pp)\<rparr>)) \<and>
     pods_of w' = pods_of w"
proof -
  obtain s q where q: "rc_GetPod rc (ps_runtime w) ns n = (s, q)" by fastforce
  show ?thesis
  proof (cases "view (ps_runtime w) (namespaced ns n)")
    case None
    then show ?thesis using get_view [OF q] q
      by (simp add: Provider_GetPod_def runtime_client pods_of_def Let_def)
  next
    case (Some pp)
    obtain pod where "pp_Pod pp = Some pod" using view_entry [OF assms Some] by blast
    then show ?thesis using get_view [OF q] q Some
      by (simp add: Provider_GetPod_def runtime_client pods_of_def Let_def)
  qed
qed

lemma deletion:
  "pods_of (handleDeletePod p w pod) = (pods_of w)(pod_key pod := None) \<and>
   ps_deletions (handleDeletePod p w pod) =
     ps_deletions w @
       (if pods_of w (pod_key pod) = None then [] else [(pod_Namespace pod, pod_Name pod, Some 0)])"
proof -
  obtain s r where d: "rc_DeletePod rc (ps_runtime w) (pod_Namespace pod) (pod_Name pod)
      (case pod_DeletionGracePeriodSeconds pod of None \<Rightarrow> 0 | Some g \<Rightarrow> g) = (s, r)" by fastforce
  show ?thesis
    using delete_view [OF d] d
    by (auto simp: handleDeletePod_def runtime_client pods_of_def pod_key_def Let_def)
qed

lemma collect_pods_keys:
  assumes "inv (ps_runtime w)" and "rc_GetPodList rc (ps_runtime w) = Inr m" and "set order \<subseteq> dom (pods_of w)"
  shows "map pod_key (collect_pods p now m order) = order"
  using assms(3)
proof (induction order)
  case (Cons k ks)
  obtain pp where pp: "pods_of w k = Some pp" using Cons.prems by auto
  obtain pod where pod: "pp_Pod pp = Some pod" "pod_key pod = k"
    using view_entry [OF assms(1)] pp by (auto simp: pods_of_def)
  have "map_option pp_Pod (m k) = map_option pp_Pod (view (ps_runtime w) k)"
    using list_pods [of "ps_runtime w"] assms(2) by auto
  then obtain pr where "m k = Some pr" "pp_Pod pr = Some pod"
    using pp pod by (auto simp: pods_of_def)
  then show ?case using Cons pod by simp
qed simp

lemma listing:
  assumes "inv (ps_runtime w)" and "distinct order" and "set order = dom (pods_of w)"
  shows "\<exists>pods. Provider_GetPods p w now order = Inr pods \<and> map pod_key pods = order"
proof -
  obtain m where m: "rc_GetPodList rc (ps_runtime w) = Inr m" using list_pods by blast
  then show ?thesis
    using collect_pods_keys [OF assms(1) m] assms(3) by (simp add: Provider_GetPods_def runtime_client)
qed

end

end
