(* ===== verification/Exec_Provider.thy ===== *)
theory Exec_Provider
  imports Provider
begin

text \<open>
  The provider as the program builds it: over the process client. The laws the provider relies
  on hold for that client, so the lemmas of \<open>provider_contract\<close> apply; the properties below
  state what a kubelet sees.
\<close>

section \<open>The provider over the process client\<close>

definition exec_provider ::
  "os_env \<Rightarrow> term_env \<Rightarrow> 'r MacOSExecProviderConfig \<Rightarrow> (ProcessClient, 'r) MacOSExecProvider" where
  "exec_provider env tenv config =
     \<lparr>prv_runtimeClient = process_runtime env tenv, prv_k8sClient = pcf_K8sClient config,
      prv_eventRecorder = pcf_EventRecorder config, prv_nodeName = pcf_NodeName config,
      prv_platform = ''darwin'', prv_internalIP = pcf_InternalIP config,
      prv_daemonEndpointPort = pcf_DaemonEndpointPort config\<rparr>"

lemma NewMacOSExecProvider_exec:
  "NewMacOSExecProvider (process_runtime env tenv) config =
     (if pcf_Platform config = ''darwin'' then Inr (exec_provider env tenv config)
      else Inl (ErrInvalidInput ''platform type %q is not supported'' [pcf_Platform config]))"
  by (simp add: NewMacOSExecProvider_def exec_provider_def)

interpretation execp: provider_contract "process_runtime env tenv" client_inv client_view
  "exec_provider env tenv config"
  by unfold_locales (simp add: exec_provider_def)

type_synonym 'r exec_state = "(ProcessClient, 'r) provider_state"

abbreviation managed :: "'r exec_state \<Rightarrow> NamespacedName \<Rightarrow> PodProcess option" where
  "managed w \<equiv> client_view (ps_runtime w)"

section \<open>The operations of the provider, with their replies\<close>

datatype provider_op =
    OpCreate os_env registry_lib go_context Pod
  | OpUpdate Pod
  | OpDelete Pod
  | OpRunDeletion term_env nat
  | OpGet go_time string string
  | OpGetStatus go_time string string
  | OpExit NamespacedName "goerr option"

datatype reply = RNil | RError goerr | RPod Pod | RStatus PodStatus

definition reply_of :: "goerr option \<Rightarrow> reply" where
  "reply_of r = (case r of None \<Rightarrow> RNil | Some e \<Rightarrow> RError e)"

text \<open>
  Operations that the environment does not influence are run with the environments \<open>env0\<close>
  and \<open>tenv0\<close>. \<open>OpExit\<close> is the end of a process, noticed by its waiting goroutine.
\<close>

fun exec_op ::
  "os_env \<Rightarrow> term_env \<Rightarrow> 'r MacOSExecProviderConfig \<Rightarrow> 'r exec_state \<Rightarrow> provider_op \<Rightarrow> 'r exec_state \<times> reply" where
  "exec_op env0 tenv0 config w (OpCreate env lib ctx pod) =
     (let (w', r) = Provider_CreatePod lib (exec_provider env tenv0 config) w ctx pod in (w', reply_of r))"
| "exec_op env0 tenv0 config w (OpUpdate pod) =
     (let (w', r) = Provider_UpdatePod (exec_provider env0 tenv0 config) w pod in (w', reply_of r))"
| "exec_op env0 tenv0 config w (OpDelete pod) =
     (let (w', r) = Provider_DeletePod (exec_provider env0 tenv0 config) w pod in (w', reply_of r))"
| "exec_op env0 tenv0 config w (OpRunDeletion tenv i) =
     (run_deletion (exec_provider env0 tenv config) w i, RNil)"
| "exec_op env0 tenv0 config w (OpGet now ns n) =
     (let (w', r) = Provider_GetPod (exec_provider env0 tenv0 config) w now ns n
      in (w', case r of Inl e \<Rightarrow> RError e | Inr pod \<Rightarrow> RPod pod))"
| "exec_op env0 tenv0 config w (OpGetStatus now ns n) =
     (let (w', r) = Provider_GetPodStatus (exec_provider env0 tenv0 config) w now ns n
      in (w', case r of Inl e \<Rightarrow> RError e | Inr st \<Rightarrow> RStatus st))"
| "exec_op env0 tenv0 config w (OpExit k err) =
     (w\<lparr>ps_runtime := wait_process (ps_runtime w) k err\<rparr>, RNil)"

section \<open>The states the provider reaches\<close>

lemma run_deletion_fields:
  "i < length (ps_deleting w) \<Longrightarrow>
     ps_deleting (run_deletion p w i) = take i (ps_deleting w) @ drop (Suc i) (ps_deleting w)"
  "length (ps_deleting w) \<le> i \<Longrightarrow> run_deletion p w i = w"
  by (simp_all add: run_deletion_def handleDeletePod_def Let_def split: prod.split)

lemma exec_op_inv:
  assumes "client_inv (ps_runtime w)" and "exec_op env0 tenv0 config w op = (w', r)"
  shows "client_inv (ps_runtime w')"
proof (cases op)
  case (OpCreate env lib ctx pod)
  then obtain q where "Provider_CreatePod lib (exec_provider env tenv0 config) w ctx pod = (w', q)"
    using assms(2) by (auto split: prod.splits)
  then show ?thesis
  proof (cases rule: Provider_CreatePod_cases)
    case late
    then show ?thesis using CreatePod_inv [OF assms(1)] by (auto simp: exec_provider_def)
  qed (use assms(1) in simp)
next
  case (OpRunDeletion tenv i)
  then show ?thesis
    using assms DeletePod_inv [OF assms(1)]
    by (auto simp: run_deletion_def handleDeletePod_def exec_provider_def Let_def split: prod.splits if_splits)
next
  case (OpGet now ns n)
  then show ?thesis
    using assms GetPod_inv [OF assms(1)]
    by (auto simp: Provider_GetPod_def exec_provider_def Let_def split: prod.splits sum.splits option.splits)
next
  case (OpGetStatus now ns n)
  then show ?thesis
    using assms GetPod_inv [OF assms(1)]
    by (auto simp: Provider_GetPodStatus_def exec_provider_def Let_def split: prod.splits sum.splits)
next
  case (OpExit k err)
  then show ?thesis using assms wait_process_inv by auto
qed (use assms in \<open>auto simp: Provider_UpdatePod_def Provider_DeletePod_def\<close>)

text \<open>Every state the provider reaches, from a new process client with no deletion pending.\<close>

inductive exec_reach :: "'r MacOSExecProviderConfig \<Rightarrow> 'r exec_state \<Rightarrow> bool"
  for config where
  start: "exec_reach config
    \<lparr>ps_runtime = \<lparr>pc_processes = Map.empty, pc_logsDir = dir, pc_credential = cred, pc_trace = []\<rparr>,
     ps_recorder = rec, ps_deleting = [], ps_deletions = []\<rparr>"
| step: "exec_reach config w \<Longrightarrow> exec_op env0 tenv0 config w op = (w', r) \<Longrightarrow> exec_reach config w'"

lemma exec_reach_inv: "exec_reach config w \<Longrightarrow> client_inv (ps_runtime w)"
proof (induction rule: exec_reach.induct)
  case (start dir cred rec)
  show ?case using client_reach_inv [OF client_reach.reach_new] by simp
next
  case (step w env0 tenv0 op w' r)
  then show ?case using exec_op_inv by blast
qed

section \<open>A concrete provider\<close>

definition sample_k8s :: K8sClient where
  "sample_k8s =
     \<lparr>k8s_ConfigMaps_Get = (\<lambda>_ _. Inl (OSError ''not found'')),
      k8s_ServiceAccounts_CreateToken = (\<lambda>_ _ _. Inr ''token''),
      k8s_ServiceAccounts_Get = (\<lambda>_ sa. if sa = ''default'' then Inr \<lparr>sa_ImagePullSecrets = []\<rparr>
                                        else Inl (OSError ''not found'')),
      k8s_Secrets_Get = (\<lambda>_ _. Inl (OSError ''not found'')),
      apierrors_IsNotFound = (\<lambda>e. e = OSError ''not found'')\<rparr>"

definition sample_lib :: registry_lib where
  "sample_lib = \<lparr>rl_unmarshal = (\<lambda>_. Inr []), rl_lookup = (\<lambda>_ _. ([], False))\<rparr>"

definition sample_config :: "KubeEventRecorder MacOSExecProviderConfig" where
  "sample_config =
     \<lparr>pcf_NodeName = ''mac-1'', pcf_Platform = ''darwin'', pcf_InternalIP = ''10.0.0.7'',
      pcf_DaemonEndpointPort = 10250, pcf_K8sClient = sample_k8s, pcf_EventRecorder = kube_recorder\<rparr>"

definition sample_state :: "KubeEventRecorder exec_state" where
  "sample_state = \<lparr>ps_runtime = sample_client, ps_recorder = NewKubeEventRecorder [], ps_deleting = [], ps_deletions = []\<rparr>"

abbreviation sample_provider :: "(ProcessClient, KubeEventRecorder) MacOSExecProvider" where
  "sample_provider \<equiv> exec_provider sample_os stubborn sample_config"

abbreviation sample_created :: "KubeEventRecorder exec_state" where
  "sample_created \<equiv> sample_state\<lparr>ps_runtime := launched sample_os sample_client sample_pod sample_container\<rparr>"

lemma sample_inputs: "pod_inputs sample_lib sample_k8s sample_pod = Inr (Map.empty, [], \<lparr>store_keyring = None\<rparr>)"
  by (simp add: pod_inputs_def extractPodCredentials_def findProjections_def populateConfigMaps_def
      resolveImagePullCredentials_def service_account_name_def sample_k8s_def sample_pod_def sample_lib_def)

lemma sample_provider_creates:
  "Provider_CreatePod sample_lib sample_provider sample_state ctx sample_pod = (sample_created, None)"
proof -
  have "prv_k8sClient sample_provider = sample_k8s" "prv_runtimeClient sample_provider = process_runtime sample_os stubborn"
    by (simp_all add: exec_provider_def sample_config_def)
  then show ?thesis
    using Provider_CreatePod_ok [of sample_lib sample_provider sample_pod Map.empty "[]" sample_store sample_state ctx]
      sample_inputs sample_creates
    by (simp add: sample_state_def sample_store_def)
qed

lemma sample_state_reach: "exec_reach sample_config sample_state"
  unfolding sample_state_def sample_client_def by (rule exec_reach.start)

section \<open>The life of a pod\<close>

lemma status_reply:
  "snd (Provider_GetPodStatus (exec_provider env tenv config) w now ns n) =
     (case managed w (namespaced ns n) of
        None \<Rightarrow> Inl (ErrNotFound ''pod process not found'')
      | Some pp \<Rightarrow> Inr (getPodStatusFromProcess (exec_provider env tenv config) now pp))"
  using execp.status_query [where w = w and env = env and tenv = tenv and config = config and now = now and ns = ns and n = n]
  by (auto simp: execp.pods_of_def)

lemma created_process:
  assumes "Provider_CreatePod lib (exec_provider env tenv config) w ctx pod = (w1, None)"
  shows "\<exists>ctr rest st. spec_Containers (pod_Spec pod) = ctr # rest \<and> ps_deletions w1 = ps_deletions w \<and>
    pc_processes (ps_runtime w1) (pod_key pod) = Some st \<and> st_podProcess st =
      \<lparr>pp_Namespace = pod_Namespace pod, pp_Name = pod_Name pod, pp_Pid = st_pid st,
       pp_Command = ctr_Command ctr @ ctr_Args ctr, pp_StartedAt = os_Now env, pp_Pod = Some pod,
       pp_ExitCode = 0, pp_ExitError = None\<rparr> \<and> st_waitDone st = False"
  using assms
proof (cases rule: Provider_CreatePod_cases)
  case (late tok cms creds s)
  from late(1) have "ProcessClient_CreatePod env (ps_runtime w) pod tok cms creds = (s, None)"
    by (simp add: exec_provider_def)
  then show ?thesis
  proof (cases rule: CreatePod_cases)
    case (ok ctr rest)
    then show ?thesis using late(2)
      by (simp add: launched_def started_state_def)
  qed simp
qed simp



section \<open>What the status says of the process\<close>

lemma reported_status:
  assumes "pc_processes (ps_runtime w) (namespaced ns n) = Some st"
  shows "snd (Provider_GetPodStatus (exec_provider env tenv config) w now ns n) =
    Inr (getPodStatusFromProcess (exec_provider env tenv config) now (refreshed st))"
  using assms by (simp add: status_reply client_view_def)

text \<open>The phase and the readiness of a pod whose process ended with the given result of \<^verbatim>\<open>Wait\<close>.\<close>

fun ended_phase :: "goerr option \<Rightarrow> PodPhase" where
  "ended_phase None = PodSucceeded"
| "ended_phase (Some (ExitError (Exited k))) = (if k = 0 then PodSucceeded else PodFailed)"
| "ended_phase (Some (ExitError (Signaled sig))) = PodRunning"
| "ended_phase (Some e) = PodFailed"

lemma refreshed_waited:
  "pp_ExitCode (refreshed (waited st err)) = (case err of None \<Rightarrow> 0 | Some (ExitError x) \<Rightarrow> ExitCode x | Some e \<Rightarrow> 1)"
  "pp_StartedAt (refreshed (waited st err)) = pp_StartedAt (st_podProcess st)"
  by (simp_all add: refreshed_def waited_def exit_report_def split: option.split goerr.split)

lemma phase_waited:
  assumes "pp_StartedAt (st_podProcess st) \<noteq> 0"
  shows "process_phase (refreshed (waited st err)) = ended_phase err"
  using assms by (cases err rule: ended_phase.cases) (simp_all add: process_phase_def refreshed_waited IsZero_def)


lemma sample_created_state:
  "pc_processes (ps_runtime sample_created) (namespaced ''default'' ''job'') =
     Some (started_state sample_os sample_pod (launched_cmd sample_os sample_client sample_pod sample_container)
       (ctr_Command sample_container @ ctr_Args sample_container))"
  by (simp add: launched_def pod_key_def sample_pod_def)


section \<open>Listing the pods\<close>

text \<open>
  Property C18. \<^verbatim>\<open>GetPods\<close> lists every managed pod exactly once, in the order in which Go ranges
  over the map, each under its own namespace and name and with the spec it was created with.
\<close>

theorem GetPods_lists_managed:
  assumes "exec_reach config w" and "distinct order" and "set order = dom (managed w)"
  shows "\<exists>pods. Provider_GetPods (exec_provider env tenv config) w now order = Inr pods \<and>
    map pod_key pods = order \<and>
    (\<forall>pod\<in>set pods. \<exists>orig. Option.bind (managed w (pod_key pod)) pp_Pod = Some orig \<and> pod_Spec pod = pod_Spec orig)"
proof -
  note inv = exec_reach_inv [OF assms(1)]
  obtain pods where pods: "Provider_GetPods (exec_provider env tenv config) w now order = Inr pods" "map pod_key pods = order"
    using execp.listing [OF inv assms(2), of env tenv config now] assms(3) by (auto simp: execp.pods_of_def)
  obtain m where m: "ProcessClient_GetPodList (ps_runtime w) = Inr m" by (simp add: ProcessClient_GetPodList_def)
  then have pods_eq: "pods = collect_pods (exec_provider env tenv config) now m order"
    using pods(1) by (simp add: Provider_GetPods_def exec_provider_def)
  have same: "map_option pp_Pod (m k) = map_option pp_Pod (managed w k)" for k
    using pclient.list_pods [of sample_os stubborn "ps_runtime w"] m by auto
  have collected: "\<exists>k pr orig. m k = Some pr \<and> pp_Pod pr = Some orig \<and>
      pod = orig\<lparr>pod_Status := Some (getPodStatusFromProcess (exec_provider env tenv config) now pr)\<rparr>"
    if "pod \<in> set (collect_pods (exec_provider env tenv config) now m ks)" for pod ks
    using that by (induction ks) (auto split: option.splits)
  have "\<exists>orig. Option.bind (managed w (pod_key pod)) pp_Pod = Some orig \<and> pod_Spec pod = pod_Spec orig" if "pod \<in> set pods" for pod
  proof -
    from that obtain k pr orig where k: "m k = Some pr" "pp_Pod pr = Some orig"
        "pod = orig\<lparr>pod_Status := Some (getPodStatusFromProcess (exec_provider env tenv config) now pr)\<rparr>"
      using collected unfolding pods_eq by blast
    then obtain pp where pp: "managed w k = Some pp" "pp_Pod pp = Some orig"
      using same [of k] by (cases "managed w k") auto
    moreover have "pod_key orig = k" using pclient.view_entry [OF inv pp(1)] pp(2) by auto
    ultimately show ?thesis using k(3) by simp
  qed
  then show ?thesis using pods by blast
qed

theorem GetPods_lists_managed_witness:
  "\<exists>pods. Provider_GetPods sample_provider sample_created 9 [namespaced ''default'' ''job''] = Inr pods \<and>
     map pod_key pods = [namespaced ''default'' ''job'']"
proof -
  have "exec_reach sample_config sample_created"
    using exec_reach.step [OF sample_state_reach, of sample_os stubborn "OpCreate sample_os sample_lib [] sample_pod"]
    by (simp add: sample_provider_creates)
  moreover have "dom (managed sample_created) = {namespaced ''default'' ''job''}"
    by (auto simp: launched_def client_view_def pod_key_def sample_pod_def sample_client_def split: if_splits)
  ultimately show ?thesis
    using GetPods_lists_managed [of sample_config sample_created "[namespaced ''default'' ''job'']" sample_os stubborn 9]
    by auto
qed

text \<open>
  Property C19. \<^verbatim>\<open>GetPods\<close> contradicts \<^verbatim>\<open>GetPodStatus\<close> for a new pod: \<^verbatim>\<open>GetPodList\<close> does not
  refresh the exit code, which is still the zero value, so the list reports the pod as
  succeeded, terminated with code 0, while its status is running.
\<close>

theorem GetPods_premature_success:
  assumes "Provider_CreatePod lib (exec_provider env tenv config) w ctx pod = (w', None)" and "os_Now env \<noteq> 0"
  shows "\<exists>listed st s.
      Provider_GetPods (exec_provider env tenv config) w' now [pod_key pod] = Inr [listed] \<and>
      pod_key listed = pod_key pod \<and> pod_Status listed = Some st \<and> pst_Phase st = PodSucceeded \<and>
      snd (Provider_GetPodStatus (exec_provider env tenv config) w' now (pod_Namespace pod) (pod_Name pod)) = Inr s \<and>
      pst_Phase s = PodRunning"
proof -
  from created_process [OF assms(1)] obtain ctr :: Container and st where
    st: "pc_processes (ps_runtime w') (pod_key pod) = Some st" "st_podProcess st =
      \<lparr>pp_Namespace = pod_Namespace pod, pp_Name = pod_Name pod, pp_Pid = st_pid st,
       pp_Command = ctr_Command ctr @ ctr_Args ctr, pp_StartedAt = os_Now env, pp_Pod = Some pod,
       pp_ExitCode = 0, pp_ExitError = None\<rparr>" "st_waitDone st = False" by blast
  have "Provider_GetPods (exec_provider env tenv config) w' now [pod_key pod] =
      Inr [pod\<lparr>pod_Status := Some (getPodStatusFromProcess (exec_provider env tenv config) now (st_podProcess st))\<rparr>]"
    using st by (simp add: Provider_GetPods_def exec_provider_def ProcessClient_GetPodList_def sm_Load_def)
  moreover have "process_phase (st_podProcess st) = PodSucceeded" by (simp add: st(2) process_phase_def)
  moreover have "process_phase (refreshed st) = PodRunning"
    using assms(2) st by (simp add: refreshed_def exit_report_def process_phase_def IsZero_def)
  ultimately show ?thesis
    using reported_status [of w' "pod_Namespace pod" "pod_Name pod" st env tenv config now] st(1)
    by (simp add: pod_key_def)
qed

theorem GetPods_premature_success_witness:
  "\<exists>listed st. Provider_GetPods sample_provider sample_created 9 [namespaced ''default'' ''job''] = Inr [listed] \<and>
     pod_Status listed = Some st \<and> pst_Phase st = PodSucceeded"
  using GetPods_premature_success [OF sample_provider_creates, of 9]
  by (auto simp: pod_key_def sample_pod_def sample_os_def)

section \<open>Failures\<close>

text \<open>
  Property C20. A creation that fails leaves the managed pods as they are. An event is sent
  exactly when the pull secrets cannot be resolved: one warning about the pod that carries the
  error, and the error returned is marked as invalid input; errors of the projections and of
  the runtime client are returned as they are and send nothing.
\<close>

theorem CreatePod_failure_reported:
  assumes "Provider_CreatePod lib (exec_provider env tenv config) w ctx pod = (w', Some e)"
    and "pcf_EventRecorder config = kube_recorder"
  shows "managed w' = managed w \<and>
    (case extractPodCredentials (pcf_K8sClient config) pod of
       Inl err \<Rightarrow> e = err \<and> ps_recorder w' = ps_recorder w
     | Inr _ \<Rightarrow>
         (case resolveImagePullCredentials (pcf_K8sClient config) (rl_unmarshal lib) (rl_lookup lib) pod of
            Inl err \<Rightarrow> e = AsInvalidInput err \<and>
              ker_eventRecorder (ps_recorder w') = ker_eventRecorder (ps_recorder w) @
                [\<lparr>ev_object = pod_ref pod, ev_type = EventTypeWarning, ev_reason = eventReasonFailedImagePullSecrets,
                  ev_messageFmt = ''Failed to resolve image pull secrets: %v'', ev_args = [AErr err]\<rparr>]
          | Inr _ \<Rightarrow> ps_recorder w' = ps_recorder w))"
proof -
  have "managed w' = managed w"
    using execp.create_failure [OF assms(1)] by (simp add: execp.pods_of_def)
  moreover have "prv_k8sClient (exec_provider env tenv config) = pcf_K8sClient config"
    "prv_eventRecorder (exec_provider env tenv config) = kube_recorder"
    using assms(2) by (simp_all add: exec_provider_def)
  ultimately show ?thesis
    using assms(1)
    by (auto simp: Provider_CreatePod_def Let_def kube_recorder_def Kube_FailedToResolveImagePullSecrets_def
        recordEvent_sent split: sum.splits prod.splits)
qed

definition stranger_pod :: Pod where
  "stranger_pod = sample_pod\<lparr>pod_Spec := (pod_Spec sample_pod)\<lparr>spec_ServiceAccountName := ''builder''\<rparr>\<rparr>"

theorem CreatePod_failure_reported_witness:
  "\<exists>w' err. Provider_CreatePod sample_lib sample_provider sample_state [] stranger_pod = (w', Some (AsInvalidInput err)) \<and>
     map ev_object (ker_eventRecorder (ps_recorder w')) = [pod_ref stranger_pod]"
proof -
  have res: "extractPodCredentials (pcf_K8sClient sample_config) stranger_pod = Inr (Map.empty, [])"
    "resolveImagePullCredentials (pcf_K8sClient sample_config) (rl_unmarshal sample_lib) (rl_lookup sample_lib) stranger_pod =
      Inl (Wrapf ''service account %q not found: %w'' [''builder''] (OSError ''not found''))"
    by (simp_all add: extractPodCredentials_def findProjections_def populateConfigMaps_def stranger_pod_def
        sample_pod_def sample_config_def sample_k8s_def resolveImagePullCredentials_def service_account_name_def)
  then obtain w' e where "Provider_CreatePod sample_lib sample_provider sample_state [] stranger_pod = (w', Some e)"
    by (simp add: Provider_CreatePod_def exec_provider_def)
  with CreatePod_failure_reported [OF this] res show ?thesis
    by (simp add: sample_config_def sample_state_def NewKubeEventRecorder_def)
qed

section \<open>Hooks\<close>

definition hooks_of :: "Container list \<Rightarrow> (string \<times> string list) list" where
  "hooks_of cs = List.map_filter (\<lambda>c. map_option (Pair (ctr_Name c)) (pre_stop_command c)) cs"

lemma hooks_of_simps [simp]:
  "hooks_of [] = []"
  "hooks_of (c # cs) =
     (case pre_stop_command c of None \<Rightarrow> hooks_of cs | Some cmd \<Rightarrow> (ctr_Name c, cmd) # hooks_of cs)"
  by (simp_all add: hooks_of_def List.map_filter_simps split: option.split)

lemma run_hooks_spec:
  "run_hooks exec cs =
     (let ok = takeWhile (\<lambda>(c, cmd). exec c cmd = None) (hooks_of cs); rest = drop (length ok) (hooks_of cs)
      in case rest of [] \<Rightarrow> (ok, None) | (c, cmd) # _ \<Rightarrow> (ok @ [(c, cmd)], exec c cmd))"
  by (induction cs) (auto simp: Let_def split: option.splits list.splits prod.splits)

text \<open>
  The pre-stop hooks of a pod run in the order of its containers up to the first
  that fails, whose error is the result; containers without an exec hook are skipped. Over the
  process client, which cannot execute in a running process, the first hook already fails, and
  a pod without hooks passes.
\<close>

theorem handlePreStopHooks_order:
  "handlePreStopHooks p w pod g =
     (let exec = (\<lambda>(c, cmd). rc_ExecuteContainerCommand (prv_runtimeClient p) (ps_runtime w)
                    (pod_Namespace pod) (pod_Name pod) c cmd);
          hooks = hooks_of (spec_Containers (pod_Spec pod));
          ok = takeWhile (\<lambda>h. exec h = None) hooks
      in case drop (length ok) hooks of [] \<Rightarrow> (ok, None) | h # _ \<Rightarrow> (ok @ [h], exec h)) \<and>
   handlePreStopHooks (exec_provider env tenv config) v pod g =
     (case hooks_of (spec_Containers (pod_Spec pod)) of
        [] \<Rightarrow> ([], None)
      | h # _ \<Rightarrow> ([h], Some (Errorf ''executing in running process not supported yet'' [])))"
proof
  show "handlePreStopHooks p w pod g =
     (let exec = (\<lambda>(c, cmd). rc_ExecuteContainerCommand (prv_runtimeClient p) (ps_runtime w)
                    (pod_Namespace pod) (pod_Name pod) c cmd);
          hooks = hooks_of (spec_Containers (pod_Spec pod));
          ok = takeWhile (\<lambda>h. exec h = None) hooks
      in case drop (length ok) hooks of [] \<Rightarrow> (ok, None) | h # _ \<Rightarrow> (ok @ [h], exec h))"
    by (simp add: handlePreStopHooks_def run_hooks_spec Let_def case_prod_unfold split: list.split)
  show "handlePreStopHooks (exec_provider env tenv config) v pod g =
     (case hooks_of (spec_Containers (pod_Spec pod)) of
        [] \<Rightarrow> ([], None)
      | h # _ \<Rightarrow> ([h], Some (Errorf ''executing in running process not supported yet'' [])))"
    by (simp add: handlePreStopHooks_def run_hooks_spec exec_provider_def
        ProcessClient_ExecuteContainerCommand_def Let_def split: list.split prod.split)
qed

end
