(* ===== verification/Netutil.thy ===== *)
theory Netutil
  imports Prelude Go_Strings
begin

unbundle bit_operations_syntax

text \<open>
  \<^verbatim>\<open>internal/netutil\<close>: MAC addresses (\<^verbatim>\<open>mac.go\<close>), the address of the active network interface
  (\<^verbatim>\<open>ifaces.go\<close>) and the address of a guest from the ARP table or from captured packets
  (\<^verbatim>\<open>ip_addr.go\<close>). Random bytes, the parsing of CIDR notation, the output of \<^verbatim>\<open>arp\<close> and the
  captured packets are arguments.
\<close>

section \<open>MAC addresses\<close>

definition hex_digit :: "nat \<Rightarrow> char" where
  "hex_digit n = ''0123456789abcdef'' ! n"

text \<open>\<^verbatim>\<open>net.HardwareAddr.String\<close>: two digits per byte, separated by colons.\<close>

definition hex_byte :: "8 word \<Rightarrow> string" where
  "hex_byte b = [hex_digit (unat b div 16), hex_digit (unat b mod 16)]"

definition HardwareAddr_String :: "8 word list \<Rightarrow> string" where
  "HardwareAddr_String bs = strings_Join (map hex_byte bs) '':''"

definition set_mac_bits :: "8 word \<Rightarrow> 8 word" where
  "set_mac_bits b = (b OR 0x02) AND 0xfe"

text \<open>\<open>rand\<close> is what \<^verbatim>\<open>rand.Read\<close> puts into the buffer of six bytes, or its error.\<close>

definition GenerateRandMAC :: "8 word list result \<Rightarrow> string result" where
  "GenerateRandMAC rand =
     (case rand of
        Inl err \<Rightarrow> Inl (Wrapf ''unable to retrieve 6 rnd bytes: %w'' [] err)
      | Inr buf \<Rightarrow> Inr (HardwareAddr_String (buf[0 := set_mac_bits (buf ! 0)])))"

definition normalize_part :: "string \<Rightarrow> string" where
  "normalize_part part = (if length part = 2 \<and> part ! 0 = CHR ''0'' then drop 1 part else part)"

definition NormalizeMACAddress :: "string \<Rightarrow> string" where
  "NormalizeMACAddress mac = strings_Join (map normalize_part (strings_Split mac CHR '':'')) '':''"

section \<open>The active interface\<close>

text \<open>An IP address as Go keeps it: four bytes, or sixteen.\<close>

datatype ip = IP4 "8 word list" | IP16 "8 word list"

text \<open>\<^verbatim>\<open>To4\<close> is not nil for the IPv4 form and for the sixteen bytes of a mapped IPv4 address.\<close>

fun To4 :: "ip \<Rightarrow> 8 word list option" where
  "To4 (IP4 bs) = Some bs"
| "To4 (IP16 bs) =
     (if length bs = 16 \<and> take 12 bs = replicate 10 0 @ [0xff, 0xff] then Some (drop 12 bs) else None)"

fun IsLoopback :: "ip \<Rightarrow> bool" where
  "IsLoopback i =
     (case To4 i of
        Some bs \<Rightarrow> bs ! 0 = 127
      | None \<Rightarrow> (case i of IP16 bs \<Rightarrow> bs = replicate 15 0 @ [1] | IP4 bs \<Rightarrow> False))"

record InterfaceStat =
  if_Name :: string
  if_Addrs :: "string list"

text \<open>
  \<open>parse\<close> is \<^verbatim>\<open>net.ParseCIDR\<close>, \<open>None\<close> for an error, and \<open>show_ip\<close> the \<^verbatim>\<open>String\<close> method.
\<close>

record ip_lib =
  il_ParseCIDR :: "string \<Rightarrow> ip option"
  il_String :: "ip \<Rightarrow> string"

fun find_addr :: "ip_lib \<Rightarrow> string list \<Rightarrow> string option" where
  "find_addr lib [] = None"
| "find_addr lib (a # rest) =
     (case il_ParseCIDR lib a of
        None \<Rightarrow> find_addr lib rest
      | Some i \<Rightarrow> if To4 i \<noteq> None \<and> \<not> IsLoopback i then Some (il_String lib i) else find_addr lib rest)"

definition findValidIP :: "ip_lib \<Rightarrow> InterfaceStat \<Rightarrow> string option" where
  "findValidIP lib i = find_addr lib (if_Addrs i)"

definition isEthernet :: "string \<Rightarrow> bool" where
  "isEthernet name = strings_HasPrefix name ''en''"

text \<open>One pass over the interfaces that satisfy a condition.\<close>

fun scan_interfaces :: "ip_lib \<Rightarrow> (InterfaceStat \<Rightarrow> bool) \<Rightarrow> InterfaceStat list \<Rightarrow> string option" where
  "scan_interfaces lib P [] = None"
| "scan_interfaces lib P (i # rest) =
     (if P i then (case findValidIP lib i of Some ip \<Rightarrow> Some ip | None \<Rightarrow> scan_interfaces lib P rest)
      else scan_interfaces lib P rest)"

definition GetActiveInterface :: "ip_lib \<Rightarrow> InterfaceStat list \<Rightarrow> string result" where
  "GetActiveInterface lib ifs =
     (case scan_interfaces lib (\<lambda>i. isEthernet (if_Name i)) ifs of
        Some ip \<Rightarrow> Inr ip
      | None \<Rightarrow>
          (case scan_interfaces lib (\<lambda>i. \<not> isEthernet (if_Name i)) ifs of
             Some ip \<Rightarrow> Inr ip
           | None \<Rightarrow> Inl (ErrNotFound ''no valid IP address found'')))"

section \<open>The address of a guest\<close>

text \<open>The lines a \<^verbatim>\<open>bufio.Scanner\<close> delivers: no empty last line, and no carriage return at the end.\<close>

definition strip_cr :: "string \<Rightarrow> string" where
  "strip_cr l = (if l \<noteq> [] \<and> last l = CHR 0x0D then butlast l else l)"

definition scan_lines :: "string \<Rightarrow> string list" where
  "scan_lines s =
     (let ls = strings_Split s CHR 0x0A in map strip_cr (if last ls = [] then butlast ls else ls))"

fun arp_lookup :: "string \<Rightarrow> string list \<Rightarrow> string option" where
  "arp_lookup macAddr [] = None"
| "arp_lookup macAddr (line # rest) =
     (if strings_Contains (strings_ToLower line) (strings_ToLower macAddr)
      then (let fields = strings_Fields line in
            if length fields > 1 then Some (strings_Trim (fields ! 1) ''()'') else arp_lookup macAddr rest)
      else arp_lookup macAddr rest)"

text \<open>
  The rounds of the loop: \<open>done\<close> is \<^verbatim>\<open>ctx.Err()\<close> once the context is done, \<open>arp i\<close> what the
  command of round \<open>i\<close> returns. No result after \<open>fuel\<close> rounds means the loop goes on.
\<close>

fun arp_loop :: "(nat \<Rightarrow> goerr option) \<Rightarrow> (nat \<Rightarrow> string result) \<Rightarrow> string \<Rightarrow> nat \<Rightarrow> nat \<Rightarrow> string result option" where
  "arp_loop ctx arp macAddr i 0 = None"
| "arp_loop ctx arp macAddr i (Suc fuel) =
     (case ctx i of
        Some e \<Rightarrow> Some (Inl e)
      | None \<Rightarrow>
          (case arp i of
             Inl err \<Rightarrow> Some (Inl err)
           | Inr cmdOutput \<Rightarrow>
               (case arp_lookup macAddr (scan_lines cmdOutput) of
                  Some ip \<Rightarrow> Some (Inr ip)
                | None \<Rightarrow> arp_loop ctx arp macAddr (Suc i) fuel)))"

definition RetrieveIPFromARPTable ::
  "(nat \<Rightarrow> goerr option) \<Rightarrow> (nat \<Rightarrow> string result) \<Rightarrow> nat \<Rightarrow> string \<Rightarrow> string result option" where
  "RetrieveIPFromARPTable ctx arp fuel macAddr = arp_loop ctx arp macAddr 0 fuel"

text \<open>What the \<^verbatim>\<open>select\<close> of the capture loop receives: a packet with its source address, if it has a network layer, or the end of the context.\<close>

datatype capture_event = Packet "string option" | CtxDone goerr

fun capture_loop :: "capture_event list \<Rightarrow> string result option" where
  "capture_loop [] = None"
| "capture_loop (Packet (Some src) # es) = Some (Inr src)"
| "capture_loop (Packet None # es) = capture_loop es"
| "capture_loop (CtxDone e # es) = Some (Inl e)"

text \<open>\<open>open_live\<close> and \<open>set_filter\<close> are the errors of the capture library.\<close>

definition CaptureIPWithTcpDump ::
  "(string \<Rightarrow> goerr option) \<Rightarrow> (string \<Rightarrow> goerr option) \<Rightarrow> (string \<Rightarrow> capture_event list) \<Rightarrow> string \<Rightarrow> string
     \<Rightarrow> string result option" where
  "CaptureIPWithTcpDump open_live set_filter packets interfaceName macAddr =
     (case open_live interfaceName of
        Some err \<Rightarrow> Some (Inl (Wrapf ''failed to open device: %w'' [] err))
      | None \<Rightarrow>
          (let filt = ''ether src '' @ macAddr @ '' and ip and not src host 0.0.0.0'' in
           case set_filter filt of
             Some err \<Rightarrow> Some (Inl (Wrapf ''failed to set BPF filter: %w'' [] err))
           | None \<Rightarrow> capture_loop (packets filt)))"

section \<open>Facts on MAC addresses\<close>

lemma set_mac_bits_bits: "bit (set_mac_bits b) 1" "\<not> bit (set_mac_bits b) 0"
  by (simp_all add: set_mac_bits_def bit_simps)

lemma set_mac_bits_rest: "drop_bit 2 (set_mac_bits b) = drop_bit 2 b"
proof (rule bit_word_eqI)
  fix n assume "n < LENGTH(8)"
  then consider "n = 0" | "n = 1" | "n = 2" | "n = 3" | "n = 4" | "n = 5" | "n = 6" | "n = 7" by fastforce
  then show "bit (drop_bit 2 (set_mac_bits b)) n = bit (drop_bit 2 b) n"
    by cases (auto simp: set_mac_bits_def bit_simps dest: bit_imp_le_length)
qed

lemma hex_digit_inject: "i < 16 \<Longrightarrow> j < 16 \<Longrightarrow> hex_digit i = hex_digit j \<longleftrightarrow> i = j"
  using nth_eq_iff_index_eq [of "''0123456789abcdef''" i j] by (simp add: hex_digit_def)

lemma unat_byte: "unat (b :: 8 word) < 256"
proof -
  have "unat b < 2 ^ LENGTH(8)" by (rule unsigned_less)
  then show ?thesis by simp
qed

lemma hex_byte_inject: "hex_byte a = hex_byte b \<longleftrightarrow> a = b"
proof
  assume "hex_byte a = hex_byte b"
  then have "unat a div 16 = unat b div 16" "unat a mod 16 = unat b mod 16"
    using hex_digit_inject unat_byte [of a] unat_byte [of b] by (auto simp: hex_byte_def)
  then have "unat a = unat b" by (metis div_mod_decomp)
  then show "a = b" by (simp add: word_unat_eq_iff)
qed simp

lemma hex_digit_cases: "i < 16 \<Longrightarrow> hex_digit i \<noteq> CHR '':'' \<and> (hex_digit i = CHR ''0'' \<longleftrightarrow> i = 0)"
proof -
  have "list_all (\<lambda>i. hex_digit i \<noteq> CHR '':'' \<and> (hex_digit i = CHR ''0'' \<longleftrightarrow> i = 0)) [0..<16]" by code_simp
  then show "i < 16 \<Longrightarrow> ?thesis" by (simp add: list_all_iff)
qed

lemma hex_byte_no_colon: "CHR '':'' \<notin> set (hex_byte b)"
proof -
  have "unat b div 16 < 16" "unat b mod 16 < 16" using unat_byte [of b] by auto
  then show ?thesis
    using hex_digit_cases [of "unat b div 16"] hex_digit_cases [of "unat b mod 16"] by (auto simp: hex_byte_def)
qed

lemma Split_HardwareAddr: "bs \<noteq> [] \<Longrightarrow> strings_Split (HardwareAddr_String bs) CHR '':'' = map hex_byte bs"
  unfolding HardwareAddr_String_def by (rule strings_Split_Join) (auto simp: hex_byte_no_colon)

text \<open>A byte as \<^verbatim>\<open>arp\<close> prints it: in hexadecimal, without a leading zero.\<close>

definition arp_byte :: "8 word \<Rightarrow> string" where
  "arp_byte b = (if unat b < 16 then [hex_digit (unat b)] else hex_byte b)"

lemma normalize_hex_byte: "normalize_part (hex_byte b) = arp_byte b"
proof -
  have "unat b div 16 < 16" using unat_byte [of b] by auto
  then have "hex_digit (unat b div 16) = CHR ''0'' \<longleftrightarrow> unat b < 16" using hex_digit_cases by auto
  then show ?thesis by (auto simp: normalize_part_def hex_byte_def arp_byte_def)
qed

lemma normalize_part_idem: "normalize_part (normalize_part p) = normalize_part p"
  by (auto simp: normalize_part_def)

lemma normalize_part_no_colon: "CHR '':'' \<notin> set p \<Longrightarrow> CHR '':'' \<notin> set (normalize_part p)"
  by (auto simp: normalize_part_def dest: in_set_dropD)

text \<open>
  A generated address has six bytes of which the first is marked as locally
  administered and unicast, while every other bit is the random one; normalised, it is the
  address in the form \<^verbatim>\<open>arp\<close> prints it. Normalising any address twice is the same as once. It
  does not change the case of letters, though the comment on it says so.
\<close>

lemma mac_addresses:
  "(length buf = 6 \<longrightarrow>
      (\<exists>b. GenerateRandMAC (Inr buf) = Inr (HardwareAddr_String (b # tl buf)) \<and>
         bit b 1 \<and> \<not> bit b 0 \<and> drop_bit 2 b = drop_bit 2 (hd buf) \<and>
         strings_Split (HardwareAddr_String (b # tl buf)) CHR '':'' = map hex_byte (b # tl buf) \<and>
         NormalizeMACAddress (HardwareAddr_String (b # tl buf)) = strings_Join (map arp_byte (b # tl buf)) '':'')) \<and>
   NormalizeMACAddress (NormalizeMACAddress mac) = NormalizeMACAddress mac \<and>
   NormalizeMACAddress ''00:1A:2B:3C:4D:5E'' = ''0:1A:2B:3C:4D:5E''"
proof (intro conjI impI)
  assume "length buf = 6"
  then obtain x xs where buf: "buf = x # xs" by (cases buf) auto
  have "NormalizeMACAddress (HardwareAddr_String (b # xs)) = strings_Join (map arp_byte (b # xs)) '':''" for b
    using Split_HardwareAddr [of "b # xs"] by (simp add: NormalizeMACAddress_def normalize_hex_byte comp_def)
  then show "\<exists>b. GenerateRandMAC (Inr buf) = Inr (HardwareAddr_String (b # tl buf)) \<and>
         bit b 1 \<and> \<not> bit b 0 \<and> drop_bit 2 b = drop_bit 2 (hd buf) \<and>
         strings_Split (HardwareAddr_String (b # tl buf)) CHR '':'' = map hex_byte (b # tl buf) \<and>
         NormalizeMACAddress (HardwareAddr_String (b # tl buf)) = strings_Join (map arp_byte (b # tl buf)) '':''"
    using set_mac_bits_bits [of x] set_mac_bits_rest [of x] Split_HardwareAddr [of "set_mac_bits x # xs"]
    by (intro exI [of _ "set_mac_bits x"]) (simp add: GenerateRandMAC_def buf)
next
  let ?ps = "map normalize_part (strings_Split mac CHR '':'')"
  have "strings_Split (strings_Join ?ps '':'') CHR '':'' = ?ps"
    by (rule strings_Split_Join) (auto dest!: strings_Split_no_sep_elem normalize_part_no_colon)
  then show "NormalizeMACAddress (NormalizeMACAddress mac) = NormalizeMACAddress mac"
    by (simp add: NormalizeMACAddress_def normalize_part_idem comp_def)
next
  show "NormalizeMACAddress ''00:1A:2B:3C:4D:5E'' = ''0:1A:2B:3C:4D:5E''"
    by (simp add: NormalizeMACAddress_def normalize_part_def)
qed

lemma mac_addresses_witness:
  "\<exists>b. GenerateRandMAC (Inr [1, 2, 3, 4, 5, 6]) = Inr (HardwareAddr_String [b, 2, 3, 4, 5, 6]) \<and> bit b 1 \<and> \<not> bit b 0"
  using mac_addresses [of "[1, 2, 3, 4, 5, 6]" "[]"] by auto

section \<open>Facts on interfaces\<close>

definition valid_addr :: "ip_lib \<Rightarrow> string \<Rightarrow> bool" where
  "valid_addr lib a \<longleftrightarrow> (\<exists>i. il_ParseCIDR lib a = Some i \<and> To4 i \<noteq> None \<and> \<not> IsLoopback i)"

lemma find_addr_find:
  "find_addr lib as = map_option (\<lambda>a. il_String lib (the (il_ParseCIDR lib a))) (find (valid_addr lib) as)"
  by (induction as) (auto simp: valid_addr_def split: option.splits)

lemma scan_interfaces_find:
  "scan_interfaces lib P ifs =
     map_option (\<lambda>a. il_String lib (the (il_ParseCIDR lib a)))
       (find (valid_addr lib) (concat (map if_Addrs (filter P ifs))))"
proof (induction ifs)
  case (Cons i ifs)
  have split: "find Q (xs @ ys) = (case find Q xs of None \<Rightarrow> find Q ys | Some x \<Rightarrow> Some x)" for Q and xs ys :: "string list"
    by (induction xs) auto
  show ?case using Cons by (auto simp: findValidIP_def find_addr_find split split: option.splits)
qed simp

text \<open>
  The node's address is the first IPv4 address that is not a loopback address, in
  the order of the interfaces and of their addresses, where every Ethernet interface (\<^verbatim>\<open>en*\<close>)
  comes before every other; only when no interface has such an address is there an error.
\<close>

theorem GetActiveInterface_first:
  "GetActiveInterface lib ifs =
     (let ordered = filter (\<lambda>i. isEthernet (if_Name i)) ifs @ filter (\<lambda>i. \<not> isEthernet (if_Name i)) ifs in
      case find (valid_addr lib) (concat (map if_Addrs ordered)) of
        None \<Rightarrow> Inl (ErrNotFound ''no valid IP address found'')
      | Some a \<Rightarrow> Inr (il_String lib (the (il_ParseCIDR lib a))))"
proof -
  have split: "find Q (xs @ ys) = (case find Q xs of None \<Rightarrow> find Q ys | Some x \<Rightarrow> Some x)" for Q and xs ys :: "string list"
    by (induction xs) auto
  show ?thesis
    by (auto simp: GetActiveInterface_def scan_interfaces_find Let_def split split: option.splits)
qed

section \<open>Facts on the ARP table\<close>

definition arp_output :: string where
  "arp_output = ''? (10.0.0.9) at 10:1a:2b:3c:4d:5e on en0'' @ [CHR 0x0A] @ ''? (10.0.0.2) at 0:1a:2b:3c:4d:5e on en0'' @ [CHR 0x0A]"

lemma arp_lookup_sound:
  "arp_lookup mac ls = Some a \<Longrightarrow>
     \<exists>l\<in>set ls. strings_Contains (strings_ToLower l) (strings_ToLower mac) \<and>
       length (strings_Fields l) > 1 \<and> a = strings_Trim (strings_Fields l ! 1) ''()''"
  by (induction ls) (auto simp: Let_def split: if_splits)

lemma arp_loop_returns:
  assumes "i \<le> j" and "\<And>k. i \<le> k \<Longrightarrow> k < j \<Longrightarrow> ctx k = None \<and> (\<exists>out. arp k = Inr out)"
    and "ctx j = None" and "arp j = Inr out" and "arp_lookup mac (scan_lines out) = Some a" and "j - i < fuel"
  shows "\<exists>r. arp_loop ctx arp mac i fuel = Some (Inr r)"
  using assms
proof (induction fuel arbitrary: i)
  case (Suc fuel)
  show ?case
  proof (cases "i = j")
    case False
    then obtain o1 where "ctx i = None" "arp i = Inr o1" using Suc.prems(1,2) by force
    moreover have "\<exists>r. arp_loop ctx arp mac (Suc i) fuel = Some (Inr r)"
      using Suc.IH [of "Suc i"] Suc.prems False by auto
    ultimately show ?thesis by (auto split: option.splits)
  qed (use Suc.prems in simp)
qed simp



end
