(* ===== verification/Utils.thy ===== *)
theory Utils
  imports Kube_Types Go_Strings "HOL-Library.Sublist"
begin

text \<open>
  \<^verbatim>\<open>internal/utils\<close>: shell commands for environment variables and exec requests (\<^verbatim>\<open>cmd.go\<close>), the
  label of the processor model (\<^verbatim>\<open>apple_cpu.go\<close>), container identifiers (\<^verbatim>\<open>vz.go\<close>), cloning of
  files (\<^verbatim>\<open>clonefile.go\<close>) and resource requests (\<^verbatim>\<open>resource_extractor.go\<close>).
\<close>

section \<open>Shell commands\<close>

definition hex_digits :: string where
  "hex_digits = ''0123456789abcdef''"

text \<open>
  \<^verbatim>\<open>strconv.Quote\<close> on bytes: the escapes of Go, hexadecimal ones for other control bytes. Bytes
  from 0x80 on are copied, which is what happens to printable characters in UTF-8.
\<close>

definition quote_char :: "char \<Rightarrow> string" where
  "quote_char c =
     (let n = char_code c; bs = CHR 0x5C in
      if c = CHR 0x22 \<or> c = CHR 0x5C then [bs, c]
      else if n = 7 then [bs, CHR ''a''] else if n = 8 then [bs, CHR ''b'']
      else if n = 12 then [bs, CHR ''f''] else if n = 10 then [bs, CHR ''n'']
      else if n = 13 then [bs, CHR ''r''] else if n = 9 then [bs, CHR ''t'']
      else if n = 11 then [bs, CHR ''v'']
      else if n < 32 \<or> n = 127 then [bs, CHR ''x'', hex_digits ! (n div 16), hex_digits ! (n mod 16)]
      else [c])"

definition strconv_Quote :: "string \<Rightarrow> string" where
  "strconv_Quote s = [CHR 0x22] @ concat (map quote_char s) @ [CHR 0x22]"

definition newline :: string where
  "newline = [CHR 0x0A]"

definition BuildExportEnvCommand :: "EnvVar \<Rightarrow> string" where
  "BuildExportEnvCommand e =
     (let v = (if CHR 0x0A \<notin> set (env_Value e) then strconv_Quote (env_Value e)
               else ''$(cat <<'' @ [CHR 0x27] @ ''ESCAPE_EOF'' @ [CHR 0x27] @ newline @ env_Value e @ newline @
                    ''ESCAPE_EOF'' @ newline @ '')'')
      in ''export '' @ env_Name e @ ''='' @ v @ newline)"

definition BuildExecCommandString :: "string list \<Rightarrow> EnvVar list \<Rightarrow> string result" where
  "BuildExecCommandString cmd env =
     (if length cmd < 3 \<or> cmd ! 1 \<noteq> ''-c'' then Inl (Errorf ''command is not a shell exec command'' [])
      else Inr (concat (map BuildExportEnvCommand env) @ cmd ! 0 @ '' '' @ cmd ! 1 @
                '' $'' @ [CHR 0x27] @ cmd ! 2 @ [CHR 0x27] @
                concat (map (\<lambda>a. '' '' @ strconv_Quote a) (drop 3 cmd))))"

section \<open>Labels and identifiers\<close>

definition label_char :: "char \<Rightarrow> bool" where
  "label_char c \<longleftrightarrow>
     (let n = char_code c in 97 \<le> n \<and> n \<le> 122 \<or> 65 \<le> n \<and> n \<le> 90 \<or> 48 \<le> n \<and> n \<le> 57) \<or> c \<in> set ''_.-''"

text \<open>\<^verbatim>\<open>ReplaceAllString\<close> of the pattern \<^verbatim>\<open>[^a-zA-Z0-9_.-]+\<close> by an underscore; \<open>inside\<close> a match.\<close>

fun replace_invalid :: "bool \<Rightarrow> string \<Rightarrow> string" where
  "replace_invalid inside [] = []"
| "replace_invalid inside (c # cs) =
     (if label_char c then c # replace_invalid False cs
      else if inside then replace_invalid True cs
      else CHR ''_'' # replace_invalid True cs)"

definition SanitizeAppleCPUModelForK8sLabel :: "string \<Rightarrow> string" where
  "SanitizeAppleCPUModelForK8sLabel name =
     (let model = strings_RemoveAll name ''Apple '';
          model = replace_invalid False model
      in strings_Trim model ''_-.'')"

text \<open>\<open>sha256_hex\<close> is the digest in hexadecimal.\<close>

definition GetContainerID :: "(string \<Rightarrow> string) \<Rightarrow> string \<Rightarrow> string \<Rightarrow> string" where
  "GetContainerID sha256_hex protocol containerName =
     (let containerResourceID = ''containers/'' @ containerName
      in protocol @ ''://'' @ sha256_hex (strings_ToUpper containerResourceID))"

section \<open>Files and resources\<close>

record FileCloner =
  fc_TempDir :: string
  fc_FilenamePrefix :: string
  fc_SysClonefileFunc :: "string \<Rightarrow> string \<Rightarrow> goerr option"

definition NewFileCloner :: "string \<Rightarrow> (string \<Rightarrow> string \<Rightarrow> goerr option) \<Rightarrow> FileCloner" where
  "NewFileCloner tempDir clonefile =
     \<lparr>fc_TempDir = tempDir, fc_FilenamePrefix = ''macosvz_file_'', fc_SysClonefileFunc = clonefile\<rparr>"

text \<open>The file removed before the clone is returned beside the result.\<close>

definition FileCloner_Clonefile :: "FileCloner \<Rightarrow> string \<Rightarrow> string \<Rightarrow> string \<times> string result" where
  "FileCloner_Clonefile fc path pattern =
     (let clonedPath = filepath_Join [fc_TempDir fc, fc_FilenamePrefix fc @ filepath_Base path @ ''.'' @ pattern] in
      (clonedPath,
       case fc_SysClonefileFunc fc path clonedPath of
         Some err \<Rightarrow> Inl (Wrapf ''failed to clone storage file: %w'' [] err)
       | None \<Rightarrow> Inr clonedPath))"

text \<open>\<open>as_int64\<close> is \<^verbatim>\<open>Quantity.AsInt64\<close>; a missing resource is the zero quantity.\<close>

definition ExtractCPURequest :: "('q \<Rightarrow> (64 word) option) \<Rightarrow> (string \<Rightarrow> 'q) \<Rightarrow> (64 word) result" where
  "ExtractCPURequest as_int64 rl =
     (case as_int64 (rl ''cpu'') of None \<Rightarrow> Inl (Errorf ''failed to parse CPU request'' []) | Some cpu \<Rightarrow> Inr cpu)"

definition ExtractMemoryRequest :: "('q \<Rightarrow> (64 word) option) \<Rightarrow> (string \<Rightarrow> 'q) \<Rightarrow> (64 word) result" where
  "ExtractMemoryRequest as_int64 rl =
     (case as_int64 (rl ''memory'') of None \<Rightarrow> Inl (Errorf ''failed to parse memory request'' []) | Some m \<Rightarrow> Inr m)"

section \<open>What the shell makes of it\<close>

text \<open>
  The value of a word in double quotes, up to the closing quote, with what follows it. A
  backslash quotes a dollar sign, a backquote, a double quote, a backslash or a newline and
  is kept otherwise; \<open>None\<close> where the word is not literal (an expansion) or not closed.
\<close>

fun read_dq :: "string \<Rightarrow> (string \<times> string) option" where
  "read_dq [] = None"
| "read_dq (c # cs) =
     (if c = CHR 0x22 then Some ([], cs)
      else if c = CHR ''$'' \<or> c = CHR 0x60 then None
      else if c = CHR 0x5C
      then (case cs of
              [] \<Rightarrow> None
            | d # ds \<Rightarrow>
                if d = CHR ''$'' \<or> d = CHR 0x60 \<or> d = CHR 0x22 \<or> d = CHR 0x5C
                then map_option (apfst (\<lambda>v. d # v)) (read_dq ds)
                else if d = CHR 0x0A then read_dq ds
                else map_option (apfst (\<lambda>v. c # d # v)) (read_dq ds))
      else map_option (apfst (\<lambda>v. c # v)) (read_dq cs))"

definition control :: "char \<Rightarrow> bool" where
  "control c \<longleftrightarrow> char_code c < 32 \<or> char_code c = 127"

definition shell_literal :: "char \<Rightarrow> bool" where
  "shell_literal c \<longleftrightarrow> \<not> control c \<and> c \<noteq> CHR ''$'' \<and> c \<noteq> CHR 0x60"

lemma quote_char_plain:
  assumes "shell_literal c"
  shows "quote_char c = (if c = CHR 0x22 \<or> c = CHR 0x5C then [CHR 0x5C, c] else [c])"
  using assms by (auto simp: quote_char_def shell_literal_def control_def Let_def)

lemma read_quoted_literal:
  assumes "list_all shell_literal v"
  shows "read_dq (concat (map quote_char v) @ CHR 0x22 # rest) = Some (v, rest)"
  using assms
proof (induction v)
  case (Cons c v)
  have lit: "c \<noteq> CHR ''$''" "c \<noteq> CHR 0x60" using Cons.prems by (auto simp: shell_literal_def)
  show ?case
    using Cons lit by (cases "c = CHR 0x22 \<or> c = CHR 0x5C") (auto simp: quote_char_plain)
qed simp

lemma quote_char_control:
  assumes "control c"
  shows "\<exists>d ds. quote_char c = CHR 0x5C # d # ds \<and> d \<notin> {CHR ''$'', CHR 0x60, CHR 0x22, CHR 0x5C, CHR 0x0A}"
proof -
  have "c \<noteq> CHR 0x22" "c \<noteq> CHR 0x5C" using assms by (auto simp: control_def char_code_def)
  then show ?thesis using assms by (auto simp: quote_char_def control_def Let_def)
qed

lemma read_quoted_not_literal:
  assumes "\<not> list_all shell_literal v"
  shows "read_dq (concat (map quote_char v) @ CHR 0x22 # rest) \<noteq> Some (v, rest)"
  using assms
proof (induction v)
  case (Cons c v)
  show ?case
  proof (cases "shell_literal c")
    case True
    then have lit: "c \<noteq> CHR ''$''" "c \<noteq> CHR 0x60" by (auto simp: shell_literal_def)
    have "read_dq (concat (map quote_char v) @ CHR 0x22 # rest) \<noteq> Some (v, rest)"
      using Cons True by simp
    then show ?thesis
      using True lit by (cases "c = CHR 0x22 \<or> c = CHR 0x5C") (auto simp: quote_char_plain)
  next
    case False
    show ?thesis
    proof (cases "control c")
      case True
      then obtain d ds where q: "quote_char c = CHR 0x5C # d # ds"
          "d \<notin> {CHR ''$'', CHR 0x60, CHR 0x22, CHR 0x5C, CHR 0x0A}"
        using quote_char_control by blast
      have "c \<noteq> CHR 0x5C" using True by (auto simp: control_def char_code_def)
      then show ?thesis using q by auto
    next
      case nc: False
      then have "c = CHR ''$'' \<or> c = CHR 0x60" using False by (auto simp: shell_literal_def)
      moreover from this have "quote_char c = [c]" by (auto simp: quote_char_def char_code_def)
      ultimately show ?thesis by auto
    qed
  qed
qed simp



text \<open>
  The word \<^verbatim>\<open>$'...'\<close> up to its closing quote, where no escape occurs in it. The command of an
  exec request is inserted without any quoting, so it is read back only if it has neither
  quotes nor backslashes; with a quote the word ends early.
\<close>

fun read_ansi :: "string \<Rightarrow> (string \<times> string) option" where
  "read_ansi [] = None"
| "read_ansi (c # cs) =
     (if c = CHR 0x27 then Some ([], cs)
      else if c = CHR 0x5C then None
      else map_option (apfst (\<lambda>v. c # v)) (read_ansi cs))"

lemma read_ansi_literal:
  "CHR 0x27 \<notin> set t \<Longrightarrow> CHR 0x5C \<notin> set t \<Longrightarrow> read_ansi (t @ CHR 0x27 # rest) = Some (t, rest)"
  by (induction t) auto

lemma read_ansi_quote:
  "CHR 0x27 \<notin> set t \<Longrightarrow> CHR 0x5C \<notin> set t \<Longrightarrow>
   read_ansi ((t @ CHR 0x27 # u) @ CHR 0x27 # rest) = Some (t, u @ CHR 0x27 # rest)"
  using read_ansi_literal [of t "u @ CHR 0x27 # rest"] by simp

lemma exec_command_word:
  assumes "BuildExecCommandString [sh, ''-c'', t] [] = Inr s"
  shows "s = sh @ '' -c $'' @ [CHR 0x27] @ t @ [CHR 0x27]"
  using assms by (simp add: BuildExecCommandString_def)

section \<open>The label of the processor\<close>

lemma replace_invalid_chars: "c \<in> set (replace_invalid b s) \<Longrightarrow> label_char c"
  by (induction b s rule: replace_invalid.induct) (auto simp: label_char_def split: if_splits)

lemma set_Trim: "set (strings_Trim s chs) \<subseteq> set s"
  by (auto simp: strings_Trim_def dest!: set_dropWhileD)

lemma Trim_ends:
  assumes "strings_Trim s chs \<noteq> []"
  shows "hd (strings_Trim s chs) \<notin> set chs" and "last (strings_Trim s chs) \<notin> set chs"
proof -
  let ?a = "dropWhile (\<lambda>c. c \<in> set chs) s"
  let ?b = "dropWhile (\<lambda>c. c \<in> set chs) (rev ?a)"
  have t: "strings_Trim s chs = rev ?b" by (simp add: strings_Trim_def)
  then have ne: "?b \<noteq> []" using assms by simp
  show "last (strings_Trim s chs) \<notin> set chs"
    using hd_dropWhile [of "\<lambda>c. c \<in> set chs" "rev ?a"] ne by (simp add: t last_rev)
  have "suffix ?b (rev ?a)" by (rule suffix_dropWhile)
  then obtain u where "rev ?a = u @ ?b" by (auto simp: suffix_def)
  then have "?a = rev ?b @ rev u" by (metis rev_append rev_rev_ident)
  then have "hd (rev ?b) = hd ?a" using ne by (metis hd_append2 rev_is_Nil_conv)
  moreover have "?a \<noteq> []" using ne by (metis dropWhile.simps(1) rev.simps(1))
  then have "hd ?a \<notin> set chs" by (rule hd_dropWhile)
  ultimately show "hd (strings_Trim s chs) \<notin> set chs" by (simp add: t)
qed

text \<open>
  The label of the processor model is a valid label value as far as characters
  go: letters, digits, underscores, dots and dashes, with a letter or digit at both ends unless
  it is empty. Underscores of the name itself are not collapsed, though a comment says so.
\<close>

theorem cpu_label_valid:
  "(let l = SanitizeAppleCPUModelForK8sLabel name in
    list_all label_char l \<and> (l = [] \<or> list_all (\<lambda>c. label_char c \<and> c \<notin> set ''_-.'') [hd l, last l])) \<and>
   SanitizeAppleCPUModelForK8sLabel ''Apple M1 _Pro (Virtual)'' = ''M1__Pro_Virtual''"
proof
  let ?l = "SanitizeAppleCPUModelForK8sLabel name"
  have chars: "\<forall>c\<in>set ?l. label_char c"
    using set_Trim replace_invalid_chars by (fastforce simp: SanitizeAppleCPUModelForK8sLabel_def Let_def)
  moreover have "hd ?l \<notin> set ''_-.'' \<and> last ?l \<notin> set ''_-.''" if "?l \<noteq> []"
    using Trim_ends that unfolding SanitizeAppleCPUModelForK8sLabel_def Let_def by blast
  ultimately show "let l = ?l in
    list_all label_char l \<and> (l = [] \<or> list_all (\<lambda>c. label_char c \<and> c \<notin> set ''_-.'') [hd l, last l])"
    unfolding Let_def list_all_iff by (cases "?l = []") auto
  show "SanitizeAppleCPUModelForK8sLabel ''Apple M1 _Pro (Virtual)'' = ''M1__Pro_Virtual''"
    by code_simp
qed

end
