(* ===== verification/Vk_Node.thy ===== *)
theory Vk_Node
  imports Exec_Provider Netutil Utils
begin

text \<open>
  \<^verbatim>\<open>pkg/provider/vk_node.go\<close>: the node object the kubelet registers. What the host reports
  (memory, processors, disk, interfaces) comes from a library and is the argument \<open>host_env\<close>.
\<close>

section \<open>The node object\<close>

datatype quantity_format = BinarySI | DecimalSI

record Quantity =
  q_value :: "64 word"
  q_format :: quantity_format

definition NewQuantity :: "64 word \<Rightarrow> quantity_format \<Rightarrow> Quantity" where
  "NewQuantity v f = \<lparr>q_value = v, q_format = f\<rparr>"

datatype ResourceName = ResourceCPU | ResourceMemory | ResourceEphemeralStorage | ResourcePods

type_synonym ResourceList = "ResourceName \<rightharpoonup> Quantity"

datatype NodeConditionType = NodeReady | NodeMemoryPressure | NodeDiskPressure | NodeNetworkUnavailable

record NodeCondition =
  nc_Type :: NodeConditionType
  nc_Status :: bool
  nc_LastHeartbeatTime :: go_time
  nc_LastTransitionTime :: go_time
  nc_Reason :: string
  nc_Message :: string

datatype NodeAddressType = NodeInternalIP | NodeHostName

record NodeSystemInfo =
  ni_MachineID :: string
  ni_KernelVersion :: string
  ni_OSImage :: string
  ni_ContainerRuntimeVersion :: string
  ni_OperatingSystem :: string
  ni_Architecture :: string

text \<open>\<open>node_Labels\<close> is \<open>None\<close> for the nil map, which a program must not write to.\<close>

record Node =
  node_Capacity :: ResourceList
  node_Allocatable :: ResourceList
  node_Conditions :: "NodeCondition list"
  node_Addresses :: "(NodeAddressType \<times> string) list"
  node_KubeletEndpointPort :: "32 word"
  node_NodeInfo :: NodeSystemInfo
  node_Labels :: "(string \<rightharpoonup> string) option"

record InfoStat =
  hi_HostID :: string
  hi_KernelVersion :: string
  hi_OS :: string
  hi_Platform :: string
  hi_PlatformVersion :: string
  hi_KernelArch :: string

record host_env =
  he_memTotal :: "(64 word) result"
  he_cpuCounts :: "(64 word) result"
  he_diskTotal :: "string \<Rightarrow> (64 word) result"
  he_interfaces :: "InterfaceStat list result"
  he_hostInfo :: "InfoStat result"
  he_cpuModels :: "string list result"
  he_now :: go_time

section \<open>The parts of the node\<close>

definition DefaultPods :: "64 word" where
  "DefaultPods = 2"

definition getNodeCapacity :: "host_env \<Rightarrow> ResourceList result" where
  "getNodeCapacity h =
     andThen (he_memTotal h) (\<lambda>total.
     andThen (he_cpuCounts h) (\<lambda>c.
     andThen (he_diskTotal h ''/'') (\<lambda>d.
       Inr [ResourceCPU \<mapsto> NewQuantity c DecimalSI, ResourceMemory \<mapsto> NewQuantity total BinarySI,
            ResourceEphemeralStorage \<mapsto> NewQuantity d BinarySI, ResourcePods \<mapsto> NewQuantity DefaultPods DecimalSI])))"

definition node_condition :: "go_time \<Rightarrow> NodeConditionType \<Rightarrow> bool \<Rightarrow> string \<Rightarrow> string \<Rightarrow> NodeCondition" where
  "node_condition now t st reason msg =
     \<lparr>nc_Type = t, nc_Status = st, nc_LastHeartbeatTime = now, nc_LastTransitionTime = now,
      nc_Reason = reason, nc_Message = msg\<rparr>"

definition getNodeConditions :: "go_time \<Rightarrow> NodeCondition list" where
  "getNodeConditions now =
     [node_condition now NodeReady True ''KubeletReady'' ''kubelet is ready.'',
      node_condition now NodeMemoryPressure False ''KubeletHasSufficientMemory'' ''kubelet has sufficient memory available'',
      node_condition now NodeDiskPressure False ''KubeletHasNoDiskPressure'' ''kubelet has no disk pressure'',
      node_condition now NodeNetworkUnavailable False ''RouteCreated'' ''RouteController created a route'']"

definition retrieveNodeIPAddress :: "ip_lib \<Rightarrow> host_env \<Rightarrow> string result" where
  "retrieveNodeIPAddress lib h = andThen (he_interfaces h) (GetActiveInterface lib)"

definition nodeAddresses ::
  "ip_lib \<Rightarrow> host_env \<Rightarrow> ('s, 'r) MacOSExecProvider \<Rightarrow> (NodeAddressType \<times> string) list result" where
  "nodeAddresses lib h p =
     andThen (retrieveNodeIPAddress lib h) (\<lambda>ip. Inr [(NodeInternalIP, ip), (NodeHostName, prv_nodeName p)])"

definition nodeDaemonEndpoints :: "('s, 'r) MacOSExecProvider \<Rightarrow> 32 word" where
  "nodeDaemonEndpoints p = prv_daemonEndpointPort p"

definition LabelCPUModelName :: string where
  "LabelCPUModelName = ''feature.node.kubernetes.io/cpu-model.name''"

definition LabelNodeExcludeBalancers :: string where
  "LabelNodeExcludeBalancers = ''node.kubernetes.io/exclude-from-external-load-balancers''"

definition LabelOSStable :: string where
  "LabelOSStable = ''kubernetes.io/os''"

definition LabelArchStable :: string where
  "LabelArchStable = ''kubernetes.io/arch''"

text \<open>
  The node is changed in place, so it is returned as it is at an error, too. Writing the labels
  of a node without a label map is a panic.
\<close>

definition ConfigureNode ::
  "ip_lib \<Rightarrow> host_env \<Rightarrow> ('s, 'r) MacOSExecProvider \<Rightarrow> Node \<Rightarrow> Node \<times> goerr option" where
  "ConfigureNode lib h p n =
     (case getNodeCapacity h of
        Inl err \<Rightarrow> (n, Some (Wrapf ''error getting node capacity: %w'' [] err))
      | Inr capacity \<Rightarrow>
          (let n = n\<lparr>node_Capacity := capacity, node_Allocatable := capacity,
                     node_Conditions := getNodeConditions (he_now h)\<rparr>
           in case nodeAddresses lib h p of
                Inl err \<Rightarrow> (n, Some (Wrapf ''error getting node addresses: %w'' [] err))
              | Inr addr \<Rightarrow>
                  (let n = n\<lparr>node_Addresses := addr, node_KubeletEndpointPort := nodeDaemonEndpoints p\<rparr>
                   in case he_hostInfo h of
                        Inl err \<Rightarrow> (n, Some (Wrapf ''error getting host information: %w'' [] err))
                      | Inr hostInfo \<Rightarrow>
                          (let n = n\<lparr>node_NodeInfo :=
                                 \<lparr>ni_MachineID = hi_HostID hostInfo, ni_KernelVersion = hi_KernelVersion hostInfo,
                                  ni_OSImage = hi_OS hostInfo @ '' '' @ hi_PlatformVersion hostInfo,
                                  ni_ContainerRuntimeVersion = ''exec://'' @ hi_PlatformVersion hostInfo,
                                  ni_OperatingSystem = hi_Platform hostInfo, ni_Architecture = hi_KernelArch hostInfo\<rparr>\<rparr>
                           in case node_Labels n of
                                None \<Rightarrow> (n, Some (GoPanic ''assignment to entry in nil map''))
                              | Some labels \<Rightarrow>
                                  (let labels = labels(LabelNodeExcludeBalancers \<mapsto> ''true'');
                                       labels = labels(LabelOSStable \<mapsto> strings_ToLower (hi_Platform hostInfo));
                                       labels = labels(LabelArchStable \<mapsto> hi_KernelArch hostInfo);
                                       labels = (case he_cpuModels h of
                                           Inr (c # _) \<Rightarrow> labels(LabelCPUModelName \<mapsto> SanitizeAppleCPUModelForK8sLabel c)
                                         | _ \<Rightarrow> labels)
                                   in (n\<lparr>node_Labels := Some labels\<rparr>, None))))))"

section \<open>Properties\<close>

text \<open>The steps that can fail, in order, with the message each error is wrapped in.\<close>

definition node_error :: "ip_lib \<Rightarrow> host_env \<Rightarrow> goerr option" where
  "node_error lib h =
     first_error
       [case getNodeCapacity h of Inl e \<Rightarrow> Inl (Wrapf ''error getting node capacity: %w'' [] e) | Inr _ \<Rightarrow> Inr (),
        case retrieveNodeIPAddress lib h of Inl e \<Rightarrow> Inl (Wrapf ''error getting node addresses: %w'' [] e) | Inr _ \<Rightarrow> Inr (),
        case he_hostInfo h of Inl e \<Rightarrow> Inl (Wrapf ''error getting host information: %w'' [] e) | Inr _ \<Rightarrow> Inr ()]"


definition sample_host :: host_env where
  "sample_host =
     \<lparr>he_memTotal = Inr 17179869184, he_cpuCounts = Inr 8, he_diskTotal = (\<lambda>_. Inr 494384795648),
      he_interfaces = Inr [\<lparr>if_Name = ''en0'', if_Addrs = [''10.0.0.7/24'']\<rparr>],
      he_hostInfo = Inr \<lparr>hi_HostID = ''id'', hi_KernelVersion = ''24.1.0'', hi_OS = ''darwin'', hi_Platform = ''Darwin'',
        hi_PlatformVersion = ''15.1'', hi_KernelArch = ''arm64''\<rparr>,
      he_cpuModels = Inr [''Apple M1 Pro''], he_now = 5\<rparr>"

definition sample_ips :: ip_lib where
  "sample_ips = \<lparr>il_ParseCIDR = (\<lambda>a. if a = ''10.0.0.7/24'' then Some (IP4 [10, 0, 0, 7]) else None),
     il_String = (\<lambda>_. ''10.0.0.7'')\<rparr>"

definition blank_node :: Node where
  "blank_node = \<lparr>node_Capacity = Map.empty, node_Allocatable = Map.empty, node_Conditions = [], node_Addresses = [],
     node_KubeletEndpointPort = 0, node_NodeInfo = \<lparr>ni_MachineID = [], ni_KernelVersion = [], ni_OSImage = [],
       ni_ContainerRuntimeVersion = [], ni_OperatingSystem = [], ni_Architecture = []\<rparr>, node_Labels = Some Map.empty\<rparr>"


end
