(* ===== verification/Go_Float.thy ===== *)
theory Go_Float
  imports Runner_Credential Go_Strings "HOL-Library.Log_Nat"
begin

text \<open>
  What the program uses of Go's \<^verbatim>\<open>float64\<close> and of \<^verbatim>\<open>strconv.ParseFloat\<close>. A finite number is
  the rational it stands for, so the two zeros are one value; every operation rounds its exact
  result to the nearest double, ties to even.
\<close>

section \<open>Doubles\<close>

datatype float64 = FNaN | FInf bool | FFin rat

definition round_half_even :: "rat \<Rightarrow> int" where
  "round_half_even x =
     (let f = \<lfloor>x\<rfloor>; d = x - of_int f
      in if d < 1 / 2 then f else if 1 / 2 < d then f + 1 else if even f then f else f + 1)"

text \<open>
  The exponent of the last bit of the 53-bit mantissa of a positive number, and the least
  exponent of the subnormal ones.
\<close>

definition float_exponent :: "rat \<Rightarrow> int" where
  "float_exponent x =
     (let (p, q) = quotient_of x; k = bitlen p - bitlen q;
          e = (if 2 powi k \<le> x then k else k - 1)
      in max (e - 52) (-1074))"

definition round_positive :: "rat \<Rightarrow> rat" where
  "round_positive x =
     (let u = 2 powi float_exponent x in of_int (round_half_even (x / u)) * u)"

definition round64 :: "rat \<Rightarrow> float64" where
  "round64 x =
     (if x = 0 then FFin 0
      else let r = round_positive \<bar>x\<bar>
           in if 2 ^ 1024 \<le> r then FInf (x < 0) else FFin (if x < 0 then - r else r))"

definition float64_of_nat :: "nat \<Rightarrow> float64" where
  "float64_of_nat n = round64 (of_nat n)"

fun float_less :: "float64 \<Rightarrow> float64 \<Rightarrow> bool" where
  "float_less FNaN y = False"
| "float_less x FNaN = False"
| "float_less (FFin a) (FFin b) = (a < b)"
| "float_less (FInf s) (FInf t) = (s \<and> \<not> t)"
| "float_less (FInf s) (FFin b) = s"
| "float_less (FFin a) (FInf t) = (\<not> t)"

text \<open>Division by a finite number other than zero, which is all the program divides by.\<close>

fun float_div :: "float64 \<Rightarrow> rat \<Rightarrow> float64" where
  "float_div FNaN b = FNaN"
| "float_div (FInf s) b = FInf (s \<noteq> (b < 0))"
| "float_div (FFin a) b = round64 (a / b)"

section \<open>Parsing\<close>

definition hex_letter :: "char \<Rightarrow> bool" where
  "hex_letter c \<longleftrightarrow> 97 \<le> (of_char (char_ToLower c) :: nat) \<and> (of_char (char_ToLower c) :: nat) \<le> 102"

text \<open>
  The loop over the mantissa: the digits read so far as a number, how many of them follow the
  point, and whether a point and a digit were seen. It stops at the first other character.
\<close>

record mantissa =
  mt_value :: nat
  mt_frac :: nat
  mt_dot :: bool
  mt_digits :: bool

definition add_digit :: "nat \<Rightarrow> mantissa \<Rightarrow> nat \<Rightarrow> mantissa" where
  "add_digit base m d =
     m\<lparr>mt_value := base * mt_value m + d,
       mt_frac := (if mt_dot m then Suc (mt_frac m) else mt_frac m), mt_digits := True\<rparr>"

fun scan_mantissa :: "nat \<Rightarrow> mantissa \<Rightarrow> string \<Rightarrow> mantissa \<times> string" where
  "scan_mantissa base m [] = (m, [])"
| "scan_mantissa base m (c # cs) =
     (if c = CHR ''_'' then scan_mantissa base m cs
      else if c = CHR ''.'' then if mt_dot m then (m, c # cs) else scan_mantissa base (m\<lparr>mt_dot := True\<rparr>) cs
      else if is_digit c then scan_mantissa base (add_digit base m (digit_value c)) cs
      else if base = 16 \<and> hex_letter c
      then scan_mantissa base (add_digit base m (of_char (char_ToLower c) - 87)) cs
      else (m, c # cs))"

text \<open>The digits of the exponent; from 10000 on further digits are ignored.\<close>

fun scan_exponent :: "nat \<Rightarrow> string \<Rightarrow> nat \<times> string" where
  "scan_exponent e [] = (e, [])"
| "scan_exponent e (c # cs) =
     (if c = CHR ''_'' then scan_exponent e cs
      else if is_digit c then scan_exponent (if e < 10000 then 10 * e + digit_value c else e) cs
      else (e, c # cs))"

fun strip_sign :: "string \<Rightarrow> bool \<times> string" where
  "strip_sign [] = (False, [])"
| "strip_sign (c # cs) = (if c = CHR ''+'' then (False, cs) else if c = CHR ''-'' then (True, cs) else (False, c # cs))"

text \<open>Underscores separate digits, or the base prefix from the digits.\<close>

datatype seen = SawStart | SawDigit | SawUnderscore | SawOther

fun underscores_from :: "bool \<Rightarrow> seen \<Rightarrow> string \<Rightarrow> bool" where
  "underscores_from hex saw [] = (saw \<noteq> SawUnderscore)"
| "underscores_from hex saw (c # cs) =
     (if is_digit c \<or> (hex \<and> hex_letter c) then underscores_from hex SawDigit cs
      else if c = CHR ''_'' then saw = SawDigit \<and> underscores_from hex SawUnderscore cs
      else saw \<noteq> SawUnderscore \<and> underscores_from hex SawOther cs)"

definition hex_prefix :: "string \<Rightarrow> bool" where
  "hex_prefix s \<longleftrightarrow> 2 < length s \<and> s ! 0 = CHR ''0'' \<and> char_ToLower (s ! 1) = CHR ''x''"

definition underscoreOK :: "string \<Rightarrow> bool" where
  "underscoreOK s =
     (let u = snd (strip_sign s)
      in if 2 \<le> length u \<and> u ! 0 = CHR ''0'' \<and> char_ToLower (u ! 1) \<in> {CHR ''b'', CHR ''o'', CHR ''x''}
         then underscores_from (char_ToLower (u ! 1) = CHR ''x'') SawDigit (drop 2 u)
         else underscores_from False SawStart u)"

text \<open>The exponent after the mantissa: none, or a letter, a sign and at least one digit.\<close>

definition read_exponent :: "bool \<Rightarrow> string \<Rightarrow> int option" where
  "read_exponent hex s =
     (case s of
        [] \<Rightarrow> if hex then None else Some 0
      | c # cs \<Rightarrow>
          if char_ToLower c \<noteq> (if hex then CHR ''p'' else CHR ''e'') then None
          else let (minus, ds) = strip_sign cs
               in if ds = [] \<or> \<not> is_digit (hd ds) then None
                  else let (e, rest) = scan_exponent 0 ds
                       in if rest \<noteq> [] then None else Some (if minus then - int e else int e))"

definition readFloat :: "string \<Rightarrow> rat option" where
  "readFloat s =
     (let (minus, u) = strip_sign s; hex = hex_prefix u;
          (m, rest) = scan_mantissa (if hex then 16 else 10)
            \<lparr>mt_value = 0, mt_frac = 0, mt_dot = False, mt_digits = False\<rparr> (if hex then drop 2 u else u)
      in if \<not> mt_digits m then None
         else case read_exponent hex rest of
           None \<Rightarrow> None
         | Some e \<Rightarrow>
             if \<not> underscoreOK s then None
             else let v = (if hex then of_nat (mt_value m) * 2 powi (e - 4 * int (mt_frac m))
                           else of_nat (mt_value m) * 10 powi (e - int (mt_frac m)))
                  in Some (if minus then - v else v))"

text \<open>
  \<^verbatim>\<open>strconv.ParseFloat(s, 64)\<close>: the names of the special values in any case, a signed one for
  infinity only, or a number; a number too large for a double is an error.
\<close>

definition special :: "string \<Rightarrow> float64 option" where
  "special s =
     (let l = map char_ToLower s; (minus, u) = strip_sign l
      in if u = ''inf'' \<or> u = ''infinity'' then Some (FInf minus)
         else if l = ''nan'' then Some FNaN else None)"

definition ParseFloat :: "string \<Rightarrow> float64 result" where
  "ParseFloat s =
     (case special s of
        Some v \<Rightarrow> Inr v
      | None \<Rightarrow>
          (case readFloat s of
             None \<Rightarrow> Inl (OSError ''invalid syntax'')
           | Some x \<Rightarrow>
               (case round64 x of
                  FInf b \<Rightarrow> Inl (OSError ''value out of range'')
                | v \<Rightarrow> Inr v)))"

section \<open>Rounding\<close>

lemma round_half_even_le:
  assumes "x \<le> of_int n"
  shows "round_half_even x \<le> n"
proof (cases "\<lfloor>x\<rfloor> = n")
  case True
  then have "x = of_int n" using assms of_int_floor_le [of x] by linarith
  then show ?thesis by (simp add: round_half_even_def)
next
  case False
  have "\<lfloor>x\<rfloor> \<le> n" using assms floor_mono [OF assms] by simp
  then show ?thesis using False by (auto simp: round_half_even_def Let_def)
qed

lemma round_half_even_ge:
  assumes "of_int n \<le> x"
  shows "n \<le> round_half_even x"
proof -
  have "n \<le> \<lfloor>x\<rfloor>" using assms by (simp add: le_floor_iff)
  then show ?thesis by (auto simp: round_half_even_def Let_def)
qed

lemma float_exponent_le_0:
  assumes "0 < x" and "x < 2 ^ 53"
  shows "float_exponent x \<le> 0"
proof -
  obtain p q where pq: "quotient_of x = (p, q)" by fastforce
  have q: "0 < q" using pq by (rule quotient_of_denom_pos)
  have x: "x = of_int p / of_int q" using pq by (rule quotient_of_div)
  have p: "0 < p" using assms(1) q unfolding x by (simp add: zero_less_divide_iff)
  define k where "k = bitlen p - bitlen q"
  have bp: "2 ^ nat (bitlen p - 1) \<le> p" using bitlen_bounds [OF p] by simp
  have bq: "q < 2 ^ nat (bitlen q)" using bitlen_bounds [OF q] by simp
  have pos: "0 < bitlen p" "0 < bitlen q" using p q bitlen_nonneg [of p] bitlen_nonneg [of q] by (auto simp: bitlen_eq_zero_iff order.order_iff_strict)
  have low: "2 powi (k - 1) < x"
  proof -
    have "(2 :: rat) powi (k - 1) * 2 powi bitlen q = 2 powi (bitlen p - 1)"
      by (simp add: k_def flip: power_int_add)
    also have "\<dots> = of_int (2 ^ nat (bitlen p - 1))"
      using pos by (simp add: power_int_def)
    also have "\<dots> \<le> of_int p" using bp by (simp only: of_int_le_iff)
    finally have "(2 :: rat) powi (k - 1) * 2 powi bitlen q \<le> of_int p" .
    moreover have "of_int q < (2 :: rat) powi bitlen q"
    proof -
      have "of_int q < (of_int (2 ^ nat (bitlen q)) :: rat)" using bq by (simp only: of_int_less_iff)
      then show ?thesis using pos by (simp add: power_int_def)
    qed
    ultimately have "(2 :: rat) powi (k - 1) * of_int q < of_int p"
      by (smt (verit) mult_strict_left_mono zero_less_power_int zero_less_numeral order_less_le_trans)
    then show ?thesis using q unfolding x by (simp add: pos_less_divide_eq)
  qed
  have bound: "e \<le> 52" if "2 powi e \<le> x" for e :: int
  proof (rule ccontr)
    assume "\<not> e \<le> 52"
    then have "(2 :: rat) powi 53 \<le> 2 powi e" by (intro power_int_increasing) auto
    then show False using that assms(2) by simp
  qed
  then show ?thesis
    using bound [of k] bound [of "k - 1"] low
    by (auto simp: float_exponent_def pq k_def [symmetric] Let_def)
qed

text \<open>
  A multiple of the last bit is a bound of the rounded number when it bounds the exact one. Below
  \<open>2 ^ 53\<close> all integers are such multiples.
\<close>

lemma unit_integer:
  assumes "k \<le> 0"
  shows "(of_int n :: rat) / 2 powi k = of_int (n * 2 ^ nat (- k))"
proof -
  have "(2 :: rat) powi k = inverse (2 powi (- k))" by (simp add: power_int_minus)
  also have "(2 :: rat) powi (- k) = 2 ^ nat (- k)" using assms by (simp add: power_int_def)
  finally show ?thesis by (simp add: divide_inverse)
qed

lemma round_positive_le:
  assumes "0 < x" and "x < 2 ^ 53" and "x \<le> of_int n"
  shows "round_positive x \<le> of_int n"
proof -
  let ?u = "(2 :: rat) powi float_exponent x"
  have u: "0 < ?u" by simp
  have "x / ?u \<le> of_int n / ?u" using assms(3) u by (simp add: divide_right_mono)
  then have "x / ?u \<le> of_int (n * 2 ^ nat (- float_exponent x))"
    using unit_integer [OF float_exponent_le_0 [OF assms(1,2)], of n] by simp
  then have "round_half_even (x / ?u) \<le> n * 2 ^ nat (- float_exponent x)"
    by (rule round_half_even_le)
  then have "(of_int (round_half_even (x / ?u)) :: rat) \<le> of_int (n * 2 ^ nat (- float_exponent x))"
    by (simp only: of_int_le_iff)
  also have "\<dots> = of_int n / ?u"
    using unit_integer [OF float_exponent_le_0 [OF assms(1,2)], of n] by simp
  finally show ?thesis using u by (simp add: round_positive_def Let_def pos_le_divide_eq)
qed

lemma round_positive_ge:
  assumes "0 < x" and "x < 2 ^ 53" and "of_int n \<le> x"
  shows "of_int n \<le> round_positive x"
proof -
  let ?u = "(2 :: rat) powi float_exponent x"
  have u: "0 < ?u" by simp
  have "of_int n / ?u \<le> x / ?u" using assms(3) u by (simp add: divide_right_mono)
  then have "of_int (n * 2 ^ nat (- float_exponent x)) \<le> x / ?u"
    using unit_integer [OF float_exponent_le_0 [OF assms(1,2)], of n] by simp
  then have "n * 2 ^ nat (- float_exponent x) \<le> round_half_even (x / ?u)"
    by (rule round_half_even_ge)
  then have "of_int (n * 2 ^ nat (- float_exponent x)) \<le> (of_int (round_half_even (x / ?u)) :: rat)"
    by (simp only: of_int_le_iff)
  moreover have "of_int (n * 2 ^ nat (- float_exponent x)) = of_int n / ?u"
    using unit_integer [OF float_exponent_le_0 [OF assms(1,2)], of n] by simp
  ultimately show ?thesis using u by (simp add: round_positive_def Let_def pos_divide_le_eq)
qed

lemma round64_bounds:
  assumes "0 \<le> x" and "x \<le> of_int n" and "n < 2 ^ 53"
  obtains r where "round64 x = FFin r" and "0 \<le> r" and "r \<le> of_int n"
    and "\<And>m. of_int m \<le> x \<Longrightarrow> of_int m \<le> r"
proof (cases "x = 0")
  case True
  then show ?thesis using that [of 0] assms by (simp add: round64_def)
next
  case False
  have "(of_int n :: rat) < of_int (2 ^ 53)" using assms(3) by (simp only: of_int_less_iff)
  then have lt: "x < 2 ^ 53" using assms(2) by simp
  have pos: "0 < x" using False assms(1) by simp
  have le: "round_positive x \<le> of_int n" using pos lt assms(2) by (rule round_positive_le)
  have ge: "of_int m \<le> round_positive x" if "of_int m \<le> x" for m
    using pos lt that by (rule round_positive_ge)
  have "\<not> 2 ^ 1024 \<le> round_positive x" using le assms(3) \<open>of_int n < of_int (2 ^ 53)\<close> by simp
  then have "round64 x = FFin (round_positive x)" using pos False by (simp add: round64_def)
  then show ?thesis using that le ge ge [of 0] assms(1) by simp
qed

lemma round64_int: "0 \<le> n \<Longrightarrow> n < 2 ^ 53 \<Longrightarrow> round64 (of_int n) = FFin (of_int n)"
  by (rule round64_bounds [of "of_int n" n]) (auto intro: order.antisym)

section \<open>Digits\<close>

lemma is_digit_char:
  assumes "is_digit c"
  shows "c \<noteq> CHR ''_''" "c \<noteq> CHR ''.''" "c \<noteq> CHR ''+''" "c \<noteq> CHR ''-''"
    "char_ToLower c = c" "c \<notin> {CHR ''b'', CHR ''o'', CHR ''x'', CHR ''i'', CHR ''n''}"
  using assms by (auto simp: is_digit_def char_ToLower_def char_code_def)

lemma scan_mantissa_digits:
  "list_all is_digit s \<Longrightarrow> \<not> mt_dot m \<Longrightarrow>
     scan_mantissa 10 m s = (m\<lparr>mt_value := digits_value (mt_value m) s, mt_digits := mt_digits m \<or> s \<noteq> []\<rparr>, [])"
  by (induction s arbitrary: m) (auto simp: is_digit_char add_digit_def)

lemma underscores_from_digits:
  "list_all is_digit s \<Longrightarrow> saw \<noteq> SawUnderscore \<Longrightarrow> underscores_from hex saw s"
  by (induction s arbitrary: saw) (auto simp: is_digit_char)

lemma strip_sign_digits: "list_all is_digit s \<Longrightarrow> strip_sign s = (False, s)"
  by (cases s) (auto simp: is_digit_char)

lemma readFloat_digits:
  assumes "list_all is_digit s" and "s \<noteq> []"
  shows "readFloat s = Some (of_nat (digits_value 0 s))"
proof -
  have d: "is_digit (s ! i)" if "i < length s" for i
    using assms(1) that by (simp add: list_all_length)
  have hex: "\<not> hex_prefix s"
    using d [of 1] is_digit_char(5,6) [of "s ! 1"] by (auto simp: hex_prefix_def)
  have "underscoreOK s"
    using d [of 1] is_digit_char(5,6) [of "s ! 1"] assms
    by (auto simp: underscoreOK_def Let_def strip_sign_digits underscores_from_digits)
  then show ?thesis
    using assms hex
    by (simp add: readFloat_def strip_sign_digits scan_mantissa_digits read_exponent_def)
qed

lemma special_digits:
  assumes "list_all is_digit s"
  shows "special s = None"
proof -
  have low: "map char_ToLower s = s"
    using assms by (induction s) (auto simp: is_digit_char)
  have "s \<noteq> ''inf''" "s \<noteq> ''infinity''" "s \<noteq> ''nan''"
    using assms by (auto simp: is_digit_def)
  then show ?thesis using assms by (simp add: special_def low strip_sign_digits)
qed

end
