(* ===== verification/Tracer.thy ===== *)
theory Tracer
  imports Go_Float
begin

text \<open>
  \<^verbatim>\<open>cmd/virtual-kubelet/tracer.go\<close>: the sampling rate of the traces and the set-up of their
  export. The OpenTelemetry libraries are arguments: \<open>otl_New\<close> connects the exporter, \<open>otl_resource\<close>
  builds the resource. What the set-up changes is the provider installed with
  \<^verbatim>\<open>otel.SetTracerProvider\<close> and whether \<^verbatim>\<open>trace.T\<close> is the OpenTelemetry adapter.
\<close>

section \<open>Definitions\<close>

datatype Sampler = AlwaysSample | NeverSample | TraceIDRatioBased float64

definition determineSampler :: "string \<Rightarrow> Sampler result" where
  "determineSampler rate =
     (let l = strings_ToLower rate
      in if l = [] \<or> l = ''always'' then Inr AlwaysSample
         else if l = ''never'' then Inr NeverSample
         else case ParseFloat rate of
           Inl err \<Rightarrow> Inl (AsInvalidInput (Wrapf ''parsing sample rate: %w'' [] err))
         | Inr rateFloat \<Rightarrow>
             if float_less rateFloat (FFin 0) \<or> float_less (FFin 100) rateFloat
             then Inl (AsInvalidInput (Errorf ''sample rate must be between 0 and 100'' []))
             else Inr (TraceIDRatioBased (float_div rateFloat 100)))"

type_synonym attributes = "(string \<times> string) list"

datatype otlp_option = WithEndpoint string | WithInsecure

record ('x, 'r) otel_lib =
  otl_New :: "otlp_option list \<Rightarrow> 'x result"
  otl_resource :: "attributes \<Rightarrow> 'r result"

record ('x, 'r) tracing =
  tr_provider :: "('x \<times> 'r \<times> Sampler) option"
  tr_adapter :: bool

text \<open>\<^verbatim>\<open>os.Getenv\<close>, which does not tell a variable that is not set from an empty one.\<close>

definition Getenv :: "(string \<rightharpoonup> string) \<Rightarrow> string \<Rightarrow> string" where
  "Getenv env k = (case env k of None \<Rightarrow> [] | Some v \<Rightarrow> v)"

definition initTracerProvider ::
  "('x, 'r) otel_lib \<Rightarrow> (string \<rightharpoonup> string) \<Rightarrow> ('x, 'r) tracing \<Rightarrow> string \<Rightarrow> Sampler \<Rightarrow> attributes
     \<Rightarrow> ('x, 'r) tracing \<times> goerr option" where
  "initTracerProvider lib env t service sampler attrs =
     (let endpoint = Getenv env ''OTEL_EXPORTER_OTLP_ENDPOINT''
      in if endpoint = [] then (t, None)
         else let options = [WithEndpoint endpoint]
                @ (if Getenv env ''OTEL_EXPORTER_OTLP_INSECURE'' = ''true'' then [WithInsecure] else [])
              in case otl_New lib options of
                Inl err \<Rightarrow> (t, Some err)
              | Inr exporter \<Rightarrow>
                  (case otl_resource lib ([(''service.name'', service), (''exporter'', ''otlp'')] @ attrs) of
                     Inl err \<Rightarrow> (t, Some err)
                   | Inr res \<Rightarrow> (t\<lparr>tr_provider := Some (exporter, res, sampler)\<rparr>, None)))"

definition configureTracing ::
  "('x, 'r) otel_lib \<Rightarrow> (string \<rightharpoonup> string) \<Rightarrow> ('x, 'r) tracing \<Rightarrow> string \<Rightarrow> string \<Rightarrow> attributes
     \<Rightarrow> ('x, 'r) tracing \<times> goerr option" where
  "configureTracing lib env t service rate attrs =
     (case determineSampler rate of
        Inl err \<Rightarrow> (t, Some (Wrapf ''determining sampler: %w'' [] err))
      | Inr sampler \<Rightarrow>
          (case initTracerProvider lib env t service sampler attrs of
             (t1, Some err) \<Rightarrow> (t1, Some (Wrapf ''initializing tracer provider: %w'' [] err))
           | (t1, None) \<Rightarrow> (t1\<lparr>tr_adapter := True\<rparr>, None)))"

section \<open>The sampling rate\<close>

lemma ratio_in_range:
  assumes "\<not> float_less v (FFin 0)" and "\<not> float_less (FFin 100) v"
  shows "v = FNaN \<or> (\<exists>q. float_div v 100 = FFin q \<and> 0 \<le> q \<and> q \<le> 1)"
proof (cases v)
  case (FFin a)
  then have "0 \<le> a / 100" "a / 100 \<le> of_int 1" using assms by auto
  then obtain r where "round64 (a / 100) = FFin r" "0 \<le> r" "r \<le> of_int 1"
    by (rule round64_bounds) auto
  then show ?thesis using FFin by simp
qed (use assms in auto)

lemma ParseFloat_NaN: "ParseFloat s = Inr FNaN \<longleftrightarrow> strings_ToLower s = ''nan''"
proof -
  have "round64 x \<noteq> FNaN" for x by (simp add: round64_def Let_def)
  moreover have "fst (strip_sign ''nan'') = False \<and> snd (strip_sign ''nan'') = ''nan''" by simp
  ultimately show ?thesis
    by (auto simp: ParseFloat_def special_def strings_ToLower_def Let_def
        split: option.splits float64.splits prod.splits if_splits)
qed

lemma ParseFloat_decimal:
  "ParseFloat (decimal n) =
     (case round64 (of_nat n) of FInf b \<Rightarrow> Inl (OSError ''value out of range'') | v \<Rightarrow> Inr v)"
  using decimal_value [of n] by (simp add: ParseFloat_def special_digits readFloat_digits)

lemma ToLower_decimal: "strings_ToLower (decimal n) = decimal n"
  using decimal_value [of n] unfolding strings_ToLower_def
  by (intro map_idI) (auto simp: list_all_iff is_digit_char)

text \<open>
  Property C40. Every sampler the trace-sample-rate option can select samples always, never, or with
  a ratio between 0 and 1, with one exception: the value \<^verbatim>\<open>NaN\<close>, in any case, passes both
  comparisons and selects the ratio NaN. A decimal integer selects its percentage, correctly
  rounded, up to 100 and is refused above.
\<close>

theorem sampler_in_range:
  assumes "n < 2 ^ 53"
  shows "(\<forall>rate s. determineSampler rate = Inr s \<longrightarrow>
            s = AlwaysSample \<or> s = NeverSample
            \<or> (\<exists>q. s = TraceIDRatioBased (FFin q) \<and> 0 \<le> q \<and> q \<le> 1)
            \<or> (s = TraceIDRatioBased FNaN \<and> strings_ToLower rate = ''nan''))
       \<and> determineSampler (decimal n) =
           (if n \<le> 100 then Inr (TraceIDRatioBased (round64 (of_nat n / 100)))
            else Inl (AsInvalidInput (Errorf ''sample rate must be between 0 and 100'' [])))
       \<and> determineSampler ''NaN'' = Inr (TraceIDRatioBased FNaN)"
proof (intro conjI allI impI)
  fix rate s assume *: "determineSampler rate = Inr s"
  show "s = AlwaysSample \<or> s = NeverSample
      \<or> (\<exists>q. s = TraceIDRatioBased (FFin q) \<and> 0 \<le> q \<and> q \<le> 1)
      \<or> (s = TraceIDRatioBased FNaN \<and> strings_ToLower rate = ''nan'')"
  proof (cases "s = AlwaysSample \<or> s = NeverSample")
    case False
    with * obtain v where v: "ParseFloat rate = Inr v" "\<not> float_less v (FFin 0)" "\<not> float_less (FFin 100) v"
      "s = TraceIDRatioBased (float_div v 100)"
      by (auto simp: determineSampler_def Let_def split: if_splits sum.splits)
    from ratio_in_range [OF v(2,3)] show ?thesis
      using v ParseFloat_NaN [of rate] by auto
  qed auto
next
  have "int n < 2 ^ 53" using assms by (metis of_nat_less_iff of_nat_numeral of_nat_power)
  then have "round64 (of_nat n) = FFin (of_nat n)" using round64_int [of "int n"] by simp
  moreover have "decimal n \<noteq> ''always''" "decimal n \<noteq> ''never''"
    using decimal_value [of n] by (auto simp: is_digit_def)
  ultimately show "determineSampler (decimal n) =
      (if n \<le> 100 then Inr (TraceIDRatioBased (round64 (of_nat n / 100)))
       else Inl (AsInvalidInput (Errorf ''sample rate must be between 0 and 100'' [])))"
    by (simp add: determineSampler_def Let_def ToLower_decimal ParseFloat_decimal)
next
  show "determineSampler ''NaN'' = Inr (TraceIDRatioBased FNaN)" by code_simp
qed

theorem sampler_in_range_witness:
  "determineSampler ''150'' = Inl (AsInvalidInput (Errorf ''sample rate must be between 0 and 100'' []))
   \<and> determineSampler ''100'' = Inr (TraceIDRatioBased (FFin 1))"
proof -
  have "decimal 150 = ''150''" "decimal 100 = ''100''" by code_simp+
  moreover have "round64 (of_nat 100 / 100) = FFin 1" using round64_int [of 1] by simp
  ultimately show ?thesis
    using sampler_in_range [of 150] sampler_in_range [of 100] by simp
qed

text \<open>
  Tracing is set up entirely or not at all: an error leaves the provider and the adapter as they
  were, and without an endpoint only the adapter is set.
\<close>

lemma configureTracing_result:
  "configureTracing lib env t service rate attrs = (t', err) \<Longrightarrow>
     (if err \<noteq> None then t' = t
      else tr_adapter t' \<and> (Getenv env ''OTEL_EXPORTER_OTLP_ENDPOINT'' = [] \<longrightarrow> tr_provider t' = tr_provider t))"
  by (auto simp: configureTracing_def initTracerProvider_def Let_def
      split: sum.splits if_splits option.splits)

end
