(* ===== verification/Kubelet_Main.thy ===== *)
theory Kubelet_Main
  imports Vk_Node Tracer
begin

text \<open>
  \<^verbatim>\<open>cmd/virtual-kubelet/main.go\<close>: how the program builds its node. The package variables are the
  record \<open>globals\<close>; the options are functions on the node configuration. The packages
  \<^verbatim>\<open>nodeutil\<close>, \<^verbatim>\<open>api\<close> and \<^verbatim>\<open>dynamiccertificates\<close> are the argument \<open>node_lib\<close>, in which handlers,
  authenticators, certificate pools and API clients are abstract values; what is relied on of them is
  stated in \<open>options_documented\<close> and \<open>node_documented\<close>.
\<close>

section \<open>Package variables\<close>

record globals =
  g_taintKey :: string
  g_taintEffect :: string
  g_taintValue :: string
  g_logLevel :: string
  g_traceSampleRate :: string
  g_kubeConfigPath :: string
  g_startupTimeout :: "64 word"
  g_disableTaint :: bool
  g_numberOfWorkers :: int
  g_resync :: "64 word"
  g_providerID :: string
  g_runnerUser :: string
  g_certPath :: string
  g_keyPath :: string
  g_clientCACert :: string
  g_clientNoVerify :: bool
  g_webhookAuth :: bool
  g_webhookAuthnCacheTTL :: "64 word"
  g_webhookAuthzUnauthedCacheTTL :: "64 word"
  g_webhookAuthzAuthedCacheTTL :: "64 word"
  g_nodeName :: string
  g_listenPort :: int

definition appIdentifier :: string where
  "appIdentifier = ''com.thesis.userexecution''"

definition buildVersion :: string where
  "buildVersion = ''dev''"

definition k8sVersion :: string where
  "k8sVersion = ''v1.34.1''"

definition envOrDefault :: "(string \<rightharpoonup> string) \<Rightarrow> string \<Rightarrow> string \<Rightarrow> string" where
  "envOrDefault env key defaultValue = (case env key of Some v \<Rightarrow> v | None \<Rightarrow> defaultValue)"

text \<open>The initial values, before the flags are parsed.\<close>

definition initial_globals :: "(string \<rightharpoonup> string) \<Rightarrow> globals" where
  "initial_globals env =
     \<lparr>g_taintKey = envOrDefault env ''VKUBELET_TAINT_KEY'' ''virtual-kubelet.io/provider'',
      g_taintEffect = envOrDefault env ''VKUBELET_TAINT_EFFECT'' ''NoSchedule'',
      g_taintValue = envOrDefault env ''VKUBELET_TAINT_VALUE'' ''macos-exec'',
      g_logLevel = ''info'', g_traceSampleRate = [], g_kubeConfigPath = Getenv env ''KUBECONFIG'',
      g_startupTimeout = 0, g_disableTaint = False, g_numberOfWorkers = 10,
      g_resync = 60000000000, g_providerID = [], g_runnerUser = [],
      g_certPath = Getenv env ''APISERVER_CERT_LOCATION'', g_keyPath = Getenv env ''APISERVER_KEY_LOCATION'',
      g_clientCACert = [], g_clientNoVerify = False, g_webhookAuth = False, g_webhookAuthnCacheTTL = 0,
      g_webhookAuthzUnauthedCacheTTL = 0, g_webhookAuthzAuthedCacheTTL = 0,
      g_nodeName = ''mac-mini-exec'', g_listenPort = 10250\<rparr>"

section \<open>The node configuration\<close>

datatype TaintEffect = NoSchedule | NoExecute | PreferNoSchedule

record Taint =
  taint_Key :: string
  taint_Value :: string
  taint_Effect :: TaintEffect

datatype ClientAuthType = NoClientCert | RequestClientCert | OtherClientAuth nat

record 'ca tls_config =
  tls_ClientAuth :: ClientAuthType
  tls_ClientCAs :: "'ca option"

text \<open>
  The node object \<^verbatim>\<open>NodeSpec\<close> of the configuration: its taints, provider id and kubelet version, which the
  options set, are fields of their own, and \<open>nc_NodeSpec\<close> has the rest, which \<^verbatim>\<open>ConfigureNode\<close> would set.
\<close>

record ('k, 'h, 'ca) NodeConfig =
  nc_Client :: "'k option"
  nc_NodeSpec :: Node
  nc_Taints :: "Taint list"
  nc_ProviderID :: string
  nc_KubeletVersion :: string
  nc_Handler :: "'h option"
  nc_TLSConfig :: "'ca tls_config option"
  nc_InformerResyncPeriod :: "64 word"
  nc_NumWorkers :: int
  nc_HTTPListenAddr :: string

record 'ca WebhookAuthConfig =
  wa_DefaultRetryBackoff :: bool
  wa_AuthnCacheTTL :: "64 word"
  wa_AllowCacheTTL :: "64 word"
  wa_DenyCacheTTL :: "64 word"
  wa_ClientCA :: "'ca option"

type_synonym ('k, 'h, 'ca) node_option = "('k, 'h, 'ca) NodeConfig \<Rightarrow> ('k, 'h, 'ca) NodeConfig result"

record ('k, 'h, 'ca, 'a) node_lib =
  nl_WithClient :: "'k \<Rightarrow> ('k, 'h, 'ca) node_option"
  nl_WithTLSConfig :: "('ca tls_config \<Rightarrow> 'ca tls_config result) list \<Rightarrow> ('k, 'h, 'ca) node_option"
  nl_WithKeyPairFromPath :: "string \<Rightarrow> string \<Rightarrow> 'ca tls_config \<Rightarrow> 'ca tls_config result"
  nl_WithCAFromPath :: "string \<Rightarrow> 'ca tls_config \<Rightarrow> 'ca tls_config result"
  nl_NewServeMux :: 'h
  nl_AttachProviderRoutes :: "'h \<Rightarrow> ('k, 'h, 'ca) node_option"
  nl_InstrumentHandler :: "'h \<Rightarrow> 'h"
  nl_NoAuth :: 'a
  nl_WithAuth :: "'a \<Rightarrow> 'h option \<Rightarrow> 'h"
  nl_WebhookAuth :: "'k option \<Rightarrow> string \<Rightarrow> ('ca WebhookAuthConfig \<Rightarrow> 'ca WebhookAuthConfig result) \<Rightarrow> 'a result"
  nl_NewDynamicCAContentFromFile :: "string \<Rightarrow> string \<Rightarrow> 'ca result"

section \<open>The options\<close>

definition withTaint :: "globals \<Rightarrow> ('k, 'h, 'ca) node_option" where
  "withTaint g cfg =
     (if g_disableTaint g then Inr cfg
      else let add = (\<lambda>e. Inr (cfg\<lparr>nc_Taints := nc_Taints cfg
                 @ [\<lparr>taint_Key = g_taintKey g, taint_Value = g_taintValue g, taint_Effect = e\<rparr>]\<rparr>))
           in if g_taintEffect g = ''NoSchedule'' then add NoSchedule
              else if g_taintEffect g = ''NoExecute'' then add NoExecute
              else if g_taintEffect g = ''PreferNoSchedule'' then add PreferNoSchedule
              else Inl (ErrInvalidInput ''taint effect %q is not supported'' [g_taintEffect g]))"

definition withProviderID :: "globals \<Rightarrow> ('k, 'h, 'ca) node_option" where
  "withProviderID g cfg = Inr (cfg\<lparr>nc_ProviderID := g_providerID g\<rparr>)"

definition withVersion :: "('k, 'h, 'ca) node_option" where
  "withVersion cfg =
     Inr (cfg\<lparr>nc_KubeletVersion := strings_Join [k8sVersion, ''vk-macos-exec'', buildVersion] ''-''\<rparr>)"

definition configureRoutes :: "('k, 'h, 'ca, 'a) node_lib \<Rightarrow> ('k, 'h, 'ca) node_option" where
  "configureRoutes lib cfg =
     (let mux = nl_NewServeMux lib in nl_AttachProviderRoutes lib mux (cfg\<lparr>nc_Handler := Some mux\<rparr>))"

text \<open>The callback that adjusts the webhook configuration; a duration counts if it is positive.\<close>

definition webhook_config ::
  "('k, 'h, 'ca, 'a) node_lib \<Rightarrow> globals \<Rightarrow> 'ca WebhookAuthConfig \<Rightarrow> 'ca WebhookAuthConfig result" where
  "webhook_config lib g cfg =
     (let cfg = cfg\<lparr>wa_DefaultRetryBackoff := True\<rparr>;
          cfg = (if 0 < sint (g_webhookAuthnCacheTTL g)
                 then cfg\<lparr>wa_AuthnCacheTTL := g_webhookAuthnCacheTTL g\<rparr> else cfg);
          cfg = (if 0 < sint (g_webhookAuthzAuthedCacheTTL g)
                 then cfg\<lparr>wa_AllowCacheTTL := g_webhookAuthzAuthedCacheTTL g\<rparr> else cfg);
          cfg = (if 0 < sint (g_webhookAuthzUnauthedCacheTTL g)
                 then cfg\<lparr>wa_AllowCacheTTL := g_webhookAuthzUnauthedCacheTTL g\<rparr> else cfg)
      in if g_clientCACert g \<noteq> []
         then andThen (nl_NewDynamicCAContentFromFile lib ''client-ca'' (g_clientCACert g)) (\<lambda>ca.
                Inr (cfg\<lparr>wa_ClientCA := Some ca\<rparr>))
         else Inr cfg)"

text \<open>Without a TLS configuration the assignment to its field panics.\<close>

definition withWebhookAuth :: "('k, 'h, 'ca, 'a) node_lib \<Rightarrow> globals \<Rightarrow> ('k, 'h, 'ca) node_option" where
  "withWebhookAuth lib g cfg =
     (if \<not> g_webhookAuth g
      then Inr (cfg\<lparr>nc_Handler := Some (nl_InstrumentHandler lib (nl_WithAuth lib (nl_NoAuth lib) (nc_Handler cfg)))\<rparr>)
      else andThen (nl_WebhookAuth lib (nc_Client cfg) (g_nodeName g) (webhook_config lib g)) (\<lambda>auth.
             case nc_TLSConfig cfg of
               None \<Rightarrow> Inl (GoPanic ''invalid memory address or nil pointer dereference'')
             | Some tls \<Rightarrow>
                 Inr (cfg\<lparr>nc_TLSConfig := Some (tls\<lparr>tls_ClientAuth := RequestClientCert\<rparr>),
                          nc_Handler := Some (nl_InstrumentHandler lib (nl_WithAuth lib auth (nc_Handler cfg)))\<rparr>)))"

definition withClient :: "('k, 'h, 'ca, 'a) node_lib \<Rightarrow> 'k \<Rightarrow> ('k, 'h, 'ca) node_option" where
  "withClient lib c cfg = nl_WithClient lib c cfg"

definition withCA :: "('k, 'h, 'ca, 'a) node_lib \<Rightarrow> globals \<Rightarrow> 'ca tls_config \<Rightarrow> 'ca tls_config result" where
  "withCA lib g cfg =
     (if g_clientCACert g = [] then Inr cfg
      else case nl_WithCAFromPath lib (g_clientCACert g) cfg of
        Inl err \<Rightarrow> Inl (Wrapf ''error getting CA from path: %w'' [] err)
      | Inr cfg \<Rightarrow> Inr (if g_clientNoVerify g then cfg\<lparr>tls_ClientAuth := NoClientCert\<rparr> else cfg))"

definition decimal_int :: "int \<Rightarrow> string" where
  "decimal_int i = (if i < 0 then ''-'' @ decimal (nat (- i)) else decimal (nat i))"

definition withListener :: "globals \<Rightarrow> ('k, 'h, 'ca) node_option" where
  "withListener g cfg =
     Inr (cfg\<lparr>nc_InformerResyncPeriod := g_resync g, nc_NumWorkers := g_numberOfWorkers g,
              nc_HTTPListenAddr := '':'' @ decimal_int (g_listenPort g)\<rparr>)"

text \<open>The options in the order in which \<^verbatim>\<open>run\<close> passes them; each reads the variables when it is applied.\<close>

definition node_options ::
  "('k, 'h, 'ca, 'a) node_lib \<Rightarrow> 'k \<Rightarrow> (globals \<Rightarrow> ('k, 'h, 'ca) node_option) list" where
  "node_options lib c =
     [\<lambda>g. withClient lib c, withTaint, withProviderID, \<lambda>g. withVersion,
      \<lambda>g. nl_WithTLSConfig lib [nl_WithKeyPairFromPath lib (g_certPath g) (g_keyPath g), withCA lib g],
      withWebhookAuth lib, \<lambda>g. configureRoutes lib, withListener]"

section \<open>The provider callback\<close>

text \<open>
  \<^verbatim>\<open>strconv.ParseInt(s, 10, 32)\<close>: an optional sign and digits whose value fits 32 bits.
\<close>

definition ParseInt32 :: "string \<Rightarrow> int result" where
  "ParseInt32 s =
     (let (neg, ds) = strip_sign s in
      andThen (ParseUint32 ds) (\<lambda>un.
        if \<not> neg \<and> 2 ^ 31 \<le> un \<or> neg \<and> 2 ^ 31 < un then Inl (OSError ''value out of range'')
        else Inr (if neg then - int un else int un)))"

record main_env =
  me_vars :: "string \<rightharpoonup> string"
  me_platform :: "string result"
  me_UserCacheDir :: "string result"
  me_userLookup :: "string \<Rightarrow> (string \<times> string) result"
  me_os :: os_env
  me_term :: term_env

type_synonym exec_instance = "(ProcessClient, KubeEventRecorder) MacOSExecProvider \<times> ProcessClient"

definition read_port :: "main_env \<Rightarrow> globals \<Rightarrow> globals result" where
  "read_port env g =
     (let port = Getenv (me_vars env) ''KUBELET_PORT''
      in if port = [] then Inr g
         else andThen (ParseInt32 port) (\<lambda>kubeletPort. Inr (g\<lparr>g_listenPort := kubeletPort\<rparr>)))"

definition newProvider :: "main_env \<Rightarrow> K8sClient \<Rightarrow> globals \<Rightarrow> exec_instance result \<times> globals" where
  "newProvider env c g =
     (case read_port env g of
        Inl err \<Rightarrow> (Inl err, g)
      | Inr g \<Rightarrow>
          (andThen (me_platform env) (\<lambda>platform.
           andThen (me_UserCacheDir env) (\<lambda>cacheDir.
             let cachePath = filepath_Join [cacheDir, appIdentifier] in
             case NewProcessClient (me_userLookup env)
                    \<lparr>cfg_LogsDir = filepath_Join [cachePath, ''logs''], cfg_RunnerUser = g_runnerUser g\<rparr> of
               Inl err \<Rightarrow> Inl (Wrapf ''failed to create process client: %w'' [] err)
             | Inr processClient \<Rightarrow>
                 andThen (NewMacOSExecProvider (process_runtime (me_os env) (me_term env))
                     \<lparr>pcf_NodeName = g_nodeName g, pcf_Platform = platform,
                      pcf_InternalIP = Getenv (me_vars env) ''VKUBELET_POD_IP'',
                      pcf_DaemonEndpointPort = word_of_int (g_listenPort g),
                      pcf_K8sClient = c, pcf_EventRecorder = kube_recorder\<rparr>) (\<lambda>p.
                   Inr (p, processClient)))), g))"

section \<open>Running the node\<close>

text \<open>
  What the select in \<^verbatim>\<open>run\<close> receives, and the answers of the node afterwards. \<open>nu_NewNode\<close> gets the
  node's name, the provider callback, the options and the variables they read and change.
\<close>

datatype run_event = NodeStopped "goerr option" | RunContextDone goerr

record ('k, 'h, 'ca, 'n) node_util =
  nu_NewNode :: "string \<Rightarrow> (globals \<Rightarrow> exec_instance result \<times> globals)
    \<Rightarrow> (globals \<Rightarrow> ('k, 'h, 'ca) node_option) list \<Rightarrow> globals \<Rightarrow> 'n result \<times> globals"
  nu_event :: "'n \<Rightarrow> run_event"
  nu_WaitReady :: "'n \<Rightarrow> 64 word \<Rightarrow> goerr option"
  nu_Err :: "'n \<Rightarrow> goerr option"

definition run_node :: "('k, 'h, 'ca, 'n) node_util \<Rightarrow> globals \<Rightarrow> 'n \<Rightarrow> goerr option" where
  "run_node nu g n =
     (case nu_event nu n of
        RunContextDone err \<Rightarrow> Some err
      | NodeStopped (Some err) \<Rightarrow> Some (Wrapf ''error running the node: %w'' [] err)
      | NodeStopped None \<Rightarrow>
          (case nu_WaitReady nu n (g_startupTimeout g) of
             Some err \<Rightarrow> Some (Wrapf ''error waiting for node to be ready: %w'' [] err)
           | None \<Rightarrow> nu_Err nu n))"

definition run ::
  "('x, 'r) otel_lib \<Rightarrow> (K8sClient, 'h, 'ca, 'a) node_lib \<Rightarrow> (K8sClient, 'h, 'ca, 'n) node_util \<Rightarrow> main_env
     \<Rightarrow> K8sClient \<Rightarrow> ('x, 'r) tracing \<Rightarrow> globals \<Rightarrow> (('x, 'r) tracing \<times> globals) \<times> goerr option" where
  "run otl lib nu env c t g =
     (let service = (if Getenv (me_vars env) ''OTEL_SERVICE_NAME'' \<noteq> []
                     then Getenv (me_vars env) ''OTEL_SERVICE_NAME'' else g_nodeName g)
      in case configureTracing otl (me_vars env) t service (g_traceSampleRate g)
                [(''node.name'', g_nodeName g), (''taint.key'', g_taintKey g),
                 (''taint.effect'', g_taintEffect g), (''taint.value'', g_taintValue g)] of
           (t, Some err) \<Rightarrow> ((t, g), Some err)
         | (t, None) \<Rightarrow>
             (case nu_NewNode nu (g_nodeName g) (newProvider env c) (node_options lib c) g of
                (Inl err, g) \<Rightarrow> ((t, g), Some err)
              | (Inr n, g) \<Rightarrow> ((t, g), run_node nu g n)))"

section \<open>What is relied on\<close>

text \<open>
  The options of \<^verbatim>\<open>nodeutil\<close> as documented: \<^verbatim>\<open>WithClient\<close> sets the client, \<^verbatim>\<open>WithTLSConfig\<close> the TLS
  configuration, and \<^verbatim>\<open>AttachProviderRoutes\<close> only adds routes to the multiplexer and leaves setting
  the handler to its caller.
\<close>

definition options_documented :: "('k, 'h, 'ca, 'a) node_lib \<Rightarrow> bool" where
  "options_documented lib \<longleftrightarrow>
     (\<forall>c cfg. nl_WithClient lib c cfg = Inr (cfg\<lparr>nc_Client := Some c\<rparr>))
     \<and> (\<forall>opts cfg cfg'. nl_WithTLSConfig lib opts cfg = Inr cfg' \<longrightarrow> (\<exists>tls. cfg' = cfg\<lparr>nc_TLSConfig := Some tls\<rparr>))
     \<and> (\<forall>mux cfg cfg'. nl_AttachProviderRoutes lib mux cfg = Inr cfg' \<longrightarrow> cfg' = cfg)"

fun apply_options ::
  "(globals \<Rightarrow> ('k, 'h, 'ca) node_option) list \<Rightarrow> globals \<Rightarrow> ('k, 'h, 'ca) node_option" where
  "apply_options [] g cfg = Inr cfg"
| "apply_options (opt # opts) g cfg = andThen (opt g cfg) (apply_options opts g)"

text \<open>
  \<^verbatim>\<open>NewNode\<close> applies the options to its initial configuration, stopping at an error, and then asks
  the callback for the provider, which needs the client the options set.
\<close>

definition node_documented ::
  "('k, 'h, 'ca, ('k, 'h, 'ca) NodeConfig \<times> exec_instance) node_util \<Rightarrow> ('k, 'h, 'ca) NodeConfig \<Rightarrow> bool" where
  "node_documented nu cfg0 \<longleftrightarrow>
     (\<forall>name np opts g. nu_NewNode nu name np opts g =
        (case apply_options opts g cfg0 of
           Inl err \<Rightarrow> (Inl err, g)
         | Inr cfg \<Rightarrow>
             (case np g of (Inl err, g') \<Rightarrow> (Inl err, g') | (Inr p, g') \<Rightarrow> (Inr (cfg, p), g'))))"

lemma node_documented_Inr:
  assumes "node_documented nu cfg0" and "nu_NewNode nu name np opts g = (Inr (cfg, p), g')"
  shows "apply_options opts g cfg0 = Inr cfg \<and> np g = (Inr p, g')"
proof -
  have eq: "(case apply_options opts g cfg0 of
           Inl err \<Rightarrow> (Inl err, g)
         | Inr cfg \<Rightarrow>
             (case np g of (Inl err, g') \<Rightarrow> (Inl err, g') | (Inr p, g') \<Rightarrow> (Inr (cfg, p), g'))) = (Inr (cfg, p), g')"
    using assms unfolding node_documented_def by simp
  obtain r h where rh: "np g = (r, h)" by fastforce
  show ?thesis
    using eq unfolding rh by (cases "apply_options opts g cfg0"; cases r) simp_all
qed

section \<open>The node\<close>

lemma withTaint_result:
  "withTaint g cfg = Inr cfg' \<longleftrightarrow>
     (if g_disableTaint g then cfg' = cfg
      else \<exists>e. (g_taintEffect g, e) \<in> {(''NoSchedule'', NoSchedule), (''NoExecute'', NoExecute),
                  (''PreferNoSchedule'', PreferNoSchedule)}
             \<and> cfg' = cfg\<lparr>nc_Taints := nc_Taints cfg
                 @ [\<lparr>taint_Key = g_taintKey g, taint_Value = g_taintValue g, taint_Effect = e\<rparr>]\<rparr>)"
  by (auto simp: withTaint_def Let_def)

lemma withWebhookAuth_result:
  "withWebhookAuth lib g cfg = Inr cfg' \<Longrightarrow>
     cfg' = cfg\<lparr>nc_TLSConfig := nc_TLSConfig cfg', nc_Handler := nc_Handler cfg'\<rparr>"
  by (auto simp: withWebhookAuth_def andThen_eq_Inr split: if_splits option.splits)

lemma apply_node_options:
  assumes doc: "options_documented lib" and ok: "apply_options (node_options lib c) g cfg0 = Inr cfg"
  shows "\<exists>taints tls. withTaint g (cfg0\<lparr>nc_Client := Some c\<rparr>) = Inr (cfg0\<lparr>nc_Client := Some c, nc_Taints := taints\<rparr>)
     \<and> cfg = cfg0\<lparr>nc_Client := Some c, nc_Taints := taints, nc_ProviderID := g_providerID g,
          nc_KubeletVersion := ''v1.34.1-vk-macos-exec-dev'', nc_Handler := Some (nl_NewServeMux lib),
          nc_TLSConfig := tls, nc_InformerResyncPeriod := g_resync g, nc_NumWorkers := g_numberOfWorkers g,
          nc_HTTPListenAddr := '':'' @ decimal_int (g_listenPort g)\<rparr>"
proof -
  let ?c0 = "cfg0\<lparr>nc_Client := Some c\<rparr>"
  obtain c1 where c1: "withTaint g ?c0 = Inr c1"
    and ok1: "apply_options (drop 2 (node_options lib c)) g c1 = Inr cfg"
    using doc ok by (auto simp: node_options_def options_documented_def withClient_def andThen_eq_Inr)
  define taints where "taints = nc_Taints c1"
  have c1_eq: "c1 = ?c0\<lparr>nc_Taints := taints\<rparr>"
    using c1 by (auto simp: withTaint_result taints_def split: if_splits)
  let ?c2 = "c1\<lparr>nc_ProviderID := g_providerID g, nc_KubeletVersion := ''v1.34.1-vk-macos-exec-dev''\<rparr>"
  have "withVersion cfg = Inr (cfg\<lparr>nc_KubeletVersion := ''v1.34.1-vk-macos-exec-dev''\<rparr>)"
    for cfg :: "('a, 'b, 'c) NodeConfig"
    by (simp add: withVersion_def k8sVersion_def buildVersion_def)
  then have "apply_options (drop 4 (node_options lib c)) g ?c2 = Inr cfg"
    using ok1 by (simp add: node_options_def withProviderID_def)
  then obtain c3 c4 opts where tls: "nl_WithTLSConfig lib opts ?c2 = Inr c3"
    and c4: "withWebhookAuth lib g c3 = Inr c4"
    and ok4: "apply_options (drop 6 (node_options lib c)) g c4 = Inr cfg"
    by (auto simp: node_options_def andThen_eq_Inr)
  obtain tls where c3: "c3 = ?c2\<lparr>nc_TLSConfig := Some tls\<rparr>"
    using doc tls unfolding options_documented_def by blast
  obtain tls' h where c4_eq: "c4 = c3\<lparr>nc_TLSConfig := tls', nc_Handler := h\<rparr>"
    using withWebhookAuth_result [OF c4] by blast
  obtain c5 where c5: "nl_AttachProviderRoutes lib (nl_NewServeMux lib) (c4\<lparr>nc_Handler := Some (nl_NewServeMux lib)\<rparr>) = Inr c5"
    and cfg: "withListener g c5 = Inr cfg"
    using ok4 by (auto simp: node_options_def configureRoutes_def andThen_eq_Inr Let_def)
  have c5_eq: "c5 = c4\<lparr>nc_Handler := Some (nl_NewServeMux lib)\<rparr>"
    using doc c5 unfolding options_documented_def by blast
  have "cfg = c4\<lparr>nc_Handler := Some (nl_NewServeMux lib), nc_InformerResyncPeriod := g_resync g,
      nc_NumWorkers := g_numberOfWorkers g, nc_HTTPListenAddr := '':'' @ decimal_int (g_listenPort g)\<rparr>"
    using cfg by (simp add: withListener_def c5_eq)
  then show ?thesis using c1 unfolding c4_eq c3 c1_eq by (intro exI [of _ taints] exI [of _ tls']) simp
qed

lemma ParseInt32_range:
  assumes "ParseInt32 s = Inr n"
  shows "- (2 ^ 31) \<le> n \<and> n < 2 ^ 31"
  using assms by (auto simp: ParseInt32_def andThen_eq_Inr split: prod.splits if_splits)

lemma read_port_result:
  assumes "read_port env g = Inr g'" and "g_listenPort g = 10250"
  shows "sint (word_of_int (g_listenPort g') :: 32 word) = g_listenPort g'
     \<and> g' = g\<lparr>g_listenPort := g_listenPort g'\<rparr>
     \<and> (if Getenv (me_vars env) ''KUBELET_PORT'' = [] then g_listenPort g' = 10250
        else ParseInt32 (Getenv (me_vars env) ''KUBELET_PORT'') = Inr (g_listenPort g'))"
proof -
  have "- (2 ^ 31) \<le> g_listenPort g' \<and> g_listenPort g' < 2 ^ 31"
    using assms ParseInt32_range [of "Getenv (me_vars env) ''KUBELET_PORT''"]
    by (auto simp: read_port_def andThen_eq_Inr Let_def split: if_splits)
  then have "sint (word_of_int (g_listenPort g') :: 32 word) = g_listenPort g'"
    by (simp add: signed_of_int signed_take_bit_int_eq_self_iff)
  then show ?thesis
    using assms by (auto simp: read_port_def andThen_eq_Inr Let_def split: if_splits)
qed

lemma newProvider_result:
  assumes "newProvider env c g = (Inr (p, pc), g')"
  shows "read_port env g = Inr g' \<and> client_inv pc \<and> pc_processes pc = Map.empty
     \<and> (\<exists>config. p = exec_provider (me_os env) (me_term env) config \<and> pcf_K8sClient config = c
          \<and> pcf_DaemonEndpointPort config = word_of_int (g_listenPort g'))"
proof -
  have port: "read_port env g = Inr g'"
    using assms by (auto simp: newProvider_def split: sum.splits)
  then obtain platform cfg x where new: "NewProcessClient (me_userLookup env) cfg = Inr pc"
    and prov: "NewMacOSExecProvider (process_runtime (me_os env) (me_term env))
      \<lparr>pcf_NodeName = g_nodeName g', pcf_Platform = platform, pcf_InternalIP = x,
       pcf_DaemonEndpointPort = word_of_int (g_listenPort g'), pcf_K8sClient = c,
       pcf_EventRecorder = kube_recorder\<rparr> = Inr p"
    using assms unfolding newProvider_def Let_def
    by (auto simp: andThen_eq_Inr case_wrap_eq_Inr)
  have config: "\<exists>config. p = exec_provider (me_os env) (me_term env) config \<and> pcf_K8sClient config = c
      \<and> pcf_DaemonEndpointPort config = word_of_int (g_listenPort g')"
    using prov by (auto simp: NewMacOSExecProvider_exec split: if_splits)
  have "client_inv pc" "pc_processes pc = Map.empty"
    using new by (auto simp: NewProcessClient_def andThen_eq_Inr client_inv_def)
  then show ?thesis using port config by blast
qed


text \<open>
  A concrete instance: handlers are the names of the functions applied, and webhook authentication
  is asked for.
\<close>

definition sample_node_lib :: "(K8sClient, string, string, string) node_lib" where
  "sample_node_lib =
     \<lparr>nl_WithClient = (\<lambda>c cfg. Inr (cfg\<lparr>nc_Client := Some c\<rparr>)),
      nl_WithTLSConfig = (\<lambda>opts cfg. Inr (cfg\<lparr>nc_TLSConfig := Some \<lparr>tls_ClientAuth = NoClientCert, tls_ClientCAs = None\<rparr>\<rparr>)),
      nl_WithKeyPairFromPath = (\<lambda>c k cfg. Inr cfg), nl_WithCAFromPath = (\<lambda>path cfg. Inr cfg),
      nl_NewServeMux = ''mux'', nl_AttachProviderRoutes = (\<lambda>mux cfg. Inr cfg),
      nl_InstrumentHandler = (\<lambda>h. ''instrumented '' @ h), nl_NoAuth = ''none'',
      nl_WithAuth = (\<lambda>a h. a @ '' check''), nl_WebhookAuth = (\<lambda>c n f. Inr ''webhook''),
      nl_NewDynamicCAContentFromFile = (\<lambda>n f. Inr f)\<rparr>"

definition sample_node_config :: "(K8sClient, string, string) NodeConfig" where
  "sample_node_config =
     \<lparr>nc_Client = None, nc_NodeSpec = blank_node, nc_Taints = [], nc_ProviderID = [], nc_KubeletVersion = [], nc_Handler = None,
      nc_TLSConfig = None, nc_InformerResyncPeriod = 0, nc_NumWorkers = 1, nc_HTTPListenAddr = []\<rparr>"

definition sample_node_util ::
  "(K8sClient, string, string, (K8sClient, string, string) NodeConfig \<times> exec_instance) node_util" where
  "sample_node_util =
     \<lparr>nu_NewNode = (\<lambda>name np opts g.
        case apply_options opts g sample_node_config of
           Inl err \<Rightarrow> (Inl err, g)
         | Inr cfg \<Rightarrow>
             (case np g of (Inl err, g') \<Rightarrow> (Inl err, g') | (Inr p, g') \<Rightarrow> (Inr (cfg, p), g'))),
      nu_event = (\<lambda>n. NodeStopped None), nu_WaitReady = (\<lambda>n d. None), nu_Err = (\<lambda>n. None)\<rparr>"

definition sample_main :: main_env where
  "sample_main =
     \<lparr>me_vars = [''KUBELET_PORT'' \<mapsto> ''443''], me_platform = Inr ''darwin'', me_UserCacheDir = Inr ''/c'',
      me_userLookup = (\<lambda>u. Inl ErrNotExist), me_os = sample_os, me_term = stubborn\<rparr>"

definition sample_globals :: globals where
  "sample_globals = (initial_globals Map.empty)\<lparr>g_webhookAuth := True\<rparr>"

lemma sample_options:
  "\<exists>cfg. apply_options (node_options sample_node_lib sample_k8s) sample_globals sample_node_config = Inr cfg"
  by (simp add: node_options_def sample_node_lib_def sample_globals_def initial_globals_def envOrDefault_def
      withClient_def withTaint_def withProviderID_def withVersion_def withWebhookAuth_def configureRoutes_def
      withListener_def Let_def)

lemma sample_port: "ParseInt32 ''443'' = Inr 443"
  by (simp add: ParseInt32_def ParseUint32_def is_digit_def digit_value_def)

lemma sample_new_provider:
  "\<exists>p pc g'. newProvider sample_main sample_k8s sample_globals = (Inr (p, pc), g')"
  by (simp add: newProvider_def read_port_def sample_main_def sample_port Getenv_def sample_globals_def
      initial_globals_def NewProcessClient_def lookupRunnerCredential_def NewMacOSExecProvider_def)


section \<open>Durations\<close>

text \<open>
  The cache duration given for unauthorized answers is used for authorized ones, also over the
  duration given for these; the duration for denials is never set.
\<close>

lemma webhook_ttl:
  assumes "webhook_config lib g cfg = Inr cfg'"
  shows "wa_DenyCacheTTL cfg' = wa_DenyCacheTTL cfg
       \<and> (0 < sint (g_webhookAuthzUnauthedCacheTTL g) \<longrightarrow> wa_AllowCacheTTL cfg' = g_webhookAuthzUnauthedCacheTTL g)"
  using assms by (auto simp: webhook_config_def Let_def andThen_eq_Inr split: if_splits)

text \<open>
  The start-up timeout is consulted only after the node has stopped without an error; a node that
  runs is never waited for to be ready.
\<close>

lemma startup_timeout_unused:
  assumes "nu_event nu n \<noteq> NodeStopped None"
  shows "run_node nu (g\<lparr>g_startupTimeout := d\<rparr>) n = run_node nu g n"
    and "run_node (nu\<lparr>nu_WaitReady := w\<rparr>) g n = run_node nu g n"
  using assms by (auto simp: run_node_def split: run_event.split option.split)

end
