(* ===== verification/Kubelet_Command.thy ===== *)
theory Kubelet_Command
  imports Kubelet_Main
begin

text \<open>
  \<^verbatim>\<open>main\<close> of \<^verbatim>\<open>cmd/virtual-kubelet/main.go\<close>: the flags and the variables they are bound to, the command
  and how the program ends. The packages \<^verbatim>\<open>cobra\<close> and \<^verbatim>\<open>pflag\<close>, which read the command line, \<^verbatim>\<open>logrus\<close>,
  \<^verbatim>\<open>klog\<close>, \<^verbatim>\<open>homedir\<close> and the construction of the API client are the argument \<open>command_lib\<close>.
\<close>

section \<open>Flags\<close>

datatype flag_value = FString string | FBool bool | FInt int | FDuration "64 word"

fun same_kind :: "flag_value \<Rightarrow> flag_value \<Rightarrow> bool" where
  "same_kind (FString s) (FString s') = True"
| "same_kind (FBool b) (FBool b') = True"
| "same_kind (FInt i) (FInt i') = True"
| "same_kind (FDuration d) (FDuration d') = True"
| "same_kind _ _ = False"

text \<open>The variables whose addresses are registered.\<close>

datatype flag_var =
    NodeNameVar | ProviderIDVar | StartupTimeoutVar | DisableTaintVar | LogLevelVar | NumberOfWorkersVar
  | ResyncVar | RunnerUserVar | ClientCACertVar | ClientNoVerifyVar | WebhookAuthVar
  | WebhookAuthnCacheTTLVar | WebhookAuthzAuthedCacheTTLVar | WebhookAuthzUnauthedCacheTTLVar
  | TraceSampleRateVar

primrec get_var :: "globals \<Rightarrow> flag_var \<Rightarrow> flag_value" where
  "get_var g NodeNameVar = FString (g_nodeName g)"
| "get_var g ProviderIDVar = FString (g_providerID g)"
| "get_var g StartupTimeoutVar = FDuration (g_startupTimeout g)"
| "get_var g DisableTaintVar = FBool (g_disableTaint g)"
| "get_var g LogLevelVar = FString (g_logLevel g)"
| "get_var g NumberOfWorkersVar = FInt (g_numberOfWorkers g)"
| "get_var g ResyncVar = FDuration (g_resync g)"
| "get_var g RunnerUserVar = FString (g_runnerUser g)"
| "get_var g ClientCACertVar = FString (g_clientCACert g)"
| "get_var g ClientNoVerifyVar = FBool (g_clientNoVerify g)"
| "get_var g WebhookAuthVar = FBool (g_webhookAuth g)"
| "get_var g WebhookAuthnCacheTTLVar = FDuration (g_webhookAuthnCacheTTL g)"
| "get_var g WebhookAuthzAuthedCacheTTLVar = FDuration (g_webhookAuthzAuthedCacheTTL g)"
| "get_var g WebhookAuthzUnauthedCacheTTLVar = FDuration (g_webhookAuthzUnauthedCacheTTL g)"
| "get_var g TraceSampleRateVar = FString (g_traceSampleRate g)"

text \<open>A variable only takes values of its type.\<close>

definition with_string :: "flag_value \<Rightarrow> (string \<Rightarrow> globals) \<Rightarrow> globals \<Rightarrow> globals" where
  "with_string v upd g = (case v of FString s \<Rightarrow> upd s | _ \<Rightarrow> g)"

definition with_bool :: "flag_value \<Rightarrow> (bool \<Rightarrow> globals) \<Rightarrow> globals \<Rightarrow> globals" where
  "with_bool v upd g = (case v of FBool b \<Rightarrow> upd b | _ \<Rightarrow> g)"

definition with_int :: "flag_value \<Rightarrow> (int \<Rightarrow> globals) \<Rightarrow> globals \<Rightarrow> globals" where
  "with_int v upd g = (case v of FInt i \<Rightarrow> upd i | _ \<Rightarrow> g)"

definition with_duration :: "flag_value \<Rightarrow> (64 word \<Rightarrow> globals) \<Rightarrow> globals \<Rightarrow> globals" where
  "with_duration v upd g = (case v of FDuration d \<Rightarrow> upd d | _ \<Rightarrow> g)"

lemmas with_value_defs = with_string_def with_bool_def with_int_def with_duration_def

primrec set_var :: "flag_var \<Rightarrow> flag_value \<Rightarrow> globals \<Rightarrow> globals" where
  "set_var NodeNameVar v g = with_string v (\<lambda>s. g\<lparr>g_nodeName := s\<rparr>) g"
| "set_var ProviderIDVar v g = with_string v (\<lambda>s. g\<lparr>g_providerID := s\<rparr>) g"
| "set_var StartupTimeoutVar v g = with_duration v (\<lambda>d. g\<lparr>g_startupTimeout := d\<rparr>) g"
| "set_var DisableTaintVar v g = with_bool v (\<lambda>b. g\<lparr>g_disableTaint := b\<rparr>) g"
| "set_var LogLevelVar v g = with_string v (\<lambda>s. g\<lparr>g_logLevel := s\<rparr>) g"
| "set_var NumberOfWorkersVar v g = with_int v (\<lambda>i. g\<lparr>g_numberOfWorkers := i\<rparr>) g"
| "set_var ResyncVar v g = with_duration v (\<lambda>d. g\<lparr>g_resync := d\<rparr>) g"
| "set_var RunnerUserVar v g = with_string v (\<lambda>s. g\<lparr>g_runnerUser := s\<rparr>) g"
| "set_var ClientCACertVar v g = with_string v (\<lambda>s. g\<lparr>g_clientCACert := s\<rparr>) g"
| "set_var ClientNoVerifyVar v g = with_bool v (\<lambda>b. g\<lparr>g_clientNoVerify := b\<rparr>) g"
| "set_var WebhookAuthVar v g = with_bool v (\<lambda>b. g\<lparr>g_webhookAuth := b\<rparr>) g"
| "set_var WebhookAuthnCacheTTLVar v g = with_duration v (\<lambda>d. g\<lparr>g_webhookAuthnCacheTTL := d\<rparr>) g"
| "set_var WebhookAuthzAuthedCacheTTLVar v g = with_duration v (\<lambda>d. g\<lparr>g_webhookAuthzAuthedCacheTTL := d\<rparr>) g"
| "set_var WebhookAuthzUnauthedCacheTTLVar v g = with_duration v (\<lambda>d. g\<lparr>g_webhookAuthzUnauthedCacheTTL := d\<rparr>) g"
| "set_var TraceSampleRateVar v g = with_string v (\<lambda>s. g\<lparr>g_traceSampleRate := s\<rparr>) g"

text \<open>A registered flag; those of \<^verbatim>\<open>klog\<close> are bound to variables of that package.\<close>

record flag_def =
  fl_name :: string
  fl_var :: "flag_var option"
  fl_default :: flag_value

text \<open>
  The flags of the program with their defaults (lines 135 to 155). Most defaults are the values the
  variables have; the node name's is the host name and the CA certificate's an environment variable.
\<close>

definition kubelet_flags :: "(string \<rightharpoonup> string) \<Rightarrow> string \<Rightarrow> globals \<Rightarrow> flag_def list" where
  "kubelet_flags env hostName g =
     (let same = (\<lambda>n v. \<lparr>fl_name = n, fl_var = Some v, fl_default = get_var g v\<rparr>)
      in [\<lparr>fl_name = ''nodename'', fl_var = Some NodeNameVar, fl_default = FString hostName\<rparr>,
          same ''provider-id'' ProviderIDVar,
          same ''startup-timeout'' StartupTimeoutVar,
          same ''disable-taint'' DisableTaintVar,
          same ''log-level'' LogLevelVar,
          same ''pod-sync-workers'' NumberOfWorkersVar,
          same ''full-resync-period'' ResyncVar,
          same ''runner-user'' RunnerUserVar,
          \<lparr>fl_name = ''client-verify-ca'', fl_var = Some ClientCACertVar,
           fl_default = FString (Getenv env ''APISERVER_CA_CERT_LOCATION'')\<rparr>,
          same ''no-verify-clients'' ClientNoVerifyVar,
          same ''authentication-token-webhook'' WebhookAuthVar,
          same ''authentication-token-webhook-cache-ttl'' WebhookAuthnCacheTTLVar,
          same ''authorization-webhook-cache-authorized-ttl'' WebhookAuthzAuthedCacheTTLVar,
          same ''authorization-webhook-cache-unauthorized-ttl'' WebhookAuthzUnauthedCacheTTLVar,
          same ''trace-sample-rate'' TraceSampleRateVar])"

definition klog_flags :: "(string \<times> flag_value) list \<Rightarrow> flag_def list" where
  "klog_flags fs = map (\<lambda>(n, v). \<lparr>fl_name = ''klog.'' @ n, fl_var = None, fl_default = v\<rparr>) fs"

text \<open>Storing a value through the address a flag was registered with.\<close>

definition store_flag :: "flag_def \<Rightarrow> flag_value \<Rightarrow> globals \<Rightarrow> globals" where
  "store_flag f v g = (case fl_var f of Some x \<Rightarrow> set_var x v g | None \<Rightarrow> g)"

text \<open>The assignments of a command line, in its order.\<close>

fun parse_flags :: "flag_def list \<Rightarrow> (string \<times> flag_value) list \<Rightarrow> globals \<Rightarrow> globals" where
  "parse_flags flags [] g = g"
| "parse_flags flags ((n, v) # as) g =
     parse_flags flags as (case find (\<lambda>f. fl_name f = n) flags of Some f \<Rightarrow> store_flag f v g | None \<Rightarrow> g)"

section \<open>The command\<close>

record cobra_command =
  cc_Use :: string
  cc_Short :: string
  cc_Long :: string
  cc_Flags :: "flag_def list"

text \<open>What \<^verbatim>\<open>ExecuteContext\<close> makes of the command line: an error, a help text, or a run with flags set.\<close>

datatype cobra_action = UsageError goerr | ShowHelp | RunCommand "(string \<times> flag_value) list"

text \<open>\<open>cl_AddFlag\<close> registers a flag beside those with the names given; it may panic.\<close>

record 'l command_lib =
  cl_AddFlag :: "string list \<Rightarrow> flag_def \<Rightarrow> globals \<Rightarrow> globals result"
  cl_ClientsetFromEnv :: "string \<Rightarrow> K8sClient result"
  cl_Hostname :: "string result"
  cl_homeDir :: "string result"
  cl_klogFlags :: "(string \<times> flag_value) list"
  cl_Execute :: "cobra_command \<Rightarrow> string list \<Rightarrow> cobra_action"
  cl_ParseLevel :: "string \<Rightarrow> 'l result"

fun register_flags :: "'l command_lib \<Rightarrow> flag_def list \<Rightarrow> string list \<Rightarrow> globals \<Rightarrow> globals result" where
  "register_flags cl [] names g = Inr g"
| "register_flags cl (f # fs) names g = andThen (cl_AddFlag cl names f g) (register_flags cl fs (fl_name f # names))"

text \<open>\<^verbatim>\<open>errors.Is(err, context.Canceled)\<close> follows wrapped and joined errors.\<close>

fun is_canceled :: "goerr \<Rightarrow> bool" where
  "is_canceled ErrCanceled = True"
| "is_canceled (Wrapf f as e) = is_canceled e"
| "is_canceled (AsInvalidInput e) = is_canceled e"
| "is_canceled (Joined e e') = (is_canceled e \<or> is_canceled e')"
| "is_canceled _ = False"

text \<open>How the program ends: \<^verbatim>\<open>main\<close> returns, a fatal log entry ends it with status 1, or it panics.\<close>

datatype main_end = MainReturns | MainFatal goerr | MainPanics goerr

record ('x, 'r, 'l) main_state =
  ms_globals :: globals
  ms_tracing :: "('x, 'r) tracing"
  ms_level :: "'l option"

text \<open>Lines 84 to 89; an error of the home directory is ignored, and the directory is then empty.\<close>

definition kubeconfig_path :: "string result \<Rightarrow> globals \<Rightarrow> globals" where
  "kubeconfig_path home g =
     (if g_kubeConfigPath g = []
      then (case home of
              Inr h \<Rightarrow> if h \<noteq> [] then g\<lparr>g_kubeConfigPath := filepath_Join [h, ''.kube'', ''config'']\<rparr> else g
            | Inl err \<Rightarrow> g)
      else g)"

text \<open>The callback of the command (lines 99 to 117).\<close>

definition run_command ::
  "('x, 'r) otel_lib \<Rightarrow> (K8sClient, 'h, 'ca, 'a) node_lib \<Rightarrow> (K8sClient, 'h, 'ca, 'n) node_util \<Rightarrow> main_env
     \<Rightarrow> 'l command_lib \<Rightarrow> K8sClient \<Rightarrow> ('x, 'r, 'l) main_state \<Rightarrow> ('x, 'r, 'l) main_state \<times> main_end" where
  "run_command otl lib nu env cl k8sClient s =
     (case cl_ParseLevel cl (g_logLevel (ms_globals s)) of
        Inl err \<Rightarrow> (s, MainFatal err)
      | Inr lvl \<Rightarrow>
          (case run otl lib nu env k8sClient (ms_tracing s) (ms_globals s) of
             ((t, g), r) \<Rightarrow>
               (\<lparr>ms_globals = g, ms_tracing = t, ms_level = Some lvl\<rparr>,
                (case r of
                   None \<Rightarrow> MainReturns
                 | Some err \<Rightarrow> if \<not> is_canceled err then MainFatal err else MainReturns))))"

definition main_command :: "string list \<Rightarrow> flag_def list \<Rightarrow> cobra_command" where
  "main_command args flags =
     (let binaryName = filepath_Base (hd args);
          desc = binaryName @ '' implements a node on a Kubernetes cluster using local process execution.''
      in \<lparr>cc_Use = binaryName, cc_Short = desc, cc_Long = desc, cc_Flags = flags\<rparr>)"

text \<open>
  \<^verbatim>\<open>main\<close>. The API client is made before the command line is read. The program's name is the first of
  its arguments, of which there is always one.
\<close>

definition kubelet_main ::
  "('x, 'r) otel_lib \<Rightarrow> (K8sClient, 'h, 'ca, 'a) node_lib \<Rightarrow> (K8sClient, 'h, 'ca, 'n) node_util \<Rightarrow> main_env
     \<Rightarrow> 'l command_lib \<Rightarrow> string list \<Rightarrow> ('x, 'r, 'l) main_state \<Rightarrow> ('x, 'r, 'l) main_state \<times> main_end" where
  "kubelet_main otl lib nu env cl args s =
     (let s = s\<lparr>ms_globals := kubeconfig_path (cl_homeDir cl) (ms_globals s)\<rparr>; g = ms_globals s in
      case cl_ClientsetFromEnv cl (g_kubeConfigPath g) of
        Inl err \<Rightarrow> (s, MainFatal err)
      | Inr k8sClient \<Rightarrow>
          (let klog = klog_flags (cl_klogFlags cl) in
           case register_flags cl klog [] g of
             Inl err \<Rightarrow> (s, MainPanics err)
           | Inr g \<Rightarrow>
               (case cl_Hostname cl of
                  Inl err \<Rightarrow> (s, MainFatal err)
                | Inr hostName \<Rightarrow>
                    (let own = kubelet_flags (me_vars env) (strings_ToLower hostName) g in
                     case register_flags cl own (map fl_name klog) g of
                       Inl err \<Rightarrow> (s, MainPanics err)
                     | Inr g \<Rightarrow>
                         (let s = s\<lparr>ms_globals := g\<rparr>
                          in case cl_Execute cl (main_command args (klog @ own)) args of
                               UsageError err \<Rightarrow> (s, if \<not> is_canceled err then MainFatal err else MainReturns)
                             | ShowHelp \<Rightarrow> (s, MainReturns)
                             | RunCommand as \<Rightarrow>
                                 run_command otl lib nu env cl k8sClient
                                   (s\<lparr>ms_globals := parse_flags (klog @ own) as g\<rparr>))))))"

section \<open>Assigning variables\<close>

text \<open>
  Variables that do not overlap: after a sequence of assignments each has the value assigned
  last, or its old one.
\<close>

locale variables =
  fixes get :: "'s \<Rightarrow> 'x \<Rightarrow> 'v" and put :: "'x \<Rightarrow> 'v \<Rightarrow> 's \<Rightarrow> 's" and typed :: "'x \<Rightarrow> 'v \<Rightarrow> bool"
  assumes get_put: "typed x v \<Longrightarrow> get (put x v s) y = (if y = x then v else get s y)"
begin

lemma get_assigned:
  "(\<And>x v. (x, v) \<in> set as \<Longrightarrow> typed x v) \<Longrightarrow>
   get (fold (\<lambda>(x, v). put x v) as s) y = (case map_of (rev as) y of Some v \<Rightarrow> v | None \<Rightarrow> get s y)"
proof (induction as rule: rev_induct)
  case (snoc a as)
  obtain x v where a: "a = (x, v)" by fastforce
  have "typed x v" using snoc.prems a by simp
  then show ?case using snoc a by (simp add: get_put)
qed simp

end

definition var_typed :: "flag_var \<Rightarrow> flag_value \<Rightarrow> bool" where
  "var_typed x v = same_kind (get_var (initial_globals Map.empty) x) v"

lemma same_kind_iff:
  "same_kind (FString s) v \<longleftrightarrow> (\<exists>s'. v = FString s')" "same_kind (FBool b) v \<longleftrightarrow> (\<exists>b'. v = FBool b')"
  "same_kind (FInt i) v \<longleftrightarrow> (\<exists>i'. v = FInt i')" "same_kind (FDuration d) v \<longleftrightarrow> (\<exists>d'. v = FDuration d')"
  by (cases v; simp)+

interpretation flag_vars: variables get_var set_var var_typed
proof
  show "get_var (set_var x v g) y = (if y = x then v else get_var g y)" if "var_typed x v" for x v g y
  proof -
    have "get_var (set_var x v g) x = v"
      using that by (cases x) (auto simp: var_typed_def same_kind_iff with_value_defs)
    moreover have "get_var (set_var x v g) y = get_var g y" if "y \<noteq> x"
      using \<open>var_typed x v\<close> that by (cases x) (cases y; auto simp: var_typed_def same_kind_iff with_value_defs)+
    ultimately show ?thesis by simp
  qed
qed

lemma same_kind_var: "same_kind (get_var g x) v = var_typed x v"
  by (cases x) (simp_all add: var_typed_def same_kind_iff)

lemma var_typed_get [simp]: "var_typed x (get_var g x)"
  by (simp flip: same_kind_var [of g] add: same_kind_iff) (cases x; simp add: same_kind_iff)

text \<open>The variables no flag is bound to.\<close>

definition unbound :: "globals \<Rightarrow> string list \<times> int" where
  "unbound g = ([g_taintKey g, g_taintEffect g, g_taintValue g, g_kubeConfigPath g, g_certPath g, g_keyPath g], g_listenPort g)"

lemma unbound_set_var [simp]: "unbound (set_var x v g) = unbound g"
  by (cases x; cases v) (simp_all add: unbound_def with_value_defs)

lemma unbound_fold [simp]: "unbound (fold (\<lambda>(x, v). set_var x v) as g) = unbound g"
  by (induction as arbitrary: g) auto

section \<open>Registration\<close>

text \<open>
  What the library is relied on for: registering a flag under a free name succeeds and sets its
  variable to the default, and the assignments it reports are to registered flags, with values of
  their types.
\<close>

definition flags_documented :: "'l command_lib \<Rightarrow> bool" where
  "flags_documented cl \<longleftrightarrow>
     (\<forall>names f g. fl_name f \<notin> set names \<longrightarrow> cl_AddFlag cl names f g = Inr (store_flag f (fl_default f) g)) \<and>
     (\<forall>cmd args as. cl_Execute cl cmd args = RunCommand as \<longrightarrow>
        (\<forall>(n, v) \<in> set as. \<exists>f \<in> set (cc_Flags cmd). fl_name f = n \<and> same_kind (fl_default f) v))"

lemma flags_documentedD:
  assumes "flags_documented cl"
  shows "fl_name f \<notin> set names \<Longrightarrow> cl_AddFlag cl names f g = Inr (store_flag f (fl_default f) g)"
    and "cl_Execute cl cmd args = RunCommand as \<Longrightarrow>
      \<forall>(n, v) \<in> set as. \<exists>f \<in> set (cc_Flags cmd). fl_name f = n \<and> same_kind (fl_default f) v"
  using assms unfolding flags_documented_def by blast+

definition flag_defaults :: "flag_def list \<Rightarrow> (flag_var \<times> flag_value) list" where
  "flag_defaults fs = List.map_filter (\<lambda>f. map_option (\<lambda>x. (x, fl_default f)) (fl_var f)) fs"

lemma register_flags_distinct:
  assumes "flags_documented cl" and "distinct (map fl_name fs)" and "set (map fl_name fs) \<inter> set names = {}"
  shows "register_flags cl fs names g = Inr (fold (\<lambda>(x, v). set_var x v) (flag_defaults fs) g)"
  using assms(2,3)
proof (induction fs arbitrary: names g)
  case Nil
  show ?case by (simp add: flag_defaults_def map_filter_simps)
next
  case (Cons f fs)
  then show ?case
    by (auto simp: flag_defaults_def map_filter_simps flags_documentedD(1) [OF assms(1)] store_flag_def image_iff
        split: option.split)
qed

lemma register_klog:
  assumes "flags_documented cl" and "distinct (map fst fs)"
  shows "register_flags cl (klog_flags fs) [] g = Inr g"
proof -
  have "map fl_name (klog_flags fs) = map (\<lambda>n. ''klog.'' @ n) (map fst fs)"
    by (auto simp: klog_flags_def split: prod.split)
  then have "distinct (map fl_name (klog_flags fs))" using assms(2) by (simp add: distinct_map inj_on_def)
  moreover have "flag_defaults (klog_flags fs) = []"
    by (induction fs) (auto simp: flag_defaults_def klog_flags_def map_filter_simps)
  ultimately show ?thesis by (simp add: register_flags_distinct [OF assms(1)])
qed

lemma own_names:
  "map fl_name (kubelet_flags env hostName g) =
     [''nodename'', ''provider-id'', ''startup-timeout'', ''disable-taint'', ''log-level'', ''pod-sync-workers'',
      ''full-resync-period'', ''runner-user'', ''client-verify-ca'', ''no-verify-clients'',
      ''authentication-token-webhook'', ''authentication-token-webhook-cache-ttl'',
      ''authorization-webhook-cache-authorized-ttl'', ''authorization-webhook-cache-unauthorized-ttl'',
      ''trace-sample-rate'']"
  by (simp add: kubelet_flags_def Let_def)

lemma own_distinct: "distinct (map fl_name (kubelet_flags env hostName g))"
  unfolding own_names by simp

lemma own_not_klog: "set (map fl_name (kubelet_flags env hostName g)) \<inter> set (map fl_name (klog_flags fs)) = {}"
  unfolding own_names by (auto simp: klog_flags_def split: prod.splits)

lemma own_vars:
  assumes "f \<in> set (kubelet_flags env hostName g)"
  obtains x where "fl_var f = Some x" "var_typed x (fl_default f)"
  using assms that
  by (auto simp: kubelet_flags_def Let_def same_kind_var [symmetric, where g = g] simp del: var_typed_get)

lemma own_vars_distinct: "distinct (map fl_var (kubelet_flags env hostName g))"
  by (simp add: kubelet_flags_def Let_def)

section \<open>The command line\<close>

definition bound_to :: "flag_def list \<Rightarrow> string \<times> flag_value \<Rightarrow> (flag_var \<times> flag_value) option" where
  "bound_to flags a =
     (case find (\<lambda>f. fl_name f = fst a) flags of
        Some f \<Rightarrow> map_option (\<lambda>x. (x, snd a)) (fl_var f) | None \<Rightarrow> None)"

lemma parse_flags_fold:
  "parse_flags flags as g = fold (\<lambda>(x, v). set_var x v) (List.map_filter (bound_to flags) as) g"
proof (induction as arbitrary: g)
  case Nil
  show ?case by (simp add: map_filter_simps)
next
  case (Cons a as)
  obtain n v where a: "a = (n, v)" by fastforce
  show ?case
    unfolding a using Cons by (auto simp: map_filter_simps bound_to_def store_flag_def split: option.split)
qed

lemma find_memberD: "find P xs = Some y \<Longrightarrow> y \<in> set xs \<and> P y"
  by (induction xs) (auto split: if_splits)

lemma bound_toD:
  assumes "bound_to flags a = Some (x, v)"
  obtains f where "f \<in> set flags" "fl_name f = fst a" "fl_var f = Some x" "v = snd a"
  using assms by (auto simp: bound_to_def dest!: find_memberD split: option.splits)

lemma bound_lookup:
  assumes "f \<in> set flags" and "fl_var f = Some x"
    and names: "\<And>f'. f' \<in> set flags \<Longrightarrow> fl_name f' = fl_name f \<Longrightarrow> f' = f"
    and vars: "\<And>f'. f' \<in> set flags \<Longrightarrow> fl_var f' = Some x \<Longrightarrow> f' = f"
  shows "map_of (rev (List.map_filter (bound_to flags) as)) x = map_of (rev as) (fl_name f)"
proof (induction as rule: rev_induct)
  case Nil
  show ?case by (simp add: map_filter_simps)
next
  case (snoc a as)
  have split: "List.map_filter (bound_to flags) (as @ [a]) =
      List.map_filter (bound_to flags) as @ (case bound_to flags a of None \<Rightarrow> [] | Some b \<Rightarrow> [b])"
    by (simp add: map_filter_def split: option.split)
  show ?case
  proof (cases "fst a = fl_name f")
    case True
    then have "find (\<lambda>f'. fl_name f' = fst a) flags = Some f"
      using assms(1) names
      by (cases "find (\<lambda>f'. fl_name f' = fst a) flags") (auto simp: find_None_iff dest!: find_memberD)
    then have "bound_to flags a = Some (x, snd a)" using assms(2) by (simp add: bound_to_def)
    then show ?thesis using True by (simp add: split)
  next
    case False
    have "fst b \<noteq> x" if "bound_to flags a = Some b" for b
    proof
      assume "fst b = x"
      then have "bound_to flags a = Some (x, snd b)" using that by (cases b) simp
      then obtain f' where "f' \<in> set flags" "fl_name f' = fst a" "fl_var f' = Some x" by (rule bound_toD)
      then show False using vars False by auto
    qed
    then show ?thesis using False snoc by (auto simp: split split: option.split)
  qed
qed

text \<open>The value a flag has after the command line was read.\<close>

definition flag_value_of :: "flag_def \<Rightarrow> (string \<times> flag_value) list \<Rightarrow> flag_value" where
  "flag_value_of f as = (case map_of (rev as) (fl_name f) of Some v \<Rightarrow> v | None \<Rightarrow> fl_default f)"

lemma distinct_map_eq: "distinct (map h xs) \<Longrightarrow> a \<in> set xs \<Longrightarrow> b \<in> set xs \<Longrightarrow> h a = h b \<Longrightarrow> a = b"
  by (auto simp: distinct_map inj_on_def)

lemma flag_defaults_Cons:
  "flag_defaults (f # fs) = (case fl_var f of Some x \<Rightarrow> [(x, fl_default f)] | None \<Rightarrow> []) @ flag_defaults fs"
  by (simp add: flag_defaults_def map_filter_simps split: option.split)

lemma flag_defaults_lookup:
  assumes "f \<in> set fs" and "fl_var f = Some x" and "distinct (map fl_var fs)"
  shows "map_of (rev (flag_defaults fs)) x = Some (fl_default f)"
  using assms
proof (induction fs)
  case (Cons f' fs)
  show ?case
  proof (cases "f = f'")
    case True
    then have "x \<notin> fst ` set (flag_defaults fs)"
      using Cons.prems by (force simp: flag_defaults_def map_filter_def)
    then have "map_of (rev (flag_defaults fs)) x = None" by (simp add: map_of_eq_None_iff)
    then show ?thesis using True Cons.prems(2) by (simp add: flag_defaults_Cons map_add_def)
  next
    case False
    then show ?thesis using Cons by (auto simp: flag_defaults_Cons map_add_def split: option.split)
  qed
qed simp

lemma var_typed_kind: "var_typed x d \<Longrightarrow> same_kind d v \<Longrightarrow> var_typed x v"
  unfolding var_typed_def
  by (cases d; cases v; cases "get_var (initial_globals Map.empty) x") auto

text \<open>A flag of the program is known by its name and by its variable among all flags.\<close>

lemma own_unique:
  assumes "f \<in> set (kubelet_flags env hostName g)" and "f' \<in> set (klog_flags fs @ kubelet_flags env hostName g)"
    and "fl_name f' = fl_name f \<or> fl_var f' = fl_var f"
  shows "f' = f"
proof -
  have "fl_var f' = None" if "f' \<in> set (klog_flags fs)" using that by (auto simp: klog_flags_def)
  moreover have "fl_name f' \<noteq> fl_name f" if "f' \<in> set (klog_flags fs)"
    using that own_not_klog [of env hostName g fs] assms(1) unfolding set_map by (metis disjoint_iff imageI)
  ultimately have "f' \<in> set (kubelet_flags env hostName g)"
    using assms own_vars [OF assms(1)] by (metis Un_iff option.distinct(1) set_append)
  with assms(1,3) show ?thesis
    using distinct_map_eq [OF own_distinct] distinct_map_eq [OF own_vars_distinct] by blast
qed

lemma flags_final:
  assumes f: "f \<in> set own" "fl_var f = Some x" and own: "own = kubelet_flags env hostName g"
    and typed: "\<forall>(n, v) \<in> set as. \<exists>f \<in> set (klog_flags fs @ own). fl_name f = n \<and> same_kind (fl_default f) v"
  shows "get_var (parse_flags (klog_flags fs @ own) as (fold (\<lambda>(x, v). set_var x v) (flag_defaults own) g)) x
    = flag_value_of f as"
proof -
  let ?flags = "klog_flags fs @ own"
  note unique = own_unique [where env = env and hostName = hostName and g = g and fs = fs, folded own]
  have "var_typed y v" if yv: "(y, v) \<in> set (flag_defaults own)" for y v
  proof -
    obtain f' where f': "f' \<in> set own" "fl_var f' = Some y" "v = fl_default f'"
      using yv by (auto simp: flag_defaults_def map_filter_def)
    show ?thesis by (rule own_vars [OF f'(1) [unfolded own]]) (use f' in simp)
  qed
  then have start: "get_var (fold (\<lambda>(x, v). set_var x v) (flag_defaults own) g) x = fl_default f"
    using flag_defaults_lookup [OF f] own_vars_distinct [of env hostName g, folded own]
    by (subst flag_vars.get_assigned) auto
  have "var_typed y v" if yv: "(y, v) \<in> set (List.map_filter (bound_to ?flags) as)" for y v
  proof -
    obtain a where a: "a \<in> set as" "bound_to ?flags a = Some (y, v)" using yv by (auto simp: map_filter_def)
    obtain f1 where f1: "f1 \<in> set ?flags" "fl_name f1 = fst a" "fl_var f1 = Some y" "v = snd a"
      using a(2) by (rule bound_toD)
    then have "f1 \<in> set own" by (auto simp: klog_flags_def)
    moreover obtain f2 where "f2 \<in> set ?flags" "fl_name f2 = fst a" "same_kind (fl_default f2) v"
      using typed a(1) f1(4) by (cases a) fastforce
    ultimately have "same_kind (fl_default f1) v" using unique [of f1 f2] f1(2) by simp
    then show ?thesis
      using own_vars [OF \<open>f1 \<in> set own\<close> [unfolded own]] f1(3) var_typed_kind by (metis option.inject)
  qed
  then have "get_var (fold (\<lambda>(x, v). set_var x v) (List.map_filter (bound_to ?flags) as) s) x =
      (case map_of (rev (List.map_filter (bound_to ?flags) as)) x of Some v \<Rightarrow> v | None \<Rightarrow> get_var s x)" for s
    by (rule flag_vars.get_assigned)
  moreover have "map_of (rev (List.map_filter (bound_to ?flags) as)) x = map_of (rev as) (fl_name f)"
    by (rule bound_lookup [OF _ f(2)]) (use f unique [OF f(1)] in auto)
  ultimately show ?thesis
    unfolding parse_flags_fold flag_value_of_def by (simp add: start split: option.split)
qed

section \<open>What main does\<close>

lemma nodename_default:
  assumes "map_of as ''nodename'' = None"
  shows "\<exists>f \<in> set (kubelet_flags env hostName g). fl_var f = Some NodeNameVar \<and> flag_value_of f as = FString hostName"
proof -
  have "map_of (rev as) ''nodename'' = None" using assms by (simp add: map_of_eq_None_iff)
  then show ?thesis by (simp add: kubelet_flags_def Let_def flag_value_of_def)
qed

lemma run_command_returns:
  "snd (run_command otl lib nu env cl c s) = MainReturns \<longleftrightarrow>
     (\<exists>lvl. cl_ParseLevel cl (g_logLevel (ms_globals s)) = Inr lvl)
     \<and> (case snd (run otl lib nu env c (ms_tracing s) (ms_globals s)) of None \<Rightarrow> True | Some err \<Rightarrow> is_canceled err)"
  by (auto simp: run_command_def split: sum.split prod.split option.split)


text \<open>A command line that sets the log level and, twice, the number of workers.\<close>

definition sample_command_lib :: "string command_lib" where
  "sample_command_lib =
     \<lparr>cl_AddFlag = (\<lambda>names f g. if fl_name f \<in> set names then Inl (GoPanic ''flag redefined'')
        else Inr (store_flag f (fl_default f) g)),
      cl_ClientsetFromEnv = (\<lambda>path. Inr sample_k8s), cl_Hostname = Inr ''Mini'', cl_homeDir = Inr ''/h'',
      cl_klogFlags = [(''v'', FInt 0)],
      cl_Execute = (\<lambda>cmd args. RunCommand (filter (\<lambda>(n, v). \<exists>f \<in> set (cc_Flags cmd). fl_name f = n \<and> same_kind (fl_default f) v)
        [(''pod-sync-workers'', FInt 3), (''log-level'', FString ''debug''), (''pod-sync-workers'', FInt 5)])),
      cl_ParseLevel = (\<lambda>l. if l = ''debug'' then Inr l else Inl ErrNotExist)\<rparr>"

lemma sample_flags_documented: "flags_documented sample_command_lib"
  by (auto simp: flags_documented_def sample_command_lib_def)

definition sample_main_state :: "(unit, unit, string) main_state" where
  "sample_main_state =
     \<lparr>ms_globals = initial_globals (me_vars sample_main), ms_tracing = \<lparr>tr_provider = None, tr_adapter = False\<rparr>,
      ms_level = None\<rparr>"

definition sample_otel :: "(unit, unit) otel_lib" where
  "sample_otel = \<lparr>otl_New = (\<lambda>opts. Inr ()), otl_resource = (\<lambda>attrs. Inr ())\<rparr>"

lemma sample_arguments:
  "cl_Execute sample_command_lib (main_command [''vk''] (fs @ kubelet_flags env hostName g)) [''vk''] =
     RunCommand [(''pod-sync-workers'', FInt 3), (''log-level'', FString ''debug''), (''pod-sync-workers'', FInt 5)]"
  by (simp add: sample_command_lib_def main_command_def Let_def kubelet_flags_def bex_Un)


end
