(* ===== verification/Provider_Spec.thy ===== *)
theory Provider_Spec
  imports Exec_Provider
begin

text \<open>
  What the provider over the process client promises, as a table: for every pod it manages, the pod
  as created and how its process ended, if it has; beside it the deletions that wait for their
  goroutine and those sent to the API server. Every operation refines a step of the table, and a
  sequence of operations a run of it.
\<close>

section \<open>The table\<close>

record pod_table =
  tb_pods :: "NamespacedName \<Rightarrow> (Pod \<times> goerr option option) option"
  tb_deleting :: "Pod list"
  tb_deletions :: "(string \<times> string \<times> 64 word option) list"

definition empty_table :: pod_table where
  "empty_table = \<lparr>tb_pods = Map.empty, tb_deleting = [], tb_deletions = []\<rparr>"

text \<open>The phase of a pod whose process runs, or ended with a result of \<^verbatim>\<open>Wait\<close>.\<close>

definition entry_phase :: "goerr option option \<Rightarrow> PodPhase" where
  "entry_phase e = (case e of None \<Rightarrow> PodRunning | Some err \<Rightarrow> ended_phase err)"

text \<open>
  A pod is added only under a free name and with a running process, and found until its deletion
  has been carried out; a query returns the pod it was created with and the phase that follows from
  the end of its process; a deletion that is carried out is sent to the API server exactly if
  the pod was there; a process ends once.
\<close>

inductive table_step :: "pod_table \<Rightarrow> provider_op \<Rightarrow> reply \<Rightarrow> pod_table \<Rightarrow> bool" where
  created: "tb_pods T (pod_key pod) = None \<Longrightarrow>
    table_step T (OpCreate env lib ctx pod) RNil (T\<lparr>tb_pods := (tb_pods T)(pod_key pod \<mapsto> (pod, None))\<rparr>)"
| refused: "table_step T (OpCreate env lib ctx pod) (RError e) T"
| updated: "table_step T (OpUpdate pod) (RError errNotImplemented) T"
| scheduled: "table_step T (OpDelete pod) RNil (T\<lparr>tb_deleting := tb_deleting T @ [pod]\<rparr>)"
| removed: "i < length (tb_deleting T) \<Longrightarrow> pod = tb_deleting T ! i \<Longrightarrow>
    table_step T (OpRunDeletion tenv i) RNil
      \<lparr>tb_pods = (tb_pods T)(pod_key pod := None),
       tb_deleting = take i (tb_deleting T) @ drop (Suc i) (tb_deleting T),
       tb_deletions = tb_deletions T @
         (if tb_pods T (pod_key pod) = None then [] else [(pod_Namespace pod, pod_Name pod, Some 0)])\<rparr>"
| idle: "length (tb_deleting T) \<le> i \<Longrightarrow> table_step T (OpRunDeletion tenv i) RNil T"
| found: "tb_pods T (namespaced ns n) = Some (pod, e) \<Longrightarrow> pst_Phase st = entry_phase e \<Longrightarrow>
    table_step T (OpGet now ns n) (RPod (pod\<lparr>pod_Status := Some st\<rparr>)) T"
| unknown: "tb_pods T (namespaced ns n) = None \<Longrightarrow>
    table_step T (OpGet now ns n) (RError (ErrNotFound ''pod process not found'')) T"
| status: "tb_pods T (namespaced ns n) = Some (pod, e) \<Longrightarrow> pst_Phase st = entry_phase e \<Longrightarrow>
    table_step T (OpGetStatus now ns n) (RStatus st) T"
| no_status: "tb_pods T (namespaced ns n) = None \<Longrightarrow>
    table_step T (OpGetStatus now ns n) (RError (ErrNotFound ''pod process not found'')) T"
| ended: "tb_pods T k = Some (pod, None) \<Longrightarrow>
    table_step T (OpExit k err) RNil (T\<lparr>tb_pods := (tb_pods T)(k \<mapsto> (pod, Some err))\<rparr>)"
| no_process: "(\<And>pod. tb_pods T k \<noteq> Some (pod, None)) \<Longrightarrow> table_step T (OpExit k err) RNil T"

inductive table_run :: "pod_table \<Rightarrow> (provider_op \<times> reply) list \<Rightarrow> pod_table \<Rightarrow> bool" where
  run_nil: "table_run T [] T"
| run_cons: "table_step T op r T' \<Longrightarrow> table_run T' trace T'' \<Longrightarrow> table_run T ((op, r) # trace) T''"

section \<open>The table of a provider state\<close>

definition table_entry :: "processState \<Rightarrow> Pod \<times> goerr option option" where
  "table_entry st = (the (pp_Pod (st_podProcess st)), if st_waitDone st then Some (st_exitError st) else None)"

definition table_of :: "'r exec_state \<Rightarrow> pod_table" where
  "table_of w =
     \<lparr>tb_pods = (\<lambda>k. map_option table_entry (pc_processes (ps_runtime w) k)),
      tb_deleting = ps_deleting w, tb_deletions = ps_deletions w\<rparr>"

text \<open>Processes are started at a time that is not the zero time, as the clock of the machine gives it.\<close>

definition clocked :: "'r exec_state \<Rightarrow> bool" where
  "clocked w \<longleftrightarrow> (\<forall>k st. pc_processes (ps_runtime w) k = Some st \<longrightarrow> pp_StartedAt (st_podProcess st) \<noteq> 0)"

fun clock_ok :: "provider_op \<Rightarrow> bool" where
  "clock_ok (OpCreate env lib ctx pod) = (os_Now env \<noteq> 0)"
| "clock_ok _ = True"

lemma table_of_simps [simp]:
  "tb_pods (table_of w) k = map_option table_entry (pc_processes (ps_runtime w) k)"
  "tb_deleting (table_of w) = ps_deleting w"
  "tb_deletions (table_of w) = ps_deletions w"
  by (simp_all add: table_of_def)

lemma table_of_cong:
  assumes "\<And>k. map_option table_entry (pc_processes (ps_runtime w') k) = map_option table_entry (pc_processes (ps_runtime w) k)"
    and "ps_deleting w' = ps_deleting w" and "ps_deletions w' = ps_deletions w"
  shows "table_of w' = table_of w"
  using assms by (simp add: table_of_def)

lemma phase_entry:
  assumes "pp_StartedAt (st_podProcess st) \<noteq> 0"
  shows "process_phase (refreshed st) = entry_phase (snd (table_entry st))"
proof (cases "st_waitDone st")
  case True
  then have "st = waited st (st_exitError st)" by (simp add: waited_def)
  then show ?thesis using phase_waited [OF assms, of "st_exitError st"] True by (simp add: table_entry_def entry_phase_def)
next
  case False
  then show ?thesis using assms
    by (simp add: table_entry_def entry_phase_def process_phase_def refreshed_def exit_report_def IsZero_def)
qed

section \<open>Every operation is a step of the table\<close>

lemma create_step:
  assumes "Provider_CreatePod lib (exec_provider env tenv config) w ctx pod = (w', r)" and "clocked w" and "os_Now env \<noteq> 0"
  shows "table_step (table_of w) (OpCreate env lib ctx pod) (reply_of r) (table_of w') \<and> clocked w'"
  using assms(1)
proof (cases rule: Provider_CreatePod_cases)
  case (early e)
  then have "table_of w' = table_of w" by (intro table_of_cong) simp_all
  then show ?thesis using early assms(2) by (simp add: reply_of_def table_step.refused clocked_def)
next
  case (late tok cms creds s)
  then have "ProcessClient_CreatePod env (ps_runtime w) pod tok cms creds = (s, r)" by (simp add: exec_provider_def)
  then show ?thesis
  proof (cases rule: CreatePod_cases)
    case (fail e ts)
    then have "table_of w' = table_of w" using late by (intro table_of_cong) simp_all
    then show ?thesis using fail late assms(2) by (simp add: reply_of_def table_step.refused clocked_def)
  next
    case (ok ctr rest)
    define st where "st = started_state env pod (launched_cmd env (ps_runtime w) pod ctr) (ctr_Command ctr @ ctr_Args ctr)"
    have "pc_processes (ps_runtime w') = (pc_processes (ps_runtime w))(pod_key pod \<mapsto> st)"
      using ok(2) late(2) by (simp add: launched_def st_def)
    moreover have "table_entry st = (pod, None)" by (simp add: table_entry_def st_def started_state_def)
    ultimately have "table_of w' = (table_of w)\<lparr>tb_pods := (tb_pods (table_of w))(pod_key pod \<mapsto> (pod, None))\<rparr>"
      using late(2) by (auto simp: table_of_def)
    moreover have "clocked w'"
      using assms(2,3) \<open>pc_processes (ps_runtime w') = _\<close> by (auto simp: clocked_def st_def started_state_def)
    ultimately show ?thesis using ok(1,4) table_step.created [of "table_of w" pod] by (simp add: reply_of_def)
  qed
qed

lemma handleDeletePod_effect:
  assumes "w' = handleDeletePod (exec_provider env tenv config) w pod"
  shows "pc_processes (ps_runtime w') = (pc_processes (ps_runtime w))(pod_key pod := None)"
    and "ps_deleting w' = ps_deleting w"
    and "ps_deletions w' = ps_deletions w @
      (if pc_processes (ps_runtime w) (pod_key pod) = None then [] else [(pod_Namespace pod, pod_Name pod, Some 0)])"
  unfolding assms
  by (cases "pc_processes (ps_runtime w) (namespaced (pod_Namespace pod) (pod_Name pod))";
      auto simp: handleDeletePod_def exec_provider_def DeletePod_missing DeletePod_found pod_key_def Let_def)+

lemma deletion_step:
  assumes "clocked w"
  shows "table_step (table_of w) (OpRunDeletion tenv i) RNil (table_of (run_deletion (exec_provider env tenv config) w i)) \<and>
    clocked (run_deletion (exec_provider env tenv config) w i)"
proof (cases "i < length (ps_deleting w)")
  case True
  let ?w = "w\<lparr>ps_deleting := take i (ps_deleting w) @ drop (Suc i) (ps_deleting w)\<rparr>" and ?pod = "ps_deleting w ! i"
  define w' where "w' = handleDeletePod (exec_provider env tenv config) ?w ?pod"
  have run: "run_deletion (exec_provider env tenv config) w i = w'" using True by (simp add: run_deletion_def w'_def)
  note eff = handleDeletePod_effect [OF w'_def]
  have "table_of w' =
      \<lparr>tb_pods = (tb_pods (table_of w))(pod_key ?pod := None),
       tb_deleting = take i (ps_deleting w) @ drop (Suc i) (ps_deleting w),
       tb_deletions = ps_deletions w @
         (if tb_pods (table_of w) (pod_key ?pod) = None then [] else [(pod_Namespace ?pod, pod_Name ?pod, Some 0)])\<rparr>"
    using eff by (auto simp: table_of_def)
  moreover have "clocked w'" using assms eff(1) by (auto simp: clocked_def)
  ultimately show ?thesis using table_step.removed [of i "table_of w" ?pod tenv] True run by simp
next
  case False
  then show ?thesis using assms table_step.idle [of "table_of w" i tenv] by (simp add: run_deletion_fields)
qed

text \<open>A query looks at an entry and rewrites its description, which leaves the table as it is.\<close>

lemma query_effect:
  assumes "ProcessClient_GetPod (ps_runtime w) ns n = (s, q)"
  shows "table_of (w\<lparr>ps_runtime := s\<rparr>) = table_of w"
    and "clocked w \<Longrightarrow> clocked (w\<lparr>ps_runtime := s\<rparr>)"
proof -
  have same: "table_entry (st\<lparr>st_podProcess := refreshed st\<rparr>) = table_entry st" for st
    by (simp add: table_entry_def refreshed_def)
  show "table_of (w\<lparr>ps_runtime := s\<rparr>) = table_of w" "clocked w \<Longrightarrow> clocked (w\<lparr>ps_runtime := s\<rparr>)"
    using assms same
    by (auto simp: ProcessClient_GetPod_def Let_def sm_Load_def table_of_def clocked_def refreshed_def fun_eq_iff
        split: option.splits if_splits)
qed

lemma entry_pod:
  assumes "client_inv (ps_runtime w)" and "pc_processes (ps_runtime w) k = Some st"
  shows "\<exists>pod. pp_Pod (st_podProcess st) = Some pod \<and> tb_pods (table_of w) k = Some (pod, snd (table_entry st))"
  using client_invD(1) [OF assms] by (auto simp: assms(2) entry_ok_def table_entry_def Let_def)

lemma get_step:
  assumes "Provider_GetPod (exec_provider env tenv config) w now ns n = (w', r)"
    and "client_inv (ps_runtime w)" and "clocked w"
  shows "table_step (table_of w) (OpGet now ns n) (case r of Inl e \<Rightarrow> RError e | Inr pod \<Rightarrow> RPod pod) (table_of w') \<and> clocked w'"
proof -
  obtain s q where get: "ProcessClient_GetPod (ps_runtime w) ns n = (s, q)" by fastforce
  have w': "w' = w\<lparr>ps_runtime := s\<rparr>"
    using assms(1) get by (auto simp: Provider_GetPod_def exec_provider_def Let_def split: sum.splits option.splits)
  note eff = query_effect [OF get, folded w']
  have r: "r = (case managed w (namespaced ns n) of None \<Rightarrow> Inl (ErrNotFound ''pod process not found'')
      | Some pp \<Rightarrow> Inr ((the (pp_Pod pp))\<lparr>pod_Status := Some (getPodStatusFromProcess (exec_provider env tenv config) now pp)\<rparr>))"
    using execp.pod_query [OF assms(2), of env tenv config now ns n] assms(1) by (auto simp: execp.pods_of_def)
  show ?thesis
  proof (cases "pc_processes (ps_runtime w) (namespaced ns n)")
    case None
    then show ?thesis using r eff assms(3) table_step.unknown [of "table_of w"] by (simp add: client_view_def)
  next
    case (Some st)
    obtain pod where pod: "pp_Pod (st_podProcess st) = Some pod"
        "tb_pods (table_of w) (namespaced ns n) = Some (pod, snd (table_entry st))"
      using entry_pod [OF assms(2) Some] by blast
    have "pp_StartedAt (st_podProcess st) \<noteq> 0" using assms(3) Some by (simp add: clocked_def)
    from table_step.found [OF pod(2)] phase_entry [OF this]
    show ?thesis using r eff assms(3) Some pod(1) by (simp add: client_view_def refreshed_def)
  qed
qed

lemma status_step:
  assumes "Provider_GetPodStatus (exec_provider env tenv config) w now ns n = (w', r)"
    and "client_inv (ps_runtime w)" and "clocked w"
  shows "table_step (table_of w) (OpGetStatus now ns n) (case r of Inl e \<Rightarrow> RError e | Inr st \<Rightarrow> RStatus st) (table_of w') \<and> clocked w'"
proof -
  obtain s q where get: "ProcessClient_GetPod (ps_runtime w) ns n = (s, q)" by fastforce
  have w': "w' = w\<lparr>ps_runtime := s\<rparr>"
    using assms(1) get by (auto simp: Provider_GetPodStatus_def exec_provider_def Let_def split: sum.splits)
  note eff = query_effect [OF get, folded w'] and r = status_reply [of env tenv config w now ns n, unfolded assms(1) snd_conv]
  show ?thesis
  proof (cases "pc_processes (ps_runtime w) (namespaced ns n)")
    case None
    then show ?thesis using r eff assms(3) table_step.no_status [of "table_of w"] by (simp add: client_view_def)
  next
    case (Some st)
    obtain pod where pod: "tb_pods (table_of w) (namespaced ns n) = Some (pod, snd (table_entry st))"
      using entry_pod [OF assms(2) Some] by blast
    have "pp_StartedAt (st_podProcess st) \<noteq> 0" using assms(3) Some by (simp add: clocked_def)
    from table_step.status [OF pod] phase_entry [OF this]
    show ?thesis using r eff assms(3) Some by (simp add: client_view_def)
  qed
qed

lemma exit_step:
  assumes "w' = w\<lparr>ps_runtime := wait_process (ps_runtime w) k err\<rparr>" and "client_inv (ps_runtime w)" and "clocked w"
  shows "table_step (table_of w) (OpExit k err) RNil (table_of w') \<and> clocked w'"
proof (cases "\<exists>st. pc_processes (ps_runtime w) k = Some st \<and> \<not> st_waitDone st")
  case True
  then obtain st where st: "pc_processes (ps_runtime w) k = Some st" "\<not> st_waitDone st" by blast
  obtain pod where pod: "pp_Pod (st_podProcess st) = Some pod" "tb_pods (table_of w) k = Some (pod, None)"
    using entry_pod [OF assms(2) st(1)] st(2) by (auto simp: table_entry_def)
  have procs: "pc_processes (ps_runtime w') = (pc_processes (ps_runtime w))(k \<mapsto> waited st err)"
    using assms(1) st by (simp add: wait_process_simps)
  then have "table_of w' = (table_of w)\<lparr>tb_pods := (tb_pods (table_of w))(k \<mapsto> (pod, Some err))\<rparr>"
    using assms(1) pod(1) by (auto simp: table_of_def table_entry_def waited_def)
  moreover have "clocked w'" using assms(3) procs st(1) by (auto simp: clocked_def waited_def)
  ultimately show ?thesis using table_step.ended [OF pod(2), of err] by simp
next
  case False
  then have "wait_process (ps_runtime w) k err = ps_runtime w" by (auto simp: wait_process_def sm_Load_def split: option.split)
  then have "w' = w" using assms(1) by simp
  moreover have "tb_pods (table_of w) k \<noteq> Some (pod, None)" for pod
    using False by (auto simp: table_entry_def)
  ultimately show ?thesis using assms(3) table_step.no_process [of "table_of w" k err] by blast
qed

lemma table_refined:
  assumes "exec_op env0 tenv0 config w op = (w', r)" and "client_inv (ps_runtime w)" and "clocked w" and "clock_ok op"
  shows "table_step (table_of w) op r (table_of w') \<and> clocked w'"
proof (cases op)
  case (OpCreate env lib ctx pod)
  then show ?thesis using assms(1,4) create_step [OF _ assms(3), of _ env tenv0 config] by (auto split: prod.splits)
next
  case (OpRunDeletion tenv i)
  then show ?thesis using assms(1) deletion_step [OF assms(3), of tenv i env0 config] by auto
next
  case (OpGet now ns n)
  then show ?thesis using assms(1) get_step [OF _ assms(2,3)] by (auto split: prod.splits)
next
  case (OpGetStatus now ns n)
  then show ?thesis using assms(1) status_step [OF _ assms(2,3)] by (auto split: prod.splits)
next
  case (OpExit k err)
  then show ?thesis using assms(1) exit_step [OF _ assms(2,3)] by auto
next
  case (OpUpdate pod)
  then show ?thesis using assms(1,3) by (auto simp: Provider_UpdatePod_def reply_of_def intro: table_step.updated)
next
  case (OpDelete pod)
  then have "w' = w\<lparr>ps_deleting := ps_deleting w @ [pod]\<rparr>" "r = RNil"
    using assms(1) by (auto simp: Provider_DeletePod_def reply_of_def)
  moreover from this have "table_of w' = (table_of w)\<lparr>tb_deleting := tb_deleting (table_of w) @ [pod]\<rparr>"
    by (simp add: table_of_def)
  ultimately show ?thesis using OpDelete assms(3) table_step.scheduled [of "table_of w" pod] by (simp add: clocked_def)
qed

section \<open>Sequences of operations\<close>

fun exec_ops ::
  "os_env \<Rightarrow> term_env \<Rightarrow> 'r MacOSExecProviderConfig \<Rightarrow> 'r exec_state \<Rightarrow> provider_op list
     \<Rightarrow> 'r exec_state \<times> (provider_op \<times> reply) list" where
  "exec_ops env0 tenv0 config w [] = (w, [])"
| "exec_ops env0 tenv0 config w (op # ops) =
     (let (w1, r) = exec_op env0 tenv0 config w op; (w2, trace) = exec_ops env0 tenv0 config w1 ops
      in (w2, (op, r) # trace))"

lemma trace_refined:
  assumes "exec_ops env0 tenv0 config w ops = (w', trace)" and "client_inv (ps_runtime w)" and "clocked w"
    and "\<forall>op \<in> set ops. clock_ok op"
  shows "table_run (table_of w) trace (table_of w') \<and> map fst trace = ops"
  using assms
proof (induction ops arbitrary: w trace)
  case Nil
  then show ?case by (auto intro: run_nil)
next
  case (Cons op ops)
  obtain w1 r where op: "exec_op env0 tenv0 config w op = (w1, r)" by fastforce
  obtain trace' where rest: "exec_ops env0 tenv0 config w1 ops = (w', trace')" "trace = (op, r) # trace'"
    using Cons.prems(1) op by (auto split: prod.splits)
  have "table_step (table_of w) op r (table_of w1)" "clocked w1"
    using table_refined [OF op] Cons.prems by auto
  moreover have "table_run (table_of w1) trace' (table_of w') \<and> map fst trace' = ops"
    using Cons.IH [OF rest(1) exec_op_inv [OF Cons.prems(2) op]] calculation(2) Cons.prems(4) by simp
  ultimately show ?case using rest(2) run_cons by auto
qed

end
