(* ===== verification/Process_Concurrency.thy ===== *)
theory Process_Concurrency
  imports Process_Client
begin

text \<open>
  \<^verbatim>\<open>pkg/client/process.go\<close> under concurrency. The kubelet calls the client from several
  goroutines, and every process has a goroutine that waits for it; only the single calls on
  the \<^verbatim>\<open>sync.Map\<close>, the channel operations and the writes of the waiting goroutine are atomic.
  Here the map holds addresses of \<^verbatim>\<open>processState\<close> objects, a goroutine is a thread that
  remembers where it stands, and a step runs one thread, one waiter or one process.
\<close>

section \<open>States\<close>

text \<open>Where the waiting goroutine of an object stands (lines 142 to 154).\<close>

datatype waiter = WaitCalled | ExitStored | FilesClosed | ChannelClosed

text \<open>The stages are ordered as the goroutine passes them.\<close>

primrec stage :: "waiter \<Rightarrow> nat" where
  "stage WaitCalled = 0"
| "stage ExitStored = 1"
| "stage FilesClosed = 2"
| "stage ChannelClosed = 3"

instantiation waiter :: linorder
begin

definition less_eq_waiter :: "waiter \<Rightarrow> waiter \<Rightarrow> bool" where
  "less_eq_waiter w w' \<longleftrightarrow> stage w \<le> stage w'"

definition less_waiter :: "waiter \<Rightarrow> waiter \<Rightarrow> bool" where
  "less_waiter w w' \<longleftrightarrow> stage w < stage w'"

instance
proof
  show "w = w'" if "w \<le> w'" "w' \<le> w" for w w' :: waiter
    using that by (cases w; cases w') (simp_all add: less_eq_waiter_def)
qed (auto simp: less_eq_waiter_def less_waiter_def)

end

record proc_obj =
  po_key :: NamespacedName
  po_running :: bool
  po_exitError :: "goerr option"
  po_waiter :: waiter
  po_cancelled :: bool

text \<open>
  Where a call of \<^verbatim>\<open>CreatePod\<close> or \<^verbatim>\<open>DeletePod\<close> stands: the map has been checked (line 66) but
  no process started, the process is started (line 125) but not stored, the object is loaded
  (line 172) and signalled, the grace period is over and the context cancelled (line 188), the
  channel was seen closed (lines 184 and 189) but the entry is still there.
\<close>

datatype thread =
    CreateChecked NamespacedName
  | CreateStarted NamespacedName nat
  | DeleteLoaded NamespacedName nat
  | DeleteKilled NamespacedName nat
  | DeleteWaited NamespacedName nat

fun thread_key :: "thread \<Rightarrow> NamespacedName" where
  "thread_key (CreateChecked k) = k"
| "thread_key (CreateStarted k a) = k"
| "thread_key (DeleteLoaded k a) = k"
| "thread_key (DeleteKilled k a) = k"
| "thread_key (DeleteWaited k a) = k"

record cstate =
  c_heap :: "nat \<rightharpoonup> proc_obj"
  c_processes :: "NamespacedName \<rightharpoonup> nat"
  c_threads :: "nat \<rightharpoonup> thread"

definition c_init :: cstate where
  "c_init = \<lparr>c_heap = Map.empty, c_processes = Map.empty, c_threads = Map.empty\<rparr>"

definition new_obj :: "NamespacedName \<Rightarrow> proc_obj" where
  "new_obj k = \<lparr>po_key = k, po_running = True, po_exitError = None, po_waiter = WaitCalled, po_cancelled = False\<rparr>"

definition set_obj :: "nat \<Rightarrow> proc_obj \<Rightarrow> cstate \<Rightarrow> cstate" where
  "set_obj a ob s = s\<lparr>c_heap := (c_heap s)(a \<mapsto> ob)\<rparr>"

definition set_thread :: "nat \<Rightarrow> thread option \<Rightarrow> cstate \<Rightarrow> cstate" where
  "set_thread t th s = s\<lparr>c_threads := (c_threads s)(t := th)\<rparr>"

definition set_entry :: "NamespacedName \<Rightarrow> nat option \<Rightarrow> cstate \<Rightarrow> cstate" where
  "set_entry k v s = s\<lparr>c_processes := (c_processes s)(k := v)\<rparr>"

definition busy :: "cstate \<Rightarrow> NamespacedName \<Rightarrow> bool" where
  "busy s k \<longleftrightarrow> (\<exists>t th. c_threads s t = Some th \<and> thread_key th = k)"

section \<open>Steps\<close>

text \<open>
  With \<open>serial\<close>, a call for a pod starts only when no other call for that pod is under way;
  without it calls overlap as they like. A call that finds nothing to do, and a failed start,
  leave no trace in the state.
\<close>

inductive cstep :: "bool \<Rightarrow> cstate \<Rightarrow> cstate \<Rightarrow> bool" for serial where
  create_check: "\<lbrakk>c_threads s t = None; sm_Load (c_processes s) k = None; serial \<longrightarrow> \<not> busy s k\<rbrakk> \<Longrightarrow>
    cstep serial s (set_thread t (Some (CreateChecked k)) s)"
| create_fail: "c_threads s t = Some (CreateChecked k) \<Longrightarrow> cstep serial s (set_thread t None s)"
| create_start: "\<lbrakk>c_threads s t = Some (CreateChecked k); c_heap s a = None\<rbrakk> \<Longrightarrow>
    cstep serial s (set_thread t (Some (CreateStarted k a)) (set_obj a (new_obj k) s))"
| create_store: "c_threads s t = Some (CreateStarted k a) \<Longrightarrow>
    cstep serial s (set_thread t None (set_entry k (Some a) s))"
| process_exit: "\<lbrakk>c_heap s a = Some ob; po_running ob\<rbrakk> \<Longrightarrow>
    cstep serial s (set_obj a (ob\<lparr>po_running := False\<rparr>) s)"
| wait_returns: "\<lbrakk>c_heap s a = Some ob; po_waiter ob = WaitCalled; \<not> po_running ob\<rbrakk> \<Longrightarrow>
    cstep serial s (set_obj a (ob\<lparr>po_exitError := err, po_waiter := ExitStored\<rparr>) s)"
| close_files: "\<lbrakk>c_heap s a = Some ob; po_waiter ob = ExitStored\<rbrakk> \<Longrightarrow>
    cstep serial s (set_obj a (ob\<lparr>po_waiter := FilesClosed\<rparr>) s)"
| close_channel: "\<lbrakk>c_heap s a = Some ob; po_waiter ob = FilesClosed\<rbrakk> \<Longrightarrow>
    cstep serial s (set_obj a (ob\<lparr>po_waiter := ChannelClosed\<rparr>) s)"
| delete_load: "\<lbrakk>c_threads s t = None; sm_Load (c_processes s) k = Some a; serial \<longrightarrow> \<not> busy s k\<rbrakk> \<Longrightarrow>
    cstep serial s (set_thread t (Some (DeleteLoaded k a)) s)"
| delete_exited: "\<lbrakk>c_threads s t = Some (DeleteLoaded k a); c_heap s a = Some ob; po_waiter ob = ChannelClosed\<rbrakk> \<Longrightarrow>
    cstep serial s (set_thread t (Some (DeleteWaited k a)) s)"
| delete_kill: "\<lbrakk>c_threads s t = Some (DeleteLoaded k a); c_heap s a = Some ob\<rbrakk> \<Longrightarrow>
    cstep serial s (set_thread t (Some (DeleteKilled k a)) (set_obj a (ob\<lparr>po_cancelled := True\<rparr>) s))"
| delete_killed: "\<lbrakk>c_threads s t = Some (DeleteKilled k a); c_heap s a = Some ob; po_waiter ob = ChannelClosed\<rbrakk> \<Longrightarrow>
    cstep serial s (set_thread t (Some (DeleteWaited k a)) s)"
| delete_remove: "c_threads s t = Some (DeleteWaited k a) \<Longrightarrow>
    cstep serial s (set_thread t None (set_entry k None s))"

definition reaches :: "bool \<Rightarrow> cstate \<Rightarrow> cstate \<Rightarrow> bool" where
  "reaches serial = (cstep serial)\<^sup>*\<^sup>*"

lemma reaches_refl [simp, intro]: "reaches serial s s"
  by (simp add: reaches_def)

lemma reaches_step [trans]: "reaches serial s s' \<Longrightarrow> cstep serial s' s'' \<Longrightarrow> reaches serial s s''"
  by (simp add: reaches_def)

lemma reaches_trans [trans]: "reaches serial s s' \<Longrightarrow> reaches serial s' s'' \<Longrightarrow> reaches serial s s''"
  by (simp add: reaches_def)

lemma reaches_induct [consumes 1, case_names init step]:
  assumes "reaches serial c_init s" and "P c_init"
    and "\<And>s s'. reaches serial c_init s \<Longrightarrow> P s \<Longrightarrow> cstep serial s s' \<Longrightarrow> P s'"
  shows "P s"
  using assms(1) unfolding reaches_def by (induction rule: rtranclp_induct) (use assms(2,3) in \<open>auto simp: reaches_def\<close>)

lemmas cstate_simps [simp] =
  set_obj_def set_thread_def set_entry_def new_obj_def sm_Load_def c_init_def

section \<open>What holds however the calls overlap\<close>

definition obj_ok :: "proc_obj \<Rightarrow> bool" where
  "obj_ok ob \<longleftrightarrow> (po_waiter ob \<noteq> WaitCalled \<longrightarrow> \<not> po_running ob)"

fun thread_ok :: "(nat \<rightharpoonup> proc_obj) \<Rightarrow> thread \<Rightarrow> bool" where
  "thread_ok h (CreateChecked k) = True"
| "thread_ok h (CreateStarted k a) = (\<exists>ob. h a = Some ob \<and> po_key ob = k)"
| "thread_ok h (DeleteLoaded k a) = (\<exists>ob. h a = Some ob \<and> po_key ob = k)"
| "thread_ok h (DeleteKilled k a) = (\<exists>ob. h a = Some ob \<and> po_key ob = k \<and> po_cancelled ob)"
| "thread_ok h (DeleteWaited k a) = (\<exists>ob. h a = Some ob \<and> po_key ob = k \<and> po_waiter ob = ChannelClosed)"

definition safe :: "cstate \<Rightarrow> bool" where
  "safe s \<longleftrightarrow>
     (\<forall>a ob. c_heap s a = Some ob \<longrightarrow> obj_ok ob) \<and>
     (\<forall>k a. c_processes s k = Some a \<longrightarrow> (\<exists>ob. c_heap s a = Some ob \<and> po_key ob = k)) \<and>
     (\<forall>t th. c_threads s t = Some th \<longrightarrow> thread_ok (c_heap s) th)"

lemma safeD:
  assumes "safe s"
  shows "c_heap s a = Some ob \<Longrightarrow> obj_ok ob"
    and "c_processes s k = Some a \<Longrightarrow> \<exists>ob. c_heap s a = Some ob \<and> po_key ob = k"
    and "c_threads s t = Some th \<Longrightarrow> thread_ok (c_heap s) th"
  using assms by (auto simp: safe_def)

text \<open>An object keeps its key, a closed channel stays closed and a cancelled context cancelled.\<close>

definition obj_le :: "proc_obj \<Rightarrow> proc_obj \<Rightarrow> bool" where
  "obj_le ob ob' \<longleftrightarrow>
     po_key ob' = po_key ob \<and> (po_cancelled ob \<longrightarrow> po_cancelled ob') \<and>
     (po_waiter ob = ChannelClosed \<longrightarrow> po_waiter ob' = ChannelClosed)"

lemma thread_ok_upd:
  assumes "thread_ok h th" and "\<And>ob. h a = Some ob \<Longrightarrow> obj_le ob ob'"
  shows "thread_ok (h(a \<mapsto> ob')) th"
  using assms by (cases th) (auto simp: obj_le_def)

lemma safe_set_obj:
  assumes "safe s" and "obj_ok ob'" and "\<And>ob. c_heap s a = Some ob \<Longrightarrow> obj_le ob ob'"
  shows "safe (set_obj a ob' s)"
proof -
  have "\<exists>ob. ((c_heap s)(a \<mapsto> ob')) b = Some ob \<and> po_key ob = k" if "c_processes s k = Some b" for k b
    using safeD(2) [OF assms(1) that] assms(3) by (auto simp: obj_le_def)
  moreover have "thread_ok ((c_heap s)(a \<mapsto> ob')) th" if "c_threads s t = Some th" for t th
    using thread_ok_upd [OF safeD(3) [OF assms(1) that] assms(3)] .
  ultimately show ?thesis using assms(2) safeD(1) [OF assms(1)] by (auto simp: safe_def)
qed

lemma safe_set_thread:
  assumes "safe s" and "\<And>th'. th = Some th' \<Longrightarrow> thread_ok (c_heap s) th'"
  shows "safe (set_thread t th s)"
  using assms by (auto simp: safe_def)

lemma safe_set_entry:
  assumes "safe s" and "\<And>a. v = Some a \<Longrightarrow> \<exists>ob. c_heap s a = Some ob \<and> po_key ob = k"
  shows "safe (set_entry k v s)"
  using assms by (auto simp: safe_def)

lemma safe_step:
  assumes "cstep serial s s'" and "safe s"
  shows "safe s'"
  using assms
proof (cases rule: cstep.cases)
  case (create_start t k a)
  have "safe (set_obj a (new_obj k) s)"
    using create_start assms(2) by (intro safe_set_obj) (auto simp: obj_ok_def)
  then show ?thesis unfolding create_start(1) by (rule safe_set_thread) auto
next
  case (create_store t k a)
  have "safe (set_entry k (Some a) s)"
    using safeD(3) [OF assms(2) create_store(2)] by (intro safe_set_entry [OF assms(2)]) auto
  then show ?thesis unfolding create_store(1) by (rule safe_set_thread) auto
next
  case (delete_kill t k a ob)
  have "safe (set_obj a (ob\<lparr>po_cancelled := True\<rparr>) s)"
    using delete_kill safeD(1) [OF assms(2), of a ob]
    by (intro safe_set_obj [OF assms(2)]) (auto simp: obj_ok_def obj_le_def)
  moreover have "po_key ob = k" using safeD(3) [OF assms(2) delete_kill(2)] delete_kill(3) by auto
  ultimately show ?thesis unfolding delete_kill(1) by (intro safe_set_thread) auto
next
  case (delete_remove t k a)
  have "safe (set_entry k None s)" by (rule safe_set_entry [OF assms(2)]) auto
  then show ?thesis unfolding delete_remove(1) by (rule safe_set_thread) auto
next
  case (delete_exited t k a ob)
  show ?thesis unfolding delete_exited(1) by (rule safe_set_thread [OF assms(2)]) (use safeD(3) [OF assms(2) delete_exited(2)] delete_exited(3,4) in auto)
next
  case (delete_killed t k a ob)
  show ?thesis unfolding delete_killed(1) by (rule safe_set_thread [OF assms(2)]) (use safeD(3) [OF assms(2) delete_killed(2)] delete_killed(3,4) in auto)
next
  case (delete_load t k a)
  show ?thesis unfolding delete_load(1)
    by (rule safe_set_thread [OF assms(2)]) (use delete_load(3) safeD(2) [OF assms(2), of k a] in auto)
next
  case (create_check t k)
  show ?thesis unfolding create_check(1) by (rule safe_set_thread [OF assms(2)]) auto
next
  case (create_fail t k)
  show ?thesis unfolding create_fail(1) by (rule safe_set_thread [OF assms(2)]) auto
qed (use assms(2) safeD(1) [OF assms(2)] in \<open>auto intro!: safe_set_obj simp del: set_obj_def simp: obj_ok_def obj_le_def\<close>)

lemma reachable_safe: "reaches serial c_init s \<Longrightarrow> safe s"
proof (induction rule: reaches_induct)
  case init
  show ?case by (simp add: safe_def)
next
  case (step s s')
  then show ?case using safe_step by blast
qed

text \<open>The value a reader finds behind a closed channel never changes again.\<close>

lemma exit_error_step:
  assumes "cstep serial s s'" and "c_heap s a = Some ob" and "po_waiter ob \<noteq> WaitCalled"
  shows "\<exists>ob'. c_heap s' a = Some ob' \<and> po_waiter ob' \<noteq> WaitCalled \<and> po_exitError ob' = po_exitError ob"
  using assms by (cases rule: cstep.cases) auto

lemma exit_error_stable:
  assumes "reaches serial s s'" and "c_heap s a = Some ob" and "po_waiter ob \<noteq> WaitCalled"
  shows "\<exists>ob'. c_heap s' a = Some ob' \<and> po_waiter ob' \<noteq> WaitCalled \<and> po_exitError ob' = po_exitError ob"
  using assms(1) unfolding reaches_def
proof (induction rule: rtranclp_induct)
  case base
  then show ?case using assms(2,3) by auto
next
  case (step y z)
  then obtain ob1 where "c_heap y a = Some ob1" "po_waiter ob1 \<noteq> WaitCalled" "po_exitError ob1 = po_exitError ob"
    by blast
  with exit_error_step [OF step.hyps(2)] show ?case by metis
qed

text \<open>An object stays where it is, with its key, and its goroutine only moves on.\<close>

lemma waiter_step:
  assumes "cstep serial s s'" and "c_heap s a = Some ob"
  shows "\<exists>ob'. c_heap s' a = Some ob' \<and> po_key ob' = po_key ob \<and> po_waiter ob \<le> po_waiter ob'"
  using assms by (cases rule: cstep.cases) (auto simp: less_eq_waiter_def)

lemma waiter_moves_on:
  assumes "reaches serial s s'" and "c_heap s a = Some ob"
  shows "\<exists>ob'. c_heap s' a = Some ob' \<and> po_key ob' = po_key ob \<and> po_waiter ob \<le> po_waiter ob'"
  using assms(1) unfolding reaches_def
proof (induction rule: rtranclp_induct)
  case base
  then show ?case using assms(2) by simp
next
  case (step y z)
  then show ?case using waiter_step [OF step.hyps(2)] by (metis order_trans)
qed

section \<open>What holds when the calls for a pod do not overlap\<close>

fun thread_entry :: "(NamespacedName \<rightharpoonup> nat) \<Rightarrow> thread \<Rightarrow> bool" where
  "thread_entry m (CreateChecked k) = (m k = None)"
| "thread_entry m (CreateStarted k a) = (m k = None)"
| "thread_entry m (DeleteLoaded k a) = (m k = Some a)"
| "thread_entry m (DeleteKilled k a) = (m k = Some a)"
| "thread_entry m (DeleteWaited k a) = (m k = Some a)"

text \<open>The object is known to the client: it is in the map, or the call that started it is about to store it.\<close>

definition known :: "cstate \<Rightarrow> nat \<Rightarrow> NamespacedName \<Rightarrow> bool" where
  "known s a k \<longleftrightarrow> c_processes s k = Some a \<or> (\<exists>t. c_threads s t = Some (CreateStarted k a))"

definition exclusive :: "cstate \<Rightarrow> bool" where
  "exclusive s \<longleftrightarrow>
     (\<forall>t t' th th'. c_threads s t = Some th \<longrightarrow> c_threads s t' = Some th' \<longrightarrow> thread_key th = thread_key th' \<longrightarrow> t = t') \<and>
     (\<forall>t th. c_threads s t = Some th \<longrightarrow> thread_entry (c_processes s) th)"

definition no_orphan :: "cstate \<Rightarrow> bool" where
  "no_orphan s \<longleftrightarrow> (\<forall>a ob. c_heap s a = Some ob \<longrightarrow> po_waiter ob \<noteq> ChannelClosed \<longrightarrow> known s a (po_key ob))"

lemma thread_entry_other: "thread_key th \<noteq> k \<Longrightarrow> thread_entry (m(k := v)) th = thread_entry m th"
  by (cases th) auto

lemma exclusiveD:
  assumes "exclusive s" and "c_threads s t = Some th"
  shows "thread_entry (c_processes s) th"
    and "c_threads s t' = Some th' \<Longrightarrow> thread_key th' = thread_key th \<Longrightarrow> t' = t"
  using assms unfolding exclusive_def by blast+

text \<open>A thread is added for an idle pod, moves on within its pod, or ends while it writes its entry.\<close>

lemma exclusive_add:
  assumes "exclusive s" and "\<not> busy s (thread_key th)" and "thread_entry (c_processes s) th"
  shows "exclusive (set_thread t (Some th) s)"
proof -
  have other: "thread_key th' \<noteq> thread_key th" "thread_key th \<noteq> thread_key th'" if "c_threads s t' = Some th'" for t' th'
    using assms(2) that unfolding busy_def by metis+
  show ?thesis using assms(1,3) other unfolding exclusive_def by auto
qed

lemma exclusive_move:
  assumes "exclusive s" and "c_threads s t = Some th" and "thread_key th' = thread_key th"
    and "thread_entry (c_processes s) th'"
  shows "exclusive (set_thread t (Some th') s)"
  using assms exclusiveD(2) [OF assms(1,2)] unfolding exclusive_def by auto

lemma exclusive_end:
  assumes "exclusive s" and "c_threads s t = Some th"
  shows "exclusive (set_thread t None (set_entry (thread_key th) v s))"
    and "exclusive (set_thread t None s)"
proof -
  have other: "thread_key th' \<noteq> thread_key th" if "c_threads s t' = Some th'" "t' \<noteq> t" for t' th'
    using exclusiveD(2) [OF assms that(1)] that(2) by auto
  have "thread_entry ((c_processes s)(thread_key th := v)) th'" if "c_threads s t' = Some th'" "t' \<noteq> t" for t' th'
    using thread_entry_other [OF other [OF that]] exclusiveD(1) [OF assms(1) that(1)] by simp
  then show "exclusive (set_thread t None (set_entry (thread_key th) v s))"
    using assms(1) unfolding exclusive_def by auto
  show "exclusive (set_thread t None s)" using assms(1) unfolding exclusive_def by auto
qed

lemma exclusive_obj [simp]: "exclusive (set_obj a ob s) = exclusive s"
  by (simp add: exclusive_def)

lemma exclusive_step:
  assumes "cstep True s s'" and "exclusive s"
  shows "exclusive s'"
  using assms
proof (cases rule: cstep.cases)
  case (create_check t k)
  then show ?thesis using exclusive_add [OF assms(2), of "CreateChecked k" t] by simp
next
  case (create_fail t k)
  then show ?thesis using exclusive_end(2) [OF assms(2)] by simp
next
  case (create_start t k a)
  then show ?thesis
    using exclusive_move [of "set_obj a (new_obj k) s" t "CreateChecked k" "CreateStarted k a"]
      exclusiveD(1) [OF assms(2) create_start(2)] assms(2) exclusive_obj [of a "new_obj k" s] by simp
next
  case (create_store t k a)
  then show ?thesis using exclusive_end(1) [OF assms(2) create_store(2), of "Some a"] by simp
next
  case (delete_load t k a)
  then show ?thesis using exclusive_add [OF assms(2), of "DeleteLoaded k a" t] by simp
next
  case (delete_exited t k a ob)
  then show ?thesis
    using exclusive_move [OF assms(2) delete_exited(2), of "DeleteWaited k a"] exclusiveD(1) [OF assms(2) delete_exited(2)]
    by simp
next
  case (delete_kill t k a ob)
  then show ?thesis
    using exclusive_move [of "set_obj a (ob\<lparr>po_cancelled := True\<rparr>) s" t "DeleteLoaded k a" "DeleteKilled k a"]
      exclusiveD(1) [OF assms(2) delete_kill(2)] assms(2) exclusive_obj [of a "ob\<lparr>po_cancelled := True\<rparr>" s] by simp
next
  case (delete_killed t k a ob)
  then show ?thesis
    using exclusive_move [OF assms(2) delete_killed(2), of "DeleteWaited k a"] exclusiveD(1) [OF assms(2) delete_killed(2)]
    by simp
next
  case (delete_remove t k a)
  then show ?thesis using exclusive_end(1) [OF assms(2) delete_remove(2), of None] by simp
qed (use assms(2) exclusive_obj in \<open>simp_all del: set_obj_def\<close>)

lemma no_orphan_obj:
  assumes "no_orphan s" and "\<And>ob. c_heap s a = Some ob \<Longrightarrow> obj_le ob ob'" and "c_heap s a \<noteq> None"
  shows "no_orphan (set_obj a ob' s)"
proof -
  obtain ob where ob: "c_heap s a = Some ob" using assms(3) by auto
  have "known s b (po_key x)" if "((c_heap s)(a \<mapsto> ob')) b = Some x" "po_waiter x \<noteq> ChannelClosed" for b x
  proof (cases "b = a")
    case True
    then have "po_key x = po_key ob" "po_waiter ob \<noteq> ChannelClosed"
      using that assms(2) [OF ob] by (auto simp: obj_le_def)
    then show ?thesis using assms(1) ob True by (simp add: no_orphan_def)
  qed (use that assms(1) in \<open>simp add: no_orphan_def\<close>)
  then show ?thesis by (simp add: no_orphan_def known_def)
qed

lemma known_keep:
  assumes "known s b k'" and "k' \<noteq> k" and "c_threads s t \<noteq> Some (CreateStarted k' b)"
  shows "known (set_thread t th (set_entry k v s)) b k'"
  using assms by (cases "c_processes s k' = Some b") (auto simp: known_def)

lemma no_orphan_thread:
  assumes "no_orphan s" and "\<And>k a. c_threads s t \<noteq> Some (CreateStarted k a)"
  shows "no_orphan (set_thread t th s)"
  using assms unfolding no_orphan_def known_def by (auto; metis)

lemma no_orphan_start:
  assumes "no_orphan s" and "c_threads s t = Some (CreateChecked k)" and "c_heap s a = None"
  shows "no_orphan (set_thread t (Some (CreateStarted k a)) (set_obj a (new_obj k) s))"
  using assms unfolding no_orphan_def known_def by (auto; metis thread.distinct(1) option.inject)

lemma no_orphan_store:
  assumes "no_orphan s" and "exclusive s" and "c_threads s t = Some (CreateStarted k a)"
  shows "no_orphan (set_thread t None (set_entry k (Some a) s))"
  unfolding no_orphan_def
proof (intro allI impI)
  fix b ob
  assume b: "c_heap (set_thread t None (set_entry k (Some a) s)) b = Some ob" "po_waiter ob \<noteq> ChannelClosed"
  then have kn: "known s b (po_key ob)" using assms(1) by (auto simp: no_orphan_def)
  show "known (set_thread t None (set_entry k (Some a) s)) b (po_key ob)"
  proof (cases "po_key ob = k")
    case True
    have "c_processes s k = None" using exclusiveD(1) [OF assms(2,3)] by simp
    with kn True obtain t' where "c_threads s t' = Some (CreateStarted k b)" by (auto simp: known_def)
    with exclusiveD(2) [OF assms(2,3) this] assms(3) have "b = a" by simp
    then show ?thesis using True by (simp add: known_def)
  next
    case False
    then show ?thesis using kn assms(3) by (intro known_keep) auto
  qed
qed

lemma no_orphan_remove:
  assumes "no_orphan s" and "exclusive s" and "safe s" and "c_threads s t = Some (DeleteWaited k a)"
  shows "no_orphan (set_thread t None (set_entry k None s))"
  unfolding no_orphan_def
proof (intro allI impI)
  fix b ob
  assume b: "c_heap (set_thread t None (set_entry k None s)) b = Some ob" "po_waiter ob \<noteq> ChannelClosed"
  then have kn: "known s b (po_key ob)" using assms(1) by (auto simp: no_orphan_def)
  have a: "c_processes s k = Some a" using exclusiveD(1) [OF assms(2,4)] by simp
  have "b \<noteq> a" using safeD(3) [OF assms(3,4)] b by auto
  have "po_key ob \<noteq> k"
  proof
    assume "po_key ob = k"
    with kn a \<open>b \<noteq> a\<close> obtain t' where "c_threads s t' = Some (CreateStarted k b)" by (auto simp: known_def)
    with exclusiveD(2) [OF assms(2,4) this] assms(4) show False by simp
  qed
  then show "known (set_thread t None (set_entry k None s)) b (po_key ob)"
    using kn assms(4) by (intro known_keep) auto
qed

lemma no_orphan_step:
  assumes "cstep True s s'" and "no_orphan s" and "exclusive s" and "safe s"
  shows "no_orphan s'"
  using assms(1)
proof (cases rule: cstep.cases)
  case (create_start t k a)
  then show ?thesis using no_orphan_start assms(2) by blast
next
  case (create_store t k a)
  then show ?thesis using no_orphan_store assms(2,3) by blast
next
  case (delete_remove t k a)
  then show ?thesis using no_orphan_remove assms(2-4) by blast
next
  case (delete_kill t k a ob)
  have "no_orphan (set_obj a (ob\<lparr>po_cancelled := True\<rparr>) s)"
    using delete_kill(3) by (intro no_orphan_obj [OF assms(2)]) (auto simp: obj_le_def)
  then show ?thesis unfolding delete_kill(1) using delete_kill(2) by (intro no_orphan_thread) simp_all
qed (use assms(2) in \<open>auto intro!: no_orphan_thread no_orphan_obj simp del: set_obj_def set_thread_def simp: obj_le_def\<close>)

lemma serial_invariants:
  "reaches True c_init s \<Longrightarrow> exclusive s \<and> no_orphan s"
proof (induction rule: reaches_induct)
  case init
  show ?case by (simp add: exclusive_def no_orphan_def)
next
  case (step s s')
  then show ?case using exclusive_step no_orphan_step reachable_safe by blast
qed

section \<open>Properties\<close>

text \<open>
  Property C13. However calls overlap: the channel of a process is closed only after the process
  has ended and \<^verbatim>\<open>Wait\<close> has returned, a \<^verbatim>\<open>DeletePod\<close> that is about to remove its entry has seen
  its own process end, a \<^verbatim>\<open>DeletePod\<close> past its grace period has cancelled the context of its own
  process, and the exit error a reader finds after the channel was closed stays the same in
  every later state. No object is lost, and its waiting goroutine only moves forward: it stores the
  exit error, closes the files, closes the channel.
\<close>

theorem waiting_is_safe:
  assumes "reaches serial c_init s"
  shows "(\<forall>a ob. c_heap s a = Some ob \<and> po_waiter ob = ChannelClosed \<longrightarrow>
      \<not> po_running ob \<and>
      (\<forall>s'. reaches serial s s' \<longrightarrow> (\<exists>ob'. c_heap s' a = Some ob' \<and> po_exitError ob' = po_exitError ob))) \<and>
    (\<forall>t k a. c_threads s t = Some (DeleteWaited k a) \<longrightarrow>
      (\<exists>ob. c_heap s a = Some ob \<and> po_key ob = k \<and> \<not> po_running ob)) \<and>
    (\<forall>t k a. c_threads s t = Some (DeleteKilled k a) \<longrightarrow>
      (\<exists>ob. c_heap s a = Some ob \<and> po_key ob = k \<and> po_cancelled ob)) \<and>
    (\<forall>a ob s'. c_heap s a = Some ob \<and> reaches serial s s' \<longrightarrow>
      (\<exists>ob'. c_heap s' a = Some ob' \<and> po_key ob' = po_key ob \<and> po_waiter ob \<le> po_waiter ob'))"
proof (intro conjI allI impI)
  note safe = reachable_safe [OF assms]
  fix a ob s'
  assume a: "c_heap s a = Some ob \<and> po_waiter ob = ChannelClosed"
  then show "\<not> po_running ob" using safeD(1) [OF safe] by (auto simp: obj_ok_def)
  assume "reaches serial s s'"
  from exit_error_stable [OF this, of a ob] a
  show "\<exists>ob'. c_heap s' a = Some ob' \<and> po_exitError ob' = po_exitError ob" by auto
next
  note safe = reachable_safe [OF assms]
  fix t k a
  assume "c_threads s t = Some (DeleteWaited k a)"
  from safeD(3) [OF safe this] obtain ob where "c_heap s a = Some ob" "po_key ob = k" "po_waiter ob = ChannelClosed"
    by auto
  then show "\<exists>ob. c_heap s a = Some ob \<and> po_key ob = k \<and> \<not> po_running ob"
    using safeD(1) [OF safe] by (auto simp: obj_ok_def)
next
  note safe = reachable_safe [OF assms]
  fix t k a
  assume "c_threads s t = Some (DeleteKilled k a)"
  from safeD(3) [OF safe this] show "\<exists>ob. c_heap s a = Some ob \<and> po_key ob = k \<and> po_cancelled ob" by auto
next
  fix a ob s'
  assume "c_heap s a = Some ob \<and> reaches serial s s'"
  then show "\<exists>ob'. c_heap s' a = Some ob' \<and> po_key ob' = po_key ob \<and> po_waiter ob \<le> po_waiter ob'"
    using waiter_moves_on by blast
qed

text \<open>
  Property C3. When calls for the same pod do not overlap, no process is ever lost: a process
  that is running is the one its pod's map entry points to, or the call that started it is
  about to store it. In particular a pod never has two running processes in the map's shadow.
\<close>

theorem serial_no_orphan:
  assumes "reaches True c_init s" and "c_heap s a = Some ob" and "po_running ob"
  shows "c_processes s (po_key ob) = Some a \<or> (\<exists>t. c_threads s t = Some (CreateStarted (po_key ob) a))"
proof -
  have "po_waiter ob \<noteq> ChannelClosed"
    using safeD(1) [OF reachable_safe [OF assms(1)] assms(2)] assms(3) by (auto simp: obj_ok_def)
  then show ?thesis using serial_invariants [OF assms(1)] assms(2) by (auto simp: no_orphan_def known_def)
qed

text \<open>The steps of a process and of its waiter that close the channel.\<close>

lemma channel_closes:
  assumes "c_heap s a = Some ob"
  shows "\<exists>s' ob'. reaches serial s s' \<and> c_heap s' a = Some ob' \<and> po_waiter ob' = ChannelClosed \<and>
    c_threads s' = c_threads s \<and> c_processes s' = c_processes s"
proof -
  have files: "\<exists>s' ob'. reaches serial s s' \<and> c_heap s' a = Some ob' \<and> po_waiter ob' = ChannelClosed \<and>
      c_threads s' = c_threads s \<and> c_processes s' = c_processes s"
    if "c_heap s a = Some ob" "po_waiter ob = FilesClosed" for s ob
    using cstep.close_channel [OF that] reaches_step [OF reaches_refl]
    by (intro exI [of _ "set_obj a (ob\<lparr>po_waiter := ChannelClosed\<rparr>) s"] exI [of _ "ob\<lparr>po_waiter := ChannelClosed\<rparr>"]) auto
  have stored: "\<exists>s' ob'. reaches serial s s' \<and> c_heap s' a = Some ob' \<and> po_waiter ob' = ChannelClosed \<and>
      c_threads s' = c_threads s \<and> c_processes s' = c_processes s"
    if "c_heap s a = Some ob" "po_waiter ob = ExitStored" for s ob
    using cstep.close_files [OF that, of serial] files [of "set_obj a (ob\<lparr>po_waiter := FilesClosed\<rparr>) s"]
      reaches_trans [OF reaches_step [OF reaches_refl]] by fastforce
  have ended: "\<exists>s' ob'. reaches serial s s' \<and> c_heap s' a = Some ob' \<and> po_waiter ob' = ChannelClosed \<and>
      c_threads s' = c_threads s \<and> c_processes s' = c_processes s"
    if "c_heap s a = Some ob" "po_waiter ob = WaitCalled" "\<not> po_running ob" for s ob
    using cstep.wait_returns [OF that, of serial None]
      stored [of "set_obj a (ob\<lparr>po_exitError := None, po_waiter := ExitStored\<rparr>) s"]
      reaches_trans [OF reaches_step [OF reaches_refl]] by fastforce
  show ?thesis
  proof (cases "po_waiter ob")
    case WaitCalled
    show ?thesis
    proof (cases "po_running ob")
      case True
      then show ?thesis
        using cstep.process_exit [OF assms, of serial] ended [of "set_obj a (ob\<lparr>po_running := False\<rparr>) s"] WaitCalled
          reaches_trans [OF reaches_step [OF reaches_refl]] by fastforce
    qed (use ended assms WaitCalled in blast)
  next
    case ChannelClosed
    then show ?thesis using assms by blast
  qed (use assms stored files in blast)+
qed


section \<open>What goes wrong when calls overlap\<close>

abbreviation web :: NamespacedName where
  "web \<equiv> namespaced ''default'' ''web''"

text \<open>The steps as moves a scheduler can choose, for replaying a run; \<open>None\<close> where a move is not possible.\<close>

datatype move =
    MCheck nat NamespacedName
  | MStart nat nat
  | MStore nat
  | MExit nat
  | MWait nat
  | MFiles nat
  | MChannel nat
  | MLoad nat NamespacedName
  | MSeen nat
  | MRemove nat

fun play :: "cstate \<Rightarrow> move \<Rightarrow> cstate option" where
  "play s (MCheck t k) =
     (if c_threads s t = None \<and> c_processes s k = None then Some (set_thread t (Some (CreateChecked k)) s) else None)"
| "play s (MStart t a) =
     (case c_threads s t of
        Some (CreateChecked k) \<Rightarrow>
          if c_heap s a = None then Some (set_thread t (Some (CreateStarted k a)) (set_obj a (new_obj k) s)) else None
      | _ \<Rightarrow> None)"
| "play s (MStore t) =
     (case c_threads s t of
        Some (CreateStarted k a) \<Rightarrow> Some (set_thread t None (set_entry k (Some a) s)) | _ \<Rightarrow> None)"
| "play s (MExit a) =
     (case c_heap s a of
        Some ob \<Rightarrow> if po_running ob then Some (set_obj a (ob\<lparr>po_running := False\<rparr>) s) else None | None \<Rightarrow> None)"
| "play s (MWait a) =
     (case c_heap s a of
        Some ob \<Rightarrow> if po_waiter ob = WaitCalled \<and> \<not> po_running ob
          then Some (set_obj a (ob\<lparr>po_exitError := None, po_waiter := ExitStored\<rparr>) s) else None | None \<Rightarrow> None)"
| "play s (MFiles a) =
     (case c_heap s a of
        Some ob \<Rightarrow> if po_waiter ob = ExitStored then Some (set_obj a (ob\<lparr>po_waiter := FilesClosed\<rparr>) s) else None
      | None \<Rightarrow> None)"
| "play s (MChannel a) =
     (case c_heap s a of
        Some ob \<Rightarrow> if po_waiter ob = FilesClosed then Some (set_obj a (ob\<lparr>po_waiter := ChannelClosed\<rparr>) s) else None
      | None \<Rightarrow> None)"
| "play s (MLoad t k) =
     (case c_processes s k of
        Some a \<Rightarrow> if c_threads s t = None then Some (set_thread t (Some (DeleteLoaded k a)) s) else None
      | None \<Rightarrow> None)"
| "play s (MSeen t) =
     (case c_threads s t of
        Some (DeleteLoaded k a) \<Rightarrow>
          (case c_heap s a of
             Some ob \<Rightarrow> if po_waiter ob = ChannelClosed then Some (set_thread t (Some (DeleteWaited k a)) s) else None
           | None \<Rightarrow> None)
      | _ \<Rightarrow> None)"
| "play s (MRemove t) =
     (case c_threads s t of
        Some (DeleteWaited k a) \<Rightarrow> Some (set_thread t None (set_entry k None s)) | _ \<Rightarrow> None)"

fun plays :: "cstate \<Rightarrow> move list \<Rightarrow> cstate option" where
  "plays s [] = Some s"
| "plays s (m # ms) = (case play s m of None \<Rightarrow> None | Some s' \<Rightarrow> plays s' ms)"

lemma play_step: "play s m = Some s' \<Longrightarrow> cstep False s s'"
  by (cases m)
    (auto simp del: set_obj_def set_thread_def set_entry_def new_obj_def
      split: option.splits thread.splits if_splits intro: cstep.intros simp: sm_Load_def)

lemma plays_reach: "plays s ms = Some s' \<Longrightarrow> reaches False s s'"
proof (induction ms arbitrary: s)
  case (Cons m ms)
  then obtain s1 where "play s m = Some s1" "plays s1 ms = Some s'" by (auto split: option.splits)
  then show ?case
    using reaches_trans [OF reaches_step [OF reaches_refl play_step]] Cons.IH by blast
qed simp

text \<open>
  Two deletions of a pod overlap; the first finishes, the pod is created again, and then the
  second removes the new entry, because it removes by name and not by the object it waited for.
\<close>

definition overlapping_deletes :: "move list" where
  "overlapping_deletes =
     [MCheck 1 web, MStart 1 10, MStore 1, MLoad 2 web, MLoad 3 web,
      MExit 10, MWait 10, MFiles 10, MChannel 10, MSeen 2, MSeen 3, MRemove 2,
      MCheck 4 web, MStart 4 11, MStore 4, MRemove 3]"

definition overlapping_creates :: "move list" where
  "overlapping_creates = [MCheck 1 web, MCheck 2 web, MStart 1 10, MStart 2 11, MStore 1, MStore 2]"

text \<open>
  Property C15. When calls for a pod overlap, processes are lost. After two overlapping
  \<^verbatim>\<open>DeletePod\<close> calls and a \<^verbatim>\<open>CreatePod\<close> between their ends, all calls have returned, the new
  process runs, and the client does not know the pod. After two overlapping \<^verbatim>\<open>CreatePod\<close> calls
  both processes of the pod run and the client knows one of them.
\<close>

theorem overlap_orphans:
  "(\<exists>s ob. reaches False c_init s \<and> c_threads s = Map.empty \<and> c_heap s 11 = Some ob \<and> po_running ob \<and>
      po_key ob = web \<and> c_processes s web = None) \<and>
   (\<exists>s ob ob'. reaches False c_init s \<and> c_threads s = Map.empty \<and>
      c_heap s 10 = Some ob \<and> po_running ob \<and> po_key ob = web \<and>
      c_heap s 11 = Some ob' \<and> po_running ob' \<and> po_key ob' = web \<and> c_processes s web = Some 11)"
proof
  obtain s where "plays c_init overlapping_deletes = Some s" "c_threads s = Map.empty"
      "c_heap s 11 = Some (new_obj web)" "c_processes s web = None"
    by (simp add: overlapping_deletes_def fun_upd_twist)
  then show "\<exists>s ob. reaches False c_init s \<and> c_threads s = Map.empty \<and> c_heap s 11 = Some ob \<and> po_running ob \<and>
      po_key ob = web \<and> c_processes s web = None"
    using plays_reach by fastforce
  obtain s where "plays c_init overlapping_creates = Some s" "c_threads s = Map.empty"
      "c_heap s 10 = Some (new_obj web)" "c_heap s 11 = Some (new_obj web)" "c_processes s web = Some 11"
    by (simp add: overlapping_creates_def fun_upd_twist)
  then show "\<exists>s ob ob'. reaches False c_init s \<and> c_threads s = Map.empty \<and>
      c_heap s 10 = Some ob \<and> po_running ob \<and> po_key ob = web \<and>
      c_heap s 11 = Some ob' \<and> po_running ob' \<and> po_key ob' = web \<and> c_processes s web = Some 11"
    using plays_reach by fastforce
qed

section \<open>The properties at concrete runs\<close>

theorem waiting_is_safe_witness:
  "\<exists>s ob. plays c_init (take 10 overlapping_deletes) = Some s \<and> c_threads s 2 = Some (DeleteWaited web 10) \<and>
     c_heap s 10 = Some ob \<and> po_running ob = False"
proof -
  obtain s where s: "plays c_init (take 10 overlapping_deletes) = Some s" "c_threads s 2 = Some (DeleteWaited web 10)"
    by (simp add: overlapping_deletes_def)
  with waiting_is_safe [OF plays_reach [OF s(1)]] show ?thesis by blast
qed

theorem serial_no_orphan_witness:
  "\<exists>s. reaches True c_init s \<and> c_heap s 10 = Some (new_obj web) \<and>
     (c_processes s web = Some 10 \<or> (\<exists>t. c_threads s t = Some (CreateStarted web 10)))"
proof -
  let ?s1 = "set_thread 1 (Some (CreateChecked web)) c_init"
  let ?s2 = "set_thread 1 (Some (CreateStarted web 10)) (set_obj 10 (new_obj web) ?s1)"
  have "cstep True c_init ?s1" by (rule cstep.create_check) (auto simp: busy_def)
  moreover have "cstep True ?s1 ?s2" by (rule cstep.create_start) auto
  ultimately have "reaches True c_init ?s2" using reaches_step [OF reaches_step [OF reaches_refl]] by blast
  moreover have "c_heap ?s2 10 = Some (new_obj web)" by simp
  ultimately show ?thesis using serial_no_orphan [of ?s2 10 "new_obj web"] by (intro exI [of _ ?s2]) auto
qed


end
