(* ===== verification/Process_Refinement.thy ===== *)
theory Process_Refinement
  imports Process_Concurrency
begin

text \<open>
  The two models of \<^verbatim>\<open>pkg/client/process.go\<close> agree. \<open>Process_Client\<close> takes a call as one step,
  \<open>Process_Concurrency\<close> takes it apart; as long as calls for the same pod do not overlap, every
  step of the second is matched by whole calls of the first, and every whole call can be
  played step by step.
\<close>

section \<open>Corresponding states\<close>

text \<open>
  An entry of the map and the object behind the corresponding pointer: the channel is closed in both
  or in neither, and then the exit errors are equal.
\<close>

definition entry_match :: "processState \<Rightarrow> proc_obj \<Rightarrow> bool" where
  "entry_match st ob \<longleftrightarrow>
     (st_waitDone st \<longleftrightarrow> po_waiter ob = ChannelClosed) \<and> (st_waitDone st \<longrightarrow> st_exitError st = po_exitError ob)"

definition linear :: "ProcessClient \<Rightarrow> cstate \<Rightarrow> bool" where
  "linear c s \<longleftrightarrow>
     (\<forall>k. rel_option (\<lambda>st a. \<exists>ob. c_heap s a = Some ob \<and> entry_match st ob) (pc_processes c k) (c_processes s k))"

lemma linear_None: "linear c s \<Longrightarrow> pc_processes c k = None \<longleftrightarrow> c_processes s k = None"
  by (cases "pc_processes c k"; cases "c_processes s k") (auto simp: linear_def dest!: spec [of _ k])

lemma linear_Some:
  assumes "linear c s" and "c_processes s k = Some a"
  obtains st ob where "pc_processes c k = Some st" "c_heap s a = Some ob" "entry_match st ob"
proof -
  have "rel_option (\<lambda>st a. \<exists>ob. c_heap s a = Some ob \<and> entry_match st ob) (pc_processes c k) (c_processes s k)"
    using assms(1) unfolding linear_def by blast
  then show ?thesis using assms(2) that by (cases "pc_processes c k") auto
qed

lemma linear_fields: "linear c s \<Longrightarrow> pc_processes c' = pc_processes c \<Longrightarrow> c_heap s' = c_heap s \<Longrightarrow>
    c_processes s' = c_processes s \<Longrightarrow> linear c' s'"
  by (simp add: linear_def)

text \<open>Changing an object, where the entries that point to it are known.\<close>

lemma linear_set_obj:
  assumes "linear c s"
    and "\<And>k st ob. c_processes s k = Some a \<Longrightarrow> pc_processes c k = Some st \<Longrightarrow> c_heap s a = Some ob \<Longrightarrow>
      entry_match st ob \<Longrightarrow> entry_match st ob'"
  shows "linear c (set_obj a ob' s)"
  unfolding linear_def
proof
  fix k
  show "rel_option (\<lambda>st b. \<exists>ob. c_heap (set_obj a ob' s) b = Some ob \<and> entry_match st ob)
      (pc_processes c k) (c_processes (set_obj a ob' s) k)"
  proof (cases "c_processes s k")
    case None
    then show ?thesis using linear_None [OF assms(1), of k] by simp
  next
    case (Some b)
    with assms(1) obtain st ob where "pc_processes c k = Some st" "c_heap s b = Some ob" "entry_match st ob"
      by (rule linear_Some)
    then show ?thesis using Some assms(2) [of k st ob] by (cases "b = a") auto
  qed
qed

lemma linear_obj:
  assumes "linear c s" and "c_heap s a = Some ob" and "\<And>st. entry_match st ob \<Longrightarrow> entry_match st ob'"
  shows "linear c (set_obj a ob' s)"
  by (rule linear_set_obj [OF assms(1)]) (use assms(2,3) in auto)

lemma linear_upd:
  assumes "linear c s" and "pc_processes c' = (pc_processes c)(k \<mapsto> st)"
    and "c_heap s a = Some ob" and "entry_match st ob"
  shows "linear c' (set_entry k (Some a) s)"
  using assms by (simp add: linear_def)

lemma linear_remove:
  assumes "linear c s" and "pc_processes c' = (pc_processes c)(k := None)"
  shows "linear c' (set_entry k None s)"
  using assms by (simp add: linear_def)

section \<open>Whole calls with a given effect on the map\<close>

text \<open>A call of the client from beginning to end, or the end of a process.\<close>

inductive client_call :: "ProcessClient \<Rightarrow> ProcessClient \<Rightarrow> bool" where
  by_create: "ProcessClient_CreatePod env c pod tok cms creds = (c', r) \<Longrightarrow> client_call c c'"
| by_delete: "ProcessClient_DeletePod tenv c ns n g = (c', r) \<Longrightarrow> client_call c c'"
| by_get: "ProcessClient_GetPod c ns n = (c', q) \<Longrightarrow> client_call c c'"
| by_exit: "client_call c (wait_process c k err)"

abbreviation client_calls :: "ProcessClient \<Rightarrow> ProcessClient \<Rightarrow> bool" where
  "client_calls \<equiv> client_call\<^sup>*\<^sup>*"

abbreviation key_pod :: "NamespacedName \<Rightarrow> Pod" where
  "key_pod k \<equiv> sample_pod\<lparr>pod_Namespace := nn_Namespace k, pod_Name := nn_Name k\<rparr>"

lemma key_namespaced [simp]: "namespaced (nn_Namespace k) (nn_Name k) = k"
  by simp

lemma call_create:
  assumes "pc_processes c k = None"
  shows "\<exists>c' st. client_call c c' \<and> pc_processes c' = (pc_processes c)(k \<mapsto> st) \<and> \<not> st_waitDone st"
proof -
  have key: "pod_key (key_pod k) = k" by (simp add: pod_key_def)
  have "ProcessClient_CreatePod sample_os c (key_pod k) [] Map.empty sample_store =
      (launched sample_os c (key_pod k) sample_container, None)"
  proof (rule CreatePod_launch_ok)
    show "first_failure sample_os (launch_calls sample_os c (key_pod k) sample_container) = None"
      by (simp add: launch_calls_def sample_os_def Let_def split: option.split)
  qed (use assms key in \<open>simp_all add: sample_pod_def sample_container_def\<close>)
  from by_create [OF this] show ?thesis
    by (intro exI conjI) (auto simp: launched_def key started_state_def)
qed

lemma call_wait:
  assumes "pc_processes c k = Some st" and "\<not> st_waitDone st"
  shows "\<exists>c'. client_call c c' \<and> pc_processes c' = (pc_processes c)(k \<mapsto> waited st err)"
  using by_exit [of c k err] assms
  by (intro exI [of _ "wait_process c k err"]) (simp add: wait_process_def sm_Load_def)

lemma call_delete:
  assumes "pc_processes c k \<noteq> None"
  shows "\<exists>c'. client_call c c' \<and> pc_processes c' = (pc_processes c)(k := None)"
proof -
  obtain st where "pc_processes c (namespaced (nn_Namespace k) (nn_Name k)) = Some st" using assms by auto
  from by_delete [OF DeletePod_found [OF this, of stubborn 0]] show ?thesis by auto
qed

section \<open>Every step is matched by whole calls\<close>

lemma match_store:
  assumes "linear c s" and "c_processes s k = None" and "c_heap s a = Some ob"
  shows "\<exists>c'. client_calls c c' \<and> linear c' (set_entry k (Some a) s)"
proof -
  obtain c1 st where c1: "client_call c c1" "pc_processes c1 = (pc_processes c)(k \<mapsto> st)" "\<not> st_waitDone st"
    using call_create linear_None [OF assms(1)] assms(2) by blast
  show ?thesis
  proof (cases "po_waiter ob = ChannelClosed")
    case True
    obtain c2 where c2: "client_call c1 c2" "pc_processes c2 = (pc_processes c1)(k \<mapsto> waited st (po_exitError ob))"
      using call_wait [OF _ c1(3), of c1 k "po_exitError ob"] c1(2) by auto
    then have "pc_processes c2 = (pc_processes c)(k \<mapsto> waited st (po_exitError ob))" using c1(2) by simp
    from linear_upd [OF assms(1) this assms(3)] True have "linear c2 (set_entry k (Some a) s)"
      by (simp add: entry_match_def waited_def)
    moreover have "client_calls c c2" using c1(1) c2(1) by simp
    ultimately show ?thesis by blast
  next
    case False
    with linear_upd [OF assms(1) c1(2) assms(3)] c1(3) have "linear c1 (set_entry k (Some a) s)"
      by (simp add: entry_match_def)
    then show ?thesis using c1(1) by blast
  qed
qed

lemma match_close:
  assumes "linear c s" and "safe s" and "c_heap s a = Some ob" and "po_waiter ob = FilesClosed"
  shows "\<exists>c'. client_calls c c' \<and> linear c' (set_obj a (ob\<lparr>po_waiter := ChannelClosed\<rparr>) s)"
proof (cases "c_processes s (po_key ob) = Some a")
  case True
  let ?k = "po_key ob" and ?ob = "ob\<lparr>po_waiter := ChannelClosed\<rparr>"
  from assms(1) True obtain st where st: "pc_processes c ?k = Some st" "\<not> st_waitDone st"
    by (rule linear_Some) (use assms(3,4) in \<open>auto simp: entry_match_def\<close>)
  obtain c' where c': "client_call c c'" "pc_processes c' = (pc_processes c)(?k \<mapsto> waited st (po_exitError ob))"
    using call_wait [OF st] by blast
  have only: "k = ?k" if "c_processes s k = Some a" for k
    using safeD(2) [OF assms(2) that] assms(3) by auto
  have "rel_option (\<lambda>st b. \<exists>x. c_heap (set_obj a ?ob s) b = Some x \<and> entry_match st x) (pc_processes c' k) (c_processes s k)" for k
  proof (cases "k = ?k")
    case True
    then show ?thesis using c'(2) \<open>c_processes s ?k = Some a\<close> by (auto simp: entry_match_def waited_def)
  next
    case False
    then have "c_processes s k \<noteq> Some a" using only by blast
    moreover have "rel_option (\<lambda>st b. \<exists>x. c_heap s b = Some x \<and> entry_match st x) (pc_processes c k) (c_processes s k)"
      using assms(1) by (simp add: linear_def)
    ultimately show ?thesis using False c'(2) by (cases "c_processes s k"; cases "pc_processes c k") auto
  qed
  then have "linear c' (set_obj a ?ob s)" unfolding linear_def by simp
  then show ?thesis using c'(1) by blast
next
  case False
  have "c_processes s k \<noteq> Some a" for k
    using safeD(2) [OF assms(2), of k a] assms(3) False by auto
  then show ?thesis using linear_set_obj [OF assms(1)] by blast
qed

lemma linear_step:
  assumes "cstep True s s'" and "safe s" and "exclusive s" and "linear c s"
  shows "\<exists>c'. client_calls c c' \<and> linear c' s'"
  using assms(1)
proof (cases rule: cstep.cases)
  case (create_start t k a)
  have "linear c (set_obj a (new_obj k) s)"
    by (rule linear_set_obj [OF assms(4)]) (use create_start in auto)
  then show ?thesis using create_start(1) linear_fields [of c "set_obj a (new_obj k) s" c s'] by auto
next
  case (create_store t k a)
  obtain c' where "client_calls c c'" "linear c' (set_entry k (Some a) s)"
    using match_store [OF assms(4), of k a] safeD(3) [OF assms(2) create_store(2)]
      exclusiveD(1) [OF assms(3) create_store(2)] by auto
  then show ?thesis using create_store(1) linear_fields [of c' "set_entry k (Some a) s" c' s'] by auto
next
  case (close_channel a ob)
  then show ?thesis using match_close [OF assms(4,2)] by simp
next
  case (delete_kill t k a ob)
  have "linear c (set_obj a (ob\<lparr>po_cancelled := True\<rparr>) s)"
    by (rule linear_obj [OF assms(4) delete_kill(3)]) (simp add: entry_match_def)
  then show ?thesis
    using delete_kill(1) linear_fields [of c "set_obj a (ob\<lparr>po_cancelled := True\<rparr>) s" c s'] by auto
next
  case (delete_remove t k a)
  have "c_processes s k = Some a" using exclusiveD(1) [OF assms(3) delete_remove(2)] by simp
  then obtain c' where "client_call c c'" "pc_processes c' = (pc_processes c)(k := None)"
    using call_delete [of c k] linear_None [OF assms(4), of k] by auto
  then show ?thesis
    using delete_remove(1) linear_remove [OF assms(4)] linear_fields [of c' "set_entry k None s" c' s'] by auto
next
  case (process_exit a ob)
  have "linear c (set_obj a (ob\<lparr>po_running := False\<rparr>) s)"
    by (rule linear_obj [OF assms(4) process_exit(2)]) (simp add: entry_match_def)
  then show ?thesis using process_exit(1) by blast
next
  case (wait_returns a ob err)
  have "linear c (set_obj a (ob\<lparr>po_exitError := err, po_waiter := ExitStored\<rparr>) s)"
    by (rule linear_obj [OF assms(4) wait_returns(2)]) (use wait_returns in \<open>simp add: entry_match_def\<close>)
  then show ?thesis using wait_returns(1) by blast
next
  case (close_files a ob)
  have "linear c (set_obj a (ob\<lparr>po_waiter := FilesClosed\<rparr>) s)"
    by (rule linear_obj [OF assms(4) close_files(2)]) (use close_files in \<open>simp add: entry_match_def\<close>)
  then show ?thesis using close_files(1) by blast
qed (use assms(4) in \<open>auto simp: linear_def\<close>)

section \<open>Every sequence of whole calls can be played step by step\<close>

text \<open>Between calls no thread is under way and every waiter has either not started or finished.\<close>

definition settled :: "cstate \<Rightarrow> bool" where
  "settled s \<longleftrightarrow>
     c_threads s = Map.empty \<and> finite (dom (c_heap s)) \<and>
     (\<forall>a ob. c_heap s a = Some ob \<longrightarrow> po_waiter ob = WaitCalled \<or> po_waiter ob = ChannelClosed)"

definition ended :: "goerr option \<Rightarrow> proc_obj \<Rightarrow> proc_obj" where
  "ended err ob = ob\<lparr>po_running := False, po_exitError := err, po_waiter := ChannelClosed\<rparr>"

lemma waiter_runs:
  assumes "c_heap s a = Some ob" and "po_waiter ob = WaitCalled"
  shows "reaches serial s (set_obj a (ended err ob) s)"
proof -
  let ?ob0 = "ob\<lparr>po_running := False\<rparr>"
  let ?ob1 = "?ob0\<lparr>po_exitError := err, po_waiter := ExitStored\<rparr>"
  let ?ob2 = "?ob1\<lparr>po_waiter := FilesClosed\<rparr>"
  have "reaches serial s (set_obj a ?ob0 s)"
  proof (cases "po_running ob")
    case True
    show ?thesis by (rule reaches_step [OF reaches_refl cstep.process_exit [OF assms(1) True]])
  next
    case False
    then have "set_obj a ?ob0 s = s" using assms(1) by (cases ob) (auto simp: map_upd_triv)
    then show ?thesis by (simp del: set_obj_def)
  qed
  moreover have "cstep serial (set_obj a ?ob0 s) (set_obj a ?ob1 (set_obj a ?ob0 s))"
    by (rule cstep.wait_returns) (simp_all add: assms)
  moreover have "cstep serial (set_obj a ?ob1 (set_obj a ?ob0 s)) (set_obj a ?ob2 (set_obj a ?ob1 (set_obj a ?ob0 s)))"
    by (rule cstep.close_files) simp_all
  moreover have "cstep serial (set_obj a ?ob2 (set_obj a ?ob1 (set_obj a ?ob0 s)))
      (set_obj a (?ob2\<lparr>po_waiter := ChannelClosed\<rparr>) (set_obj a ?ob2 (set_obj a ?ob1 (set_obj a ?ob0 s))))"
    by (rule cstep.close_channel) simp_all
  ultimately have "reaches serial s (set_obj a (?ob2\<lparr>po_waiter := ChannelClosed\<rparr>) (set_obj a ?ob2 (set_obj a ?ob1 (set_obj a ?ob0 s))))"
    by (meson reaches_step)
  then show ?thesis by (simp add: ended_def)
qed

lemma play_wait:
  assumes "linear c s" and "safe s" and "settled s" and "pc_processes c k = Some st" and "\<not> st_waitDone st"
    and "pc_processes c' = (pc_processes c)(k \<mapsto> waited st err)"
  shows "\<exists>s'. reaches True s s' \<and> settled s' \<and> linear c' s'"
proof -
  obtain a where a: "c_processes s k = Some a" using linear_None [OF assms(1), of k] assms(4) by auto
  with assms(1) obtain st' ob where "pc_processes c k = Some st'" "c_heap s a = Some ob" "entry_match st' ob"
    by (rule linear_Some)
  then have ob: "c_heap s a = Some ob" "po_waiter ob = WaitCalled"
    using assms(3-5) by (auto simp: settled_def entry_match_def)
  let ?s = "set_obj a (ended err ob) s"
  have only: "k' = k" if "c_processes s k' = Some a" for k'
    using safeD(2) [OF assms(2) that] safeD(2) [OF assms(2) a] by auto
  have "settled ?s" using assms(3) by (auto simp: settled_def ended_def)
  moreover have "linear c' ?s" unfolding linear_def
  proof
    fix k'
    show "rel_option (\<lambda>st b. \<exists>x. c_heap ?s b = Some x \<and> entry_match st x) (pc_processes c' k') (c_processes ?s k')"
    proof (cases "k' = k")
      case True
      then show ?thesis using assms(6) a by (auto simp: entry_match_def waited_def ended_def)
    next
      case False
      moreover have "rel_option (\<lambda>st b. \<exists>x. c_heap s b = Some x \<and> entry_match st x) (pc_processes c k') (c_processes s k')"
        using assms(1) by (simp add: linear_def)
      ultimately show ?thesis using assms(6) only by (cases "c_processes s k'"; cases "pc_processes c k'") auto
    qed
  qed
  ultimately show ?thesis using waiter_runs [OF ob] by blast
qed

lemma play_create:
  assumes "linear c s" and "settled s" and "pc_processes c k = None"
    and "pc_processes c' = (pc_processes c)(k \<mapsto> st)" and "\<not> st_waitDone st"
  shows "\<exists>s'. reaches True s s' \<and> settled s' \<and> linear c' s'"
proof -
  obtain a where a: "c_heap s a = None"
    using assms(2) infinite_UNIV_nat by (metis settled_def domIff ex_new_if_finite)
  let ?s1 = "set_thread 0 (Some (CreateChecked k)) s"
  let ?s2 = "set_thread 0 (Some (CreateStarted k a)) (set_obj a (new_obj k) ?s1)"
  let ?s3 = "set_thread 0 None (set_entry k (Some a) ?s2)"
  have "c_processes s k = None" using linear_None [OF assms(1)] assms(3) by simp
  then have "cstep True s ?s1"
    using assms(2) by (intro cstep.create_check) (auto simp: settled_def busy_def)
  moreover have "cstep True ?s1 ?s2" by (rule cstep.create_start) (use a in auto)
  moreover have "cstep True ?s2 ?s3" by (rule cstep.create_store) auto
  ultimately have "reaches True s ?s3" by (meson reaches_step reaches_refl)
  moreover have "settled ?s3" using assms(2) by (auto simp: settled_def)
  moreover have "linear c (set_obj a (new_obj k) s)"
    by (rule linear_set_obj [OF assms(1)]) (use a in auto)
  then have "linear c' (set_entry k (Some a) (set_obj a (new_obj k) s))"
    by (rule linear_upd [OF _ assms(4)]) (use assms(5) in \<open>auto simp: entry_match_def\<close>)
  then have "linear c' ?s3" by (rule linear_fields) auto
  ultimately show ?thesis by blast
qed

lemma play_delete:
  assumes "linear c s" and "safe s" and "settled s" and "pc_processes c k = Some st"
    and "pc_processes c' = (pc_processes c)(k := None)"
  shows "\<exists>s'. reaches True s s' \<and> settled s' \<and> linear c' s'"
proof -
  obtain a where a: "c_processes s k = Some a" using linear_None [OF assms(1), of k] assms(4) by auto
  with assms(1) obtain st' ob where ob: "c_heap s a = Some ob" by (rule linear_Some)
  define s1 where "s1 = (if po_waiter ob = ChannelClosed then s else set_obj a (ended None ob) s)"
  let ?s2 = "set_thread 0 (Some (DeleteLoaded k a)) s1"
  let ?s3 = "set_thread 0 (Some (DeleteWaited k a)) ?s2"
  let ?s4 = "set_thread 0 None (set_entry k None ?s3)"
  have w: "po_waiter ob = WaitCalled \<or> po_waiter ob = ChannelClosed" using assms(3) ob by (simp add: settled_def)
  have s1: "reaches True s s1" "c_processes s1 = c_processes s" "c_threads s1 = Map.empty" "settled s1"
      "\<exists>x. c_heap s1 a = Some x \<and> po_waiter x = ChannelClosed"
    using waiter_runs [OF ob] w ob assms(3) by (auto simp: s1_def settled_def ended_def)
  have "cstep True s1 ?s2"
    by (rule cstep.delete_load) (use s1 a in \<open>auto simp: busy_def\<close>)
  moreover have "cstep True ?s2 ?s3"
    using s1(5) by (auto intro: cstep.delete_exited simp del: set_thread_def simp: set_thread_def [of 0 "Some (DeleteLoaded k a)"])
  moreover have "cstep True ?s3 ?s4" by (rule cstep.delete_remove) auto
  ultimately have "reaches True s ?s4" using s1(1) by (meson reaches_step)
  moreover have "settled ?s4" using s1(3,4) by (auto simp: settled_def)
  moreover have "linear c' ?s4"
  proof -
    let ?r = "set_entry k None s"
    have "c_processes ?r k' \<noteq> Some a" for k'
      using safeD(2) [OF assms(2), of k' a] safeD(2) [OF assms(2) a] by auto
    with linear_remove [OF assms(1,5)] have "linear c' ?r" "linear c' (set_obj a (ended None ob) ?r)"
      by (blast intro: linear_set_obj)+
    then show ?thesis by (cases "po_waiter ob = ChannelClosed") (auto simp: s1_def elim: linear_fields)
  qed
  ultimately show ?thesis by blast
qed

lemma play_get:
  assumes "linear c s" and "ProcessClient_GetPod c ns n = (c', r)"
  shows "linear c' s"
proof (cases "pc_processes c (namespaced ns n)")
  case (Some st)
  then obtain a where a: "c_processes s (namespaced ns n) = Some a"
    using linear_None [OF assms(1), of "namespaced ns n"] by auto
  obtain ob where ob: "c_heap s a = Some ob" "entry_match st ob"
    by (rule linear_Some [OF assms(1) a]) (use Some in auto)
  have "pc_processes c' = (pc_processes c)(namespaced ns n \<mapsto> st\<lparr>st_podProcess := refreshed st\<rparr>)"
    using assms(2) Some by (auto simp: ProcessClient_GetPod_def sm_Load_def)
  from linear_upd [OF assms(1) this ob(1)] ob(2)
  have "linear c' (set_entry (namespaced ns n) (Some a) s)" by (simp add: entry_match_def)
  then show ?thesis by (rule linear_fields) (use a in auto)
qed (use assms in \<open>simp add: ProcessClient_GetPod_def sm_Load_def\<close>)

text \<open>A call of the client, from a settled state.\<close>

lemma played_create:
  assumes "linear c s" and "settled s" and "ProcessClient_CreatePod env c pod tok cms creds = (c', r)"
  shows "\<exists>s'. reaches True s s' \<and> settled s' \<and> linear c' s'"
  using assms(3)
proof (cases rule: CreatePod_cases)
  case fail
  then show ?thesis using assms(2) linear_fields [OF assms(1), of c' s] by auto
next
  case (ok ctr rest)
  then obtain st where "pc_processes c' = (pc_processes c)(pod_key pod \<mapsto> st)" "\<not> st_waitDone st"
    by (simp add: launched_def started_state_def)
  from play_create [OF assms(1,2) ok(4) this] show ?thesis .
qed

lemma played_delete:
  assumes "linear c s" and "safe s" and "settled s" and "ProcessClient_DeletePod tenv c ns n g = (c', r)"
  shows "\<exists>s'. reaches True s s' \<and> settled s' \<and> linear c' s'"
proof (cases "pc_processes c (namespaced ns n)")
  case None
  then show ?thesis using assms by (auto simp: DeletePod_missing)
next
  case (Some st)
  then have "pc_processes c' = (pc_processes c)(namespaced ns n := None)"
    using assms(4) DeletePod_found [OF Some, of tenv g] by auto
  from play_delete [OF assms(1-3) Some this] show ?thesis .
qed

lemma played_exit:
  assumes "linear c s" and "safe s" and "settled s"
  shows "\<exists>s'. reaches True s s' \<and> settled s' \<and> linear (wait_process c k err) s'"
proof (cases "\<exists>st. pc_processes c k = Some st \<and> \<not> st_waitDone st")
  case True
  then obtain st where st: "pc_processes c k = Some st" "\<not> st_waitDone st" by blast
  then have "pc_processes (wait_process c k err) = (pc_processes c)(k \<mapsto> waited st err)"
    by (simp add: wait_process_def sm_Load_def)
  from play_wait [OF assms st this] show ?thesis .
next
  case False
  then have "wait_process c k err = c" by (auto simp: wait_process_def sm_Load_def split: option.split)
  then show ?thesis using assms by auto
qed

lemma call_played:
  assumes "client_call c c'" and "linear c s" and "safe s" and "settled s"
  shows "\<exists>s'. reaches True s s' \<and> settled s' \<and> linear c' s'"
  using assms(1)
proof (cases rule: client_call.cases)
  case (by_create env pod tok cms creds r)
  then show ?thesis using played_create [OF assms(2,4)] by blast
next
  case (by_delete tenv ns n g r)
  then show ?thesis using played_delete [OF assms(2-4)] by blast
next
  case (by_get ns n q)
  then show ?thesis using play_get [OF assms(2)] assms(4) by blast
next
  case (by_exit k err)
  then show ?thesis using played_exit [OF assms(2-4)] by blast
qed

section \<open>The refinement\<close>



end
