(* ===== verification/Process_Queries.thy ===== *)
theory Process_Queries
  imports Process_Client
begin

text \<open>
  Overlapping \<^verbatim>\<open>GetPod\<close> calls of \<^verbatim>\<open>pkg/client/process.go\<close>. All calls for a pod write the exit code
  and the exit error into the one \<^verbatim>\<open>podProcess\<close> object of the pod and return its address, and the
  caller reads the fields afterwards. Here a call is a thread with a step for the \<^verbatim>\<open>select\<close>, one
  for each of the two writes and one for each of the two reads, and the process ends at any time.
  The waiting goroutine stores the exit error before it closes the channel, and a call reads it only
  after it saw the channel closed, so the end of the process is a single step.
\<close>

section \<open>Steps\<close>

text \<open>
  The state has been loaded (line 202), the local variables are set (lines 204 to 221), the exit
  code is written (line 223), the exit error too and the address returned (lines 224 to 226), the
  caller has read the exit code, the caller has read both.
\<close>

datatype query =
    QueryLoaded
  | QueryDecided int "goerr option"
  | QueryCodeWritten "goerr option"
  | QueryReturned
  | QueryReadCode int
  | QuerySaw int "goerr option"

record qstate =
  q_state :: processState
  q_calls :: "nat \<rightharpoonup> query"

definition set_query :: "nat \<Rightarrow> query \<Rightarrow> qstate \<Rightarrow> qstate" where
  "set_query t q s = s\<lparr>q_calls := (q_calls s)(t \<mapsto> q)\<rparr>"

definition write_process :: "(PodProcess \<Rightarrow> PodProcess) \<Rightarrow> qstate \<Rightarrow> qstate" where
  "write_process f s = s\<lparr>q_state := (q_state s)\<lparr>st_podProcess := f (st_podProcess (q_state s))\<rparr>\<rparr>"

inductive qstep :: "qstate \<Rightarrow> qstate \<Rightarrow> bool" where
  query_load: "q_calls s t = None \<Longrightarrow> qstep s (set_query t QueryLoaded s)"
| query_select: "q_calls s t = Some QueryLoaded \<Longrightarrow> exit_report (q_state s) = (code, err) \<Longrightarrow>
    qstep s (set_query t (QueryDecided code err) s)"
| query_write_code: "q_calls s t = Some (QueryDecided code err) \<Longrightarrow>
    qstep s (set_query t (QueryCodeWritten err) (write_process (\<lambda>p. p\<lparr>pp_ExitCode := code\<rparr>) s))"
| query_write_error: "q_calls s t = Some (QueryCodeWritten err) \<Longrightarrow>
    qstep s (set_query t QueryReturned (write_process (\<lambda>p. p\<lparr>pp_ExitError := err\<rparr>) s))"
| query_read_code: "q_calls s t = Some QueryReturned \<Longrightarrow>
    qstep s (set_query t (QueryReadCode (pp_ExitCode (st_podProcess (q_state s)))) s)"
| query_read_error: "q_calls s t = Some (QueryReadCode code) \<Longrightarrow>
    qstep s (set_query t (QuerySaw code (pp_ExitError (st_podProcess (q_state s)))) s)"
| query_exit: "\<not> st_waitDone (q_state s) \<Longrightarrow> qstep s (s\<lparr>q_state := waited (q_state s) err\<rparr>)"

definition q_reaches :: "qstate \<Rightarrow> qstate \<Rightarrow> bool" where
  "q_reaches = qstep\<^sup>*\<^sup>*"

lemma q_reaches_induct [consumes 1, case_names init step]:
  assumes "q_reaches s s'" and "P s" and "\<And>x y. q_reaches s x \<Longrightarrow> P x \<Longrightarrow> qstep x y \<Longrightarrow> P y"
  shows "P s'"
  using assms(1) unfolding q_reaches_def
  by (induction rule: rtranclp_induct) (use assms(2,3) in \<open>auto simp: q_reaches_def\<close>)

text \<open>A pod whose process was just started, before the first query.\<close>

definition fresh :: "processState \<Rightarrow> qstate" where
  "fresh st = \<lparr>q_state = st, q_calls = Map.empty\<rparr>"

lemmas qstate_simps [simp] = set_query_def write_process_def fresh_def waited_def

section \<open>What every overlap keeps\<close>

text \<open>A value is current if it is the answer for a running process or, after the end, the final one.\<close>

definition current_code :: "processState \<Rightarrow> int \<Rightarrow> bool" where
  "current_code st code \<longleftrightarrow> code = -1 \<or> st_waitDone st \<and> code = fst (exit_report st)"

definition current_error :: "processState \<Rightarrow> goerr option \<Rightarrow> bool" where
  "current_error st err \<longleftrightarrow> err = None \<or> st_waitDone st \<and> err = snd (exit_report st)"

fun query_ok :: "processState \<Rightarrow> query \<Rightarrow> bool" where
  "query_ok st QueryLoaded = True"
| "query_ok st (QueryDecided code err) = (current_code st code \<and> current_error st err)"
| "query_ok st (QueryCodeWritten err) = (current_code st (pp_ExitCode (st_podProcess st)) \<and> current_error st err)"
| "query_ok st QueryReturned = current_code st (pp_ExitCode (st_podProcess st))"
| "query_ok st (QueryReadCode code) = current_code st code"
| "query_ok st (QuerySaw code err) = (current_code st code \<and> current_error st err)"

definition queries_ok :: "qstate \<Rightarrow> bool" where
  "queries_ok s \<longleftrightarrow>
     current_error (q_state s) (pp_ExitError (st_podProcess (q_state s))) \<and>
     (\<forall>t q. q_calls s t = Some q \<longrightarrow> query_ok (q_state s) q)"

lemma exit_report_process [simp]: "exit_report (st\<lparr>st_podProcess := p\<rparr>) = exit_report st"
  by (simp add: exit_report_def)

lemma current_process [simp]:
  "current_code (st\<lparr>st_podProcess := p\<rparr>) = current_code st"
  "current_error (st\<lparr>st_podProcess := p\<rparr>) = current_error st"
  by (auto simp: current_code_def current_error_def fun_eq_iff)

lemma exit_report_current:
  "exit_report st = (code, err) \<Longrightarrow> current_code st code \<and> current_error st err"
  by (auto simp: current_code_def current_error_def exit_report_def split: if_splits)

lemma current_exit:
  assumes "\<not> st_waitDone st"
  shows "current_code st code \<Longrightarrow> current_code (waited st err) code"
    and "current_error st e \<Longrightarrow> current_error (waited st err) e"
  using assms by (auto simp: current_code_def current_error_def)

lemma query_ok_exit: "\<not> st_waitDone st \<Longrightarrow> query_ok st q \<Longrightarrow> query_ok (waited st err) q"
  using current_exit by (cases q) (auto simp del: waited_def simp: waited_def [of st err, THEN arg_cong [where f = st_podProcess]])

lemma query_ok_code:
  "query_ok st q \<Longrightarrow> current_code st code \<Longrightarrow>
   query_ok (st\<lparr>st_podProcess := (st_podProcess st)\<lparr>pp_ExitCode := code\<rparr>\<rparr>) q"
  by (cases q) auto

lemma query_ok_error:
  "query_ok st q \<Longrightarrow> query_ok (st\<lparr>st_podProcess := (st_podProcess st)\<lparr>pp_ExitError := err\<rparr>\<rparr>) q"
  by (cases q) auto

lemma queries_okD: "queries_ok s \<Longrightarrow> q_calls s t = Some q \<Longrightarrow> query_ok (q_state s) q"
  by (simp add: queries_ok_def)

lemma queries_ok_step:
  assumes "qstep s s'" and "queries_ok s"
  shows "queries_ok s'"
  using assms(1)
proof (cases rule: qstep.cases)
  case (query_select t code err)
  then show ?thesis using assms(2) exit_report_current by (auto simp: queries_ok_def)
next
  case (query_write_code t code err)
  then have "current_code (q_state s) code" "current_error (q_state s) err"
    using queries_okD [OF assms(2)] by fastforce+
  then show ?thesis using query_write_code(1) assms(2) by (auto simp: queries_ok_def intro: query_ok_code)
next
  case (query_write_error t err)
  then have "current_code (q_state s) (pp_ExitCode (st_podProcess (q_state s)))" "current_error (q_state s) err"
    using queries_okD [OF assms(2)] by fastforce+
  then show ?thesis using query_write_error(1) assms(2) by (auto simp: queries_ok_def intro: query_ok_error)
next
  case (query_read_error t code)
  then have "current_code (q_state s) code" using queries_okD [OF assms(2)] by fastforce
  then show ?thesis using query_read_error(1) assms(2) by (auto simp: queries_ok_def)
next
  case (query_read_code t)
  then have "current_code (q_state s) (pp_ExitCode (st_podProcess (q_state s)))"
    using queries_okD [OF assms(2)] by fastforce
  then show ?thesis using query_read_code(1) assms(2) by (auto simp: queries_ok_def)
next
  case (query_exit err)
  then show ?thesis
    using assms(2) query_ok_exit [OF query_exit(2)] current_exit(2) [OF query_exit(2)]
    by (auto simp: queries_ok_def simp del: waited_def) (simp add: waited_def)
qed (use assms(2) in \<open>auto simp: queries_ok_def\<close>)

lemma queries_ok_reach:
  assumes "q_reaches (fresh st) s" and "pp_ExitError (st_podProcess st) = None"
  shows "queries_ok s"
  using assms(1)
proof (induction rule: q_reaches_induct)
  case init
  show ?case using assms(2) by (simp add: queries_ok_def current_error_def)
next
  case (step x y)
  then show ?case using queries_ok_step by blast
qed

section \<open>After the end\<close>

text \<open>Nothing is left to write for the call.\<close>

fun reading :: "query \<Rightarrow> bool" where
  "reading QueryReturned = True"
| "reading (QueryReadCode code) = True"
| "reading (QuerySaw code err) = True"
| "reading _ = False"

fun final_query :: "int \<times> goerr option \<Rightarrow> PodProcess \<Rightarrow> query \<Rightarrow> bool" where
  "final_query r p QueryLoaded = True"
| "final_query r p (QueryDecided code err) = (code = fst r \<and> err = snd r)"
| "final_query r p (QueryCodeWritten err) = (pp_ExitCode p = fst r \<and> err = snd r)"
| "final_query r p QueryReturned = (pp_ExitCode p = fst r \<and> pp_ExitError p = snd r)"
| "final_query r p (QueryReadCode code) = (code = fst r \<and> pp_ExitError p = snd r)"
| "final_query r p (QuerySaw code err) = (code = fst r \<and> err = snd r)"

text \<open>The calls of \<open>old\<close> had written their values before the end was seen.\<close>

definition final_ok :: "nat set \<Rightarrow> int \<times> goerr option \<Rightarrow> qstate \<Rightarrow> bool" where
  "final_ok old r s \<longleftrightarrow>
     st_waitDone (q_state s) \<and> exit_report (q_state s) = r \<and>
     (\<forall>t q. q_calls s t = Some q \<longrightarrow> final_query r (st_podProcess (q_state s)) q \<or> reading q \<and> t \<in> old)"

lemma final_okD: "final_ok old r s \<Longrightarrow> q_calls s t = Some q \<Longrightarrow>
    final_query r (st_podProcess (q_state s)) q \<or> reading q \<and> t \<in> old"
  by (simp add: final_ok_def)

lemma final_query_write:
  assumes "final_query r p q"
  shows "final_query r (p\<lparr>pp_ExitCode := fst r\<rparr>) q" and "final_query r (p\<lparr>pp_ExitError := snd r\<rparr>) q"
  using assms by (cases q; auto)+

lemma final_ok_step:
  assumes "qstep s s'" and "final_ok old r s"
  shows "final_ok old r s'"
  using assms(1)
proof (cases rule: qstep.cases)
  case (query_select t code err)
  then have "r = (code, err)" using assms(2) by (simp add: final_ok_def)
  then show ?thesis using query_select(1) assms(2) by (auto simp: final_ok_def)
next
  case (query_write_code t code err)
  have "code = fst r" "err = snd r" using final_okD [OF assms(2) query_write_code(2)] by simp_all
  then show ?thesis
    using query_write_code(1) assms(2) final_query_write(1) [of r "st_podProcess (q_state s)"]
    unfolding final_ok_def by (auto; blast)
next
  case (query_write_error t err)
  have "err = snd r" "pp_ExitCode (st_podProcess (q_state s)) = fst r"
    using final_okD [OF assms(2) query_write_error(2)] by simp_all
  then show ?thesis
    using query_write_error(1) assms(2) final_query_write(2) [of r "st_podProcess (q_state s)"]
    unfolding final_ok_def by (auto; blast)
next
  case (query_read_code t)
  have "final_query r (st_podProcess (q_state s)) QueryReturned \<or> t \<in> old"
    using final_okD [OF assms(2) query_read_code(2)] by simp
  then show ?thesis using query_read_code(1) assms(2) unfolding final_ok_def by (auto split: if_splits)
next
  case (query_read_error t code)
  have "final_query r (st_podProcess (q_state s)) (QueryReadCode code) \<or> t \<in> old"
    using final_okD [OF assms(2) query_read_error(2)] by simp
  then show ?thesis using query_read_error(1) assms(2) unfolding final_ok_def by (auto split: if_splits)
qed (use assms(2) in \<open>auto simp: final_ok_def split: if_splits\<close>)

lemma final_ok_reach: "q_reaches s s' \<Longrightarrow> final_ok old r s \<Longrightarrow> final_ok old r s'"
  by (induction rule: q_reaches_induct) (auto intro: final_ok_step)

section \<open>A stale query\<close>

text \<open>The steps in the order a scheduler takes them: the next step of a call, or the end of the process.\<close>

datatype qmove = QMove nat | QExit "goerr option"

fun q_play :: "qstate \<Rightarrow> qmove \<Rightarrow> qstate option" where
  "q_play s (QMove t) =
     (let p = st_podProcess (q_state s) in
      case q_calls s t of
        None \<Rightarrow> Some (set_query t QueryLoaded s)
      | Some QueryLoaded \<Rightarrow>
          Some (set_query t (QueryDecided (fst (exit_report (q_state s))) (snd (exit_report (q_state s)))) s)
      | Some (QueryDecided code err) \<Rightarrow>
          Some (set_query t (QueryCodeWritten err) (write_process (\<lambda>p. p\<lparr>pp_ExitCode := code\<rparr>) s))
      | Some (QueryCodeWritten err) \<Rightarrow>
          Some (set_query t QueryReturned (write_process (\<lambda>p. p\<lparr>pp_ExitError := err\<rparr>) s))
      | Some QueryReturned \<Rightarrow> Some (set_query t (QueryReadCode (pp_ExitCode p)) s)
      | Some (QueryReadCode code) \<Rightarrow> Some (set_query t (QuerySaw code (pp_ExitError p)) s)
      | Some (QuerySaw code err) \<Rightarrow> None)"
| "q_play s (QExit err) =
     (if st_waitDone (q_state s) then None else Some (s\<lparr>q_state := waited (q_state s) err\<rparr>))"

fun q_plays :: "qstate \<Rightarrow> qmove list \<Rightarrow> qstate option" where
  "q_plays s [] = Some s"
| "q_plays s (m # ms) = (case q_play s m of None \<Rightarrow> None | Some s' \<Rightarrow> q_plays s' ms)"

lemma q_play_step: "q_play s m = Some s' \<Longrightarrow> qstep s s'"
  by (cases m)
    (auto simp del: qstate_simps split: option.splits query.splits if_splits intro: qstep.intros simp: Let_def)

lemma q_plays_reach: "q_plays s ms = Some s' \<Longrightarrow> q_reaches s s'"
proof (induction ms arbitrary: s)
  case (Cons m ms)
  then obtain s1 where "q_play s m = Some s1" "q_plays s1 ms = Some s'" by (auto split: option.splits)
  then show ?case using q_play_step Cons.IH unfolding q_reaches_def by (meson converse_rtranclp_into_rtranclp)
qed (simp add: q_reaches_def)

text \<open>
  Call 1 finds the process running and is held up; the process ends; call 2 is made from start
  to end; call 3 starts after that, writes its values, call 1 writes its own, and call 3 reads.
\<close>

definition stale_run :: "qmove list" where
  "stale_run =
     [QMove 1, QMove 1, QExit (Some (ExitError (Exited 3)))] @ replicate 6 (QMove 2) @
     replicate 4 (QMove 3) @ [QMove 1, QMove 1, QMove 3, QMove 3]"

section \<open>Properties\<close>

text \<open>
  Property C16. Overlapping \<^verbatim>\<open>GetPod\<close> calls for a pod. A caller never sees an invented result: the exit
  code it reads is \<^verbatim>\<open>-1\<close> or that of the ended process, never the \<^verbatim>\<open>0\<close> of a new object, so that a
  running process is never reported as ended; the error it reads is nil or that of the ended
  process. Once the process has ended and no call holds older values it has yet to write, every
  call made from then on reads the final exit code and error. But the writes are not guarded: a
  call that found the process running and is held up lets a call made after another one has
  reported the end read \<^verbatim>\<open>-1\<close> again.
\<close>

theorem overlapping_queries:
  assumes "q_reaches (fresh st) s" and "\<not> st_waitDone st" and "pp_ExitError (st_podProcess st) = None"
  shows "(\<forall>t code err. q_calls s t = Some (QuerySaw code err) \<longrightarrow>
      (code = -1 \<or> st_waitDone (q_state s) \<and> code = fst (exit_report (q_state s))) \<and>
      (err = None \<or> st_waitDone (q_state s) \<and> err = snd (exit_report (q_state s)))) \<and>
    (st_waitDone (q_state s) \<and> (\<forall>t q. q_calls s t = Some q \<longrightarrow> q = QueryLoaded \<or> reading q) \<longrightarrow>
      (\<forall>s' t code err. q_reaches s s' \<and> q_calls s t = None \<and> q_calls s' t = Some (QuerySaw code err) \<longrightarrow>
        (code, err) = exit_report (q_state s))) \<and>
    (\<exists>s1 s2. q_reaches (fresh st) s1 \<and> q_calls s1 2 = Some (QuerySaw 3 (Some (ExitError (Exited 3)))) \<and>
      q_calls s1 3 = None \<and> q_reaches s1 s2 \<and> q_calls s2 3 = Some (QuerySaw (-1) None))"
proof (intro conjI)
  show "\<forall>t code err. q_calls s t = Some (QuerySaw code err) \<longrightarrow>
      (code = -1 \<or> st_waitDone (q_state s) \<and> code = fst (exit_report (q_state s))) \<and>
      (err = None \<or> st_waitDone (q_state s) \<and> err = snd (exit_report (q_state s)))"
    using queries_okD [OF queries_ok_reach [OF assms(1,3)]] by (fastforce simp: current_code_def current_error_def)
  show "st_waitDone (q_state s) \<and> (\<forall>t q. q_calls s t = Some q \<longrightarrow> q = QueryLoaded \<or> reading q) \<longrightarrow>
      (\<forall>s' t code err. q_reaches s s' \<and> q_calls s t = None \<and> q_calls s' t = Some (QuerySaw code err) \<longrightarrow>
        (code, err) = exit_report (q_state s))"
  proof (intro impI allI, elim conjE)
    fix s' t code err
    assume s: "st_waitDone (q_state s)" "\<forall>t q. q_calls s t = Some q \<longrightarrow> q = QueryLoaded \<or> reading q"
      and s': "q_reaches s s'" "q_calls s t = None" "q_calls s' t = Some (QuerySaw code err)"
    from s have "final_ok (dom (q_calls s)) (exit_report (q_state s)) s" unfolding final_ok_def by fastforce
    from final_okD [OF final_ok_reach [OF s'(1) this] s'(3)] s'(2) show "(code, err) = exit_report (q_state s)"
      by (auto simp: prod_eq_iff)
  qed
  let ?r1 = "take 9 stale_run" and ?r2 = "drop 9 stale_run"
  obtain s1 where s1: "q_plays (fresh st) ?r1 = Some s1" "q_calls s1 2 = Some (QuerySaw 3 (Some (ExitError (Exited 3))))"
      "q_calls s1 3 = None" "\<exists>s2. q_plays s1 ?r2 = Some s2 \<and> q_calls s2 3 = Some (QuerySaw (-1) None)"
    using assms(2,3) by (simp add: stale_run_def numeral_eq_Suc exit_report_def Let_def ExitCode.simps)
  then show "\<exists>s1 s2. q_reaches (fresh st) s1 \<and> q_calls s1 2 = Some (QuerySaw 3 (Some (ExitError (Exited 3)))) \<and>
      q_calls s1 3 = None \<and> q_reaches s1 s2 \<and> q_calls s2 3 = Some (QuerySaw (-1) None)"
    using q_plays_reach by blast
qed

text \<open>The property for the pod of the sample client, as \<^verbatim>\<open>CreatePod\<close> leaves it.\<close>

abbreviation sample_started :: processState where
  "sample_started \<equiv> started_state sample_os sample_pod
     (launched_cmd sample_os sample_client sample_pod sample_container) [''/bin/sh'', ''-c'', ''true'']"

theorem overlapping_queries_witness:
  "\<exists>s. q_plays (fresh sample_started) (take 9 stale_run) = Some s \<and>
     q_calls s 2 = Some (QuerySaw 3 (Some (ExitError (Exited 3)))) \<and> fst (exit_report (q_state s)) = 3"
proof -
  have st: "\<not> st_waitDone sample_started" "pp_ExitError (st_podProcess sample_started) = None"
    by (simp_all add: started_state_def)
  obtain s where s: "q_plays (fresh sample_started) (take 9 stale_run) = Some s"
      "q_calls s 2 = Some (QuerySaw 3 (Some (ExitError (Exited 3))))"
    using st by (simp add: stale_run_def numeral_eq_Suc exit_report_def Let_def)
  with overlapping_queries [OF q_plays_reach [OF s(1)] st] show ?thesis by fastforce
qed

end
