(* ===== verification/Resource_Types.thy ===== *)
theory Resource_Types
  imports Kube_Types
begin

text \<open>
  \<^verbatim>\<open>pkg/resource/container.go\<close> and \<^verbatim>\<open>types.go\<close>: the data the virtual machine runtime used to describe its
  containers. \<^verbatim>\<open>ContainerStatus\<close> is an integer in Go, numbered by \<^verbatim>\<open>iota\<close>; the zero value of a state is
  that of a container waiting to be created.
\<close>

datatype ContainerStatus =
    ContainerStatusWaiting
  | ContainerStatusCreated
  | ContainerStatusRunning
  | ContainerStatusPaused
  | ContainerStatusRestarting
  | ContainerStatusOOMKilled
  | ContainerStatusDead
  | ContainerStatusUnknown

primrec status_iota :: "ContainerStatus \<Rightarrow> int" where
  "status_iota ContainerStatusWaiting = 0"
| "status_iota ContainerStatusCreated = 1"
| "status_iota ContainerStatusRunning = 2"
| "status_iota ContainerStatusPaused = 3"
| "status_iota ContainerStatusRestarting = 4"
| "status_iota ContainerStatusOOMKilled = 5"
| "status_iota ContainerStatusDead = 6"
| "status_iota ContainerStatusUnknown = 7"

record resource_ContainerState =
  rcs_Status :: ContainerStatus
  rcs_StartedAt :: go_time
  rcs_FinishedAt :: go_time
  rcs_ExitCode :: int
  rcs_Error :: string

record resource_Container =
  rco_ID :: string
  rco_Name :: string
  rco_State :: resource_ContainerState

definition MacOSRuntime :: string where
  "MacOSRuntime = ''vz''"

definition ContainerRuntime :: string where
  "ContainerRuntime = ''docker''"

record ExecAction =
  ea_Command :: "string list"
  ea_TimeoutDuration :: "64 word"

text \<open>The eight constants are the integers from 0 to 7.\<close>

lemma status_iota_bij: "bij_betw status_iota UNIV {0..7}"
proof (rule bij_betw_imageI)
  show "inj status_iota"
  proof (rule injI)
    show "x = y" if "status_iota x = status_iota y" for x y
      using that by (cases x; cases y) simp_all
  qed
  have "i \<in> range status_iota" if "0 \<le> i" "i \<le> 7" for i
  proof -
    have "i \<in> {0, 1, 2, 3, 4, 5, 6, 7}" using that by auto
    then show ?thesis by (metis empty_iff insert_iff rangeI status_iota.simps)
  qed
  moreover have "status_iota s \<in> {0..7}" for s by (cases s) simp_all
  ultimately show "range status_iota = {0..7}" by auto
qed

end
