(* ===== verification/Metrics.thy ===== *)
theory Metrics
  imports Kube_Types Go_Float
begin

text \<open>
  \<^verbatim>\<open>pkg/metrics/metrics.go\<close> and \<^verbatim>\<open>pkg/metrics/collectors/kubelet_resource_metrics.go\<close>: the
  statistics of the running pods, queried by one goroutine per pod, and the metrics made of
  them. The mutex serialises whole calls, so one call is modelled at a time. The pod lister, the
  virtualization client, the error group and the metrics registry are other packages and are
  arguments, as is the order in which the goroutines finish.
\<close>

section \<open>Statistics\<close>

record listed_pod = Pod +
  pod_CreationTimestamp :: go_time

record PodStats =
  pds_Name :: string
  pds_Namespace :: string
  pds_UID :: string
  pds_StartTime :: go_time
  pds_Containers :: "ContainerStats list"

record Summary =
  sum_NodeName :: string
  sum_Pods :: "PodStats list"

text \<open>The zero value of the struct, which \<^verbatim>\<open>make\<close> fills the slice with.\<close>

definition zero_PodStats :: PodStats where
  "zero_PodStats =
     \<lparr>pds_Name = [], pds_Namespace = [], pds_UID = [], pds_StartTime = 0, pds_Containers = []\<rparr>"

text \<open>
  \<open>se_done\<close> and \<open>se_goDone i\<close> are what the context reports when the call and its \<open>i\<close>-th goroutine
  test it, \<open>se_List\<close> the lister's answer, \<open>se_Wait\<close> what the error group makes of the results of
  the goroutines in the order \<open>se_order\<close> in which they return.
\<close>

record stats_env =
  se_done :: "goerr option"
  se_goDone :: "nat \<Rightarrow> goerr option"
  se_List :: "listed_pod list \<times> goerr option"
  se_GroupStats :: "string \<Rightarrow> string \<Rightarrow> Container list \<Rightarrow> ContainerStats list result"
  se_Wait :: "goerr option list \<Rightarrow> goerr option"
  se_order :: "nat list"

record MacOSVZPodMetricsProvider =
  mp_nodeName :: string

definition NewMacOSVZPodMetricsProvider :: "string \<Rightarrow> MacOSVZPodMetricsProvider" where
  "NewMacOSVZPodMetricsProvider nodeName = \<lparr>mp_nodeName = nodeName\<rparr>"

definition pod_running :: "listed_pod \<Rightarrow> bool" where
  "pod_running pod \<longleftrightarrow> map_option pst_Phase (pod_Status pod) = Some PodRunning"

text \<open>The indices for which the loop starts a goroutine.\<close>

definition running_indices :: "listed_pod list \<Rightarrow> nat list" where
  "running_indices pods = filter (\<lambda>i. pod_running (pods ! i)) [0..<length pods]"

definition pod_goroutine ::
  "stats_env \<Rightarrow> nat \<Rightarrow> listed_pod \<Rightarrow> PodStats list \<Rightarrow> PodStats list \<times> goerr option" where
  "pod_goroutine env i pod results =
     (case se_goDone env i of
        Some err \<Rightarrow> (results, Some err)
      | None \<Rightarrow>
          (case se_GroupStats env (pod_Namespace pod) (pod_Name pod) (spec_Containers (pod_Spec pod)) of
             Inl err \<Rightarrow>
               (results, Some (Wrapf ''failed to get virtualization group stats for pod %s/%s: %w''
                                 [pod_Namespace pod, pod_Name pod] err))
           | Inr cs \<Rightarrow>
               (results[i := \<lparr>pds_Name = pod_Name pod, pds_Namespace = pod_Namespace pod,
                              pds_UID = pod_UID pod, pds_StartTime = pod_CreationTimestamp pod,
                              pds_Containers = cs\<rparr>], None)))"

fun run_group ::
  "stats_env \<Rightarrow> listed_pod list \<Rightarrow> nat list \<Rightarrow> PodStats list \<Rightarrow> PodStats list \<times> goerr option list" where
  "run_group env pods [] results = (results, [])"
| "run_group env pods (i # order) results =
     (let (results, err) = pod_goroutine env i (pods ! i) results;
          (results, errs) = run_group env pods order results
      in (results, err # errs))"

definition GetStatsSummary :: "stats_env \<Rightarrow> MacOSVZPodMetricsProvider \<Rightarrow> Summary result" where
  "GetStatsSummary env p =
     (case se_done env of
        Some err \<Rightarrow> Inl err
      | None \<Rightarrow>
          (let pods = fst (se_List env);
               (results, errs) = run_group env pods (se_order env) (replicate (length pods) zero_PodStats)
           in case se_Wait env errs of
                Some err \<Rightarrow> Inl (Wrapf ''failed to get stats for all pods: %w'' [] err)
              | None \<Rightarrow> Inr \<lparr>sum_NodeName = mp_nodeName p, sum_Pods = results\<rparr>))"

section \<open>The collector\<close>

record Desc =
  desc_name :: string
  desc_help :: string
  desc_labels :: "string list"

definition containerCPUUsageDesc :: Desc where
  "containerCPUUsageDesc =
     \<lparr>desc_name = ''container_cpu_usage_seconds_total'',
      desc_help = ''Cumulative cpu time consumed by the container in core-seconds'',
      desc_labels = [''container'', ''pod'', ''namespace'']\<rparr>"

definition containerMemoryUsageDesc :: Desc where
  "containerMemoryUsageDesc =
     \<lparr>desc_name = ''container_memory_working_set_bytes'',
      desc_help = ''Current working set of the container in bytes'',
      desc_labels = [''container'', ''pod'', ''namespace'']\<rparr>"

definition resourceScrapeResultDesc :: Desc where
  "resourceScrapeResultDesc =
     \<lparr>desc_name = ''scrape_error'',
      desc_help = ''1 if there was an error while getting container metrics, 0 otherwise'',
      desc_labels = []\<rparr>"

datatype ValueType = CounterValue | GaugeValue

record metric =
  mc_desc :: Desc
  mc_type :: ValueType
  mc_value :: float64
  mc_labels :: "string list"
  mc_timestamp :: "go_time option"

record resourceMetricsCollector =
  rc_providerPodStats :: Summary

definition NewKubeletResourceMetricsCollector :: "Summary \<Rightarrow> resourceMetricsCollector" where
  "NewKubeletResourceMetricsCollector podStats = \<lparr>rc_providerPodStats = podStats\<rparr>"

text \<open>The methods return what they send on the channel, in order.\<close>

definition DescribeWithStability :: "resourceMetricsCollector \<Rightarrow> Desc list" where
  "DescribeWithStability rc = [containerCPUUsageDesc, containerMemoryUsageDesc, resourceScrapeResultDesc]"

definition collectContainerCPUMetrics :: "PodStats \<Rightarrow> ContainerStats \<Rightarrow> metric list" where
  "collectContainerCPUMetrics pod s =
     (case cns_CPU s of
        None \<Rightarrow> []
      | Some cpu \<Rightarrow>
          (case cpu_UsageCoreNanoSeconds cpu of
             None \<Rightarrow> []
           | Some usage \<Rightarrow>
               [\<lparr>mc_desc = containerCPUUsageDesc, mc_type = CounterValue,
                 mc_value = float_div (float64_of_nat (unat usage)) 1000000000,
                 mc_labels = [cns_Name s, pds_Name pod, pds_Namespace pod],
                 mc_timestamp = Some (cpu_Time cpu)\<rparr>]))"

definition collectContainerMemoryMetrics :: "PodStats \<Rightarrow> ContainerStats \<Rightarrow> metric list" where
  "collectContainerMemoryMetrics pod s =
     (case cns_Memory s of
        None \<Rightarrow> []
      | Some mem \<Rightarrow>
          (case mem_WorkingSetBytes mem of
             None \<Rightarrow> []
           | Some bytes \<Rightarrow>
               [\<lparr>mc_desc = containerMemoryUsageDesc, mc_type = GaugeValue,
                 mc_value = float64_of_nat (unat bytes),
                 mc_labels = [cns_Name s, pds_Name pod, pds_Namespace pod],
                 mc_timestamp = Some (mem_Time mem)\<rparr>]))"

definition CollectWithStability :: "resourceMetricsCollector \<Rightarrow> metric list" where
  "CollectWithStability rc =
     concat (map (\<lambda>pod. concat (map (\<lambda>container.
         collectContainerCPUMetrics pod container @ collectContainerMemoryMetrics pod container)
       (pds_Containers pod))) (sum_Pods (rc_providerPodStats rc)))
     @ [\<lparr>mc_desc = resourceScrapeResultDesc, mc_type = GaugeValue, mc_value = FFin 0,
         mc_labels = [], mc_timestamp = None\<rparr>]"

text \<open>\<open>gather\<close> is the registry's \<^verbatim>\<open>Gather\<close> on the collector registered last.\<close>

definition GetMetricsResource ::
  "(Desc list \<Rightarrow> metric list \<Rightarrow> 'f result) \<Rightarrow> stats_env \<Rightarrow> MacOSVZPodMetricsProvider \<Rightarrow> 'f result" where
  "GetMetricsResource gather env p =
     (case GetStatsSummary env p of
        Inl err \<Rightarrow> Inl (Wrapf ''error fetching MetricsResource: %w'' [] err)
      | Inr statsSummary \<Rightarrow>
          (let rc = NewKubeletResourceMetricsCollector statsSummary
           in case gather (DescribeWithStability rc) (CollectWithStability rc) of
                Inl err \<Rightarrow> Inl (Wrapf ''error gathering metrics: %w'' [] err)
              | Inr metricFamily \<Rightarrow> Inr metricFamily))"

section \<open>The summary\<close>

text \<open>What a goroutine writes to its own slot, or the error it returns.\<close>

definition pod_result :: "stats_env \<Rightarrow> listed_pod list \<Rightarrow> nat \<Rightarrow> PodStats result" where
  "pod_result env pods i =
     (case pod_goroutine env i (pods ! i) (replicate (length pods) zero_PodStats) of
        (results, Some err) \<Rightarrow> Inl err
      | (results, None) \<Rightarrow> Inr (results ! i))"

text \<open>The first error that is not nil, which \<^verbatim>\<open>Wait\<close> is documented to return.\<close>

fun first_non_nil :: "goerr option list \<Rightarrow> goerr option" where
  "first_non_nil [] = None"
| "first_non_nil (None # errs) = first_non_nil errs"
| "first_non_nil (Some e # errs) = Some e"

lemma first_non_nil_None: "first_non_nil errs = None \<longleftrightarrow> (\<forall>e\<in>set errs. e = None)"
  by (induction errs rule: first_non_nil.induct) auto

lemma pod_goroutine_result:
  assumes "i < length pods" and "length results = length pods"
  shows "pod_goroutine env i (pods ! i) results =
     (case pod_result env pods i of Inl err \<Rightarrow> (results, Some err) | Inr s \<Rightarrow> (results[i := s], None))"
  using assms by (simp add: pod_result_def pod_goroutine_def split: option.split sum.split)

lemma run_group_result:
  assumes "set order \<subseteq> {..<length pods}" and "length results = length pods" and "distinct order"
  shows "run_group env pods order results =
     (map (\<lambda>j. if j \<in> set order then (case pod_result env pods j of Inl e \<Rightarrow> results ! j | Inr s \<Rightarrow> s) else results ! j)
        [0..<length pods],
      map (\<lambda>i. case pod_result env pods i of Inl e \<Rightarrow> Some e | Inr s \<Rightarrow> None) order)"
  using assms
proof (induction order arbitrary: results)
  case Nil
  then show ?case using map_nth [of results] by simp
next
  case (Cons i order)
  show ?case
  proof (cases "pod_result env pods i")
    case (Inl e)
    then show ?thesis using Cons by (auto simp: pod_goroutine_result split: sum.split)
  next
    case (Inr s)
    then show ?thesis
      using Cons by (auto simp: pod_goroutine_result nth_list_update split: sum.split)
  qed
qed

lemma first_non_nil_map:
  "first_non_nil (map f xs) = Some e \<longleftrightarrow>
     (\<exists>pre x post. xs = pre @ x # post \<and> f x = Some e \<and> (\<forall>y\<in>set pre. f y = None))"
proof (induction xs)
  case (Cons a xs)
  show ?case
  proof (cases "f a")
    case None
    have "(\<exists>pre x post. a # xs = pre @ x # post \<and> f x = Some e \<and> (\<forall>y\<in>set pre. f y = None))
        \<longleftrightarrow> (\<exists>pre x post. xs = pre @ x # post \<and> f x = Some e \<and> (\<forall>y\<in>set pre. f y = None))"
      (is "?l \<longleftrightarrow> ?r")
    proof
      assume ?l
      then obtain pre x post where
        *: "a # xs = pre @ x # post" "f x = Some e" "\<forall>y\<in>set pre. f y = None" by blast
      then show ?r using None by (cases pre) auto
    next
      assume ?r
      then obtain pre x post where "xs = pre @ x # post" "f x = Some e" "\<forall>y\<in>set pre. f y = None" by blast
      then show ?l using None by (intro exI [of _ "a # pre"] exI [of _ x] exI [of _ post]) simp
    qed
    then show ?thesis using None Cons by simp
  next
    case (Some e')
    have "a # xs = pre @ x # post \<and> f x = Some e \<and> (\<forall>y\<in>set pre. f y = None)
        \<longleftrightarrow> pre = [] \<and> x = a \<and> post = xs \<and> e' = e" for pre x post
      using Some by (cases pre) auto
    then show ?thesis using Some by auto
  qed
qed simp

lemma pod_result_ok:
  "(\<exists>s. pod_result env pods i = Inr s) \<longleftrightarrow>
     se_goDone env i = None
     \<and> (\<exists>cs. se_GroupStats env (pod_Namespace (pods ! i)) (pod_Name (pods ! i))
               (spec_Containers (pod_Spec (pods ! i))) = Inr cs)"
  by (simp add: pod_result_def pod_goroutine_def split: option.split sum.split)

lemma pod_result_containers:
  "pod_result env pods i = Inr s \<Longrightarrow> i < length pods \<Longrightarrow>
     se_GroupStats env (pod_Namespace (pods ! i)) (pod_Name (pods ! i))
       (spec_Containers (pod_Spec (pods ! i))) = Inr (pds_Containers s)"
  by (auto simp: pod_result_def pod_goroutine_def split: option.splits sum.splits)

lemma running_indices_set: "set (running_indices pods) = {i. i < length pods \<and> pod_running (pods ! i)}"
  by (auto simp: running_indices_def)

lemma GetStatsSummary_eq:
  assumes wait: "\<And>errs. se_Wait env errs = first_non_nil errs"
    and order: "distinct (se_order env)" "set (se_order env) = set (running_indices pods)"
    and pods: "fst (se_List env) = pods"
    and alive: "se_done env = None"
  shows "GetStatsSummary env p =
     (case first_non_nil (map (\<lambda>i. case pod_result env pods i of Inl e \<Rightarrow> Some e | Inr s \<Rightarrow> None) (se_order env)) of
        Some err \<Rightarrow> Inl (Wrapf ''failed to get stats for all pods: %w'' [] err)
      | None \<Rightarrow> Inr \<lparr>sum_NodeName = mp_nodeName p,
          sum_Pods = map (\<lambda>j. if pod_running (pods ! j)
              then (case pod_result env pods j of Inl e \<Rightarrow> zero_PodStats | Inr s \<Rightarrow> s) else zero_PodStats)
            [0..<length pods]\<rparr>)"
proof -
  have "set (se_order env) \<subseteq> {..<length pods}" using order by (auto simp: running_indices_set)
  then show ?thesis
    using order alive
    by (simp add: GetStatsSummary_def pods wait run_group_result running_indices_set cong: if_cong split: option.split sum.split)
qed

text \<open>The goroutines' errors, in the order in which they finished; the result with and without one.\<close>

definition group_error :: "stats_env \<Rightarrow> listed_pod list \<Rightarrow> goerr option" where
  "group_error env pods =
     first_non_nil (map (\<lambda>i. case pod_result env pods i of Inl e \<Rightarrow> Some e | Inr s \<Rightarrow> None) (se_order env))"

lemma result_error:
  "(case pod_result env pods i of Inl e \<Rightarrow> Some e | Inr s \<Rightarrow> None) = None \<longleftrightarrow> (\<exists>s. pod_result env pods i = Inr s)"
  "(case pod_result env pods i of Inl e \<Rightarrow> Some e | Inr s \<Rightarrow> None) = Some err \<longleftrightarrow> pod_result env pods i = Inl err"
  by (simp_all split: sum.split)

lemma group_error_None:
  assumes "set (se_order env) = set (running_indices pods)"
  shows "group_error env pods = None \<longleftrightarrow>
    (\<forall>i<length pods. pod_running (pods ! i) \<longrightarrow> (\<exists>s. pod_result env pods i = Inr s))"
  using assms by (auto simp: group_error_def first_non_nil_None running_indices_set result_error)

lemma group_error_Some:
  "group_error env pods = Some err \<longleftrightarrow>
    (\<exists>pre i post. se_order env = pre @ i # post \<and> pod_result env pods i = Inl err
       \<and> (\<forall>j\<in>set pre. \<exists>s. pod_result env pods j = Inr s))"
  by (simp add: group_error_def first_non_nil_map result_error)

lemma pod_entry:
  assumes "i < length pods" and "pod_running (pods ! i) \<longrightarrow> (\<exists>s. pod_result env pods i = Inr s)"
    and "e = (if pod_running (pods ! i)
      then (case pod_result env pods i of Inl e \<Rightarrow> zero_PodStats | Inr s \<Rightarrow> s) else zero_PodStats)"
  shows "if pod_running (pods ! i)
    then Inr e = pod_result env pods i \<and> Inr (pds_Containers e) =
        se_GroupStats env (pod_Namespace (pods ! i)) (pod_Name (pods ! i)) (spec_Containers (pod_Spec (pods ! i)))
    else e = zero_PodStats"
proof (cases "pod_running (pods ! i)")
  case True
  then obtain v where "pod_result env pods i = Inr v" using assms(2) by blast
  then show ?thesis using True assms(1,3) pod_result_containers [of env pods i v] by simp
qed (use assms(3) in simp)

text \<open>
  Property C38. The statistics do not depend on how the goroutines interleave. If the error group
  behaves as documented and each running pod's goroutine finishes once, in any order, then the
  call succeeds exactly when the context is alive and no running pod's query fails. The summary
  then has one entry per listed pod, in the lister's order: the pod's own statistics if it is
  running, and a blank entry if it is not. A failing call returns the error of the goroutine that
  failed first, wrapped.
\<close>

theorem stats_summary_deterministic:
  assumes wait: "\<And>errs. se_Wait env errs = first_non_nil errs"
    and order: "distinct (se_order env)" "set (se_order env) = set (running_indices pods)"
    and pods: "fst (se_List env) = pods"
  shows "((\<exists>s. GetStatsSummary env p = Inr s) \<longleftrightarrow>
            se_done env = None
            \<and> (\<forall>i<length pods. pod_running (pods ! i) \<longrightarrow>
                 se_goDone env i = None
                 \<and> (\<exists>cs. se_GroupStats env (pod_Namespace (pods ! i)) (pod_Name (pods ! i))
                           (spec_Containers (pod_Spec (pods ! i))) = Inr cs)))
       \<and> (\<forall>s. GetStatsSummary env p = Inr s \<longrightarrow>
            sum_NodeName s = mp_nodeName p \<and> length (sum_Pods s) = length pods
            \<and> (\<forall>i<length pods.
                 if pod_running (pods ! i)
                 then Inr (sum_Pods s ! i) = pod_result env pods i
                      \<and> Inr (pds_Containers (sum_Pods s ! i)) =
                          se_GroupStats env (pod_Namespace (pods ! i)) (pod_Name (pods ! i))
                            (spec_Containers (pod_Spec (pods ! i)))
                 else sum_Pods s ! i = zero_PodStats))
       \<and> (\<forall>e. se_done env = None \<and> GetStatsSummary env p = Inl e \<longrightarrow>
            (\<exists>pre i post err. se_order env = pre @ i # post \<and> pod_result env pods i = Inl err
               \<and> (\<forall>j\<in>set pre. \<exists>s. pod_result env pods j = Inr s)
               \<and> e = Wrapf ''failed to get stats for all pods: %w'' [] err))"
proof (cases "se_done env")
  case (Some e)
  then show ?thesis by (simp add: GetStatsSummary_def)
next
  case None
  note eq = GetStatsSummary_eq [OF wait order pods None, of p, folded group_error_def]
    and ok = group_error_None [OF order(2)]
  show ?thesis
  proof (intro conjI allI impI)
    show "(\<exists>s. GetStatsSummary env p = Inr s) \<longleftrightarrow>
            se_done env = None
            \<and> (\<forall>i<length pods. pod_running (pods ! i) \<longrightarrow>
                 se_goDone env i = None
                 \<and> (\<exists>cs. se_GroupStats env (pod_Namespace (pods ! i)) (pod_Name (pods ! i))
                           (spec_Containers (pod_Spec (pods ! i))) = Inr cs))"
      unfolding pod_result_ok [symmetric] ok [symmetric] using None by (simp add: eq split: option.split)
  next
    fix s i assume s: "GetStatsSummary env p = Inr s"
    then have nil: "group_error env pods = None" by (auto simp: eq split: option.splits)
    show "sum_NodeName s = mp_nodeName p" "length (sum_Pods s) = length pods" using s eq unfolding nil by auto
    assume i: "i < length pods"
    show "if pod_running (pods ! i)
          then Inr (sum_Pods s ! i) = pod_result env pods i
               \<and> Inr (pds_Containers (sum_Pods s ! i)) =
                   se_GroupStats env (pod_Namespace (pods ! i)) (pod_Name (pods ! i))
                     (spec_Containers (pod_Spec (pods ! i)))
          else sum_Pods s ! i = zero_PodStats"
      by (rule pod_entry [OF i]) (use nil ok i s eq in \<open>auto simp: nil\<close>)
  next
    fix e assume "se_done env = None \<and> GetStatsSummary env p = Inl e"
    then obtain err where "group_error env pods = Some err" "e = Wrapf ''failed to get stats for all pods: %w'' [] err"
      by (auto simp: eq split: option.splits)
    then show "\<exists>pre i post err. se_order env = pre @ i # post \<and> pod_result env pods i = Inl err
               \<and> (\<forall>j\<in>set pre. \<exists>s. pod_result env pods j = Inr s)
               \<and> e = Wrapf ''failed to get stats for all pods: %w'' [] err"
      unfolding group_error_Some by blast
  qed
qed

definition sample_listed :: "PodPhase \<Rightarrow> listed_pod" where
  "sample_listed ph =
     \<lparr>pod_Namespace = ''ns'', pod_Name = ''p'', pod_UID = ''u'', pod_DeletionGracePeriodSeconds = None,
      pod_Spec = \<lparr>spec_Containers = [], spec_Volumes = [], spec_ImagePullSecrets = [],
        spec_ServiceAccountName = [], spec_AutomountServiceAccountToken = None\<rparr>,
      pod_Status = Some \<lparr>pst_Phase = ph, pst_HostIP = [], pst_PodIP = [], pst_StartTime = None,
        pst_ContainerStatuses = []\<rparr>,
      pod_CreationTimestamp = 7\<rparr>"

definition sample_stats :: stats_env where
  "sample_stats =
     \<lparr>se_done = None, se_goDone = (\<lambda>i. None),
      se_List = ([sample_listed PodRunning, sample_listed PodPending, sample_listed PodRunning], None),
      se_GroupStats = (\<lambda>ns n cs. Inr [\<lparr>cns_Name = n, cns_CPU = None, cns_Memory = None\<rparr>]),
      se_Wait = first_non_nil, se_order = [2, 0]\<rparr>"

theorem stats_summary_deterministic_witness:
  "\<exists>s. GetStatsSummary sample_stats \<lparr>mp_nodeName = ''mac''\<rparr> = Inr s \<and> sum_Pods s ! 1 = zero_PodStats"
proof -
  let ?pods = "[sample_listed PodRunning, sample_listed PodPending, sample_listed PodRunning]"
  have order: "set (se_order sample_stats) = set (running_indices ?pods)" by code_simp
  have run: "pod_running (sample_listed ph) \<longleftrightarrow> ph = PodRunning" for ph
    by (simp add: pod_running_def sample_listed_def)
  from stats_summary_deterministic [of sample_stats ?pods "\<lparr>mp_nodeName = ''mac''\<rparr>"] order
  obtain s where s: "GetStatsSummary sample_stats \<lparr>mp_nodeName = ''mac''\<rparr> = Inr s"
    "\<forall>i<3. \<not> pod_running (?pods ! i) \<longrightarrow> sum_Pods s ! i = zero_PodStats"
    by (fastforce simp: sample_stats_def split: if_splits)
  then show ?thesis using run by auto
qed

section \<open>The metrics\<close>

lemmas collect_defs = collectContainerCPUMetrics_def collectContainerMemoryMetrics_def

lemmas desc_defs = containerCPUUsageDesc_def containerMemoryUsageDesc_def resourceScrapeResultDesc_def

abbreviation container_metrics :: "PodStats \<Rightarrow> ContainerStats \<Rightarrow> metric list" where
  "container_metrics pod c \<equiv> collectContainerCPUMetrics pod c @ collectContainerMemoryMetrics pod c"

abbreviation metric_key :: "metric \<Rightarrow> string \<times> string list" where
  "metric_key m \<equiv> (desc_name (mc_desc m), mc_labels m)"

lemma container_metrics_typed:
  "m \<in> set (container_metrics pod c) \<Longrightarrow>
     mc_desc m \<in> {containerCPUUsageDesc, containerMemoryUsageDesc}
     \<and> mc_labels m = [cns_Name c, pds_Name pod, pds_Namespace pod]"
  by (auto simp: collect_defs split: option.splits)

lemma container_metrics_distinct: "distinct (map metric_key (container_metrics pod c))"
  by (simp add: collect_defs desc_defs split: option.split)

lemma pod_metrics_distinct:
  assumes "distinct (map cns_Name (pds_Containers pod))"
  shows "distinct (concat (map (\<lambda>c. map metric_key (container_metrics pod c)) (pds_Containers pod)))"
proof (rule distinct_concat_keyed [where k = cns_Name and h = "\<lambda>(d, l). l ! 0"])
  show "distinct (map cns_Name (filter (\<lambda>c. map metric_key (container_metrics pod c) \<noteq> []) (pds_Containers pod)))"
    using assms by (rule distinct_map_filter)
qed (use container_metrics_distinct container_metrics_typed in fastforce)+

lemma all_metrics_distinct:
  assumes "distinct (map (\<lambda>p. (pds_Name p, pds_Namespace p)) (filter (\<lambda>p. pds_Containers p \<noteq> []) pods))"
    and "\<And>p. p \<in> set pods \<Longrightarrow> distinct (map cns_Name (pds_Containers p))"
  shows "distinct (concat (map (\<lambda>p. concat (map (\<lambda>c. map metric_key (container_metrics p c)) (pds_Containers p))) pods))"
proof (rule distinct_concat_keyed
    [where k = "\<lambda>p. (pds_Name p, pds_Namespace p)" and h = "\<lambda>(d, l). (l ! 1, l ! 2)"])
  let ?g = "\<lambda>p. concat (map (\<lambda>c. map metric_key (container_metrics p c)) (pds_Containers p))"
  have "filter (\<lambda>p. ?g p \<noteq> []) pods = filter (\<lambda>p. ?g p \<noteq> []) (filter (\<lambda>p. pds_Containers p \<noteq> []) pods)"
    by (simp only: filter_filter) (rule filter_cong, auto)
  then show "distinct (map (\<lambda>p. (pds_Name p, pds_Namespace p)) (filter (\<lambda>p. ?g p \<noteq> []) pods))"
    using distinct_map_filter [OF assms(1), of "\<lambda>p. ?g p \<noteq> []"] by (simp only:)
next
  show "distinct (concat (map (\<lambda>c. map metric_key (container_metrics p c)) (pds_Containers p)))"
    if "p \<in> set pods" for p
    using assms(2) [OF that] by (rule pod_metrics_distinct)
next
  fix p y
  assume "y \<in> set (concat (map (\<lambda>c. map metric_key (container_metrics p c)) (pds_Containers p)))"
  then obtain c m where "m \<in> set (container_metrics p c)" "y = metric_key m" by auto
  then show "(case y of (d, l) \<Rightarrow> (l ! 1, l ! 2)) = (pds_Name p, pds_Namespace p)"
    using container_metrics_typed [of m p c] by auto
qed

lemma CollectWithStability_set:
  "m \<in> set (CollectWithStability rc) \<longleftrightarrow>
     (\<exists>pod\<in>set (sum_Pods (rc_providerPodStats rc)). \<exists>c\<in>set (pds_Containers pod). m \<in> set (container_metrics pod c))
     \<or> m = \<lparr>mc_desc = resourceScrapeResultDesc, mc_type = GaugeValue, mc_value = FFin 0,
            mc_labels = [], mc_timestamp = None\<rparr>"
  by (auto simp: CollectWithStability_def)

lemma CollectWithStability_keys:
  "map metric_key (CollectWithStability rc) =
     concat (map (\<lambda>p. concat (map (\<lambda>c. map metric_key (container_metrics p c)) (pds_Containers p)))
       (sum_Pods (rc_providerPodStats rc))) @ [(''scrape_error'', [])]"
  by (simp add: CollectWithStability_def map_concat comp_def desc_defs)

lemma float64_of_nat_exact:
  assumes "n < 2 ^ 53"
  shows "float64_of_nat n = FFin (of_nat n)"
proof -
  have "int n < 2 ^ 53" using assms by (metis of_nat_less_iff of_nat_numeral of_nat_power)
  then show ?thesis using round64_int [of "int n"] by (simp add: float64_of_nat_def)
qed

lemma memory_metric:
  "cns_Memory c = Some mem \<Longrightarrow> mem_WorkingSetBytes mem = Some b \<Longrightarrow> unat b < 2 ^ 53 \<Longrightarrow>
     \<lparr>mc_desc = containerMemoryUsageDesc, mc_type = GaugeValue, mc_value = FFin (of_nat (unat b)),
      mc_labels = [cns_Name c, pds_Name p, pds_Namespace p], mc_timestamp = Some (mem_Time mem)\<rparr>
     \<in> set (container_metrics p c)"
  by (simp add: collectContainerMemoryMetrics_def float64_of_nat_exact)

lemma cpu_metric:
  "cns_CPU c = Some cpu \<Longrightarrow> cpu_UsageCoreNanoSeconds cpu = Some u \<Longrightarrow> unat u < 2 ^ 53 \<Longrightarrow>
     \<lparr>mc_desc = containerCPUUsageDesc, mc_type = CounterValue, mc_value = round64 (of_nat (unat u) / 10 ^ 9),
      mc_labels = [cns_Name c, pds_Name p, pds_Namespace p], mc_timestamp = Some (cpu_Time cpu)\<rparr>
     \<in> set (container_metrics p c)"
  by (simp add: collectContainerCPUMetrics_def float64_of_nat_exact)

text \<open>
  Property C39. The collector sends well-formed metrics: each has a descriptor that
  \<^verbatim>\<open>DescribeWithStability\<close> announces and as many label values as that descriptor has labels, and
  when no two pods with statistics and no two containers of a pod share a name, no two metrics
  have the same name and labels, which the registry would refuse. Every memory reading below
  \<open>2 ^ 53\<close> bytes is sent unchanged and every CPU reading below \<open>2 ^ 53\<close> nanoseconds as the double
  nearest to its seconds; the scrape error sent last is always 0.
\<close>

theorem collector_well_formed:
  assumes "distinct (map (\<lambda>p. (pds_Name p, pds_Namespace p))
             (filter (\<lambda>p. pds_Containers p \<noteq> []) (sum_Pods s)))"
    and "\<And>p. p \<in> set (sum_Pods s) \<Longrightarrow> distinct (map cns_Name (pds_Containers p))"
    and "rc = NewKubeletResourceMetricsCollector s"
  shows "(\<forall>m\<in>set (CollectWithStability rc).
            mc_desc m \<in> set (DescribeWithStability rc)
            \<and> length (mc_labels m) = length (desc_labels (mc_desc m)))
       \<and> distinct (map (\<lambda>m. (desc_name (mc_desc m), mc_labels m)) (CollectWithStability rc))
       \<and> (\<forall>p\<in>set (sum_Pods s). \<forall>c\<in>set (pds_Containers p). \<forall>mem b.
            cns_Memory c = Some mem \<and> mem_WorkingSetBytes mem = Some b \<and> unat b < 2 ^ 53 \<longrightarrow>
            \<lparr>mc_desc = containerMemoryUsageDesc, mc_type = GaugeValue, mc_value = FFin (of_nat (unat b)),
             mc_labels = [cns_Name c, pds_Name p, pds_Namespace p], mc_timestamp = Some (mem_Time mem)\<rparr>
            \<in> set (CollectWithStability rc))
       \<and> (\<forall>p\<in>set (sum_Pods s). \<forall>c\<in>set (pds_Containers p). \<forall>cpu u.
            cns_CPU c = Some cpu \<and> cpu_UsageCoreNanoSeconds cpu = Some u \<and> unat u < 2 ^ 53 \<longrightarrow>
            \<lparr>mc_desc = containerCPUUsageDesc, mc_type = CounterValue,
             mc_value = round64 (of_nat (unat u) / 10 ^ 9),
             mc_labels = [cns_Name c, pds_Name p, pds_Namespace p], mc_timestamp = Some (cpu_Time cpu)\<rparr>
            \<in> set (CollectWithStability rc))
       \<and> mc_value (last (CollectWithStability rc)) = FFin 0"
proof (intro conjI)
  have s: "rc_providerPodStats rc = s" using assms(3) by (simp add: NewKubeletResourceMetricsCollector_def)
  show "\<forall>m\<in>set (CollectWithStability rc). mc_desc m \<in> set (DescribeWithStability rc)
      \<and> length (mc_labels m) = length (desc_labels (mc_desc m))"
    using container_metrics_typed
    by (fastforce simp: CollectWithStability_set DescribeWithStability_def desc_defs)
  have "(''scrape_error'', []) \<notin> metric_key ` set (container_metrics p c)" for p c
    using container_metrics_typed [of _ p c] by fastforce
  then show "distinct (map metric_key (CollectWithStability rc))"
    using all_metrics_distinct [OF assms(1,2)] unfolding CollectWithStability_keys s by auto
  show "\<forall>p\<in>set (sum_Pods s). \<forall>c\<in>set (pds_Containers p). \<forall>mem b.
      cns_Memory c = Some mem \<and> mem_WorkingSetBytes mem = Some b \<and> unat b < 2 ^ 53 \<longrightarrow>
      \<lparr>mc_desc = containerMemoryUsageDesc, mc_type = GaugeValue, mc_value = FFin (of_nat (unat b)),
       mc_labels = [cns_Name c, pds_Name p, pds_Namespace p], mc_timestamp = Some (mem_Time mem)\<rparr>
      \<in> set (CollectWithStability rc)"
    unfolding CollectWithStability_set s using memory_metric by blast
  show "\<forall>p\<in>set (sum_Pods s). \<forall>c\<in>set (pds_Containers p). \<forall>cpu u.
      cns_CPU c = Some cpu \<and> cpu_UsageCoreNanoSeconds cpu = Some u \<and> unat u < 2 ^ 53 \<longrightarrow>
      \<lparr>mc_desc = containerCPUUsageDesc, mc_type = CounterValue,
       mc_value = round64 (of_nat (unat u) / 10 ^ 9),
       mc_labels = [cns_Name c, pds_Name p, pds_Namespace p], mc_timestamp = Some (cpu_Time cpu)\<rparr>
      \<in> set (CollectWithStability rc)"
    unfolding CollectWithStability_set s using cpu_metric by blast
  show "mc_value (last (CollectWithStability rc)) = FFin 0"
    by (simp add: CollectWithStability_def)
qed

definition sample_summary :: Summary where
  "sample_summary =
     \<lparr>sum_NodeName = ''mac'',
      sum_Pods = [\<lparr>pds_Name = ''p'', pds_Namespace = ''ns'', pds_UID = ''u'', pds_StartTime = 1,
        pds_Containers = [\<lparr>cns_Name = ''c'', cns_CPU = None,
          cns_Memory = Some \<lparr>mem_Time = 5, mem_WorkingSetBytes = Some 4096\<rparr>\<rparr>]\<rparr>, zero_PodStats, zero_PodStats]\<rparr>"

theorem collector_well_formed_witness:
  "\<exists>m\<in>set (CollectWithStability (NewKubeletResourceMetricsCollector sample_summary)).
     mc_value m = FFin 4096 \<and> mc_labels m = [''c'', ''p'', ''ns'']"
proof -
  let ?rc = "NewKubeletResourceMetricsCollector sample_summary"
  let ?p = "sum_Pods sample_summary ! 0"
  let ?c = "pds_Containers ?p ! 0"
  have dist: "distinct (map (\<lambda>p. (pds_Name p, pds_Namespace p)) (filter (\<lambda>p. pds_Containers p \<noteq> []) (sum_Pods sample_summary)))"
    "p \<in> set (sum_Pods sample_summary) \<Longrightarrow> distinct (map cns_Name (pds_Containers p))" for p
    by (auto simp: sample_summary_def zero_PodStats_def)
  have "?p \<in> set (sum_Pods sample_summary)" "?c \<in> set (pds_Containers ?p)"
    "cns_Memory ?c = Some \<lparr>mem_Time = 5, mem_WorkingSetBytes = Some 4096\<rparr>"
    by (simp_all add: sample_summary_def)
  then have "\<lparr>mc_desc = containerMemoryUsageDesc, mc_type = GaugeValue, mc_value = FFin (of_nat (unat (4096 :: 64 word))),
      mc_labels = [cns_Name ?c, pds_Name ?p, pds_Namespace ?p], mc_timestamp = Some 5\<rparr> \<in> set (CollectWithStability ?rc)"
    using conjunct1 [OF conjunct2 [OF conjunct2 [OF collector_well_formed [OF dist refl]]]] by fastforce
  then show ?thesis by (rule rev_bexI) (simp add: sample_summary_def)
qed

end
