(* ===== verification/Exec_IO.thy ===== *)
theory Exec_IO
  imports Prelude Tracer
begin

text \<open>
  \<^verbatim>\<open>internal/io\<close> and \<^verbatim>\<open>internal/node\<close>: the two writers that never fail, the streams of an exec or
  attach request, and the size of its terminal. What a select statement receives is the
  environment's choice and an argument.
\<close>

section \<open>Writers\<close>

type_synonym byte = "8 word"

text \<open>\<^verbatim>\<open>io.WriteCloser\<close>, as methods over the writer's state.\<close>

record 'w WriteCloser =
  wc_Write :: "'w \<Rightarrow> byte list \<Rightarrow> 'w \<times> nat \<times> goerr option"
  wc_Close :: "'w \<Rightarrow> goerr option"

record BufferWriteCloser =
  bw_buf :: "byte list"

definition NewBufferWriteCloser :: "byte list \<Rightarrow> BufferWriteCloser" where
  "NewBufferWriteCloser buf = \<lparr>bw_buf = buf\<rparr>"

text \<open>\<^verbatim>\<open>bytes.Buffer.Write\<close> appends and never returns an error.\<close>

definition BufferWriteCloser_Write :: "BufferWriteCloser \<Rightarrow> byte list \<Rightarrow> BufferWriteCloser \<times> nat \<times> goerr option" where
  "BufferWriteCloser_Write wc p = (wc\<lparr>bw_buf := bw_buf wc @ p\<rparr>, length p, None)"

definition BufferWriteCloser_Close :: "BufferWriteCloser \<Rightarrow> goerr option" where
  "BufferWriteCloser_Close wc = None"

text \<open>The struct has no fields, so its state is the unit value.\<close>

type_synonym DiscardWriteCloser = unit

definition DiscardWriteCloser_Write :: "DiscardWriteCloser \<Rightarrow> byte list \<Rightarrow> DiscardWriteCloser \<times> nat \<times> goerr option" where
  "DiscardWriteCloser_Write d p = (d, length p, None)"

definition DiscardWriteCloser_Close :: "DiscardWriteCloser \<Rightarrow> goerr option" where
  "DiscardWriteCloser_Close d = None"

definition buffer_writer :: "BufferWriteCloser WriteCloser" where
  "buffer_writer = \<lparr>wc_Write = BufferWriteCloser_Write, wc_Close = BufferWriteCloser_Close\<rparr>"

definition discard_writer :: "DiscardWriteCloser WriteCloser" where
  "discard_writer = \<lparr>wc_Write = DiscardWriteCloser_Write, wc_Close = DiscardWriteCloser_Close\<rparr>"

text \<open>
  \<^verbatim>\<open>io.Copy\<close> from a reader that delivers the chunks given and then ends: it stops at an error and
  at a short write.
\<close>

fun io_Copy :: "'w WriteCloser \<Rightarrow> 'w \<Rightarrow> byte list list \<Rightarrow> 'w \<times> nat \<times> goerr option" where
  "io_Copy ops w [] = (w, 0, None)"
| "io_Copy ops w (p # ps) =
     (case wc_Write ops w p of
        (w1, n, Some err) \<Rightarrow> (w1, n, Some err)
      | (w1, n, None) \<Rightarrow>
          if n \<noteq> length p then (w1, n, Some (OSError ''short write''))
          else case io_Copy ops w1 ps of (w2, m, err) \<Rightarrow> (w2, n + m, err))"

text \<open>
  What the users of such a writer rely on. \<open>written\<close> is the data it keeps, and \<open>keeps\<close> what it
  makes of a piece.
\<close>

locale total_writer =
  fixes ops :: "'w WriteCloser"
    and written :: "'w \<Rightarrow> byte list"
    and keeps :: "byte list \<Rightarrow> byte list"
  assumes write_total: "wc_Write ops w p = (w', n, err) \<Longrightarrow> n = length p \<and> err = None"
    and write_kept: "wc_Write ops w p = (w', n, err) \<Longrightarrow> written w' = written w @ keeps p"
    and close_total: "wc_Close ops w = None"
    and keeps_append: "keeps (p @ q) = keeps p @ keeps q"
    and keeps_Nil: "keeps [] = []"
begin

lemma copy_total:
  "\<exists>w'. io_Copy ops w ps = (w', length (concat ps), None) \<and> written w' = written w @ keeps (concat ps)"
proof (induction ps arbitrary: w)
  case (Cons p ps)
  obtain w1 n err where w1: "wc_Write ops w p = (w1, n, err)" by (cases "wc_Write ops w p") auto
  then have "n = length p" "err = None" "written w1 = written w @ keeps p"
    using write_total write_kept by blast+
  moreover obtain w2 where "io_Copy ops w1 ps = (w2, length (concat ps), None)"
    "written w2 = written w1 @ keeps (concat ps)"
    using Cons.IH by blast
  ultimately show ?case using w1 by (simp add: keeps_append)
qed (simp add: keeps_Nil)

end

interpretation buffer: total_writer buffer_writer bw_buf "\<lambda>p. p"
  by unfold_locales (auto simp: buffer_writer_def BufferWriteCloser_Write_def BufferWriteCloser_Close_def)

interpretation discard: total_writer discard_writer "\<lambda>d. []" "\<lambda>p. []"
  by unfold_locales (auto simp: discard_writer_def DiscardWriteCloser_Write_def DiscardWriteCloser_Close_def)

text \<open>Whatever is copied to a buffer is in it afterwards, and discarding never fails.\<close>

lemma copy_to_buffer:
  "io_Copy buffer_writer (NewBufferWriteCloser b) ps =
     (NewBufferWriteCloser (b @ concat ps), length (concat ps), None)"
  using buffer.copy_total [of "NewBufferWriteCloser b" ps] by (auto simp: NewBufferWriteCloser_def)

lemma copy_to_discard: "io_Copy discard_writer d ps = ((), length (concat ps), None)"
  using discard.copy_total [of d ps] by simp

section \<open>Streams of a request\<close>

record TermSize =
  ts_Width :: "16 word"
  ts_Height :: "16 word"

text \<open>
  The streams are interface values, \<open>None\<close> for nil; \<open>'i\<close> and \<open>'o\<close> identify the readers and writers,
  \<open>'c\<close> the resize channel.
\<close>

record ('i, 'o, 'c) ExecIO =
  io_tty :: bool
  io_stdin :: "'i option"
  io_stdout :: "'o option"
  io_stderr :: "'o option"
  io_chResize :: "'c option"

definition NewExecIO ::
  "bool \<Rightarrow> 'i option \<Rightarrow> 'o option \<Rightarrow> 'o option \<Rightarrow> 'c option \<Rightarrow> ('i, 'o, 'c) ExecIO" where
  "NewExecIO tty stdin stdout stderr chResize =
     \<lparr>io_tty = tty, io_stdin = stdin, io_stdout = stdout, io_stderr = stderr, io_chResize = chResize\<rparr>"

text \<open>\<open>discard\<close> identifies the new \<^verbatim>\<open>DiscardWriteCloser\<close>.\<close>

definition DiscardingExecIO :: "'o \<Rightarrow> ('i, 'o, 'c) ExecIO" where
  "DiscardingExecIO discard =
     \<lparr>io_tty = False, io_stdin = None, io_stdout = Some discard, io_stderr = None, io_chResize = None\<rparr>"

text \<open>The methods of the interface \<^verbatim>\<open>api.AttachIO\<close>.\<close>

definition ExecIO_TTY :: "('i, 'o, 'c) ExecIO \<Rightarrow> bool" where
  [simp]: "ExecIO_TTY e = io_tty e"

definition ExecIO_Stdin :: "('i, 'o, 'c) ExecIO \<Rightarrow> 'i option" where
  [simp]: "ExecIO_Stdin e = io_stdin e"

definition ExecIO_Stdout :: "('i, 'o, 'c) ExecIO \<Rightarrow> 'o option" where
  [simp]: "ExecIO_Stdout e = io_stdout e"

definition ExecIO_Stderr :: "('i, 'o, 'c) ExecIO \<Rightarrow> 'o option" where
  [simp]: "ExecIO_Stderr e = io_stderr e"

definition ExecIO_Resize :: "('i, 'o, 'c) ExecIO \<Rightarrow> 'c option" where
  [simp]: "ExecIO_Resize e = io_chResize e"

section \<open>Terminals\<close>

definition DefaultTerminalType :: string where
  "DefaultTerminalType = ''xterm-256color''"

definition DefaultTermWidth :: "16 word" where
  "DefaultTermWidth = 60"

definition DefaultTermHeight :: "16 word" where
  "DefaultTermHeight = 120"

definition EnvVarTermType :: string where
  "EnvVarTermType = ''TERM''"

definition GetTerminalType :: "(string \<rightharpoonup> string) \<Rightarrow> string" where
  "GetTerminalType env =
     (let t = Getenv env EnvVarTermType in if t = [] then DefaultTerminalType else t)"

text \<open>
  What a select on the resize channel and the context receives: a size, which is zero once the
  channel is closed, or the end of the context.
\<close>

datatype resize_event = Resized TermSize | ContextDone

definition GetConsoleSize :: "resize_event \<Rightarrow> ('i, 'o, 'c) ExecIO option \<Rightarrow> (64 word \<times> 64 word) option" where
  "GetConsoleSize ev attach =
     (case attach of
        None \<Rightarrow> None
      | Some att \<Rightarrow>
          if \<not> ExecIO_TTY att then None
          else let termSize = (case ev of Resized sz \<Rightarrow> sz
                 | ContextDone \<Rightarrow> \<lparr>ts_Width = DefaultTermWidth, ts_Height = DefaultTermHeight\<rparr>)
               in if ts_Width termSize \<noteq> 0 \<and> ts_Height termSize \<noteq> 0
                  then Some (ucast (ts_Height termSize), ucast (ts_Width termSize)) else None)"

text \<open>The sizes \<^verbatim>\<open>resizeFunc\<close> is called with; its errors are only logged.\<close>

definition HandleTerminalResizing :: "resize_event \<Rightarrow> TermSize list" where
  "HandleTerminalResizing ev = (case ev of ContextDone \<Rightarrow> [] | Resized sz \<Rightarrow> [sz])"

lemma unat_16_64: "unat (ucast (w :: 16 word) :: 64 word) = unat w"
proof -
  have "unat w < 2 ^ 16" using unsigned_less [of w] by simp
  then show ?thesis by (simp add: unsigned_ucast_eq take_bit_nat_eq_self)
qed

text \<open>
  A console size is reported as height and width, both positive and below \<open>2 ^ 16\<close>; without an answer
  in time it is the default.
\<close>

lemma GetConsoleSize_range:
  assumes "GetConsoleSize ev attach = Some (h, w)"
  shows "0 < unat h \<and> unat h < 2 ^ 16 \<and> 0 < unat w \<and> unat w < 2 ^ 16
       \<and> (ev = ContextDone \<longrightarrow> h = 120 \<and> w = 60)"
proof -
  obtain sz where sz: "ts_Width sz \<noteq> 0" "ts_Height sz \<noteq> 0" "h = ucast (ts_Height sz)" "w = ucast (ts_Width sz)"
    "ev = ContextDone \<longrightarrow> sz = \<lparr>ts_Width = DefaultTermWidth, ts_Height = DefaultTermHeight\<rparr>"
    using assms by (auto simp: GetConsoleSize_def Let_def split: option.splits if_splits resize_event.splits)
  moreover have "unat (ts_Height sz) < 2 ^ 16" "unat (ts_Width sz) < 2 ^ 16"
    using unsigned_less [of "ts_Height sz"] unsigned_less [of "ts_Width sz"] by simp_all
  moreover have "unat (ts_Height sz) \<noteq> 0" "unat (ts_Width sz) \<noteq> 0"
    using sz(1,2) by (simp_all add: unat_eq_0)
  ultimately show ?thesis
    by (auto simp: unat_16_64 DefaultTermWidth_def DefaultTermHeight_def)
qed

end
