(* ===== verification/SSH_Session.thy ===== *)
theory SSH_Session
  imports Exec_IO Utils
begin

text \<open>
  \<^verbatim>\<open>internal/ssh/macos.go\<close> and \<^verbatim>\<open>keepalive.go\<close>: a command run over an SSH session. The session and
  its standard input pipe belong to the SSH library; the calls made on them are recorded in
  order, and \<open>sn_fails\<close> says which of them fail, given the calls before. The goroutines a terminal
  session starts appear as the calls \<open>GoResize\<close> and \<open>GoCopyStdin\<close>.
\<close>

section \<open>Definitions\<close>

datatype session_call =
    RequestPty string int int "(string \<times> nat) list"
  | GoResize
  | GoCopyStdin
  | Start string
  | Shell
  | PipeWrite string
  | CopyStdin
  | PipeClose
  | Wait

type_synonym session_env = "session_call list \<Rightarrow> session_call \<Rightarrow> goerr option"

record ('i, 'o, 'c) MacOSSession =
  ms_attach :: "('i, 'o, 'c) ExecIO"
  ms_Stdout :: "'o option"
  ms_Stderr :: "'o option"

definition NewMacOSSession :: "('i, 'o, 'c) ExecIO \<Rightarrow> ('i, 'o, 'c) MacOSSession" where
  "NewMacOSSession attach =
     \<lparr>ms_attach = attach, ms_Stdout = ExecIO_Stdout attach, ms_Stderr = ExecIO_Stderr attach\<rparr>"

definition setupTTYSession ::
  "session_env \<Rightarrow> (string \<rightharpoonup> string) \<Rightarrow> ('i, 'o, 'c) ExecIO \<Rightarrow> 64 word \<times> 64 word \<Rightarrow> session_call list
     \<Rightarrow> session_call list \<times> goerr option" where
  "setupTTYSession env vars attach consoleSize tr =
     (let modes = [(''ECHO'', 1), (''TTY_OP_ISPEED'', 14400), (''TTY_OP_OSPEED'', 14400)];
          req = RequestPty (GetTerminalType vars) (sint (fst consoleSize)) (sint (snd consoleSize)) modes
      in case env tr req of
           Some err \<Rightarrow> (tr @ [req], Some (Printed ''request for pseudo terminal failed: %v'' err))
         | None \<Rightarrow> (tr @ [req, GoResize] @ (if ExecIO_Stdin attach \<noteq> None then [GoCopyStdin] else []), None))"

definition SetupSessionIO ::
  "session_env \<Rightarrow> (string \<rightharpoonup> string) \<Rightarrow> resize_event \<Rightarrow> ('i, 'o, 'c) MacOSSession \<Rightarrow> session_call list
     \<Rightarrow> session_call list \<times> goerr option" where
  "SetupSessionIO env vars ev s tr =
     (case GetConsoleSize ev (Some (ms_attach s)) of
        None \<Rightarrow> (tr, None)
      | Some consoleSize \<Rightarrow>
          if ExecIO_TTY (ms_attach s) then setupTTYSession env vars (ms_attach s) consoleSize tr else (tr, None))"

text \<open>Writing the environment goes on after a failed write, writing the command does not.\<close>

fun write_env :: "EnvVar list \<Rightarrow> session_call list \<Rightarrow> session_call list" where
  "write_env [] tr = tr"
| "write_env (e # es) tr = write_env es (tr @ [PipeWrite (BuildExportEnvCommand e)])"

fun write_command :: "session_env \<Rightarrow> string list \<Rightarrow> session_call list \<Rightarrow> session_call list \<times> goerr option" where
  "write_command env [] tr = (tr, None)"
| "write_command env (c # cs) tr =
     (let w = PipeWrite (c @ newline) in
      case env tr w of
        Some err \<Rightarrow> (tr @ [w], Some err)
      | None \<Rightarrow> write_command env cs (tr @ [w]))"

definition start_command ::
  "session_env \<Rightarrow> EnvVar list \<Rightarrow> string list \<Rightarrow> session_call list \<Rightarrow> session_call list \<times> goerr option" where
  "start_command env vars cmd tr =
     (case BuildExecCommandString cmd vars of
        Inr cmdStr \<Rightarrow> (tr @ [Start cmdStr], env tr (Start cmdStr))
      | Inl err \<Rightarrow>
          (case env tr Shell of
             Some err \<Rightarrow> (tr @ [Shell], Some err)
           | None \<Rightarrow> write_command env cmd (write_env vars (tr @ [Shell]))))"

definition ExecuteCommand ::
  "session_env \<Rightarrow> ('i, 'o, 'c) MacOSSession \<Rightarrow> EnvVar list \<Rightarrow> string list \<Rightarrow> session_call list
     \<Rightarrow> session_call list \<times> goerr option" where
  "ExecuteCommand env s vars cmd tr =
     (case start_command env vars cmd tr of
        (tr, Some err) \<Rightarrow> (tr, Some err)
      | (tr, None) \<Rightarrow>
          if ExecIO_TTY (ms_attach s) then (tr @ [Wait], env tr Wait)
          else
            let (tr, err) = (if ExecIO_Stdin (ms_attach s) \<noteq> None then (tr @ [CopyStdin], env tr CopyStdin) else (tr, None))
            in case err of
                 Some err \<Rightarrow> (tr, Some err)
               | None \<Rightarrow> let tr = tr @ [PipeClose] in (tr @ [Wait], env tr Wait))"

text \<open>
  \<^verbatim>\<open>SendKeepalive\<close>: one request per tick until the context is done; errors are only logged. The
  result is the number of requests and whether the loop was left.
\<close>

datatype keepalive_event = Tick "goerr option" | KeepaliveDone

fun SendKeepalive :: "keepalive_event list \<Rightarrow> nat \<times> bool" where
  "SendKeepalive [] = (0, False)"
| "SendKeepalive (Tick reply # evs) = apfst Suc (SendKeepalive evs)"
| "SendKeepalive (KeepaliveDone # evs) = (0, True)"

lemma SendKeepalive_returns:
  "SendKeepalive (map Tick replies @ KeepaliveDone # evs) = (length replies, True)"
  by (induction replies) auto

section \<open>The plan of a session\<close>

text \<open>
  The calls \<^verbatim>\<open>ExecuteCommand\<close> is meant to make, each with whether its failure ends the session,
  and the plain execution of such a plan.
\<close>

definition command_plan :: "EnvVar list \<Rightarrow> string list \<Rightarrow> (session_call \<times> bool) list" where
  "command_plan vars cmd =
     (case BuildExecCommandString cmd vars of
        Inr cmdStr \<Rightarrow> [(Start cmdStr, True)]
      | Inl err \<Rightarrow> (Shell, True) # map (\<lambda>e. (PipeWrite (BuildExportEnvCommand e), False)) vars
                   @ map (\<lambda>c. (PipeWrite (c @ newline), True)) cmd)"

definition input_plan :: "('i, 'o, 'c) ExecIO \<Rightarrow> (session_call \<times> bool) list" where
  "input_plan attach =
     (if io_tty attach then []
      else (if io_stdin attach \<noteq> None then [(CopyStdin, True)] else []) @ [(PipeClose, False)])
     @ [(Wait, True)]"

fun run_plan :: "session_env \<Rightarrow> (session_call \<times> bool) list \<Rightarrow> session_call list \<Rightarrow> session_call list \<times> goerr option" where
  "run_plan env [] tr = (tr, None)"
| "run_plan env ((c, critical) # plan) tr =
     (case env tr c of
        Some err \<Rightarrow> if critical then (tr @ [c], Some err) else run_plan env plan (tr @ [c])
      | None \<Rightarrow> run_plan env plan (tr @ [c]))"

lemma run_plan_append:
  "run_plan env (p @ q) tr =
     (case run_plan env p tr of (tr, Some err) \<Rightarrow> (tr, Some err) | (tr, None) \<Rightarrow> run_plan env q tr)"
  by (induction env p tr rule: run_plan.induct) (auto split: option.split)

lemma run_plan_env:
  "run_plan env (map (\<lambda>e. (PipeWrite (BuildExportEnvCommand e), False)) vars) tr = (write_env vars tr, None)"
  by (induction vars arbitrary: tr) (auto split: option.split)

lemma run_plan_command:
  "run_plan env (map (\<lambda>c. (PipeWrite (c @ newline), True)) cmd) tr = write_command env cmd tr"
  by (induction cmd arbitrary: tr) (auto simp: Let_def split: option.split)

lemma run_plan_start: "run_plan env (command_plan vars cmd) tr = start_command env vars cmd tr"
  by (simp add: command_plan_def start_command_def run_plan_append run_plan_env run_plan_command
      split: sum.split option.split)

lemma run_plan_execute:
  "ExecuteCommand env s vars cmd tr = run_plan env (command_plan vars cmd @ input_plan (ms_attach s)) tr"
  by (simp add: ExecuteCommand_def run_plan_append run_plan_start input_plan_def Let_def
      split: option.split prod.split)

lemma run_plan_ok:
  "(\<And>tr c. env tr c = None) \<Longrightarrow> run_plan env p tr = (tr @ map fst p, None)"
  by (induction p arbitrary: tr) auto

definition stdin_transfers :: "session_call list \<Rightarrow> nat" where
  "stdin_transfers tr = length (filter (\<lambda>c. c = CopyStdin \<or> c = GoCopyStdin) tr)"

lemma stdin_transfers_simps [simp]:
  "stdin_transfers [] = 0"
  "stdin_transfers (c # tr) = (if c = CopyStdin \<or> c = GoCopyStdin then Suc (stdin_transfers tr) else stdin_transfers tr)"
  "stdin_transfers (tr @ us) = stdin_transfers tr + stdin_transfers us"
  by (simp_all add: stdin_transfers_def)

lemma command_plan_calls:
  "stdin_transfers (map fst (command_plan vars cmd)) = 0"
  "PipeClose \<notin> fst ` set (command_plan vars cmd)"
  by (auto simp: command_plan_def stdin_transfers_def filter_empty_conv split: sum.split)

definition zero_size :: "resize_event \<Rightarrow> bool" where
  "zero_size ev = (case ev of Resized sz \<Rightarrow> ts_Width sz = 0 \<or> ts_Height sz = 0 | ContextDone \<Rightarrow> False)"

lemma GetConsoleSize_None:
  "GetConsoleSize ev (Some att) = None \<longleftrightarrow> \<not> io_tty att \<or> zero_size ev"
  by (auto simp: GetConsoleSize_def zero_size_def Let_def DefaultTermWidth_def DefaultTermHeight_def
      split: resize_event.split)

lemma SetupSessionIO_ok:
  assumes "\<And>tr c. env tr c = None"
  shows "\<exists>tr. SetupSessionIO env osenv ev s [] = (tr, None)
     \<and> stdin_transfers tr = (if io_tty (ms_attach s) \<and> \<not> zero_size ev \<and> io_stdin (ms_attach s) \<noteq> None then 1 else 0)
     \<and> PipeClose \<notin> set tr"
  using assms GetConsoleSize_None [of ev "ms_attach s"]
  by (cases "GetConsoleSize ev (Some (ms_attach s))")
    (auto simp: SetupSessionIO_def setupTTYSession_def Let_def)

text \<open>
  Property C37. \<^verbatim>\<open>ExecuteCommand\<close> carries out its plan: a shell command line is started directly;
  anything else is typed into a shell, the exported variables before the command lines. Input is
  then copied and the pipe closed, unless there is a terminal, and the session is waited for last.
  The first failing call ends it with that call's error, except that failed exports and a failed
  close are passed over. When no call fails, a session that was set up before is fed its standard
  input exactly once, with one exception: a terminal request with a zero size gets no terminal,
  and its standard input is neither copied nor closed.
\<close>

theorem session_follows_plan:
  "ExecuteCommand env s vars cmd tr = run_plan env (command_plan vars cmd @ input_plan (ms_attach s)) tr
   \<and> ((\<forall>tr c. env tr c = None) \<longrightarrow>
        (\<exists>tr1 tr2. SetupSessionIO env osenv ev s [] = (tr1, None)
           \<and> ExecuteCommand env s vars cmd tr1 = (tr2, None) \<and> last tr2 = Wait
           \<and> stdin_transfers tr2 =
               (if io_stdin (ms_attach s) = None \<or> (io_tty (ms_attach s) \<and> zero_size ev) then 0 else 1)
           \<and> (PipeClose \<in> set tr2 \<longleftrightarrow> \<not> io_tty (ms_attach s))))"
proof (intro conjI impI)
  assume ok: "\<forall>tr c. env tr c = None"
  then obtain tr1 where tr1: "SetupSessionIO env osenv ev s [] = (tr1, None)"
    "stdin_transfers tr1 = (if io_tty (ms_attach s) \<and> \<not> zero_size ev \<and> io_stdin (ms_attach s) \<noteq> None then 1 else 0)"
    "PipeClose \<notin> set tr1"
    using SetupSessionIO_ok [of env osenv ev s] by blast
  have "ExecuteCommand env s vars cmd tr1 = (tr1 @ map fst (command_plan vars cmd) @ map fst (input_plan (ms_attach s)), None)"
    using ok by (simp add: run_plan_execute run_plan_ok)
  then show "\<exists>tr1 tr2. SetupSessionIO env osenv ev s [] = (tr1, None)
           \<and> ExecuteCommand env s vars cmd tr1 = (tr2, None) \<and> last tr2 = Wait
           \<and> stdin_transfers tr2 =
               (if io_stdin (ms_attach s) = None \<or> (io_tty (ms_attach s) \<and> zero_size ev) then 0 else 1)
           \<and> (PipeClose \<in> set tr2 \<longleftrightarrow> \<not> io_tty (ms_attach s))"
    using tr1 command_plan_calls [of vars cmd] by (auto simp: input_plan_def)
qed (rule run_plan_execute)

definition sample_attach :: "bool \<Rightarrow> (string, string, nat) ExecIO" where
  "sample_attach tty = NewExecIO tty (Some ''in'') (Some ''out'') None (Some 0)"

theorem session_follows_plan_witness:
  "stdin_transfers (fst (ExecuteCommand (\<lambda>tr c. None) (NewMacOSSession (sample_attach True)) [] [''ls'']
     (fst (SetupSessionIO (\<lambda>tr c. None) Map.empty (Resized \<lparr>ts_Width = 0, ts_Height = 0\<rparr>)
        (NewMacOSSession (sample_attach True)) [])))) = 0"
proof -
  from session_follows_plan [of "\<lambda>tr c. None" "NewMacOSSession (sample_attach True)" "[]" "[''ls'']" "[]"
      Map.empty "Resized \<lparr>ts_Width = 0, ts_Height = 0\<rparr>"]
  show ?thesis by (auto simp: zero_size_def sample_attach_def NewExecIO_def NewMacOSSession_def)
qed

end
