(* ===== verification/SSH_Dial.thy ===== *)
theory SSH_Dial
  imports Prelude
begin

text \<open>
  \<^verbatim>\<open>internal/ssh/dial.go\<close>: dialling an SSH server under a context. The caller and the goroutine
  that does the handshake meet on an unbuffered channel or give up when the context is done; the
  model is the step relation of the two, in which the network's answers and the end of the context
  can come at any time.
\<close>

section \<open>States and steps\<close>

text \<open>\<open>Returned True None\<close> is a return with a client, \<open>Returned False (Some e)\<close> one with an error.\<close>

datatype caller = Dialing | Selecting | Returned bool "goerr option"

text \<open>\<open>Offering e\<close> is the goroutine at its select, with a client if \<open>e\<close> is nil.\<close>

datatype handshaker = NotStarted | Handshaking | Offering "goerr option" | Finished

text \<open>\<open>ds_ctx\<close> is the cause of the end of the context, \<open>ds_open\<close> whether there is a client that is not closed.\<close>

record dial_state =
  ds_ctx :: "goerr option"
  ds_caller :: caller
  ds_worker :: handshaker
  ds_open :: bool

definition dial_init :: dial_state where
  "dial_init = \<lparr>ds_ctx = None, ds_caller = Dialing, ds_worker = NotStarted, ds_open = False\<rparr>"

text \<open>The first argument tells the steps of the program from the end of the context.\<close>

inductive dial_step :: "bool \<Rightarrow> dial_state \<Rightarrow> dial_state \<Rightarrow> bool" where
  context_done: "ds_ctx s = None \<Longrightarrow> dial_step False s (s\<lparr>ds_ctx := Some e\<rparr>)"
| dial_fails: "ds_caller s = Dialing \<Longrightarrow> dial_step True s (s\<lparr>ds_caller := Returned False (Some e)\<rparr>)"
| dial_ok: "ds_caller s = Dialing \<Longrightarrow> dial_step True s (s\<lparr>ds_caller := Selecting, ds_worker := Handshaking\<rparr>)"
| handshake_ok: "ds_worker s = Handshaking \<Longrightarrow> dial_step True s (s\<lparr>ds_worker := Offering None, ds_open := True\<rparr>)"
| handshake_fails: "ds_worker s = Handshaking \<Longrightarrow> dial_step True s (s\<lparr>ds_worker := Offering (Some e)\<rparr>)"
| hand_over: "ds_worker s = Offering err \<Longrightarrow> ds_caller s = Selecting \<Longrightarrow>
    dial_step True s (s\<lparr>ds_worker := Finished, ds_caller := Returned (err = None) err\<rparr>)"
| caller_gives_up: "ds_caller s = Selecting \<Longrightarrow> ds_ctx s = Some e \<Longrightarrow>
    dial_step True s (s\<lparr>ds_caller := Returned False (Some e)\<rparr>)"
| worker_gives_up: "ds_worker s = Offering err \<Longrightarrow> ds_ctx s = Some e \<Longrightarrow>
    dial_step True s (s\<lparr>ds_worker := Finished, ds_open := False\<rparr>)"

inductive dial_reach :: "dial_state \<Rightarrow> bool" where
  init: "dial_reach dial_init"
| step: "dial_reach s \<Longrightarrow> dial_step b s s' \<Longrightarrow> dial_reach s'"

section \<open>Invariant and progress\<close>

definition dial_inv :: "dial_state \<Rightarrow> bool" where
  "dial_inv s \<longleftrightarrow>
     (case ds_caller s of
        Dialing \<Rightarrow> ds_worker s = NotStarted \<and> \<not> ds_open s
      | Selecting \<Rightarrow> ds_worker s \<noteq> NotStarted \<and> (ds_open s \<longleftrightarrow> ds_worker s = Offering None)
          \<and> (ds_worker s = Finished \<longrightarrow> ds_ctx s \<noteq> None)
      | Returned b err \<Rightarrow> b = (err = None) \<and> (ds_open s \<longleftrightarrow> b \<or> ds_worker s = Offering None)
          \<and> (ds_worker s \<in> {NotStarted, Finished} \<or> ds_ctx s \<noteq> None) \<and> (b \<longrightarrow> ds_worker s = Finished))"

lemma dial_step_inv: "dial_step b s s' \<Longrightarrow> dial_inv s \<Longrightarrow> dial_inv s'"
  by (induction rule: dial_step.induct) (auto simp: dial_inv_def split: caller.splits)

lemma dial_reach_inv: "dial_reach s \<Longrightarrow> dial_inv s"
proof (induction rule: dial_reach.induct)
  case init
  show ?case by (simp add: dial_inv_def dial_init_def)
qed (rule dial_step_inv)

text \<open>How many steps the two have left at most.\<close>

fun caller_left :: "caller \<Rightarrow> nat" where
  "caller_left Dialing = 4"
| "caller_left Selecting = 1"
| "caller_left (Returned b err) = 0"

fun worker_left :: "handshaker \<Rightarrow> nat" where
  "worker_left NotStarted = 0"
| "worker_left Handshaking = 2"
| "worker_left (Offering err) = 1"
| "worker_left Finished = 0"

definition dial_left :: "dial_state \<Rightarrow> nat" where
  "dial_left s = caller_left (ds_caller s) + worker_left (ds_worker s)"

lemma dial_step_left: "dial_step b s s' \<Longrightarrow> dial_inv s \<Longrightarrow> b \<Longrightarrow> dial_left s' < dial_left s"
  by (induction rule: dial_step.induct) (auto simp: dial_left_def dial_inv_def split: caller.splits)

lemma dial_progress:
  assumes "dial_inv s" and "0 < dial_left s"
  shows "\<exists>s'. dial_step True s s'"
proof (cases "ds_worker s")
  case NotStarted
  then have "ds_caller s = Dialing"
    using assms by (cases "ds_caller s") (auto simp: dial_inv_def dial_left_def)
  then show ?thesis by (blast intro: dial_step.intros)
next
  case (Offering err)
  then show ?thesis
    using assms by (cases "ds_caller s") (auto simp: dial_inv_def intro: dial_step.intros)
next
  case Finished
  then have "ds_caller s = Selecting \<and> ds_ctx s \<noteq> None"
    using assms by (cases "ds_caller s") (auto simp: dial_inv_def dial_left_def)
  then show ?thesis by (blast intro: dial_step.intros)
qed (blast intro: dial_step.intros)

inductive dial_run :: "dial_state \<Rightarrow> dial_state \<Rightarrow> bool" where
  run_here: "dial_run s s"
| run_step: "dial_step True s s' \<Longrightarrow> dial_run s' s'' \<Longrightarrow> dial_run s s''"

lemma dial_completes: "dial_inv s \<Longrightarrow> \<exists>s'. dial_run s s' \<and> dial_left s' = 0"
proof (induction "dial_left s" arbitrary: s rule: less_induct)
  case less
  show ?case
  proof (cases "dial_left s = 0")
    case True
    then show ?thesis by (blast intro: run_here)
  next
    case False
    then obtain s' where s': "dial_step True s s'" using dial_progress less.prems by blast
    then obtain s'' where "dial_run s' s''" "dial_left s'' = 0"
      using less.hyps [of s'] dial_step_left [OF s'] dial_step_inv [OF s'] less.prems by blast
    then show ?thesis using s' by (blast intro: run_step)
  qed
qed


text \<open>The context ends while the handshake succeeds: the caller gets the cause and the client is closed.\<close>

lemma sample_dial_reach:
  "dial_reach \<lparr>ds_ctx = Some ErrCanceled, ds_caller = Returned False (Some ErrCanceled),
     ds_worker = Offering None, ds_open = True\<rparr>"
proof -
  let ?s = "\<lambda>c a w b. \<lparr>ds_ctx = c, ds_caller = a, ds_worker = w, ds_open = b\<rparr>"
  have "dial_reach (?s None Selecting Handshaking False)"
    using dial_reach.step [OF dial_reach.init dial_ok] by (simp add: dial_init_def)
  from dial_reach.step [OF this handshake_ok] have "dial_reach (?s None Selecting (Offering None) True)" by simp
  from dial_reach.step [OF this context_done [where e = ErrCanceled]]
  have "dial_reach (?s (Some ErrCanceled) Selecting (Offering None) True)" by simp
  from dial_reach.step [OF this caller_gives_up [where e = ErrCanceled]] show ?thesis by simp
qed


end
