(* ===== verification/VM_Data.thy ===== *)
theory VM_Data
  imports Kube_Types Sync_Map
begin

text \<open>
  \<^verbatim>\<open>internal/data/vm\<close>: the store of virtual machines, a \<^verbatim>\<open>sync.Map\<close> with an atomic counter
  beside it. The methods are first modelled as they run alone; then each call of the map and
  of the counter is a step of its own, because the store is used from several goroutines.
\<close>

section \<open>The store\<close>

text \<open>
  The \<^verbatim>\<open>Resource\<close> field has a type that the repository does not define, so it is a type
  parameter; of the cancel function only whether it is set is kept.
\<close>

record 'm VirtualMachineInfo =
  vmi_Ref :: string
  vmi_Resource :: 'm
  vmi_DownloadCancelFunc :: bool

record 'm VirtualMachineData =
  vmd_data :: "(NamespacedName, 'm VirtualMachineInfo) sync_map"
  vmd_counter :: "32 word"

definition GetVirtualMachineInfo ::
  "'m VirtualMachineData \<Rightarrow> string \<Rightarrow> string \<Rightarrow> 'm VirtualMachineInfo option" where
  "GetVirtualMachineInfo d podNamespace podName = sm_Load (vmd_data d) (namespaced podNamespace podName)"

definition UpdateVirtualMachineInfo ::
  "'m VirtualMachineData \<Rightarrow> string \<Rightarrow> string \<Rightarrow> ('m VirtualMachineInfo \<Rightarrow> 'm VirtualMachineInfo)
     \<Rightarrow> 'm VirtualMachineData \<times> 'm VirtualMachineInfo option" where
  "UpdateVirtualMachineInfo d podNamespace podName updateFunc =
     (let key = namespaced podNamespace podName in
      case sm_Load (vmd_data d) key of
        None \<Rightarrow> (d, None)
      | Some val \<Rightarrow>
          (let newVal = updateFunc val
           in (d\<lparr>vmd_data := sm_Store (vmd_data d) key newVal\<rparr>, Some newVal)))"

definition incrementCounter :: "'m VirtualMachineData \<Rightarrow> 'm VirtualMachineData" where
  "incrementCounter d = d\<lparr>vmd_counter := vmd_counter d + 1\<rparr>"

definition decrementCounter :: "'m VirtualMachineData \<Rightarrow> 'm VirtualMachineData" where
  "decrementCounter d = d\<lparr>vmd_counter := vmd_counter d - 1\<rparr>"

definition GetOrCreateVirtualMachineInfo ::
  "'m VirtualMachineData \<Rightarrow> string \<Rightarrow> string \<Rightarrow> 'm VirtualMachineInfo
     \<Rightarrow> 'm VirtualMachineData \<times> 'm VirtualMachineInfo \<times> bool" where
  "GetOrCreateVirtualMachineInfo d podNamespace podName info =
     (let key = namespaced podNamespace podName;
          (m, val, loaded) = sm_LoadOrStore (vmd_data d) key info;
          d = d\<lparr>vmd_data := m\<rparr>
      in (if \<not> loaded then incrementCounter d else d, val, loaded))"

definition RemoveVirtualMachineInfo ::
  "'m VirtualMachineData \<Rightarrow> string \<Rightarrow> string \<Rightarrow> 'm VirtualMachineData" where
  "RemoveVirtualMachineInfo d podNamespace podName =
     (let key = namespaced podNamespace podName;
          (m, old) = sm_LoadAndDelete (vmd_data d) key;
          d = d\<lparr>vmd_data := m\<rparr>
      in if old \<noteq> None then decrementCounter d else d)"

text \<open>\<^verbatim>\<open>ListVirtualMachines\<close> copies the map.\<close>

definition ListVirtualMachines :: "'m VirtualMachineData \<Rightarrow> (NamespacedName \<rightharpoonup> 'm VirtualMachineInfo)" where
  "ListVirtualMachines d = (\<lambda>k. sm_Load (vmd_data d) k)"

definition VirtualMachineData_Count :: "'m VirtualMachineData \<Rightarrow> 32 word" where
  "VirtualMachineData_Count d = vmd_counter d"

section \<open>Calls one after the other\<close>

datatype 'm vm_op =
    VGetOrCreate string string "'m VirtualMachineInfo"
  | VUpdate string string "'m VirtualMachineInfo \<Rightarrow> 'm VirtualMachineInfo"
  | VRemove string string

fun run_vm_op :: "'m VirtualMachineData \<Rightarrow> 'm vm_op \<Rightarrow> 'm VirtualMachineData" where
  "run_vm_op d (VGetOrCreate ns n info) = fst (GetOrCreateVirtualMachineInfo d ns n info)"
| "run_vm_op d (VUpdate ns n f) = fst (UpdateVirtualMachineInfo d ns n f)"
| "run_vm_op d (VRemove ns n) = RemoveVirtualMachineInfo d ns n"

definition vm_empty :: "'m VirtualMachineData" where
  "vm_empty = \<lparr>vmd_data = Map.empty, vmd_counter = 0\<rparr>"

text \<open>The specification of the operations on the plain map.\<close>

fun vm_spec :: "(NamespacedName \<rightharpoonup> 'm VirtualMachineInfo) \<Rightarrow> 'm vm_op \<Rightarrow> (NamespacedName \<rightharpoonup> 'm VirtualMachineInfo)" where
  "vm_spec m (VGetOrCreate ns n info) = (if namespaced ns n \<in> dom m then m else m(namespaced ns n \<mapsto> info))"
| "vm_spec m (VUpdate ns n f) = m(namespaced ns n := map_option f (m (namespaced ns n)))"
| "vm_spec m (VRemove ns n) = m(namespaced ns n := None)"

definition counted :: "'m VirtualMachineData \<Rightarrow> bool" where
  "counted d \<longleftrightarrow> finite (gomap.keys (vmd_data d)) \<and> vmd_counter d = of_nat (card (gomap.keys (vmd_data d)))"

lemma run_vm_op_counted:
  assumes "counted d"
  shows "counted (run_vm_op d op)"
proof (cases op)
  case (VGetOrCreate ns n info)
  obtain m v hit where los: "sm_LoadOrStore (vmd_data d) (namespaced ns n) info = (m, v, hit)"
    by (metis prod_cases3)
  show ?thesis
    using assms gomap.count_load_or_store [OF los] VGetOrCreate los
    by (simp add: counted_def GetOrCreateVirtualMachineInfo_def incrementCounter_def Let_def)
next
  case (VUpdate ns n f)
  show ?thesis
  proof (cases "sm_Load (vmd_data d) (namespaced ns n)")
    case (Some v)
    then have "namespaced ns n \<in> gomap.keys (vmd_data d)" by (simp add: gomap.keys_iff)
    then show ?thesis
      using assms VUpdate Some
      by (simp add: counted_def UpdateVirtualMachineInfo_def gomap.keys_store insert_absorb Let_def)
  qed (use assms VUpdate in \<open>simp add: UpdateVirtualMachineInfo_def\<close>)
next
  case (VRemove ns n)
  obtain m old where lad: "sm_LoadAndDelete (vmd_data d) (namespaced ns n) = (m, old)" by fastforce
  show ?thesis
  proof (cases old)
    case None
    then show ?thesis
      using assms gomap.count_load_and_delete [OF lad] VRemove lad
      by (simp add: counted_def RemoveVirtualMachineInfo_def Let_def)
  next
    case (Some v)
    then have "namespaced ns n \<in> gomap.keys (vmd_data d)"
      using lad by (auto simp: gomap.keys_iff gomap.load_and_delete_eq)
    then have "card (gomap.keys (vmd_data d)) > 0"
      using assms by (auto simp: counted_def card_gt_0_iff)
    then show ?thesis
      using assms Some gomap.count_load_and_delete [OF lad] VRemove lad
      by (simp add: counted_def RemoveVirtualMachineInfo_def decrementCounter_def of_nat_diff Let_def)
  qed
qed

lemma run_vm_op_spec: "vmd_data (run_vm_op d op) = vm_spec (vmd_data d) op"
  by (cases op)
    (auto simp: GetOrCreateVirtualMachineInfo_def UpdateVirtualMachineInfo_def RemoveVirtualMachineInfo_def
      incrementCounter_def decrementCounter_def sm_LoadOrStore_def sm_LoadAndDelete_def sm_Load_def sm_Store_def
      Let_def split: option.splits)

text \<open>
  Called one after the other, the methods behave like a map: after any sequence of
  them the listing is what the sequence does to an empty map, and the count is the number of
  virtual machines stored, as long as that fits the counter.
\<close>

theorem vm_store_counts:
  "ListVirtualMachines (foldl run_vm_op vm_empty ops) = foldl vm_spec Map.empty ops \<and>
   finite (dom (ListVirtualMachines (foldl run_vm_op vm_empty ops))) \<and>
   uint (VirtualMachineData_Count (foldl run_vm_op vm_empty ops)) =
     int (card (dom (ListVirtualMachines (foldl run_vm_op vm_empty ops)))) mod 2 ^ 32"
proof -
  have "counted (foldl run_vm_op d ops) \<and> vmd_data (foldl run_vm_op d ops) = foldl vm_spec (vmd_data d) ops"
    if "counted d" for d :: "'a VirtualMachineData"
    using that
  proof (induction ops arbitrary: d)
    case (Cons x xs)
    then show ?case using run_vm_op_counted run_vm_op_spec by (metis foldl_Cons)
  qed simp
  moreover have "counted (vm_empty :: 'a VirtualMachineData)"
    by (simp add: counted_def vm_empty_def gomap_keys_dom)
  ultimately have "counted (foldl run_vm_op (vm_empty :: 'a VirtualMachineData) ops)"
    and data: "vmd_data (foldl run_vm_op vm_empty ops) = foldl vm_spec Map.empty ops"
    using vm_empty_def by (metis VirtualMachineData.select_convs(1))+
  then show ?thesis
    by (simp add: counted_def gomap_keys_dom ListVirtualMachines_def VirtualMachineData_Count_def
        sm_Load_def unsigned_of_nat take_bit_eq_mod zmod_int)
qed

section \<open>Calls that overlap\<close>

text \<open>
  A call is interrupted between its access to the map and its access to the counter, and an
  update between reading and writing the entry. \<open>vs_inc\<close> and \<open>vs_dec\<close> count the calls that
  still have to change the counter, \<open>vs_updates\<close> the values read but not written back.
\<close>

record 'm vm_state =
  vs_store :: "'m VirtualMachineData"
  vs_inc :: nat
  vs_dec :: nat
  vs_updates :: "(NamespacedName \<times> 'm VirtualMachineInfo) list"

definition vm_start :: "'m vm_state" where
  "vm_start = \<lparr>vs_store = vm_empty, vs_inc = 0, vs_dec = 0, vs_updates = []\<rparr>"

inductive vm_step :: "bool \<Rightarrow> 'm vm_state \<Rightarrow> 'm vm_state \<Rightarrow> bool" for updates where
  create: "sm_LoadOrStore (vmd_data (vs_store s)) k info = (m, v, hit) \<Longrightarrow>
    vm_step updates s (s\<lparr>vs_store := (vs_store s)\<lparr>vmd_data := m\<rparr>, vs_inc := vs_inc s + (if hit then 0 else 1)\<rparr>)"
| increment: "vs_inc s > 0 \<Longrightarrow>
    vm_step updates s (s\<lparr>vs_store := incrementCounter (vs_store s), vs_inc := vs_inc s - 1\<rparr>)"
| remove: "sm_LoadAndDelete (vmd_data (vs_store s)) k = (m, old) \<Longrightarrow>
    vm_step updates s (s\<lparr>vs_store := (vs_store s)\<lparr>vmd_data := m\<rparr>, vs_dec := vs_dec s + (if old = None then 0 else 1)\<rparr>)"
| decrement: "vs_dec s > 0 \<Longrightarrow>
    vm_step updates s (s\<lparr>vs_store := decrementCounter (vs_store s), vs_dec := vs_dec s - 1\<rparr>)"
| update_read: "updates \<Longrightarrow> sm_Load (vmd_data (vs_store s)) k = Some v \<Longrightarrow>
    vm_step updates s (s\<lparr>vs_updates := (k, f v) # vs_updates s\<rparr>)"
| update_write: "vs_updates s = us @ (k, v) # us' \<Longrightarrow>
    vm_step updates s (s\<lparr>vs_store := (vs_store s)\<lparr>vmd_data := sm_Store (vmd_data (vs_store s)) k v\<rparr>, vs_updates := us @ us'\<rparr>)"

definition vm_reaches :: "bool \<Rightarrow> 'm vm_state \<Rightarrow> bool" where
  "vm_reaches updates s \<longleftrightarrow> (vm_step updates)\<^sup>*\<^sup>* vm_start s"

text \<open>The counter follows the map up to the calls under way.\<close>

definition balance :: "'m vm_state \<Rightarrow> bool" where
  "balance s \<longleftrightarrow>
     vs_updates s = [] \<and> finite (gomap.keys (vmd_data (vs_store s))) \<and>
     vmd_counter (vs_store s) + of_nat (vs_inc s) =
       of_nat (card (gomap.keys (vmd_data (vs_store s)))) + of_nat (vs_dec s)"

lemma vm_step_balance:
  assumes "vm_step False s s'" and "balance s"
  shows "balance s'"
  using assms
proof (cases rule: vm_step.cases)
  case (create k info m v hit)
  then show ?thesis
    using assms(2) gomap.count_load_or_store [OF create(2)] by (simp add: balance_def algebra_simps)
next
  case (remove k m old)
  have "card (gomap.keys (vmd_data (vs_store s))) > 0" if "old \<noteq> None"
  proof -
    have "k \<in> gomap.keys (vmd_data (vs_store s))"
      using that remove(2) by (auto simp: gomap.load_and_delete_eq gomap.keys_iff)
    then show ?thesis using assms(2) by (auto simp: balance_def card_gt_0_iff)
  qed
  then show ?thesis
    using remove(1) assms(2) gomap.count_load_and_delete [OF remove(2)]
    by (auto simp: balance_def algebra_simps of_nat_diff)
qed (auto simp: balance_def incrementCounter_def decrementCounter_def algebra_simps of_nat_diff)

lemma vm_reaches_balance:
  assumes "vm_reaches False s"
  shows "balance s"
  using assms unfolding vm_reaches_def
proof (induction rule: rtranclp_induct)
  case base
  show ?case by (simp add: balance_def vm_start_def vm_empty_def gomap_keys_dom)
next
  case (step y z)
  then show ?case using vm_step_balance by blast
qed

text \<open>
  Property C30. Creations and removals may overlap in any way: the counter differs from the
  number of stored machines only by the calls under way, and once these are done \<^verbatim>\<open>Count\<close> is that
  number. With an update among them this fails: an update that read its entry before a removal
  writes it back afterwards, so that an entry is stored and counted as none.
\<close>

theorem vm_count_overlapping:
  "(vm_reaches False s \<and> vs_inc s = 0 \<and> vs_dec s = 0 \<longrightarrow>
      VirtualMachineData_Count (vs_store s) = of_nat (card (dom (ListVirtualMachines (vs_store s))))) \<and>
   (\<exists>s :: unit vm_state. vm_reaches True s \<and> vs_inc s = 0 \<and> vs_dec s = 0 \<and> vs_updates s = [] \<and>
      VirtualMachineData_Count (vs_store s) = 0 \<and> card (dom (ListVirtualMachines (vs_store s))) = 1)"
proof
  show "vm_reaches False s \<and> vs_inc s = 0 \<and> vs_dec s = 0 \<longrightarrow>
      VirtualMachineData_Count (vs_store s) = of_nat (card (dom (ListVirtualMachines (vs_store s))))"
    using vm_reaches_balance [of s]
    by (auto simp: balance_def VirtualMachineData_Count_def ListVirtualMachines_def sm_Load_def gomap_keys_dom)
  let ?k = "namespaced ''default'' ''pod1''"
  let ?v = "\<lparr>vmi_Ref = ''vm1'', vmi_Resource = (), vmi_DownloadCancelFunc = False\<rparr>"
  let ?at = "\<lambda>m c i d us. \<lparr>vs_store = \<lparr>vmd_data = m, vmd_counter = c\<rparr>, vs_inc = i, vs_dec = d, vs_updates = us\<rparr>"
  have "vm_step True (?at Map.empty 0 0 0 []) (?at [?k \<mapsto> ?v] 0 1 0 [])"
    using vm_step.create [of "?at Map.empty 0 0 0 []" ?k ?v "[?k \<mapsto> ?v]" ?v False True] by (simp add: sm_LoadOrStore_def)
  moreover have "vm_step True (?at [?k \<mapsto> ?v] 0 1 0 []) (?at [?k \<mapsto> ?v] 1 0 0 [])"
    using vm_step.increment [of "?at [?k \<mapsto> ?v] 0 1 0 []" True] by (simp add: incrementCounter_def)
  moreover have "vm_step True (?at [?k \<mapsto> ?v] 1 0 0 []) (?at [?k \<mapsto> ?v] 1 0 0 [(?k, ?v)])"
    using vm_step.update_read [of True "?at [?k \<mapsto> ?v] 1 0 0 []" ?k ?v id] by (simp add: sm_Load_def)
  moreover have "vm_step True (?at [?k \<mapsto> ?v] 1 0 0 [(?k, ?v)]) (?at Map.empty 1 0 1 [(?k, ?v)])"
    using vm_step.remove [of "?at [?k \<mapsto> ?v] 1 0 0 [(?k, ?v)]" ?k Map.empty "Some ?v" True] by (simp add: sm_LoadAndDelete_def)
  moreover have "vm_step True (?at Map.empty 1 0 1 [(?k, ?v)]) (?at Map.empty 0 0 0 [(?k, ?v)])"
    using vm_step.decrement [of "?at Map.empty 1 0 1 [(?k, ?v)]" True] by (simp add: decrementCounter_def)
  moreover have "vm_step True (?at Map.empty 0 0 0 [(?k, ?v)]) (?at [?k \<mapsto> ?v] 0 0 0 [])"
    using vm_step.update_write [of "?at Map.empty 0 0 0 [(?k, ?v)]" "[]" ?k ?v "[]" True] by (simp add: sm_Store_def)
  ultimately have "vm_reaches True (?at [?k \<mapsto> ?v] 0 0 0 [])"
    unfolding vm_reaches_def vm_start_def vm_empty_def by (meson rtranclp.intros)
  moreover have "dom (\<lambda>k. if k = ?k then Some ?v else None) = {?k}" by (auto split: if_splits)
  ultimately show "\<exists>s :: unit vm_state. vm_reaches True s \<and> vs_inc s = 0 \<and> vs_dec s = 0 \<and> vs_updates s = [] \<and>
      VirtualMachineData_Count (vs_store s) = 0 \<and> card (dom (ListVirtualMachines (vs_store s))) = 1"
    by (intro exI [of _ "?at [?k \<mapsto> ?v] 0 0 0 []"])
      (simp add: VirtualMachineData_Count_def ListVirtualMachines_def sm_Load_def)
qed

theorem vm_count_overlapping_witness:
  "\<exists>s :: unit vm_state. vm_reaches False s \<and> card (dom (ListVirtualMachines (vs_store s))) = 1 \<and>
     VirtualMachineData_Count (vs_store s) = 1"
proof -
  let ?k = "namespaced ''default'' ''pod1''"
  let ?v = "\<lparr>vmi_Ref = ''vm1'', vmi_Resource = (), vmi_DownloadCancelFunc = False\<rparr>"
  let ?at = "\<lambda>c i. \<lparr>vs_store = \<lparr>vmd_data = [?k \<mapsto> ?v], vmd_counter = c\<rparr>, vs_inc = i, vs_dec = 0, vs_updates = []\<rparr>"
  have "vm_step False vm_start (?at 0 1)"
    using vm_step.create [of vm_start ?k ?v "[?k \<mapsto> ?v]" ?v False False]
    by (simp add: sm_LoadOrStore_def vm_start_def vm_empty_def)
  moreover have "vm_step False (?at 0 1) (?at 1 0)"
    using vm_step.increment [of "?at 0 1" False] by (simp add: incrementCounter_def)
  ultimately have "vm_reaches False (?at 1 0)"
    unfolding vm_reaches_def by (meson rtranclp.intros)
  moreover have "dom (ListVirtualMachines (vs_store (?at 1 0))) = {?k}"
    by (auto simp: ListVirtualMachines_def sm_Load_def split: if_splits)
  ultimately show ?thesis
    using vm_count_overlapping [of "?at 1 0"] by (intro exI [of _ "?at 1 0"]) simp
qed

end
