(* ===== verification/Container_Data.thy ===== *)
theory Container_Data
  imports Kube_Types Sync_Map
begin

text \<open>
  \<^verbatim>\<open>internal/data/container\<close>: the store of container information, a \<^verbatim>\<open>sync.Map\<close> of pointers to
  one \<^verbatim>\<open>sync.Map\<close> per pod. The inner maps live on an explicit heap, because \<^verbatim>\<open>LoadOrStore\<close>
  allocates a map on every call and keeps it only when the pod is new. The specification is a
  nested map; the refinement shows that sharing and leftover maps are never visible.
\<close>

section \<open>Container information\<close>

record ContainerInfo =
  ci_ID :: string
  ci_Error :: "goerr option"

definition WithID :: "ContainerInfo \<Rightarrow> string \<Rightarrow> ContainerInfo" where
  "WithID i x = i\<lparr>ci_ID := x\<rparr>"

definition WithError :: "ContainerInfo \<Rightarrow> goerr option \<Rightarrow> ContainerInfo" where
  "WithError i err = i\<lparr>ci_Error := err\<rparr>"

section \<open>The store\<close>

type_synonym inner_map = "(string, ContainerInfo) sync_map"

text \<open>\<open>cd_heap\<close> holds the inner maps, at the addresses below \<open>cd_next\<close>.\<close>

record ContainerData =
  cd_data :: "(NamespacedName, nat) sync_map"
  cd_heap :: "nat \<Rightarrow> inner_map"
  cd_next :: nat

definition cd_empty :: ContainerData where
  "cd_empty = \<lparr>cd_data = Map.empty, cd_heap = (\<lambda>_. Map.empty), cd_next = 0\<rparr>"

text \<open>The expression \<^verbatim>\<open>&sync.Map{}\<close>.\<close>

definition new_inner :: "ContainerData \<Rightarrow> ContainerData \<times> nat" where
  "new_inner d = (d\<lparr>cd_heap := (cd_heap d)(cd_next d := Map.empty), cd_next := Suc (cd_next d)\<rparr>, cd_next d)"

text \<open>The pod's inner map, created when the pod is new.\<close>

definition pod_map :: "ContainerData \<Rightarrow> NamespacedName \<Rightarrow> ContainerData \<times> nat" where
  "pod_map d key =
     (let (d, a) = new_inner d;
          (m, val, loaded) = sm_LoadOrStore (cd_data d) key a
      in (d\<lparr>cd_data := m\<rparr>, val))"

definition GetContainerInfo :: "ContainerData \<Rightarrow> string \<Rightarrow> string \<Rightarrow> string \<Rightarrow> ContainerInfo option" where
  "GetContainerInfo d podNamespace podName containerName =
     (case sm_Load (cd_data d) (namespaced podNamespace podName) of
        None \<Rightarrow> None
      | Some val \<Rightarrow> sm_Load (cd_heap d val) containerName)"

definition GetOrCreateContainerInfo ::
  "ContainerData \<Rightarrow> string \<Rightarrow> string \<Rightarrow> string \<Rightarrow> ContainerInfo \<Rightarrow> ContainerData \<times> ContainerInfo \<times> bool" where
  "GetOrCreateContainerInfo d podNamespace podName containerName info =
     (let key = namespaced podNamespace podName;
          (d, val) = pod_map d key;
          (inner, infoval, loaded) = sm_LoadOrStore (cd_heap d val) containerName info
      in (d\<lparr>cd_heap := (cd_heap d)(val := inner)\<rparr>, infoval, loaded))"

definition SetContainerInfo ::
  "ContainerData \<Rightarrow> string \<Rightarrow> string \<Rightarrow> string \<Rightarrow> ContainerInfo \<Rightarrow> ContainerData" where
  "SetContainerInfo d podNamespace podName containerName info =
     (let key = namespaced podNamespace podName;
          (d, val) = pod_map d key
      in d\<lparr>cd_heap := (cd_heap d)(val := sm_Store (cd_heap d val) containerName info)\<rparr>)"

definition RemoveAllContainerInfo ::
  "ContainerData \<Rightarrow> string \<Rightarrow> string \<Rightarrow> ContainerData \<times> (string \<rightharpoonup> ContainerInfo) option" where
  "RemoveAllContainerInfo d podNamespace podName =
     (let key = namespaced podNamespace podName;
          (m, old) = sm_LoadAndDelete (cd_data d) key;
          d = d\<lparr>cd_data := m\<rparr>
      in case old of
           None \<Rightarrow> (d, None)
         | Some val \<Rightarrow> (d, Some (\<lambda>c. sm_Load (cd_heap d val) c)))"

definition GetAllContainerInfo ::
  "ContainerData \<Rightarrow> string \<Rightarrow> string \<Rightarrow> (string \<rightharpoonup> ContainerInfo) option" where
  "GetAllContainerInfo d podNamespace podName =
     (case sm_Load (cd_data d) (namespaced podNamespace podName) of
        None \<Rightarrow> None
      | Some val \<Rightarrow> Some (\<lambda>c. sm_Load (cd_heap d val) c))"

definition GetAllData :: "ContainerData \<Rightarrow> (NamespacedName \<rightharpoonup> (string \<rightharpoonup> ContainerInfo))" where
  "GetAllData d = (\<lambda>k. map_option (\<lambda>val c. sm_Load (cd_heap d val) c) (sm_Load (cd_data d) k))"

section \<open>The specification and the refinement\<close>

type_synonym container_table = "NamespacedName \<rightharpoonup> (string \<rightharpoonup> ContainerInfo)"

definition table_set :: "container_table \<Rightarrow> NamespacedName \<Rightarrow> string \<Rightarrow> ContainerInfo \<Rightarrow> container_table" where
  "table_set T k c info = T(k \<mapsto> (case T k of None \<Rightarrow> Map.empty | Some m \<Rightarrow> m)(c \<mapsto> info))"

text \<open>Pods do not share inner maps, and all addresses in use are allocated.\<close>

definition cd_inv :: "ContainerData \<Rightarrow> bool" where
  "cd_inv d \<longleftrightarrow>
     (\<forall>k k' a. cd_data d k = Some a \<longrightarrow> cd_data d k' = Some a \<longrightarrow> k = k') \<and>
     (\<forall>k a. cd_data d k = Some a \<longrightarrow> a < cd_next d)"

lemma pod_map_props:
  assumes "cd_inv d" and "pod_map d k = (d', a)"
  shows "cd_inv d'" and "cd_data d' = (cd_data d)(k \<mapsto> a)" and "a < cd_next d'"
    and "cd_heap d' a = (case GetAllData d k of None \<Rightarrow> Map.empty | Some m \<Rightarrow> m)"
    and "k' \<noteq> k \<Longrightarrow> cd_data d k' = Some b \<Longrightarrow> cd_heap d' b = cd_heap d b \<and> b \<noteq> a"
proof -
  have pm: "d' = d\<lparr>cd_heap := (cd_heap d)(cd_next d := Map.empty), cd_next := Suc (cd_next d),
      cd_data := (cd_data d)(k \<mapsto> a)\<rparr>" "a = (case cd_data d k of None \<Rightarrow> cd_next d | Some b \<Rightarrow> b)"
    using assms(2) by (auto simp: pod_map_def new_inner_def sm_LoadOrStore_def fun_upd_idem split: option.splits)
  have lt: "b < cd_next d" if "cd_data d k' = Some b" for k' b
    using assms(1) that by (auto simp: cd_inv_def)
  have other: "b \<noteq> a" if "cd_data d k' = Some b" "k' \<noteq> k" for k' b
    using pm(2) that lt [OF that(1)] assms(1) by (cases "cd_data d k") (auto simp: cd_inv_def)
  show "cd_data d' = (cd_data d)(k \<mapsto> a)" by (simp add: pm)
  show "a < cd_next d'" using lt by (cases "cd_data d k") (auto simp: pm less_SucI)
  have inj: "k1 = k2" if "((cd_data d)(k \<mapsto> a)) k1 = Some b" "((cd_data d)(k \<mapsto> a)) k2 = Some b" for k1 k2 b
    using that other assms(1) unfolding cd_inv_def by (cases "k1 = k"; cases "k2 = k") auto
  have alloc: "b < Suc (cd_next d)" if "((cd_data d)(k \<mapsto> a)) k1 = Some b" for k1 b
  proof (cases "k1 = k")
    case True
    then show ?thesis using that \<open>a < cd_next d'\<close> by (simp add: pm(1))
  next
    case False
    then show ?thesis using that lt [of k1 b] by simp
  qed
  have "cd_data d' = (cd_data d)(k \<mapsto> a)" "cd_next d' = Suc (cd_next d)" by (simp_all add: pm(1))
  then show "cd_inv d'" unfolding cd_inv_def using inj alloc by metis
  show "cd_heap d' a = (case GetAllData d k of None \<Rightarrow> Map.empty | Some m \<Rightarrow> m)"
    using lt by (cases "cd_data d k") (auto simp: pm GetAllData_def sm_Load_def)
  show "k' \<noteq> k \<Longrightarrow> cd_data d k' = Some b \<Longrightarrow> cd_heap d' b = cd_heap d b \<and> b \<noteq> a"
    using other lt by (fastforce simp: pm(1))
qed

lemma heap_write:
  assumes "cd_inv d" and "pod_map d k = (d', a)"
  shows "GetAllData (d'\<lparr>cd_heap := (cd_heap d')(a := m)\<rparr>) = (GetAllData d)(k \<mapsto> m)"
    and "cd_inv (d'\<lparr>cd_heap := (cd_heap d')(a := m)\<rparr>)"
proof -
  note P = pod_map_props [OF assms]
  show "GetAllData (d'\<lparr>cd_heap := (cd_heap d')(a := m)\<rparr>) = (GetAllData d)(k \<mapsto> m)"
  proof
    fix k'
    show "GetAllData (d'\<lparr>cd_heap := (cd_heap d')(a := m)\<rparr>) k' = ((GetAllData d)(k \<mapsto> m)) k'"
      using P(5) [of k'] by (cases "k' = k"; cases "cd_data d k'") (auto simp: GetAllData_def P(2) sm_Load_def)
  qed
  show "cd_inv (d'\<lparr>cd_heap := (cd_heap d')(a := m)\<rparr>)" using P(1) by (simp add: cd_inv_def)
qed

datatype cd_op =
    CSet string string string ContainerInfo
  | CGetOrCreate string string string ContainerInfo
  | CRemoveAll string string

fun run_cd_op :: "ContainerData \<Rightarrow> cd_op \<Rightarrow> ContainerData" where
  "run_cd_op d (CSet ns n c i) = SetContainerInfo d ns n c i"
| "run_cd_op d (CGetOrCreate ns n c i) = fst (GetOrCreateContainerInfo d ns n c i)"
| "run_cd_op d (CRemoveAll ns n) = fst (RemoveAllContainerInfo d ns n)"

fun cd_spec :: "container_table \<Rightarrow> cd_op \<Rightarrow> container_table" where
  "cd_spec T (CSet ns n c i) = table_set T (namespaced ns n) c i"
| "cd_spec T (CGetOrCreate ns n c i) =
     (case Option.bind (T (namespaced ns n)) (\<lambda>m. m c) of
        Some j \<Rightarrow> T
      | None \<Rightarrow> table_set T (namespaced ns n) c i)"
| "cd_spec T (CRemoveAll ns n) = T(namespaced ns n := None)"

lemma run_cd_op_refines:
  assumes "cd_inv d"
  shows "GetAllData (run_cd_op d op) = cd_spec (GetAllData d) op \<and> cd_inv (run_cd_op d op)"
proof (cases op)
  case (CSet ns n c i)
  obtain d' a where pm: "pod_map d (namespaced ns n) = (d', a)" by fastforce
  show ?thesis
    using heap_write [OF assms pm, of "sm_Store (cd_heap d' a) c i"] pod_map_props(4) [OF assms pm] CSet pm
    by (simp add: SetContainerInfo_def table_set_def sm_Store_def)
next
  case (CGetOrCreate ns n c i)
  obtain d' a where pm: "pod_map d (namespaced ns n) = (d', a)" by fastforce
  obtain inner v l where los: "sm_LoadOrStore (cd_heap d' a) c i = (inner, v, l)" by (metis prod_cases3)
  have eq: "run_cd_op d op = d'\<lparr>cd_heap := (cd_heap d')(a := inner)\<rparr>"
    using CGetOrCreate pm los by (simp add: GetOrCreateContainerInfo_def)
  have "inner = (case cd_heap d' a c of Some j \<Rightarrow> cd_heap d' a | None \<Rightarrow> (cd_heap d' a)(c \<mapsto> i))"
    using los by (auto simp: sm_LoadOrStore_def split: option.splits)
  then show ?thesis
    using heap_write [OF assms pm, of inner] pod_map_props(4) [OF assms pm] CGetOrCreate unfolding eq
    by (cases "GetAllData d (namespaced ns n)") (auto simp: table_set_def fun_upd_idem split: option.splits)
next
  case (CRemoveAll ns n)
  have "cd_inv (d\<lparr>cd_data := (cd_data d)(namespaced ns n := None)\<rparr>)"
    using assms by (auto simp: cd_inv_def split: if_splits)
  then show ?thesis
    using CRemoveAll
    by (auto simp: RemoveAllContainerInfo_def sm_LoadAndDelete_def GetAllData_def sm_Load_def fun_eq_iff Let_def
        split: option.splits)
qed

text \<open>
  Property C29. The container store is a nested map: after any sequence of its operations, what
  \<^verbatim>\<open>GetAllData\<close> returns is what the sequence does to an empty nested map, and the three lookups
  agree with it, although the pods' maps are shared pointers and \<^verbatim>\<open>LoadOrStore\<close> allocates a map
  on every call.
\<close>

theorem container_store_refines:
  "(let d = foldl run_cd_op cd_empty ops; T = foldl cd_spec Map.empty ops in
    GetAllData d = T \<and>
    GetAllContainerInfo d ns n = T (namespaced ns n) \<and>
    GetContainerInfo d ns n c = Option.bind (T (namespaced ns n)) (\<lambda>m. m c) \<and>
    snd (RemoveAllContainerInfo d ns n) = T (namespaced ns n) \<and>
    snd (GetOrCreateContainerInfo d ns n c i) =
      (case Option.bind (T (namespaced ns n)) (\<lambda>m. m c) of Some j \<Rightarrow> (j, True) | None \<Rightarrow> (i, False)))"
proof -
  have "GetAllData (foldl run_cd_op d ops) = foldl cd_spec (GetAllData d) ops \<and> cd_inv (foldl run_cd_op d ops)"
    if "cd_inv d" for d
    using that
  proof (induction ops arbitrary: d)
    case (Cons x xs)
    then show ?case using run_cd_op_refines by (metis foldl_Cons)
  qed simp
  moreover have "cd_inv cd_empty" "GetAllData cd_empty = Map.empty"
    by (simp_all add: cd_inv_def cd_empty_def GetAllData_def sm_Load_def)
  ultimately have d: "GetAllData (foldl run_cd_op cd_empty ops) = foldl cd_spec Map.empty ops"
      "cd_inv (foldl run_cd_op cd_empty ops)" by metis+
  define e where "e = foldl run_cd_op cd_empty ops"
  obtain d' a where pm: "pod_map e (namespaced ns n) = (d', a)" by fastforce
  have "snd (GetOrCreateContainerInfo e ns n c i) =
      (case Option.bind (GetAllData e (namespaced ns n)) (\<lambda>m. m c) of Some j \<Rightarrow> (j, True) | None \<Rightarrow> (i, False))"
    using pod_map_props(4) [OF d(2) [folded e_def] pm] pm
    by (cases "GetAllData e (namespaced ns n)")
      (auto simp: GetOrCreateContainerInfo_def sm_LoadOrStore_def split: option.splits)
  moreover have "GetAllContainerInfo e ns n = GetAllData e (namespaced ns n)"
    "GetContainerInfo e ns n c = Option.bind (GetAllData e (namespaced ns n)) (\<lambda>m. m c)"
    "snd (RemoveAllContainerInfo e ns n) = GetAllData e (namespaced ns n)"
    by (auto simp: GetAllContainerInfo_def GetContainerInfo_def RemoveAllContainerInfo_def GetAllData_def
        sm_LoadAndDelete_def sm_Load_def Let_def split: option.splits)
  ultimately show ?thesis using d(1) unfolding e_def Let_def by simp
qed

end
