(* ===== verification/Volumes.thy ===== *)
theory Volumes
  imports Kube_Types Go_Strings
begin

text \<open>
  \<^verbatim>\<open>internal/volumes/mounts.go\<close>: the host directories and files behind the volume mounts of a
  container. A call returns what it did to the file system, oldest first, beside its result;
  whether the file system refuses a call is the argument \<open>fails\<close>.
\<close>

section \<open>Calls on the file system\<close>

datatype vol_effect = VMkdirAll string "32 word" | VWriteFile string string "32 word"

fun effect_path :: "vol_effect \<Rightarrow> string" where
  "effect_path (VMkdirAll p perm) = p"
| "effect_path (VWriteFile p data mode) = p"

type_synonym 'a vol = "vol_effect list \<times> 'a result"

text \<open>Go on with the value of a call, or stop at its error, keeping what was done.\<close>

definition vthen :: "'a vol \<Rightarrow> ('a \<Rightarrow> 'b vol) \<Rightarrow> 'b vol" where
  "vthen v f = (case v of (es, Inl e) \<Rightarrow> (es, Inl e) | (es, Inr x) \<Rightarrow> (case f x of (es', r) \<Rightarrow> (es @ es', r)))"

definition vcall :: "(vol_effect \<Rightarrow> goerr option) \<Rightarrow> (goerr \<Rightarrow> goerr) \<Rightarrow> vol_effect \<Rightarrow> unit vol" where
  "vcall fails wrap eff = (case fails eff of None \<Rightarrow> ([eff], Inr ()) | Some err \<Rightarrow> ([], Inl (wrap err)))"

lemma vthen_simps [simp]:
  "vthen (es, Inl e) f = (es, Inl e)"
  "vthen (es, Inr x) f = (es @ fst (f x), snd (f x))"
  by (simp_all add: vthen_def case_prod_unfold)

lemma vcall_ok [simp]: "snd (vcall fails wrap eff) = Inr u \<longleftrightarrow> fails eff = None"
  by (auto simp: vcall_def split: option.split)

section \<open>Mounts\<close>

record Mount =
  mnt_Name :: string
  mnt_HostPath :: string
  mnt_ContainerPath :: string
  mnt_ReadOnly :: bool

text \<open>The file mode 0755.\<close>

definition PodVolPerms :: "32 word" where
  "PodVolPerms = 493"

fun find_volume :: "Volume list \<Rightarrow> string \<Rightarrow> VolumeSource option" where
  "find_volume [] name = None"
| "find_volume (vol # rest) name = (if vol_Name vol = name then Some (vol_Source vol) else find_volume rest name)"

definition findPodVolumeSpec :: "Pod \<Rightarrow> string \<Rightarrow> VolumeSource option" where
  "findPodVolumeSpec pod name = find_volume (spec_Volumes (pod_Spec pod)) name"

definition file_mode :: "32 word option \<Rightarrow> 32 word" where
  "file_mode m = (case m of None \<Rightarrow> PodVolPerms | Some mode \<Rightarrow> mode)"

text \<open>Reading a missing key of a config map gives the empty string.\<close>

fun write_config_items ::
  "(vol_effect \<Rightarrow> goerr option) \<Rightarrow> string \<Rightarrow> ConfigMap \<Rightarrow> KeyToPath list \<Rightarrow> unit vol" where
  "write_config_items fails host cm [] = ([], Inr ())"
| "write_config_items fails host cm (item # rest) =
     (let content = (case cm_Data cm (ktp_Key item) of None \<Rightarrow> [] | Some v \<Rightarrow> v) in
      vthen (vcall fails (Wrapf ''error writing config map: %w'' [])
               (VWriteFile (filepath_Join [host, ktp_Path item]) content (file_mode (ktp_Mode item))))
        (\<lambda>_. write_config_items fails host cm rest))"

text \<open>\<^verbatim>\<open>item.FieldRef.FieldPath\<close> of an item without a field reference is a nil dereference.\<close>

fun write_downward_items ::
  "(vol_effect \<Rightarrow> goerr option) \<Rightarrow> string \<Rightarrow> string \<Rightarrow> DownwardAPIVolumeFile list \<Rightarrow> unit vol" where
  "write_downward_items fails host namespace [] = ([], Inr ())"
| "write_downward_items fails host namespace (item # rest) =
     (case daf_FieldRef item of
        None \<Rightarrow> ([], Inl (GoPanic ''nil pointer dereference''))
      | Some fieldPath \<Rightarrow>
          if fieldPath = ''metadata.namespace''
          then vthen (vcall fails (Wrapf ''error writing downward API: %w'' [])
                        (VWriteFile (filepath_Join [host, daf_Path item]) namespace (file_mode (daf_Mode item))))
                 (\<lambda>_. write_downward_items fails host namespace rest)
          else write_downward_items fails host namespace rest)"

definition write_source ::
  "(vol_effect \<Rightarrow> goerr option) \<Rightarrow> string \<Rightarrow> string \<Rightarrow> string \<Rightarrow> (string \<rightharpoonup> ConfigMap) \<Rightarrow> VolumeProjection \<Rightarrow> unit vol" where
  "write_source fails host namespace serviceAccountToken configMaps src =
     vthen (case vp_ServiceAccountToken src of
              None \<Rightarrow> ([], Inr ())
            | Some proj \<Rightarrow>
                vcall fails (Wrapf ''error writing service account token: %w'' [])
                  (VWriteFile (filepath_Join [host, sat_Path proj]) serviceAccountToken PodVolPerms))
     (\<lambda>_. vthen (case vp_ConfigMap src of
              None \<Rightarrow> ([], Inr ())
            | Some proj \<Rightarrow>
                (case configMaps (cmp_Name proj) of
                   None \<Rightarrow> ([], Inl (Errorf ''config map %s not found'' [cmp_Name proj]))
                 | Some configMap \<Rightarrow> write_config_items fails host configMap (cmp_Items proj)))
     (\<lambda>_. case vp_DownwardAPI src of
              None \<Rightarrow> ([], Inr ())
            | Some items \<Rightarrow> write_downward_items fails host namespace items))"

fun write_sources ::
  "(vol_effect \<Rightarrow> goerr option) \<Rightarrow> string \<Rightarrow> string \<Rightarrow> string \<Rightarrow> (string \<rightharpoonup> ConfigMap) \<Rightarrow> VolumeProjection list \<Rightarrow> unit vol" where
  "write_sources fails host namespace serviceAccountToken configMaps [] = ([], Inr ())"
| "write_sources fails host namespace serviceAccountToken configMaps (src # rest) =
     vthen (write_source fails host namespace serviceAccountToken configMaps src)
       (\<lambda>_. write_sources fails host namespace serviceAccountToken configMaps rest)"

text \<open>One round of the loop over the mounts; \<open>None\<close> where it continues without a mount.\<close>

definition create_mount ::
  "(vol_effect \<Rightarrow> goerr option) \<Rightarrow> string \<Rightarrow> VolumeMount \<Rightarrow> Pod \<Rightarrow> string \<Rightarrow> (string \<rightharpoonup> ConfigMap) \<Rightarrow> Mount option vol" where
  "create_mount fails podVolRoot mountSpec pod serviceAccountToken configMaps =
     (case findPodVolumeSpec pod (vmt_Name mountSpec) of
        None \<Rightarrow> ([], Inr None)
      | Some podVolSpec \<Rightarrow>
          (let newMount = \<lparr>mnt_Name = vmt_Name mountSpec, mnt_HostPath = [],
                           mnt_ContainerPath = filepath_Join [vmt_MountPath mountSpec, vmt_SubPath mountSpec],
                           mnt_ReadOnly = vmt_ReadOnly mountSpec\<rparr>;
               host = filepath_Join [podVolRoot, vmt_Name mountSpec]
           in case vs_HostPath podVolSpec of
                Some path \<Rightarrow>
                  vthen (vcall fails (Wrapf ''error making hostPath for path %s: %w'' [path]) (VMkdirAll path PodVolPerms))
                    (\<lambda>_. ([], Inr (Some (newMount\<lparr>mnt_HostPath := path\<rparr>))))
              | None \<Rightarrow>
                  (case vs_EmptyDir podVolSpec of
                     Some _ \<Rightarrow>
                       vthen (vcall fails (Wrapf ''error making emptyDir for path %s: %w'' [host]) (VMkdirAll host PodVolPerms))
                         (\<lambda>_. ([], Inr (Some (newMount\<lparr>mnt_HostPath := host\<rparr>))))
                   | None \<Rightarrow>
                       (case vs_Projected podVolSpec of
                          Some sources \<Rightarrow>
                            vthen (vcall fails (Wrapf ''error making projected for path %s: %w'' [host]) (VMkdirAll host PodVolPerms))
                              (\<lambda>_. vthen (write_sources fails host (pod_Namespace pod) serviceAccountToken configMaps sources)
                                (\<lambda>_. ([], Inr (Some (newMount\<lparr>mnt_HostPath := host\<rparr>)))))
                        | None \<Rightarrow> ([], Inr None)))))"

fun create_mounts ::
  "(vol_effect \<Rightarrow> goerr option) \<Rightarrow> string \<Rightarrow> VolumeMount list \<Rightarrow> Pod \<Rightarrow> string \<Rightarrow> (string \<rightharpoonup> ConfigMap) \<Rightarrow> Mount list vol" where
  "create_mounts fails podVolRoot [] pod serviceAccountToken configMaps = ([], Inr [])"
| "create_mounts fails podVolRoot (mountSpec # rest) pod serviceAccountToken configMaps =
     vthen (create_mount fails podVolRoot mountSpec pod serviceAccountToken configMaps)
       (\<lambda>m. vthen (create_mounts fails podVolRoot rest pod serviceAccountToken configMaps)
         (\<lambda>ms. ([], Inr (case m of None \<Rightarrow> ms | Some mnt \<Rightarrow> mnt # ms))))"

definition CreateContainerMounts ::
  "(vol_effect \<Rightarrow> goerr option) \<Rightarrow> string \<Rightarrow> Container \<Rightarrow> Pod \<Rightarrow> string \<Rightarrow> (string \<rightharpoonup> ConfigMap) \<Rightarrow> Mount list vol" where
  "CreateContainerMounts fails podVolRoot container pod serviceAccountToken configMaps =
     create_mounts fails podVolRoot (ctr_VolumeMounts container) pod serviceAccountToken configMaps"

section \<open>What has to be done\<close>

text \<open>The files of the sources of a projected volume, and whether the sources are in order.\<close>

definition config_files :: "string \<Rightarrow> ConfigMap \<Rightarrow> KeyToPath list \<Rightarrow> vol_effect list" where
  "config_files host cm items =
     map (\<lambda>i. VWriteFile (filepath_Join [host, ktp_Path i])
                (case cm_Data cm (ktp_Key i) of None \<Rightarrow> [] | Some v \<Rightarrow> v) (file_mode (ktp_Mode i))) items"

definition downward_files :: "string \<Rightarrow> string \<Rightarrow> DownwardAPIVolumeFile list \<Rightarrow> vol_effect list" where
  "downward_files host ns items =
     map (\<lambda>i. VWriteFile (filepath_Join [host, daf_Path i]) ns (file_mode (daf_Mode i)))
       (filter (\<lambda>i. daf_FieldRef i = Some ''metadata.namespace'') items)"

definition source_files ::
  "string \<Rightarrow> string \<Rightarrow> string \<Rightarrow> (string \<rightharpoonup> ConfigMap) \<Rightarrow> VolumeProjection \<Rightarrow> vol_effect list" where
  "source_files host ns tok cms src =
     (case vp_ServiceAccountToken src of
        None \<Rightarrow> [] | Some p \<Rightarrow> [VWriteFile (filepath_Join [host, sat_Path p]) tok PodVolPerms]) @
     (case vp_ConfigMap src of
        None \<Rightarrow> []
      | Some p \<Rightarrow> (case cms (cmp_Name p) of None \<Rightarrow> [] | Some cm \<Rightarrow> config_files host cm (cmp_Items p))) @
     (case vp_DownwardAPI src of None \<Rightarrow> [] | Some items \<Rightarrow> downward_files host ns items)"

definition source_ok :: "(string \<rightharpoonup> ConfigMap) \<Rightarrow> VolumeProjection \<Rightarrow> bool" where
  "source_ok cms src \<longleftrightarrow>
     (case vp_ConfigMap src of None \<Rightarrow> True | Some p \<Rightarrow> cms (cmp_Name p) \<noteq> None) \<and>
     (case vp_DownwardAPI src of None \<Rightarrow> True | Some items \<Rightarrow> list_all (\<lambda>i. daf_FieldRef i \<noteq> None) items)"

definition mount_at :: "VolumeMount \<Rightarrow> string \<Rightarrow> Mount" where
  "mount_at m host =
     \<lparr>mnt_Name = vmt_Name m, mnt_HostPath = host, mnt_ContainerPath = filepath_Join [vmt_MountPath m, vmt_SubPath m],
      mnt_ReadOnly = vmt_ReadOnly m\<rparr>"

text \<open>
  What one mount needs: whether it is in order, the calls to make and the mount, if its volume
  is of a kind the program knows.
\<close>

definition mount_plan ::
  "string \<Rightarrow> Pod \<Rightarrow> string \<Rightarrow> (string \<rightharpoonup> ConfigMap) \<Rightarrow> VolumeMount \<Rightarrow> bool \<times> vol_effect list \<times> Mount option" where
  "mount_plan root pod tok cms m =
     (let host = filepath_Join [root, vmt_Name m] in
      case findPodVolumeSpec pod (vmt_Name m) of
        None \<Rightarrow> (True, [], None)
      | Some vs \<Rightarrow>
          (case (vs_HostPath vs, vs_EmptyDir vs, vs_Projected vs) of
             (Some path, _, _) \<Rightarrow> (True, [VMkdirAll path PodVolPerms], Some (mount_at m path))
           | (None, Some _, _) \<Rightarrow> (True, [VMkdirAll host PodVolPerms], Some (mount_at m host))
           | (None, None, Some srcs) \<Rightarrow>
               (list_all (source_ok cms) srcs,
                VMkdirAll host PodVolPerms # concat (map (source_files host (pod_Namespace pod) tok cms) srcs),
                Some (mount_at m host))
           | (None, None, None) \<Rightarrow> (True, [], None)))"

section \<open>It is done\<close>

text \<open>
  A computation achieves a plan: if the plan is in order and the file system refuses none of
  its calls, it makes exactly these calls and returns the value, and otherwise it fails.
\<close>

definition achieves :: "(vol_effect \<Rightarrow> goerr option) \<Rightarrow> 'a vol \<Rightarrow> bool \<Rightarrow> vol_effect list \<Rightarrow> 'a \<Rightarrow> bool" where
  "achieves fails v good es x \<longleftrightarrow>
     (if good \<and> list_all (\<lambda>e. fails e = None) es then v = (es, Inr x) else \<exists>err. snd v = Inl err)"

lemma achieves_vthen:
  assumes "achieves fails v g es x" and "achieves fails (f x) g' es' y"
  shows "achieves fails (vthen v f) (g \<and> g') (es @ es') y"
  using assms by (cases v; cases "snd v") (auto simp: achieves_def split: if_splits)

lemma achieves_call: "achieves fails (vcall fails wrap e) True [e] ()"
  by (auto simp: achieves_def vcall_def split: option.split)

lemma achieves_return: "achieves fails ([], Inr x) True [] x"
  by (simp add: achieves_def)

lemma achieves_error: "achieves fails (es, Inl e) False es' x"
  by (simp add: achieves_def)

lemma achieves_config: "achieves fails (write_config_items fails host cm items) True (config_files host cm items) ()"
proof (induction items)
  case (Cons i items)
  then show ?case
    using achieves_vthen [OF achieves_call Cons, of "Wrapf ''error writing config map: %w'' []"]
    by (simp add: config_files_def Let_def)
qed (simp add: achieves_return config_files_def)

lemma achieves_downward:
  "achieves fails (write_downward_items fails host ns items) (list_all (\<lambda>i. daf_FieldRef i \<noteq> None) items)
     (downward_files host ns items) ()"
proof (induction items)
  case (Cons i items)
  show ?case
  proof (cases "daf_FieldRef i")
    case None
    then show ?thesis by (simp add: achieves_error)
  next
    case (Some fp)
    then show ?thesis
      using Cons achieves_vthen [OF achieves_call Cons, of "Wrapf ''error writing downward API: %w'' []"]
      by (simp add: downward_files_def)
  qed
qed (simp add: achieves_return downward_files_def)

lemma achieves_source:
  "achieves fails (write_source fails host ns tok cms src) (source_ok cms src) (source_files host ns tok cms src) ()"
proof -
  have tok: "achieves fails
      (case vp_ServiceAccountToken src of
         None \<Rightarrow> ([], Inr ())
       | Some proj \<Rightarrow>
           vcall fails (Wrapf ''error writing service account token: %w'' [])
             (VWriteFile (filepath_Join [host, sat_Path proj]) tok PodVolPerms)) True
      (case vp_ServiceAccountToken src of
        None \<Rightarrow> [] | Some p \<Rightarrow> [VWriteFile (filepath_Join [host, sat_Path p]) tok PodVolPerms]) ()"
    by (simp add: achieves_call achieves_return split: option.split)
  have cm: "achieves fails
      (case vp_ConfigMap src of
         None \<Rightarrow> ([], Inr ())
       | Some proj \<Rightarrow>
           (case cms (cmp_Name proj) of
              None \<Rightarrow> ([], Inl (Errorf ''config map %s not found'' [cmp_Name proj]))
            | Some configMap \<Rightarrow> write_config_items fails host configMap (cmp_Items proj)))
      (case vp_ConfigMap src of None \<Rightarrow> True | Some p \<Rightarrow> cms (cmp_Name p) \<noteq> None)
      (case vp_ConfigMap src of
        None \<Rightarrow> []
      | Some p \<Rightarrow> (case cms (cmp_Name p) of None \<Rightarrow> [] | Some cm \<Rightarrow> config_files host cm (cmp_Items p))) ()"
    by (simp add: achieves_return achieves_error achieves_config split: option.split)
  have dw: "achieves fails
      (case vp_DownwardAPI src of None \<Rightarrow> ([], Inr ()) | Some items \<Rightarrow> write_downward_items fails host ns items)
      (case vp_DownwardAPI src of None \<Rightarrow> True | Some items \<Rightarrow> list_all (\<lambda>i. daf_FieldRef i \<noteq> None) items)
      (case vp_DownwardAPI src of None \<Rightarrow> [] | Some items \<Rightarrow> downward_files host ns items) ()"
    using achieves_downward by (simp add: achieves_return split: option.split)
  show ?thesis
    unfolding write_source_def source_ok_def source_files_def
    by (rule achieves_vthen [where g = True, simplified], rule tok, rule achieves_vthen, rule cm, rule dw)
qed

lemma achieves_sources:
  "achieves fails (write_sources fails host ns tok cms srcs) (list_all (source_ok cms) srcs)
     (concat (map (source_files host ns tok cms) srcs)) ()"
proof (induction srcs)
  case (Cons s srcs)
  then show ?case using achieves_vthen [OF achieves_source Cons] by simp
qed (simp add: achieves_return)

lemma achieves_mount:
  "achieves fails (create_mount fails root m pod tok cms) (fst (mount_plan root pod tok cms m))
     (fst (snd (mount_plan root pod tok cms m))) (snd (snd (mount_plan root pod tok cms m)))"
proof -
  let ?host = "filepath_Join [root, vmt_Name m]"
  have dir: "achieves fails (vthen (vcall fails w (VMkdirAll h PodVolPerms)) (\<lambda>_. ([], Inr (Some mnt)))) True
      [VMkdirAll h PodVolPerms] (Some mnt)" for w h and mnt :: Mount
    using achieves_vthen [OF achieves_call achieves_return] by simp
  have proj: "achieves fails (vthen (vcall fails w (VMkdirAll ?host PodVolPerms))
      (\<lambda>_. vthen (write_sources fails ?host (pod_Namespace pod) tok cms srcs) (\<lambda>_. ([], Inr (Some mnt)))))
      (list_all (source_ok cms) srcs)
      (VMkdirAll ?host PodVolPerms # concat (map (source_files ?host (pod_Namespace pod) tok cms) srcs)) (Some mnt)"
    for w srcs and mnt :: Mount
    using achieves_vthen [OF achieves_call achieves_vthen [OF achieves_sources achieves_return]] by simp
  show ?thesis
    using dir proj
    by (simp add: create_mount_def mount_plan_def mount_at_def Let_def achieves_return split: option.split)
qed

lemma achieves_mounts:
  "achieves fails (create_mounts fails root ms pod tok cms)
     (list_all (\<lambda>m. fst (mount_plan root pod tok cms m)) ms)
     (concat (map (\<lambda>m. fst (snd (mount_plan root pod tok cms m))) ms))
     (List.map_filter (\<lambda>m. snd (snd (mount_plan root pod tok cms m))) ms)"
proof (induction ms)
  case (Cons m ms)
  let ?p = "mount_plan root pod tok cms"
  let ?rest = "List.map_filter (\<lambda>m. snd (snd (?p m))) ms"
  have "achieves fails (create_mounts fails root (m # ms) pod tok cms)
     (fst (?p m) \<and> list_all (\<lambda>m. fst (?p m)) ms \<and> True) (fst (snd (?p m)) @ concat (map (\<lambda>m. fst (snd (?p m))) ms) @ [])
     (case snd (snd (?p m)) of None \<Rightarrow> ?rest | Some mnt \<Rightarrow> mnt # ?rest)"
    unfolding create_mounts.simps
    by (rule achieves_vthen, rule achieves_mount, rule achieves_vthen, rule Cons, rule achieves_return)
  then show ?case by (cases "snd (snd (?p m))") (simp_all add: List.map_filter_simps)
qed (simp add: achieves_return List.map_filter_simps)

text \<open>
  Property C27. \<^verbatim>\<open>CreateContainerMounts\<close> carries out its plan or fails. It succeeds exactly when
  every config map a projected volume names was passed in, no downward item lacks its field
  reference and the file system refuses none of the planned calls; it has then made exactly
  these calls in order, and returns one mount for every volume mount whose volume is a host
  path, an empty directory or projected, in the order of the spec.
\<close>

theorem CreateContainerMounts_plan:
  "(let plans = map (mount_plan root pod tok cms) (ctr_VolumeMounts ctr);
        calls = concat (map (fst \<circ> snd) plans);
        mounts = List.map_filter (snd \<circ> snd) plans;
        v = CreateContainerMounts fails root ctr pod tok cms
    in (snd v = Inr result) = (list_all fst plans \<and> list_all (\<lambda>e. fails e = None) calls \<and> result = mounts) \<and>
       (snd v = Inr result) = (v = (calls, Inr result) \<and> result = mounts \<and> list_all fst plans))"
proof -
  have mf: "List.map_filter (\<lambda>m. snd (snd (mount_plan root pod tok cms m))) ms =
      List.map_filter (snd \<circ> snd) (map (mount_plan root pod tok cms) ms)" for ms
    by (induction ms) (auto simp: List.map_filter_simps split: option.split)
  show ?thesis
    using achieves_mounts [of fails root "ctr_VolumeMounts ctr" pod tok cms]
    by (auto simp: achieves_def CreateContainerMounts_def mf Let_def list.pred_map comp_def split: if_splits)
qed

section \<open>Volumes do not touch each other\<close>

text \<open>The relative paths the sources of a projected volume write to.\<close>

definition source_paths :: "VolumeProjection \<Rightarrow> string list" where
  "source_paths src =
     (case vp_ServiceAccountToken src of None \<Rightarrow> [] | Some p \<Rightarrow> [sat_Path p]) @
     (case vp_ConfigMap src of None \<Rightarrow> [] | Some p \<Rightarrow> map ktp_Path (cmp_Items p)) @
     (case vp_DownwardAPI src of None \<Rightarrow> [] | Some items \<Rightarrow> map daf_Path items)"

definition volume_paths :: "VolumeSource \<Rightarrow> string list" where
  "volume_paths vs = (case vs_Projected vs of None \<Rightarrow> [] | Some srcs \<Rightarrow> concat (map source_paths srcs))"

lemma source_files_paths:
  assumes "e \<in> set (source_files host ns tok cms src)"
  shows "\<exists>f\<in>set (source_paths src). effect_path e = filepath_Join [host, f]"
proof -
  have cm: "\<exists>f\<in>set (map ktp_Path items). effect_path e = filepath_Join [host, f]" if "e \<in> set (config_files host cm items)" for cm items
    using that by (auto simp: config_files_def)
  have dw: "\<exists>f\<in>set (map daf_Path items). effect_path e = filepath_Join [host, f]" if "e \<in> set (downward_files host ns items)" for items
    using that by (auto simp: downward_files_def)
  from assms consider
      p where "vp_ServiceAccountToken src = Some p" "effect_path e = filepath_Join [host, sat_Path p]"
    | p cm where "vp_ConfigMap src = Some p" "e \<in> set (config_files host cm (cmp_Items p))"
    | items where "vp_DownwardAPI src = Some items" "e \<in> set (downward_files host ns items)"
    unfolding source_files_def by (cases "vp_ServiceAccountToken src"; cases "vp_ConfigMap src"; cases "vp_DownwardAPI src";
        cases "cms (cmp_Name (the (vp_ConfigMap src)))") auto
  then show ?thesis
  proof cases
    case 1
    then show ?thesis by (simp add: source_paths_def)
  next
    case 2
    then show ?thesis using cm [OF 2(2)] by (auto simp: source_paths_def)
  next
    case 3
    then show ?thesis using dw [OF 3(2)] by (auto simp: source_paths_def)
  qed
qed

lemma plan_paths:
  assumes "findPodVolumeSpec pod (vmt_Name m) = Some vs" and "vs_HostPath vs = None"
    and "e \<in> set (fst (snd (mount_plan root pod tok cms m)))"
    and "root \<noteq> []" and "path_name (vmt_Name m)" and "list_all path_name (volume_paths vs)"
  shows "\<exists>fs. list_all path_name fs \<and> effect_path e = filepath_Join (root # vmt_Name m # fs)"
proof -
  let ?host = "filepath_Join [root, vmt_Name m]"
  have join: "filepath_Join [?host, f] = filepath_Join (root # vmt_Name m # [f])" if "path_name f" for f
    using filepath_Join_Join [of root "[vmt_Name m]" "[f]"] assms(4,5) that by simp
  have "effect_path e = ?host \<or> (\<exists>f\<in>set (volume_paths vs). effect_path e = filepath_Join [?host, f])"
    using assms(1-3) source_files_paths
    by (fastforce simp: mount_plan_def Let_def volume_paths_def split: option.splits)
  then show ?thesis
  proof
    assume "effect_path e = ?host"
    then show ?thesis by (intro exI [of _ "[]"]) simp
  next
    assume "\<exists>f\<in>set (volume_paths vs). effect_path e = filepath_Join [?host, f]"
    then obtain f where f: "path_name f" "effect_path e = filepath_Join [?host, f]"
      using assms(6) by (auto simp: list_all_iff)
    then show ?thesis using join by (intro exI [of _ "[f]"]) simp
  qed
qed


definition sample_mount :: "string \<Rightarrow> VolumeMount" where
  "sample_mount v = \<lparr>vmt_Name = v, vmt_MountPath = ''/mnt'', vmt_SubPath = [], vmt_ReadOnly = False\<rparr>"

definition scratch_volume :: "string \<Rightarrow> Volume" where
  "scratch_volume v = \<lparr>vol_Name = v, vol_Source = \<lparr>vs_HostPath = None, vs_EmptyDir = Some (), vs_Projected = None\<rparr>\<rparr>"

definition two_volumes :: Pod where
  "two_volumes =
     \<lparr>pod_Namespace = ''default'', pod_Name = ''job'', pod_UID = ''u1'', pod_DeletionGracePeriodSeconds = None,
      pod_Spec = \<lparr>spec_Containers = [], spec_Volumes = [scratch_volume ''a'', scratch_volume ''b''],
        spec_ImagePullSecrets = [], spec_ServiceAccountName = [], spec_AutomountServiceAccountToken = None\<rparr>,
      pod_Status = None\<rparr>"


end
