(* ===== verification/Disk.thy ===== *)
theory Disk
  imports Prelude Go_Strings
begin

text \<open>
  \<^verbatim>\<open>internal/disk\<close>: compressing and decompressing disk images with their digests, and the
  validation of an image against a digest. A file is its bytes and modification time. Which
  calls the operating system refuses, the modification times it sets, compression and digests
  are arguments; a reader of compressed data is the list of what its successive \<^verbatim>\<open>Read\<close> calls
  return, so that every way of cutting the data into reads is covered.
\<close>

section \<open>Files\<close>

text \<open>A byte is a character of HOL, as in strings.\<close>

record osfile =
  file_data :: string
  file_mtime :: go_time

type_synonym fs = "string \<rightharpoonup> osfile"

datatype disk_call =
    DStat string | DOpen string | DCreate string | DTruncate string | DSeek string nat | DWrite string nat
  | DReadFile string | DWriteString string | DRead string | DSync string | DClose string
  | DNewWriter string | DSetConcurrency string | DFlush string

record disk_env =
  de_fails :: "disk_call \<Rightarrow> goerr option"
  de_mtime :: "string \<Rightarrow> go_time"

text \<open>
  \<open>dl_digest\<close> is the canonical digest, printed; \<open>dl_verifies\<close> the verifier of an expected
  digest; \<open>dl_compress\<close> the compressed form of a stream and \<open>dl_reader\<close> the reads that a reader
  of compressed data delivers, or the error of opening it.
\<close>

record disk_lib =
  dl_digest :: "string \<Rightarrow> string"
  dl_verifies :: "string \<Rightarrow> string \<Rightarrow> bool"
  dl_compress :: "string \<Rightarrow> string"
  dl_reader :: "string \<Rightarrow> (string \<times> goerr option) list result"

definition zero_byte :: char where
  "zero_byte = char_of (0 :: nat)"

text \<open>\<^verbatim>\<open>Stat\<close> and \<^verbatim>\<open>Open\<close> of a path: the call may be refused, or the file be missing.\<close>

definition access :: "disk_env \<Rightarrow> fs \<Rightarrow> (string \<Rightarrow> disk_call) \<Rightarrow> string \<Rightarrow> osfile result" where
  "access env fs call p =
     (case de_fails env (call p) of
        Some e \<Rightarrow> Inl e
      | None \<Rightarrow> (case fs p of None \<Rightarrow> Inl ErrNotExist | Some f \<Rightarrow> Inr f))"

definition put_file :: "disk_env \<Rightarrow> string \<Rightarrow> string \<Rightarrow> fs \<Rightarrow> fs" where
  "put_file env p content fs = fs(p \<mapsto> \<lparr>file_data = content, file_mtime = de_mtime env p\<rparr>)"

definition truncate_to :: "nat \<Rightarrow> string \<Rightarrow> string" where
  "truncate_to n f = take n f @ replicate (n - length f) zero_byte"

definition write_at :: "string \<Rightarrow> nat \<Rightarrow> string \<Rightarrow> string" where
  "write_at f off bs = take off f @ replicate (off - length f) zero_byte @ bs @ drop (off + length bs) f"

section \<open>The digest file\<close>

definition DigestFileSuffix :: string where
  "DigestFileSuffix = ''.digest''"

definition digestFilePath :: "string \<Rightarrow> string" where
  "digestFilePath filePath = filePath @ DigestFileSuffix"

definition writeDigestFile :: "disk_env \<Rightarrow> fs \<Rightarrow> string \<Rightarrow> string \<Rightarrow> fs \<times> goerr option" where
  "writeDigestFile env fs filePath d =
     (let p = digestFilePath filePath in
      case de_fails env (DCreate p) of
        Some err \<Rightarrow> (fs, Some err)
      | None \<Rightarrow>
          (let fs = put_file env p [] fs in
           case de_fails env (DWriteString p) of
             Some err \<Rightarrow> (fs, errors_Join (Some err) (de_fails env (DClose p)))
           | None \<Rightarrow> (put_file env p d fs, de_fails env (DClose p))))"

section \<open>Validation\<close>

definition ComputeAndVerifyFileDigest ::
  "disk_env \<Rightarrow> disk_lib \<Rightarrow> fs \<Rightarrow> string \<Rightarrow> string \<Rightarrow> fs \<times> goerr option" where
  "ComputeAndVerifyFileDigest env lib fs filePath expectedDigest =
     (case access env fs DOpen filePath of
        Inl err \<Rightarrow> (fs, Some err)
      | Inr rd \<Rightarrow>
          (case de_fails env (DRead filePath) of
             Some err \<Rightarrow> (fs, Some err)
           | None \<Rightarrow>
               if \<not> dl_verifies lib expectedDigest (file_data rd)
               then (fs, Some (Errorf ''digest verification failed'' []))
               else writeDigestFile env fs filePath expectedDigest))"

definition ValidateFileWithDigest ::
  "disk_env \<Rightarrow> disk_lib \<Rightarrow> fs \<Rightarrow> string \<Rightarrow> string \<Rightarrow> fs \<times> goerr option" where
  "ValidateFileWithDigest env lib fs filePath expectedDigest =
     (case access env fs DStat filePath of
        Inl err \<Rightarrow> (fs, Some (Wrapf ''error checking file: %w'' [] err))
      | Inr fileInfo \<Rightarrow>
          (let p = digestFilePath filePath in
           case access env fs DStat p of
             Inl err \<Rightarrow>
               if err \<noteq> ErrNotExist then (fs, Some (Wrapf ''error checking digest file: %w'' [] err))
               else ComputeAndVerifyFileDigest env lib fs filePath expectedDigest
           | Inr digestFileInfo \<Rightarrow>
               if \<not> file_mtime digestFileInfo > file_mtime fileInfo
               then ComputeAndVerifyFileDigest env lib fs filePath expectedDigest
               else (case access env fs DReadFile p of
                       Inl err \<Rightarrow> (fs, Some (Wrapf ''error reading digest file: %w'' [] err))
                     | Inr storedDigest \<Rightarrow>
                         if expectedDigest \<noteq> file_data storedDigest
                         then (fs, Some (Errorf ''digest does not match: got %s, expected %s''
                                            [file_data storedDigest, expectedDigest]))
                         else (fs, None))))"

section \<open>Compression\<close>

record CompressionResult =
  cr_OutputFilePath :: string
  cr_CompressedSize :: nat
  cr_UncompressedSize :: nat
  cr_GzDigest :: string
  cr_UncompressedDigest :: string

text \<open>
  The output file is open and empty when the call is made. \<open>partial\<close> is what has reached it
  when copying or flushing fails.
\<close>

definition CompressFileWithPath ::
  "disk_env \<Rightarrow> disk_lib \<Rightarrow> string \<Rightarrow> fs \<Rightarrow> string \<Rightarrow> string \<Rightarrow> fs \<times> CompressionResult option \<times> goerr option" where
  "CompressFileWithPath env lib partial fs inputFilePath outputFile =
     (case access env fs DOpen inputFilePath of
        Inl err \<Rightarrow> (fs, None, Some err)
      | Inr inputFile \<Rightarrow>
          (let close = de_fails env (DClose inputFilePath);
               failed = (\<lambda>fs err. (fs, None, errors_Join (Some err) close));
               gz = dl_compress lib (file_data inputFile)
           in case de_fails env (DNewWriter outputFile) of Some err \<Rightarrow> failed fs err | None \<Rightarrow>
              (case de_fails env (DSetConcurrency outputFile) of Some err \<Rightarrow> failed fs err | None \<Rightarrow>
              (case de_fails env (DRead inputFilePath) of Some err \<Rightarrow> failed (put_file env outputFile partial fs) err | None \<Rightarrow>
              (case de_fails env (DFlush outputFile) of Some err \<Rightarrow> failed (put_file env outputFile partial fs) err | None \<Rightarrow>
              (let fs = put_file env outputFile gz fs in
               case de_fails env (DSync outputFile) of Some err \<Rightarrow> failed fs err | None \<Rightarrow>
               (case de_fails env (DStat outputFile) of Some err \<Rightarrow> failed fs err | None \<Rightarrow>
                  (fs, Some \<lparr>cr_OutputFilePath = outputFile, cr_CompressedSize = length gz,
                             cr_UncompressedSize = length (file_data inputFile),
                             cr_GzDigest = dl_digest lib gz,
                             cr_UncompressedDigest = dl_digest lib (file_data inputFile)\<rparr>, close))))))))"

section \<open>Decompression\<close>

definition sparseBlockSize :: nat where
  "sparseBlockSize = 65536"

lemma sparseBlockSize_pos [simp]: "0 < sparseBlockSize"
  by (simp add: sparseBlockSize_def)

text \<open>The content of the output file, the bytes given to the hash and the offset.\<close>

record dstate =
  ds_out :: string
  ds_hashed :: string
  ds_offset :: nat

text \<open>
  The inner loop: the bytes of one read in blocks, where a full block of zeros is skipped.
\<close>

function write_blocks :: "disk_env \<Rightarrow> string \<Rightarrow> string \<Rightarrow> dstate \<Rightarrow> dstate \<times> goerr option" where
  "write_blocks env outputFilePath buf st =
     (if buf = [] then (st, None)
      else let chunk = take sparseBlockSize buf;
               st = st\<lparr>ds_hashed := ds_hashed st @ chunk\<rparr>;
               offset = ds_offset st
           in if chunk \<noteq> replicate sparseBlockSize zero_byte
              then (case de_fails env (DSeek outputFilePath offset) of
                      Some err \<Rightarrow> (st, Some (Wrapf ''failed to seek in output file: %w'' [] err))
                    | None \<Rightarrow>
                        (case de_fails env (DWrite outputFilePath offset) of
                           Some err \<Rightarrow> (st, Some (Wrapf ''failed to write to output file: %w'' [] err))
                         | None \<Rightarrow>
                             write_blocks env outputFilePath (drop sparseBlockSize buf)
                               (st\<lparr>ds_out := write_at (ds_out st) offset chunk, ds_offset := offset + length chunk\<rparr>)))
              else write_blocks env outputFilePath (drop sparseBlockSize buf)
                     (st\<lparr>ds_offset := offset + length chunk\<rparr>))"
  by pat_completeness auto
termination
  by (relation "measure (\<lambda>(env, p, buf, st). length buf)") (auto simp: length_greater_0_conv [symmetric] simp del: length_greater_0_conv)

declare write_blocks.simps [simp del]

text \<open>
  The outer loop; \<open>cancelled i\<close> is \<^verbatim>\<open>ctx.Err()\<close> if the context is done before round \<open>i\<close>. No
  result means that the reader goes on beyond the given reads.
\<close>

fun read_loop ::
  "disk_env \<Rightarrow> (nat \<Rightarrow> goerr option) \<Rightarrow> string \<Rightarrow> nat \<Rightarrow> (string \<times> goerr option) list \<Rightarrow> dstate
     \<Rightarrow> (dstate \<times> goerr option) option" where
  "read_loop env cancelled outputFilePath i [] st = None"
| "read_loop env cancelled outputFilePath i ((buf, err) # rest) st =
     (case cancelled i of
        Some e \<Rightarrow> Some (st, Some e)
      | None \<Rightarrow>
          (case err of
             Some e \<Rightarrow> if e = ErrEOF then Some (st, None) else Some (st, Some e)
           | None \<Rightarrow>
               (case write_blocks env outputFilePath buf st of
                  (st, Some e) \<Rightarrow> Some (st, Some e)
                | (st, None) \<Rightarrow> read_loop env cancelled outputFilePath (Suc i) rest st)))"

definition DecompressFileWithPath ::
  "disk_env \<Rightarrow> disk_lib \<Rightarrow> (nat \<Rightarrow> goerr option) \<Rightarrow> fs \<Rightarrow> string \<Rightarrow> string \<Rightarrow> int
     \<Rightarrow> (fs \<times> string \<times> goerr option) option" where
  "DecompressFileWithPath env lib cancelled fs inputFilePath outputFilePath uncompressedSize =
     (case access env fs DOpen inputFilePath of
        Inl err \<Rightarrow> Some (fs, [], Some err)
      | Inr inputFile \<Rightarrow>
          (let closeIn = (\<lambda>err. errors_Join err (de_fails env (DClose inputFilePath))) in
           case de_fails env (DCreate outputFilePath) of
             Some err \<Rightarrow> Some (fs, [], closeIn (Some err))
           | None \<Rightarrow>
               (let fs = put_file env outputFilePath [] fs;
                    close = (\<lambda>err. closeIn (errors_Join err (de_fails env (DClose outputFilePath))))
                in case (if uncompressedSize < 0 then Some (OSError ''invalid argument'')
                         else de_fails env (DTruncate outputFilePath)) of
                     Some err \<Rightarrow> Some (fs, [], close (Some err))
                   | None \<Rightarrow>
                       (let out = truncate_to (nat uncompressedSize) [];
                            fs = put_file env outputFilePath out fs;
                            input = (case fs inputFilePath of None \<Rightarrow> file_data inputFile | Some f \<Rightarrow> file_data f)
                        in case dl_reader lib input of
                             Inl err \<Rightarrow> Some (fs, [], close (Some err))
                           | Inr reads \<Rightarrow>
                               (case read_loop env cancelled outputFilePath 0 reads
                                       \<lparr>ds_out = out, ds_hashed = [], ds_offset = 0\<rparr> of
                                  None \<Rightarrow> None
                                | Some (st, Some err) \<Rightarrow>
                                    Some (put_file env outputFilePath (ds_out st) fs, [], close (Some err))
                                | Some (st, None) \<Rightarrow>
                                    (let fs = put_file env outputFilePath (ds_out st) fs;
                                         d = dl_digest lib (ds_hashed st)
                                     in case writeDigestFile env fs outputFilePath d of
                                          (fs, Some err) \<Rightarrow> Some (fs, [], close (Some err))
                                        | (fs, None) \<Rightarrow> Some (fs, d, close None)))))))"

section \<open>Sparse writing\<close>

definition zeros :: "nat \<Rightarrow> string" where
  "zeros n = replicate n zero_byte"

lemma length_zeros [simp]: "length (zeros n) = n"
  by (simp add: zeros_def)

lemma zeros_split: "m \<le> n \<Longrightarrow> zeros m @ zeros (n - m) = zeros n"
  by (simp add: zeros_def flip: replicate_add)

lemma write_at_zeros: "length bs \<le> r \<Longrightarrow> write_at (d @ zeros r) (length d) bs = d @ bs @ zeros (r - length bs)"
  by (simp add: write_at_def zeros_def)

text \<open>
  The output so far is \<open>d\<close> followed by untouched zeros. Skipping a block of zeros and writing
  it have the same effect there.
\<close>

lemma write_blocks_sparse:
  assumes "\<And>o'. de_fails env (DSeek p o') = None \<and> de_fails env (DWrite p o') = None" and "length buf \<le> r"
  shows "write_blocks env p buf \<lparr>ds_out = d @ zeros r, ds_hashed = h, ds_offset = length d\<rparr> =
    (\<lparr>ds_out = (d @ buf) @ zeros (r - length buf), ds_hashed = h @ buf, ds_offset = length (d @ buf)\<rparr>, None)"
  using assms(2)
proof (induction "length buf" arbitrary: buf d h r rule: less_induct)
  case less
  let ?c = "take sparseBlockSize buf" and ?rest = "drop sparseBlockSize buf"
  show ?case
  proof (cases "buf = []")
    case True
    then show ?thesis by (simp add: write_blocks.simps)
  next
    case False
    have len: "length ?rest < length buf"
      using False sparseBlockSize_pos by (metis diff_less length_drop length_greater_0_conv)
    have IH: "write_blocks env p ?rest \<lparr>ds_out = (d @ ?c) @ zeros (r - length ?c), ds_hashed = h @ ?c, ds_offset = length (d @ ?c)\<rparr> =
        (\<lparr>ds_out = ((d @ ?c) @ ?rest) @ zeros (r - length ?c - length ?rest), ds_hashed = (h @ ?c) @ ?rest,
          ds_offset = length ((d @ ?c) @ ?rest)\<rparr>, None)"
      using less.hyps [OF len, of "r - length ?c" "d @ ?c" "h @ ?c"] less.prems by simp
    have total: "r - length ?c - length ?rest = r - length buf" by simp
    have joined: "(xs @ ?c) @ ?rest = xs @ buf" for xs by simp
    note IH' = IH [unfolded total joined]
    show ?thesis
    proof (cases "?c = zeros sparseBlockSize")
      case True
      then have c: "length ?c = sparseBlockSize" by (metis length_zeros)
      then have "sparseBlockSize \<le> r" using less.prems by (simp add: min_def split: if_splits)
      then have "zeros r = ?c @ zeros (r - length ?c)"
        using zeros_split [of sparseBlockSize r] unfolding c unfolding True by simp
      then have "d @ zeros r = (d @ ?c) @ zeros (r - length ?c)" by simp
      then show ?thesis
        using False True IH' by (subst write_blocks.simps) (simp add: Let_def zeros_def)
    next
      case nz: False
      have "write_at (d @ zeros r) (length d) ?c = (d @ ?c) @ zeros (r - length ?c)"
        using write_at_zeros [of ?c r d] less.prems by simp
      then show ?thesis
        using False nz IH' assms(1) by (subst write_blocks.simps) (simp add: Let_def zeros_def)
    qed
  qed
qed

lemma read_loop_sparse:
  assumes "\<And>o'. de_fails env (DSeek p o') = None \<and> de_fails env (DWrite p o') = None" and "\<And>i. cancelled i = None"
    and "length (concat cs) \<le> r"
  shows "read_loop env cancelled p i (map (\<lambda>c. (c, None)) cs @ (tail, Some ErrEOF) # rest)
      \<lparr>ds_out = d @ zeros r, ds_hashed = h, ds_offset = length d\<rparr> =
    Some (\<lparr>ds_out = (d @ concat cs) @ zeros (r - length (concat cs)), ds_hashed = h @ concat cs,
      ds_offset = length (d @ concat cs)\<rparr>, None)"
  using assms(3)
proof (induction cs arbitrary: d h r i)
  case (Cons c cs)
  have "length c \<le> r" using Cons.prems by simp
  note blocks = write_blocks_sparse [OF assms(1) this, of d h]
  show ?case
    using Cons.IH [of "r - length c" "Suc i" "d @ c" "h @ c"] Cons.prems blocks by (simp add: assms(2))
qed (simp add: assms(2))

text \<open>The reads of a reader that delivers the given bytes and then the end of the file.\<close>

definition delivers :: "(string \<times> goerr option) list \<Rightarrow> string \<Rightarrow> bool" where
  "delivers reads content \<longleftrightarrow>
     (\<exists>cs tail rest. reads = map (\<lambda>c. (c, None)) cs @ (tail, Some ErrEOF) # rest \<and> concat cs = content)"

lemma truncate_to_Nil: "truncate_to n [] = zeros n"
  by (simp add: truncate_to_def zeros_def)

lemma writeDigestFile_ok:
  assumes "\<And>c. de_fails env c = None"
  shows "writeDigestFile env fs p d = (put_file env (digestFilePath p) d fs, None)"
  using assms by (simp add: writeDigestFile_def put_file_def Let_def)

lemma digestFilePath_neq [simp]: "digestFilePath p \<noteq> p" "p \<noteq> digestFilePath p"
  by (simp_all add: digestFilePath_def DigestFileSuffix_def)

lemma decompress_ok:
  assumes "\<And>c. de_fails env c = None" and "\<And>i. cancelled i = None"
    and "fs inp = Some f" and "inp \<noteq> out" and "dl_reader lib (file_data f) = Inr reads"
    and "delivers reads content" and "int (length content) \<le> sz"
  shows "DecompressFileWithPath env lib cancelled fs inp out sz =
    Some (put_file env (digestFilePath out) (dl_digest lib content)
            (put_file env out (content @ zeros (nat sz - length content)) fs),
          dl_digest lib content, None)"
proof -
  obtain cs tail rest where reads: "reads = map (\<lambda>c. (c, None)) cs @ (tail, Some ErrEOF) # rest" "concat cs = content"
    using assms(6) by (auto simp: delivers_def)
  have "read_loop env cancelled out 0 reads \<lparr>ds_out = zeros (nat sz), ds_hashed = [], ds_offset = 0\<rparr> =
      Some (\<lparr>ds_out = content @ zeros (nat sz - length content), ds_hashed = content, ds_offset = length content\<rparr>, None)"
    using read_loop_sparse [where d = "[]" and h = "[]" and r = "nat sz" and cs = cs and i = 0 and p = out
        and env = env and cancelled = cancelled and tail = tail and rest = rest] assms(1,2,7) reads by simp
  then show ?thesis
    using assms(1,3,4,5,7)
    by (simp add: DecompressFileWithPath_def access_def truncate_to_Nil writeDigestFile_ok Let_def)
      (simp add: put_file_def writeDigestFile_ok Let_def)
qed

section \<open>Properties\<close>

text \<open>
  Property C24. Decompression restores the image. Whatever pieces the reader delivers the data
  in, the output holds exactly that data, filled up with zeros to the announced size, although
  blocks of zeros are never written; the digest returned and stored beside the output is that
  of the data, and no other file changes. (Bytes a reader would hand over together with the
  end of the file are not among the data.)
\<close>

theorem decompress_restores:
  assumes "\<And>c. de_fails env c = None" and "\<And>i. cancelled i = None"
    and "fs inp = Some f" and "inp \<noteq> out"
    and "dl_reader lib (file_data f) = Inr (map (\<lambda>c. (c, None)) cs @ (tail, Some ErrEOF) # rest)"
    and "int (length (concat cs)) \<le> sz"
  shows "\<exists>fs'. DecompressFileWithPath env lib cancelled fs inp out sz = Some (fs', dl_digest lib (concat cs), None) \<and>
    map_option file_data (fs' out) = Some (concat cs @ replicate (nat sz - length (concat cs)) zero_byte) \<and>
    map_option file_data (fs' (digestFilePath out)) = Some (dl_digest lib (concat cs)) \<and>
    (\<forall>p. p \<noteq> out \<and> p \<noteq> digestFilePath out \<longrightarrow> fs' p = fs p)"
proof -
  have "delivers (map (\<lambda>c. (c, None)) cs @ (tail, Some ErrEOF) # rest) (concat cs)"
    unfolding delivers_def by blast
  from decompress_ok [where env = env and cancelled = cancelled and lib = lib and fs = fs and inp = inp and f = f, OF assms(1,2,3,4,5) this assms(6)]
  show ?thesis by (simp add: put_file_def zeros_def)
qed

definition quiet_disk :: disk_env where
  "quiet_disk = \<lparr>de_fails = (\<lambda>_. None), de_mtime = (\<lambda>p. int (length p))\<rparr>"

text \<open>A format that stores the data as it is and delivers it byte by byte.\<close>

definition plain_lib :: disk_lib where
  "plain_lib = \<lparr>dl_digest = (\<lambda>s. ''id:'' @ s), dl_verifies = (\<lambda>d s. d = ''id:'' @ s), dl_compress = (\<lambda>s. s),
     dl_reader = (\<lambda>s. Inr (map (\<lambda>c. ([c], None)) s @ [([], Some ErrEOF)]))\<rparr>"

theorem decompress_restores_witness:
  "\<exists>fs'. DecompressFileWithPath quiet_disk plain_lib (\<lambda>_. None)
      [''in'' \<mapsto> \<lparr>file_data = ''abc'', file_mtime = 0\<rparr>] ''in'' ''out'' 5 = Some (fs', ''id:abc'', None) \<and>
    map_option file_data (fs' ''out'') = Some (''abc'' @ replicate 2 zero_byte)"
  using decompress_restores [of quiet_disk "\<lambda>_. None" "[''in'' \<mapsto> \<lparr>file_data = ''abc'', file_mtime = 0\<rparr>]" "''in''"
      "\<lparr>file_data = ''abc'', file_mtime = 0\<rparr>" "''out''" plain_lib "[''a'', ''b'', ''c'']" "[]" "[]" 5]
  by (auto simp: quiet_disk_def plain_lib_def)

text \<open>
  Property C26. When no system call is refused, validation accepts a file exactly when it exists
  and either the digest file beside it is newer and holds the expected digest, or there is no
  newer digest file and the content verifies; in the second case the digest file then holds the
  expected digest. It never touches the file itself, and touches nothing when it rejects.
\<close>

theorem validate_iff:
  assumes "\<And>c. de_fails env c = None" and "ValidateFileWithDigest env lib fs p expected = (fs', r)"
  shows "(r = None \<longleftrightarrow>
      (case fs p of
         None \<Rightarrow> False
       | Some f \<Rightarrow>
           (case fs (digestFilePath p) of
              Some df \<Rightarrow> if file_mtime df > file_mtime f then file_data df = expected
                        else dl_verifies lib expected (file_data f)
            | None \<Rightarrow> dl_verifies lib expected (file_data f)))) \<and>
    (r = None \<longrightarrow> map_option file_data (fs' (digestFilePath p)) = Some expected) \<and>
    (r \<noteq> None \<longrightarrow> fs' = fs) \<and> (\<forall>q. q \<noteq> digestFilePath p \<longrightarrow> fs' q = fs q)"
proof (cases "fs p")
  case None
  then show ?thesis using assms by (auto simp: ValidateFileWithDigest_def access_def)
next
  case (Some f)
  have compute: "ComputeAndVerifyFileDigest env lib fs p expected =
      (if dl_verifies lib expected (file_data f) then (put_file env (digestFilePath p) expected fs, None)
       else (fs, Some (Errorf ''digest verification failed'' [])))"
    using assms(1) Some by (simp add: ComputeAndVerifyFileDigest_def access_def writeDigestFile_ok)
  show ?thesis
    using assms(2)
    by (cases "fs (digestFilePath p)")
      (auto simp: ValidateFileWithDigest_def access_def assms(1) Some compute put_file_def Let_def split: if_splits)
qed

theorem validate_iff_witness:
  "snd (ValidateFileWithDigest quiet_disk plain_lib [''disk'' \<mapsto> \<lparr>file_data = ''abc'', file_mtime = 0\<rparr>]
     ''disk'' ''id:abc'') = None"
  using validate_iff [of quiet_disk plain_lib "[''disk'' \<mapsto> \<lparr>file_data = ''abc'', file_mtime = 0\<rparr>]" "''disk''" "''id:abc''",
      OF _ prod.collapse [symmetric]]
  by (simp add: quiet_disk_def plain_lib_def digestFilePath_def DigestFileSuffix_def)

text \<open>
  Property C25. An image survives the round trip: for a compression whose reader delivers what
  was compressed, compressing a file and decompressing the result to its recorded size restores
  the content; both report the same digest, and validating the restored file against it
  succeeds, from the digest file when that is newer and by computing it otherwise.
\<close>

theorem image_roundtrip:
  assumes "\<And>c. de_fails env c = None" and "\<And>i. cancelled i = None" and "fs src = Some f"
    and "\<And>s. \<exists>reads. dl_reader lib (dl_compress lib s) = Inr reads \<and> delivers reads s"
    and "\<And>s. dl_verifies lib (dl_digest lib s) s"
    and "gz \<noteq> out" and "gz \<noteq> digestFilePath out"
  shows "\<exists>fs1 r fs2 d. CompressFileWithPath env lib part fs src gz = (fs1, Some r, None) \<and>
    cr_UncompressedSize r = length (file_data f) \<and>
    DecompressFileWithPath env lib cancelled fs1 gz out (int (cr_UncompressedSize r)) = Some (fs2, d, None) \<and>
    map_option file_data (fs2 out) = Some (file_data f) \<and> d = cr_UncompressedDigest r \<and>
    snd (ValidateFileWithDigest env lib fs2 out d) = None"
proof -
  let ?gz = "dl_compress lib (file_data f)" and ?d = "dl_digest lib (file_data f)"
  let ?fs1 = "put_file env gz ?gz fs"
  let ?fs2 = "put_file env (digestFilePath out) ?d (put_file env out (file_data f) ?fs1)"
  let ?r = "\<lparr>cr_OutputFilePath = gz, cr_CompressedSize = length ?gz, cr_UncompressedSize = length (file_data f),
      cr_GzDigest = dl_digest lib ?gz, cr_UncompressedDigest = ?d\<rparr>"
  have "CompressFileWithPath env lib part fs src gz = (?fs1, Some ?r, None)"
    using assms(1,3) by (simp add: CompressFileWithPath_def access_def Let_def)
  moreover obtain reads where reads: "dl_reader lib ?gz = Inr reads" "delivers reads (file_data f)"
    using assms(4) by blast
  have "DecompressFileWithPath env lib cancelled ?fs1 gz out (int (length (file_data f))) = Some (?fs2, ?d, None)"
    using decompress_ok [where fs = ?fs1 and f = "\<lparr>file_data = ?gz, file_mtime = de_mtime env gz\<rparr>" and inp = gz
        and out = out and sz = "int (length (file_data f))", OF assms(1,2) _ assms(6) _ reads(2)] reads(1)
    by (simp add: put_file_def zeros_def)
  moreover have "snd (ValidateFileWithDigest env lib ?fs2 out ?d) = None"
  proof -
    obtain fs' r where v: "ValidateFileWithDigest env lib ?fs2 out ?d = (fs', r)" by fastforce
    have "?fs2 out = Some \<lparr>file_data = file_data f, file_mtime = de_mtime env out\<rparr>"
      "?fs2 (digestFilePath out) = Some \<lparr>file_data = ?d, file_mtime = de_mtime env (digestFilePath out)\<rparr>"
      by (simp_all add: put_file_def)
    then show ?thesis
      using assms(1,5) v
      by (auto simp: ValidateFileWithDigest_def access_def ComputeAndVerifyFileDigest_def writeDigestFile_ok Let_def
          split: if_splits)
  qed
  ultimately show ?thesis by (simp add: put_file_def)
qed

theorem image_roundtrip_witness:
  "\<exists>fs1 r fs2 d. CompressFileWithPath quiet_disk plain_lib [] [''disk'' \<mapsto> \<lparr>file_data = ''abc'', file_mtime = 0\<rparr>]
      ''disk'' ''disk.gz'' = (fs1, Some r, None) \<and>
    DecompressFileWithPath quiet_disk plain_lib (\<lambda>_. None) fs1 ''disk.gz'' ''copy'' (int (cr_UncompressedSize r)) =
      Some (fs2, d, None) \<and> map_option file_data (fs2 ''copy'') = Some ''abc''"
proof -
  have "\<exists>reads. dl_reader plain_lib (dl_compress plain_lib s) = Inr reads \<and> delivers reads s" for s
  proof -
    have "map (\<lambda>c. ([c], None)) s @ [([], Some ErrEOF)] =
        map (\<lambda>c. (c, None)) (map (\<lambda>c. [c]) s) @ ([], Some ErrEOF) # []" "concat (map (\<lambda>c. [c]) s) = s" by simp_all
    then have "delivers (map (\<lambda>c. ([c], None)) s @ [([], Some ErrEOF)]) s" unfolding delivers_def by metis
    then show ?thesis by (simp add: plain_lib_def)
  qed
  then show ?thesis
    using image_roundtrip [of quiet_disk "\<lambda>_. None" "[''disk'' \<mapsto> \<lparr>file_data = ''abc'', file_mtime = 0\<rparr>]" "''disk''"
        "\<lparr>file_data = ''abc'', file_mtime = 0\<rparr>" plain_lib "''disk.gz''" "''copy''" "[]"]
    by (auto simp: quiet_disk_def plain_lib_def digestFilePath_def DigestFileSuffix_def)
qed

end
