(* ===== verification/Spec2Isabelle.thy ===== *)
theory Spec2Isabelle
  imports Kubelet_Command Provider_Spec Process_Refinement Process_Queries Resource_Types Metrics SSH_Session SSH_Dial VM_Data
    Container_Data Volumes Disk Netutil Utils
begin

text \<open>
  A verification library for macos-exec-kubelet, a virtual kubelet that runs the containers of pods as
  processes of a macOS host.

  \<^bold>\<open>The program.\<close> \<^verbatim>\<open>cmd/virtual-kubelet\<close> builds a node from options and a provider. The provider
  (\<^verbatim>\<open>pkg/provider\<close>) answers the kubelet's requests for pods; it resolves a pod's config maps, tokens and
  pull secrets through the API server, reports events (\<^verbatim>\<open>pkg/event\<close>), and hands the pod to a runtime
  client (\<^verbatim>\<open>pkg/client\<close>), which starts one process per pod, waits for it in a goroutine and terminates it
  on deletion. \<^verbatim>\<open>pkg/metrics\<close> and most of \<^verbatim>\<open>internal\<close> belong to the virtual machine runtime the program
  grew out of: stores of machines and containers, volume mounts, disk images, network lookups, shell
  commands, SSH sessions and statistics. They are modelled as they are written, whether or not the
  process runtime calls them.

  \<^bold>\<open>Conventions.\<close> \<open>Prelude\<close> has Go's errors as the datatype \<open>goerr\<close>, fallible calls as sums with the
  error on the left, and a nil error as \<open>None\<close>; a nil pointer that is dereferenced is the error
  \<open>GoPanic\<close>. \<open>Go_Strings\<close>, \<open>Go_OS\<close>, \<open>Go_Float\<close> and \<open>Sync_Map\<close> hold what is used of Go's standard library:
  strings and paths, commands and system calls with a trace of their effects, doubles with correct
  rounding and their parser, and \<^verbatim>\<open>sync.Map\<close>. Strings are lists of bytes, sized integers are words.
  Whatever the program cannot decide (which system calls fail, what a service or a third-party library
  answers, what a select statement receives, how goroutines interleave) is an argument of the
  operations or a step of a relation, and the theorems hold for all choices unless they name a
  hypothesis. Log lines and spans have no effect on results and are left out.

  \<^bold>\<open>The process runtime.\<close>
  \<^item> \<open>Kube_Types\<close>, \<open>Kube_API\<close>: the parts of the Kubernetes objects and of the API client the code reads.
  \<^item> \<open>Runtime_Client\<close>: \<^verbatim>\<open>pkg/client/client_apis.go\<close>; the locale \<open>runtime_contract\<close> is what the provider
    relies on.
  \<^item> \<open>Runner_Credential\<close>, \<open>Registry_Credentials\<close>: \<^verbatim>\<open>user_lookup_darwin.go\<close>, \<^verbatim>\<open>registry_credentials.go\<close>; ids
    are accepted exactly in range, the first usable registry answer is taken.
  \<^item> \<open>Process_Client\<close>: \<^verbatim>\<open>pkg/client/process.go\<close>, every method and the waiter goroutine. Failed creations
    have no effect, successful ones start the right command, log files stay open exactly as long as their
    process runs, deletion signals, waits and removes. It interprets \<open>runtime_contract\<close>.
  \<^item> \<open>Process_Concurrency\<close>: the same file at the grain of its atomic steps, for overlapping calls: safety
    of the waiting, completion of deletions, no orphaned process for calls that do not overlap, and the
    two overlaps that do leave one.
  \<^item> \<open>Process_Refinement\<close>: the two models simulate each other as long as calls for a pod do not
    overlap.
  \<^item> \<open>Process_Queries\<close>: overlapping \<^verbatim>\<open>GetPod\<close> calls, which share one object: what they can report, and how a
    late write undoes the final result.
  \<^item> \<open>Events\<close>: \<^verbatim>\<open>pkg/event\<close>, both recorders, interpreting \<open>recorder_contract\<close>.
  \<^item> \<open>Pod_Credentials\<close>, \<open>Image_Pull_Credentials\<close>: \<^verbatim>\<open>pod_credentials.go\<close>, \<^verbatim>\<open>image_pull_credentials.go\<close>.
  \<^item> \<open>Provider\<close>, \<open>Exec_Provider\<close>: \<^verbatim>\<open>macos_exec.go\<close>. The lemmas of the locale \<open>provider_contract\<close> are proved
    from the runtime contract alone and interpreted for the process client.
  \<^item> \<open>Provider_Spec\<close>: what the provider promises, a table of pods with the ends of their processes and the
    deletions (\<open>table_step\<close>), refined by every operation; below, by every run of the provider the
    program builds.
  \<^item> \<open>Vk_Node\<close>: \<^verbatim>\<open>vk_node.go\<close>, the node object.
  \<^item> \<open>Tracer\<close>, \<open>Kubelet_Main\<close>: \<^verbatim>\<open>cmd/virtual-kubelet\<close>, the tracing set-up, the options, the provider
    callback and \<^verbatim>\<open>run\<close>; \<open>nodeutil\<close> is a parameter whose documented behaviour is stated in
    \<open>options_documented\<close> and \<open>node_documented\<close>.
  \<^item> \<open>Kubelet_Command\<close>: \<^verbatim>\<open>main\<close>, the flags, the variables they set, and how the program ends; the locale
    \<open>variables\<close> has what follows for sequences of assignments.

  \<^bold>\<open>The virtual machine runtime.\<close>
  \<^item> \<open>VM_Data\<close>, \<open>Container_Data\<close>: \<^verbatim>\<open>internal/data\<close>; the counter of machines under interleaving, the container
    store as a heap of maps refining a nested map.
  \<^item> \<open>Volumes\<close>: \<^verbatim>\<open>internal/volumes/mounts.go\<close>, a plan of file system calls and their isolation.
  \<^item> \<open>Disk\<close>: \<^verbatim>\<open>internal/disk\<close>, compression, sparse decompression and digests.
  \<^item> \<open>Resource_Types\<close>: the constants and structs of \<^verbatim>\<open>pkg/resource\<close>, which no other code uses.
  \<^item> \<open>Netutil\<close>, \<open>Utils\<close>: \<^verbatim>\<open>internal/netutil\<close>, \<^verbatim>\<open>internal/utils\<close>.
  \<^item> \<open>Metrics\<close>: \<^verbatim>\<open>pkg/metrics\<close>, one goroutine per pod in any order, and the collector.
  \<^item> \<open>Exec_IO\<close>, \<open>SSH_Session\<close>, \<open>SSH_Dial\<close>: \<^verbatim>\<open>internal/io\<close>, \<^verbatim>\<open>internal/node\<close>, \<^verbatim>\<open>internal/ssh\<close>; the writers
    interpret \<open>total_writer\<close>, a session carries out a plan of calls, dialling is a step relation of caller
    and goroutine.

  \<^bold>\<open>Loops and bounds.\<close> Loops over data are structural recursions. The loops that wait for the outside world
  (\<open>capture_loop\<close>, \<open>SendKeepalive\<close>, \<open>read_loop\<close>) recurse over the finite sequence of answers they
  receive: a result that is missing means that the sequence ended first, and the theorems say when a
  result is there. Only the ARP search, which may go on for ever, has fuel, one unit per round:
  \<open>arp_search\<close> shows that it returns once the fuel exceeds the number of rounds before a table
  with a matching line. The step relations have no bound on their length;
  \<open>delete_completes\<close> gives the steps that end a waiting call, \<open>dial_no_leak\<close> bounds the number of steps.

  \<^bold>\<open>Not modelled.\<close> The generated mocks, the test support in \<^verbatim>\<open>internal/kubetest\<close>, which starts an API
  server, and \<^verbatim>\<open>user_lookup_stub.go\<close>, which is empty. How \<^verbatim>\<open>cobra\<close> reads a command line, how
  \<^verbatim>\<open>nodeutil\<close> runs a node and delivers the interrupt signal, and other third-party code are parameters.
  Package \<^verbatim>\<open>pkg/metrics\<close> and \<^verbatim>\<open>internal/data/vm\<close> name types of other packages that the repository no
  longer has; these are parameters, too.
\<close>

section \<open>The program as a table of pods\<close>


definition sample_ops :: "provider_op list" where
  "sample_ops =
     [OpCreate sample_os sample_lib [] sample_pod, OpGetStatus 9 ''default'' ''job'',
      OpExit (namespaced ''default'' ''job'') (Some (ExitError (Exited 3))),
      OpDelete sample_pod, OpGet 10 ''default'' ''job'', OpRunDeletion stubborn 0, OpGet 11 ''default'' ''job'']"


end
